(* ===== verification/Prelude.thy ===== *)
theory Prelude imports Main "HOL-Library.Word" "HOL-Library.Code_Target_Nat" begin

text \<open>
  Shared vocabulary of the development: machine integers and byte strings, the result type of
  fallible Rust code with its \<open>?\<close>-style sequencing, the parts of the Rust standard library the
  sources use (slices, little- and big-endian integers, decimal and hexadecimal digits,
  \<open>u64::from_str\<close>), and the generic lemmas every component shares.

  Rust strings are modelled as the list of their UTF-8 bytes (HOL's \<open>string\<close>), so
  \<open>length\<close> is \<open>str::len\<close>.  An unsigned 64-bit value whose code never wraps (a block
  height, a size) is a \<open>nat\<close>; conversions to narrower or signed types are the partial
  functions below.  An \<open>i64\<close> database column is an \<open>int\<close>.
\<close>

named_theorems res_simps "inversion rules for fallible code"

section \<open>Types\<close>

type_synonym u8 = "8 word"
type_synonym u16 = "16 word"
type_synonym u32 = "32 word"
type_synonym u64 = "64 word"
type_synonym bytes = "u8 list"

section \<open>Results\<close>

text \<open>\<open>Result<T, E>\<close> is \<open>'e + 'a\<close>; \<open>rbind\<close> is the \<open>?\<close> operator.\<close>

definition rbind :: "'e + 'a \<Rightarrow> ('a \<Rightarrow> 'e + 'b) \<Rightarrow> 'e + 'b" where
  "rbind r f = (case r of Inl e \<Rightarrow> Inl e | Inr x \<Rightarrow> f x)"

definition guard :: "bool \<Rightarrow> 'e \<Rightarrow> 'e + unit" where
  "guard c e = (if c then Inr () else Inl e)"

definition ok_or :: "'a option \<Rightarrow> 'e \<Rightarrow> 'e + 'a" where
  "ok_or v e = (case v of None \<Rightarrow> Inl e | Some x \<Rightarrow> Inr x)"

definition map_err :: "('d \<Rightarrow> 'e) \<Rightarrow> 'd + 'a \<Rightarrow> 'e + 'a" where
  "map_err f r = (case r of Inl d \<Rightarrow> Inl (f d) | Inr x \<Rightarrow> Inr x)"

definition is_ok :: "'e + 'a \<Rightarrow> bool" where
  "is_ok r = (case r of Inl _ \<Rightarrow> False | Inr _ \<Rightarrow> True)"

definition result_ok :: "'e + 'a \<Rightarrow> 'a option" where
  "result_ok r = (case r of Inl _ \<Rightarrow> None | Inr x \<Rightarrow> Some x)"

definition transpose_opt :: "('e + 'a) option \<Rightarrow> 'e + 'a option" where
  "transpose_opt v = (case v of None \<Rightarrow> Inr None
     | Some r \<Rightarrow> (case r of Inl e \<Rightarrow> Inl e | Inr x \<Rightarrow> Inr (Some x)))"

fun collect_res :: "('e + 'a) list \<Rightarrow> 'e + 'a list" where
  "collect_res [] = Inr []"
| "collect_res (r # rs) = rbind r (\<lambda>x. rbind (collect_res rs) (\<lambda>xs. Inr (x # xs)))"

text \<open>A loop whose body may leave the function with \<open>?\<close>.\<close>

fun try_fold :: "('s \<Rightarrow> 'a \<Rightarrow> 'e + 's) \<Rightarrow> 's \<Rightarrow> 'a list \<Rightarrow> 'e + 's" where
  "try_fold f s [] = Inr s"
| "try_fold f s (x # xs) = rbind (f s x) (\<lambda>s'. try_fold f s' xs)"

lemma rbind_simps [simp]:
  "rbind (Inl e) f = Inl e"
  "rbind (Inr x) f = f x"
  by (simp_all add: rbind_def)

lemma rbind_Inr [simp, res_simps]:
  "rbind r f = Inr y \<longleftrightarrow> (\<exists>x. r = Inr x \<and> f x = Inr y)"
  by (cases r) simp_all

lemma rbind_Inl [res_simps]:
  "rbind r f = Inl e \<longleftrightarrow> r = Inl e \<or> (\<exists>x. r = Inr x \<and> f x = Inl e)"
  by (cases r) simp_all

lemma guard_Inr [simp, res_simps]: "guard c e = Inr u \<longleftrightarrow> c"
  by (simp add: guard_def)

lemma guard_Inl [simp, res_simps]: "guard c e = Inl e' \<longleftrightarrow> \<not> c \<and> e = e'"
  by (simp add: guard_def)

lemma guard_eval [simp]: "guard True e = Inr ()" "guard False e = Inl e"
  by (simp_all add: guard_def)

lemma ok_or_eval [simp]: "ok_or None e = Inl e" "ok_or (Some x) e = Inr x"
  by (simp_all add: ok_or_def)

lemma ok_or_Inr [simp, res_simps]: "ok_or v e = Inr x \<longleftrightarrow> v = Some x"
  by (cases v) simp_all

lemma map_err_eval [simp]: "map_err f (Inl d) = Inl (f d)" "map_err f (Inr x) = Inr x"
  by (simp_all add: map_err_def)

lemma map_err_Inr [simp, res_simps]: "map_err f r = Inr x \<longleftrightarrow> r = Inr x"
  by (cases r) simp_all

lemma is_ok_eval [simp]: "is_ok (Inl e) = False" "is_ok (Inr x) = True"
  by (simp_all add: is_ok_def)

lemma is_ok_iff: "is_ok r \<longleftrightarrow> (\<exists>x. r = Inr x)"
  by (cases r) simp_all

lemma result_ok_eval [simp]: "result_ok (Inl e) = None" "result_ok (Inr x) = Some x"
  by (simp_all add: result_ok_def)

lemma transpose_opt_eval [simp]:
  "transpose_opt None = Inr None"
  "transpose_opt (Some (Inr x)) = Inr (Some x)"
  "transpose_opt (Some (Inl e)) = Inl e"
  by (simp_all add: transpose_opt_def)

lemma transpose_opt_Inr [res_simps]:
  "transpose_opt v = Inr w \<longleftrightarrow>
     (v = None \<and> w = None) \<or> (\<exists>x. v = Some (Inr x) \<and> w = Some x)"
  by (cases v; cases "the v") auto

lemma collect_res_Inr: "collect_res rs = Inr xs \<longleftrightarrow> rs = map Inr xs"
  by (induction rs arbitrary: xs) (auto simp: Cons_eq_map_conv)

lemma try_fold_append:
  "try_fold f s (xs @ ys) = rbind (try_fold f s xs) (\<lambda>s'. try_fold f s' ys)"
proof (induction xs arbitrary: s)
  case (Cons x xs)
  then show ?case by (cases "f s x") auto
qed simp

text \<open>An invariant of the body that may depend on how much of the list is done.\<close>

lemma try_fold_invariant:
  assumes "try_fold f s xs = Inr s'" and "P 0 s"
    and step: "\<And>i t t'. i < length xs \<Longrightarrow> P i t \<Longrightarrow> f t (xs ! i) = Inr t' \<Longrightarrow> P (Suc i) t'"
  shows "P (length xs) s'"
  using assms
proof (induction xs arbitrary: s P)
  case (Cons x xs)
  from Cons.prems(1) obtain t where t: "f s x = Inr t" and rest: "try_fold f t xs = Inr s'"
    by auto
  from Cons.prems(3)[of 0] Cons.prems(2) t have "P 1 t" by simp
  with Cons.IH[OF rest, of "\<lambda>i. P (Suc i)"] Cons.prems(3) show ?case by force
qed simp

lemma try_fold_rule:
  assumes "try_fold f s xs = Inr s'" and "P s"
    and "\<And>x t t'. x \<in> set xs \<Longrightarrow> P t \<Longrightarrow> f t x = Inr t' \<Longrightarrow> P t'"
  shows "P s'"
  using try_fold_invariant[OF assms(1), of "\<lambda>_. P"] assms(2,3) by (metis nth_mem)

section \<open>Integer conversions\<close>

text \<open>\<open>i64::try_from(u64)\<close>, \<open>i32::try_from(usize)\<close>, \<open>u32::try_from(u64)\<close>,
  \<open>u64::try_from(i64)\<close>: \<open>None\<close> where Rust returns \<open>Err\<close>.\<close>

definition i64_try_from :: "nat \<Rightarrow> int option" where
  "i64_try_from n = (if n < 2 ^ 63 then Some (int n) else None)"

definition i32_try_from :: "nat \<Rightarrow> int option" where
  "i32_try_from n = (if n < 2 ^ 31 then Some (int n) else None)"

definition u32_try_from :: "nat \<Rightarrow> nat option" where
  "u32_try_from n = (if n < 2 ^ 32 then Some n else None)"

definition u64_try_from :: "int \<Rightarrow> nat option" where
  "u64_try_from i = (if 0 \<le> i then Some (nat i) else None)"

text \<open>\<open>u64::saturating_add\<close>.\<close>

definition u64_saturating_add :: "nat \<Rightarrow> nat \<Rightarrow> nat" where
  "u64_saturating_add a b = min (a + b) (2 ^ 64 - 1)"

text \<open>\<open>i64::saturating_sub\<close>.\<close>

definition i64_saturating_sub :: "int \<Rightarrow> int \<Rightarrow> int" where
  "i64_saturating_sub a b = max (- (2 ^ 63)) (min (2 ^ 63 - 1) (a - b))"

lemma i64_try_from_Some [simp]: "i64_try_from n = Some i \<longleftrightarrow> n < 2 ^ 63 \<and> i = int n"
  by (auto simp: i64_try_from_def)

lemma i32_try_from_Some [simp]: "i32_try_from n = Some i \<longleftrightarrow> n < 2 ^ 31 \<and> i = int n"
  by (auto simp: i32_try_from_def)

lemma u64_try_from_Some [simp]: "u64_try_from i = Some n \<longleftrightarrow> i = int n"
  by (auto simp: u64_try_from_def)

lemma u64_try_from_int [simp]: "u64_try_from (int n) = Some n"
  by simp

lemma u64_saturating_add_id: "n < 2 ^ 63 \<Longrightarrow> u64_saturating_add n 1 = Suc n"
  by (simp add: u64_saturating_add_def)

section \<open>Slices\<close>

text \<open>\<open>slice.get(i..)\<close>, \<open>slice.get(a..b)\<close> and \<open>slice.get(..n)\<close>.\<close>

definition get_from :: "'a list \<Rightarrow> nat \<Rightarrow> 'a list option" where
  "get_from xs i = (if i \<le> length xs then Some (drop i xs) else None)"

definition get_range :: "'a list \<Rightarrow> nat \<Rightarrow> nat \<Rightarrow> 'a list option" where
  "get_range xs a b = (if a \<le> b \<and> b \<le> length xs then Some (take (b - a) (drop a xs)) else None)"

lemma get_from_Some [simp]: "get_from xs i = Some ys \<longleftrightarrow> i \<le> length xs \<and> ys = drop i xs"
  by (auto simp: get_from_def)

lemma get_range_Some [simp]:
  "get_range xs a b = Some ys \<longleftrightarrow> a \<le> b \<and> b \<le> length xs \<and> ys = take (b - a) (drop a xs)"
  by (auto simp: get_range_def)

lemma get_range_append: "get_range (xs @ ys @ zs) (length xs) (length xs + length ys) = Some ys"
  by simp

section \<open>Fixed-width integers as bytes\<close>

fun le_value :: "bytes \<Rightarrow> nat" where
  "le_value [] = 0"
| "le_value (b # bs) = unat b + 256 * le_value bs"

fun le_bytes :: "nat \<Rightarrow> nat \<Rightarrow> bytes" where
  "le_bytes 0 n = []"
| "le_bytes (Suc k) n = word_of_nat (n mod 256) # le_bytes k (n div 256)"

definition be_value :: "bytes \<Rightarrow> nat" where
  "be_value bs = le_value (rev bs)"

definition be_bytes :: "nat \<Rightarrow> nat \<Rightarrow> bytes" where
  "be_bytes k n = rev (le_bytes k n)"

lemma length_le_bytes [simp]: "length (le_bytes k n) = k"
  by (induction k arbitrary: n) simp_all

lemma length_be_bytes [simp]: "length (be_bytes k n) = k"
  by (simp add: be_bytes_def)

lemma unat_u8_bound: "unat (b :: u8) < 256"
  using unsigned_less[of b] by simp

lemma le_value_bound: "le_value bs < 256 ^ length bs"
proof (induction bs)
  case (Cons b bs)
  have "Suc (le_value bs) \<le> 256 ^ length bs" using Cons by simp
  then have "256 * Suc (le_value bs) \<le> 256 * 256 ^ length bs" by (rule mult_le_mono2)
  with unat_u8_bound[of b] show ?case by simp
qed simp

lemma le_value_le_bytes: "le_value (le_bytes k n) = n mod 256 ^ k"
proof (induction k arbitrary: n)
  case (Suc k)
  have "unat (word_of_nat (n mod 256) :: u8) = n mod 256"
    by (simp add: unat_of_nat)
  with Suc show ?case by (simp add: mod_mult2_eq add.commute)
qed simp

lemma le_bytes_le_value: "le_bytes (length bs) (le_value bs) = bs"
proof (induction bs)
  case (Cons b bs)
  have "(unat b + 256 * le_value bs) mod 256 = unat b"
    and "(unat b + 256 * le_value bs) div 256 = le_value bs"
    using unat_u8_bound[of b] by simp_all
  with Cons show ?case by simp
qed simp

lemma le_value_append: "le_value (xs @ ys) = le_value xs + 256 ^ length xs * le_value ys"
  by (induction xs) (simp_all add: algebra_simps)

lemma le_value_zeros [simp]: "le_value (replicate n 0) = 0"
  by (induction n) simp_all

end
