(* ===== verification/Tables.thy ===== *)
theory Tables imports Prelude begin

text \<open>
  Keyed tables: what the database model uses of a relational table with a primary key.  The
  operations and laws are a locale, interpreted on association lists in insertion order; the
  clients' facts about \<open>ON CONFLICT\<close> insertion are proved from the laws alone.
\<close>

section \<open>Association-list tables\<close>

type_synonym ('k, 'r) table = "('k \<times> 'r) list"

definition t_find :: "('k, 'r) table \<Rightarrow> 'k \<Rightarrow> 'r option" where
  "t_find t k = map_of t k"

text \<open>Write a row: in place when the key is present, at the end otherwise.\<close>

fun t_put :: "'k \<Rightarrow> 'r \<Rightarrow> ('k, 'r) table \<Rightarrow> ('k, 'r) table" where
  "t_put k r [] = [(k, r)]"
| "t_put k r ((k', r') # t) = (if k' = k then (k, r) # t else (k', r') # t_put k r t)"

definition t_remove :: "('k \<Rightarrow> bool) \<Rightarrow> ('k, 'r) table \<Rightarrow> ('k, 'r) table" where
  "t_remove P t = filter (\<lambda>(k, r). \<not> P k) t"

text \<open>No two rows share a key.\<close>

definition t_wf :: "('k, 'r) table \<Rightarrow> bool" where
  "t_wf t \<longleftrightarrow> distinct (map fst t)"

lemma t_find_Nil [simp]: "t_find [] k = None"
  by (simp add: t_find_def)

lemma t_find_put [simp]: "t_find (t_put k r t) k' = (if k' = k then Some r else t_find t k')"
  by (induction k r t rule: t_put.induct) (auto simp: t_find_def)

lemma t_find_remove [simp]: "t_find (t_remove P t) k = (if P k then None else t_find t k)"
  by (induction t) (auto simp: t_find_def t_remove_def)

lemma fst_set_put: "fst ` set (t_put k r t) = insert k (fst ` set t)"
  by (induction k r t rule: t_put.induct) auto

lemma t_wf_put [simp]: "t_wf t \<Longrightarrow> t_wf (t_put k r t)"
proof (induction k r t rule: t_put.induct)
  case (2 k r k' r' t)
  then show ?case using fst_set_put[of k r t] by (auto simp: t_wf_def)
qed (simp add: t_wf_def)

lemma t_wf_remove [simp]: "t_wf t \<Longrightarrow> t_wf (t_remove P t)"
  by (induction t) (auto simp: t_wf_def t_remove_def)

lemma t_wf_Nil [simp]: "t_wf []"
  by (simp add: t_wf_def)

lemma t_find_set: "t_wf t \<Longrightarrow> (k, r) \<in> set t \<longleftrightarrow> t_find t k = Some r"
  by (simp add: t_wf_def t_find_def map_of_eq_Some_iff)

lemma t_find_in_set: "t_find t k = Some r \<Longrightarrow> (k, r) \<in> set t"
  by (auto simp: t_find_def dest: map_of_SomeD)

section \<open>The interface\<close>

locale keyed_table =
  fixes find :: "'t \<Rightarrow> 'k \<Rightarrow> 'r option"
    and put :: "'k \<Rightarrow> 'r \<Rightarrow> 't \<Rightarrow> 't"
    and remove :: "('k \<Rightarrow> bool) \<Rightarrow> 't \<Rightarrow> 't"
  assumes find_put: "find (put k r t) k' = (if k' = k then Some r else find t k')"
    and find_remove: "find (remove P t) k = (if P k then None else find t k)"
begin

definition put_absent :: "'k \<Rightarrow> 'r \<Rightarrow> 't \<Rightarrow> 't" where
  "put_absent k r t = (case find t k of None \<Rightarrow> put k r t | Some _ \<Rightarrow> t)"

definition extends :: "'t \<Rightarrow> 't \<Rightarrow> bool" where
  "extends t t' \<longleftrightarrow> (\<forall>k r. find t k = Some r \<longrightarrow> find t' k = Some r)"

lemma extendsD: "extends t t' \<Longrightarrow> find t k = Some r \<Longrightarrow> find t' k = Some r"
  by (simp add: extends_def)

lemma extends_refl: "extends t t"
  by (simp add: extends_def)

lemma extends_trans: "extends t u \<Longrightarrow> extends u v \<Longrightarrow> extends t v"
  by (simp add: extends_def)

lemma extends_put_new: "find t k = None \<Longrightarrow> extends t (put k r t)"
  by (auto simp: extends_def find_put)

lemma put_absent_extends: "extends t (put_absent k r t)"
  by (auto simp: put_absent_def extends_refl extends_put_new split: option.splits)

lemma put_absent_find: "find (put_absent k r t) k = Some (case find t k of None \<Rightarrow> r | Some old \<Rightarrow> old)"
  by (auto simp: put_absent_def find_put split: option.splits)

lemma put_absent_other: "k' \<noteq> k \<Longrightarrow> find (put_absent k r t) k' = find t k'"
  by (auto simp: put_absent_def find_put split: option.splits)

text \<open>A range that is removed and refilled below keeps everything outside it.\<close>

lemma remove_put_outside: "\<not> P k' \<Longrightarrow> k' \<noteq> k \<Longrightarrow> find (put k r (remove P t)) k' = find t k'"
  by (simp add: find_put find_remove)

end

interpretation alist: keyed_table t_find t_put t_remove
  by unfold_locales simp_all

section \<open>Statements\<close>

text \<open>\<open>INSERT ... ON CONFLICT DO NOTHING\<close>: row checks come first, then the conflict, then the
  other unique constraints and the foreign keys of the row that is really inserted.\<close>

definition insert_nothing ::
    "('k \<Rightarrow> 'r \<Rightarrow> 'e + unit) \<Rightarrow> ('k \<Rightarrow> 'r \<Rightarrow> 'e + unit) \<Rightarrow> 'k \<Rightarrow> 'r \<Rightarrow> ('k, 'r) table \<Rightarrow>
     'e + ('k, 'r) table" where
  "insert_nothing check refs k r t =
     rbind (check k r) (\<lambda>_.
     (case t_find t k of
        Some _ \<Rightarrow> Inr t
      | None \<Rightarrow> rbind (refs k r) (\<lambda>_. Inr (t_put k r t))))"

text \<open>\<open>INSERT ... ON CONFLICT DO UPDATE\<close>: the updated row is checked again.\<close>

definition insert_update ::
    "('k \<Rightarrow> 'r \<Rightarrow> 'e + unit) \<Rightarrow> ('k \<Rightarrow> 'r \<Rightarrow> 'e + unit) \<Rightarrow> ('r \<Rightarrow> 'r \<Rightarrow> 'r) \<Rightarrow> 'k \<Rightarrow> 'r \<Rightarrow>
     ('k, 'r) table \<Rightarrow> 'e + ('k, 'r) table" where
  "insert_update check refs upd k r t =
     rbind (check k r) (\<lambda>_.
     (case t_find t k of
        Some old \<Rightarrow> rbind (check k (upd old r)) (\<lambda>_. Inr (t_put k (upd old r) t))
      | None \<Rightarrow> rbind (refs k r) (\<lambda>_. Inr (t_put k r t))))"

lemma insert_nothing_Inr:
  "insert_nothing check refs k r t = Inr t' \<longleftrightarrow>
     check k r = Inr () \<and> (t_find t k = None \<longrightarrow> refs k r = Inr ()) \<and> t' = alist.put_absent k r t"
  by (auto simp: insert_nothing_def alist.put_absent_def split: option.splits)

lemma insert_update_Inr:
  "insert_update check refs upd k r t = Inr t' \<longleftrightarrow>
     check k r = Inr () \<and>
     (case t_find t k of None \<Rightarrow> refs k r = Inr () \<and> t' = t_put k r t
      | Some old \<Rightarrow> check k (upd old r) = Inr () \<and> t' = t_put k (upd old r) t)"
  by (auto simp: insert_update_def split: option.splits)

lemma insert_nothing_extends: "insert_nothing check refs k r t = Inr t' \<Longrightarrow> alist.extends t t'"
  by (simp add: insert_nothing_Inr alist.put_absent_extends)

lemma insert_nothing_find:
  "insert_nothing check refs k r t = Inr t' \<Longrightarrow>
     t_find t' k' = (if k' = k then Some (case t_find t k of None \<Rightarrow> r | Some old \<Rightarrow> old) else t_find t k')"
  by (simp add: insert_nothing_Inr alist.put_absent_find alist.put_absent_other)

lemma insert_nothing_wf: "insert_nothing check refs k r t = Inr t' \<Longrightarrow> t_wf t \<Longrightarrow> t_wf t'"
  by (auto simp: insert_nothing_Inr alist.put_absent_def split: option.splits)

lemma insert_update_find:
  "insert_update check refs upd k r t = Inr t' \<Longrightarrow>
     t_find t' k' = (if k' = k then Some (case t_find t k of None \<Rightarrow> r | Some old \<Rightarrow> upd old r) else t_find t k')"
  by (auto simp: insert_update_Inr split: option.splits)

lemma insert_update_wf: "insert_update check refs upd k r t = Inr t' \<Longrightarrow> t_wf t \<Longrightarrow> t_wf t'"
  by (auto simp: insert_update_Inr split: option.splits)

section \<open>Ordered reading\<close>

text \<open>\<open>SELECT ... ORDER BY\<close> a key column over the rows of one owner.\<close>

definition rows_of :: "'o \<Rightarrow> ('o \<times> int, 'r) table \<Rightarrow> (int \<times> 'r) list" where
  "rows_of owner t =
     sort_key fst (map (\<lambda>((_, i), r). (i, r)) (filter (\<lambda>((o', _), _). o' = owner) t))"

lemma set_rows_of: "(i, r) \<in> set (rows_of owner t) \<longleftrightarrow> ((owner, i), r) \<in> set t"
  by (force simp: rows_of_def)

lemma rows_of_find: "t_wf t \<Longrightarrow> (i, r) \<in> set (rows_of owner t) \<longleftrightarrow> t_find t (owner, i) = Some r"
  by (simp add: set_rows_of t_find_set)

end
