(* ===== verification/Text_Ops.thy ===== *)
theory Text_Ops imports Prelude begin

text \<open>
  The string operations of the Rust standard library the sources use: ASCII classification,
  decimal and hexadecimal reading and printing, zero padding, \<open>str::chars().take(n)\<close> on
  UTF-8 bytes and \<open>str::replace\<close>, with the printing/reading round trip.
\<close>

section \<open>ASCII classes\<close>

definition is_ascii_digit :: "char \<Rightarrow> bool" where
  "is_ascii_digit c \<longleftrightarrow> c \<in> set ''0123456789''"

definition is_ascii_hexdigit :: "char \<Rightarrow> bool" where
  "is_ascii_hexdigit c \<longleftrightarrow> c \<in> set ''0123456789abcdefABCDEF''"

text \<open>The class \<open>[0-9a-f]\<close> of the schema's regular expressions.\<close>

definition is_lower_hexdigit :: "char \<Rightarrow> bool" where
  "is_lower_hexdigit c \<longleftrightarrow> c \<in> set ''0123456789abcdef''"

definition char_code :: "char \<Rightarrow> nat" where
  "char_code c = of_char c"

definition to_ascii_lower :: "char \<Rightarrow> char" where
  "to_ascii_lower c =
     (if 65 \<le> char_code c \<and> char_code c \<le> 90 then char_of (char_code c + 32) else c)"

definition to_ascii_lowercase :: "string \<Rightarrow> string" where
  "to_ascii_lowercase s = map to_ascii_lower s"

definition is_hex_of_length :: "nat \<Rightarrow> string \<Rightarrow> bool" where
  "is_hex_of_length n s \<longleftrightarrow> length s = n \<and> list_all is_ascii_hexdigit s"

definition is_lower_hex_of_length :: "nat \<Rightarrow> string \<Rightarrow> bool" where
  "is_lower_hex_of_length n s \<longleftrightarrow> length s = n \<and> list_all is_lower_hexdigit s"

lemma lower_hexdigit_hexdigit: "is_lower_hexdigit c \<Longrightarrow> is_ascii_hexdigit c"
  by (auto simp: is_lower_hexdigit_def is_ascii_hexdigit_def)

lemma digit_hexdigit: "is_ascii_digit c \<Longrightarrow> is_ascii_hexdigit c"
  by (auto simp: is_ascii_digit_def is_ascii_hexdigit_def)

lemma lower_hex_is_hex: "is_lower_hex_of_length n s \<Longrightarrow> is_hex_of_length n s"
  by (auto simp: is_lower_hex_of_length_def is_hex_of_length_def list_all_iff
      lower_hexdigit_hexdigit)

section \<open>Digits and numbers\<close>

definition digit_char :: "nat \<Rightarrow> char" where
  "digit_char d = ''0123456789'' ! d"

definition digit_value :: "char \<Rightarrow> nat" where
  "digit_value c = char_code c - 48"

definition hexdigit_value :: "char \<Rightarrow> nat" where
  "hexdigit_value c =
     (if is_ascii_digit c then char_code c - 48
      else if 97 \<le> char_code c then char_code c - 87 else char_code c - 55)"

definition digits_value :: "string \<Rightarrow> nat" where
  "digits_value s = foldl (\<lambda>a c. 10 * a + digit_value c) 0 s"

definition hex_value :: "string \<Rightarrow> nat" where
  "hex_value s = foldl (\<lambda>a c. 16 * a + hexdigit_value c) 0 s"

fun show_nat :: "nat \<Rightarrow> string" where
  "show_nat n = (if n < 10 then [digit_char n] else show_nat (n div 10) @ [digit_char (n mod 10)])"

declare show_nat.simps [simp del]

definition show_int :: "int \<Rightarrow> string" where
  "show_int i = (if i < 0 then ''-'' @ show_nat (nat (- i)) else show_nat (nat i))"

text \<open>\<open>format!("{:0>w$}")\<close> of a string, which is also \<open>{:0w$}\<close> of an unsigned number.\<close>

definition pad_zeros :: "nat \<Rightarrow> string \<Rightarrow> string" where
  "pad_zeros w s = replicate (w - length s) CHR ''0'' @ s"

text \<open>\<open>str::trim_start_matches('0')\<close>.\<close>

definition trim_zeros :: "string \<Rightarrow> string" where
  "trim_zeros s = dropWhile (\<lambda>c. c = CHR ''0'') s"

lemma less_10_cases:
  "(n::nat) < 10 \<Longrightarrow> n = 0 \<or> n = 1 \<or> n = 2 \<or> n = 3 \<or> n = 4 \<or> n = 5 \<or> n = 6 \<or> n = 7 \<or> n = 8 \<or> n = 9"
  by arith

lemma digit_char_facts:
  assumes "n < 10"
  shows is_digit_digit_char: "is_ascii_digit (digit_char n)"
    and digit_value_digit_char: "digit_value (digit_char n) = n"
    and digit_char_zero_iff: "digit_char n = CHR ''0'' \<longleftrightarrow> n = 0"
  using less_10_cases[OF assms]
  by (auto simp: is_ascii_digit_def digit_char_def digit_value_def char_code_def)

lemma digit_value_bound: "is_ascii_digit c \<Longrightarrow> digit_value c < 10"
  by (auto simp: is_ascii_digit_def digit_value_def char_code_def)

lemma digit_char_digit_value: "is_ascii_digit c \<Longrightarrow> digit_char (digit_value c) = c"
  by (auto simp: is_ascii_digit_def digit_value_def char_code_def digit_char_def)

lemma foldl_digits_from:
  "foldl (\<lambda>a c. 10 * a + digit_value c) a s = a * 10 ^ length s + digits_value s"
proof (induction s arbitrary: a)
  case (Cons c s)
  have "digits_value (c # s) = foldl (\<lambda>a c. 10 * a + digit_value c) (digit_value c) s"
    by (simp add: digits_value_def)
  also have "\<dots> = digit_value c * 10 ^ length s + digits_value s" by (rule Cons)
  finally show ?case using Cons[of "10 * a + digit_value c"] by (simp add: algebra_simps)
qed (simp add: digits_value_def)

lemma digits_value_append:
  "digits_value (s @ t) = digits_value s * 10 ^ length t + digits_value t"
  using foldl_digits_from[of "digits_value s" t] by (simp add: digits_value_def)

lemma digits_value_Nil [simp]: "digits_value [] = 0"
  by (simp add: digits_value_def)

lemma digits_value_single [simp]: "digits_value [c] = digit_value c"
  by (simp add: digits_value_def)

lemma digits_value_Cons: "digits_value (c # s) = digit_value c * 10 ^ length s + digits_value s"
  using digits_value_append[of "[c]" s] by simp

lemma digits_value_bound: "list_all is_ascii_digit s \<Longrightarrow> digits_value s < 10 ^ length s"
proof (induction s)
  case (Cons c s)
  then have "Suc (digit_value c) \<le> 10" and ih: "digits_value s < 10 ^ length s"
    using digit_value_bound[of c] by auto
  then have "Suc (digit_value c) * 10 ^ length s \<le> 10 * 10 ^ length s" by (rule_tac mult_le_mono1)
  then have "10 ^ length s + digit_value c * 10 ^ length s \<le> 10 * 10 ^ length s" by simp
  with ih have "digit_value c * 10 ^ length s + digits_value s < 10 * 10 ^ length s" by linarith
  then show ?case by (simp add: digits_value_Cons)
qed simp

lemma show_nat_digits: "list_all is_ascii_digit (show_nat n)"
proof (induction n rule: show_nat.induct)
  case (1 n)
  then show ?case
    by (subst show_nat.simps) (auto simp: is_digit_digit_char)
qed

lemma show_nat_not_Nil [simp]: "show_nat n \<noteq> []"
  by (subst show_nat.simps) simp

lemma digits_value_show_nat [simp]: "digits_value (show_nat n) = n"
proof (induction n rule: show_nat.induct)
  case (1 n)
  then show ?case
    by (subst show_nat.simps) (auto simp: digits_value_append digit_value_digit_char)
qed

lemma show_nat_inj: "show_nat m = show_nat n \<longleftrightarrow> m = n"
  by (metis digits_value_show_nat)

lemma hd_show_nat: "hd (show_nat n) = CHR ''0'' \<longleftrightarrow> n = 0"
proof (induction n rule: show_nat.induct)
  case (1 n)
  show ?case
  proof (cases "n < 10")
    case True
    then show ?thesis by (subst show_nat.simps) (simp add: digit_char_zero_iff)
  next
    case False
    with 1 have "hd (show_nat (n div 10)) = CHR ''0'' \<longleftrightarrow> n div 10 = 0" by blast
    with False show ?thesis by (subst show_nat.simps) (auto simp: hd_append)
  qed
qed

text \<open>A digit string without a leading zero is the decimal notation of its value.\<close>

lemma show_nat_digits_value:
  "list_all is_ascii_digit s \<Longrightarrow> s \<noteq> [] \<Longrightarrow> (length s = 1 \<or> hd s \<noteq> CHR ''0'') \<Longrightarrow>
   show_nat (digits_value s) = s"
proof (induction s rule: rev_induct)
  case (snoc c s)
  have c: "is_ascii_digit c" using snoc.prems(1) by simp
  show ?case
  proof (cases "s = []")
    case True
    then show ?thesis
      using c digit_value_bound[OF c] digit_char_digit_value[OF c]
      by (subst show_nat.simps) simp
  next
    case False
    have hd: "hd s \<noteq> CHR ''0''" using snoc.prems(3) False by (auto simp: hd_append)
    have ih: "show_nat (digits_value s) = s"
      using snoc.IH snoc.prems(1) False hd by simp
    have "digits_value s \<noteq> 0" using ih hd hd_show_nat[of "digits_value s"] by auto
    then have ge: "\<not> digits_value (s @ [c]) < 10" by (simp add: digits_value_append)
    have "digits_value (s @ [c]) div 10 = digits_value s"
      and "digits_value (s @ [c]) mod 10 = digit_value c"
      using digit_value_bound[OF c] by (simp_all add: digits_value_append)
    with ge ih show ?thesis
      by (subst show_nat.simps) (simp add: digit_char_digit_value[OF c])
  qed
qed simp

lemma digits_value_zeros [simp]: "digits_value (replicate n CHR ''0'' @ s) = digits_value s"
proof -
  have "digits_value (replicate n CHR ''0'') = 0"
    by (induction n) (simp_all add: digits_value_Cons digit_value_def char_code_def)
  then show ?thesis by (simp add: digits_value_append)
qed

lemma digits_value_pad_zeros [simp]: "digits_value (pad_zeros w s) = digits_value s"
  by (simp add: pad_zeros_def)

lemma length_pad_zeros [simp]: "length (pad_zeros w s) = max w (length s)"
  by (simp add: pad_zeros_def)

lemma pad_zeros_digits: "list_all is_ascii_digit s \<Longrightarrow> list_all is_ascii_digit (pad_zeros w s)"
proof -
  have "is_ascii_digit CHR ''0''" by (simp add: is_ascii_digit_def)
  then show "list_all is_ascii_digit s \<Longrightarrow> list_all is_ascii_digit (pad_zeros w s)"
    unfolding pad_zeros_def list_all_iff by auto
qed

lemma trim_zeros_split: "\<exists>n. s = replicate n CHR ''0'' @ trim_zeros s"
proof -
  have "\<forall>c \<in> set (takeWhile (\<lambda>c. c = CHR ''0'') s). c = CHR ''0''" by (auto dest: set_takeWhileD)
  then have "takeWhile (\<lambda>c. c = CHR ''0'') s =
      replicate (length (takeWhile (\<lambda>c. c = CHR ''0'') s)) CHR ''0''"
    by (simp add: replicate_length_same)
  then show ?thesis
    unfolding trim_zeros_def by (metis takeWhile_dropWhile_id)
qed

lemma digits_value_trim_zeros [simp]: "digits_value (trim_zeros s) = digits_value s"
  using trim_zeros_split[of s] digits_value_zeros by metis

lemma trim_zeros_hd: "trim_zeros s \<noteq> [] \<Longrightarrow> hd (trim_zeros s) \<noteq> CHR ''0''"
  using hd_dropWhile[of "\<lambda>c. c = CHR ''0''" s] by (simp add: trim_zeros_def)

lemma trim_zeros_digits: "list_all is_ascii_digit s \<Longrightarrow> list_all is_ascii_digit (trim_zeros s)"
  by (auto simp: trim_zeros_def list_all_iff dest: set_dropWhileD)

lemma length_show_nat: "length (show_nat n) \<le> w \<longleftrightarrow> n < 10 ^ w" if "0 < w"
  using that
proof (induction w arbitrary: n)
  case (Suc w)
  show ?case
  proof (cases "n < 10")
    case True
    moreover have "n < 10 ^ Suc w" using True by (rule less_le_trans) simp
    ultimately show ?thesis by (subst show_nat.simps) simp
  next
    case False
    show ?thesis
    proof (cases "w = 0")
      case True
      with False show ?thesis by (subst show_nat.simps) (simp add: Suc_le_eq)
    next
      case w: False
      have "length (show_nat n) \<le> Suc w \<longleftrightarrow> length (show_nat (n div 10)) \<le> w"
        using False by (subst show_nat.simps) simp
      also have "\<dots> \<longleftrightarrow> n div 10 < 10 ^ w" using Suc.IH w by simp
      also have "\<dots> \<longleftrightarrow> n < 10 ^ Suc w" by (auto simp: div_less_iff_less_mult mult.commute)
      finally show ?thesis .
    qed
  qed
qed simp

text \<open>Fixed-width notation: the digits of \<open>n < 10 ^ w\<close>, padded to width \<open>w\<close>, are determined.\<close>

lemma fixed_width_unique:
  assumes "list_all is_ascii_digit s" and "list_all is_ascii_digit t"
    and "length s = length t" and "digits_value s = digits_value t"
  shows "s = t"
  using assms(3,1,2,4)
proof (induction s t rule: list_induct2)
  case (Cons a s b t)
  have bs: "digits_value s < 10 ^ length t" "digits_value t < 10 ^ length t"
    using digits_value_bound[of s] digits_value_bound[of t] Cons by simp_all
  have eq: "digit_value a * 10 ^ length t + digits_value s = digit_value b * 10 ^ length t + digits_value t"
    using Cons by (simp add: digits_value_Cons)
  then have "(digit_value a * 10 ^ length t + digits_value s) div 10 ^ length t =
      (digit_value b * 10 ^ length t + digits_value t) div 10 ^ length t" by simp
  then have "digit_value a = digit_value b" using bs by simp
  moreover from this eq have "digits_value s = digits_value t" by simp
  moreover have "digit_char (digit_value a) = a" "digit_char (digit_value b) = b"
    using Cons.prems by (simp_all add: digit_char_digit_value)
  moreover have "list_all is_ascii_digit s" "list_all is_ascii_digit t" using Cons.prems by simp_all
  ultimately show ?case using Cons.IH by metis
qed simp

text \<open>\<open>format!("{:0kx}")\<close> of a number below \<open>16 ^ k\<close>.\<close>

fun hex_fixed :: "nat \<Rightarrow> nat \<Rightarrow> string" where
  "hex_fixed 0 n = []"
| "hex_fixed (Suc k) n = hex_fixed k (n div 16) @ [''0123456789abcdef'' ! (n mod 16)]"

lemma length_hex_fixed [simp]: "length (hex_fixed k n) = k"
  by (induction k arbitrary: n) simp_all

lemma hexdigit_facts:
  assumes "d < 16"
  shows hexdigit_lower: "is_lower_hexdigit (''0123456789abcdef'' ! d)"
    and hexdigit_value_nth: "hexdigit_value (''0123456789abcdef'' ! d) = d"
proof -
  from assms have "d \<in> set [0..<16]" by simp
  then show "is_lower_hexdigit (''0123456789abcdef'' ! d)"
    and "hexdigit_value (''0123456789abcdef'' ! d) = d"
    by (auto simp: upt_rec is_lower_hexdigit_def hexdigit_value_def is_ascii_digit_def char_code_def)
qed

lemma hex_fixed_lower: "is_lower_hex_of_length k (hex_fixed k n)"
  by (induction k arbitrary: n) (auto simp: is_lower_hex_of_length_def hexdigit_lower)

lemma hex_value_snoc: "hex_value (s @ [c]) = 16 * hex_value s + hexdigit_value c"
  by (simp add: hex_value_def)

lemma hex_value_hex_fixed: "hex_value (hex_fixed k n) = n mod 16 ^ k"
proof (induction k arbitrary: n)
  case 0
  then show ?case by (simp add: hex_value_def)
next
  case (Suc k)
  have "n mod 16 ^ Suc k = 16 * ((n div 16) mod 16 ^ k) + n mod 16"
    using mod_mult2_eq[of n 16 "16 ^ k"] by simp
  then show ?case by (simp add: hex_value_snoc Suc hexdigit_value_nth)
qed

lemma hexdigit_value_bound: "is_ascii_hexdigit c \<Longrightarrow> hexdigit_value c < 16"
proof -
  have "list_all (\<lambda>c. hexdigit_value c < 16) ''0123456789abcdefABCDEF''" by code_simp
  then show "is_ascii_hexdigit c \<Longrightarrow> hexdigit_value c < 16"
    unfolding list_all_iff is_ascii_hexdigit_def by blast
qed

lemma hex_value_bound: "list_all is_ascii_hexdigit s \<Longrightarrow> hex_value s < 16 ^ length s"
proof (induction s rule: rev_induct)
  case (snoc c s)
  then have "Suc (hex_value s) \<le> 16 ^ length s" and "hexdigit_value c < 16"
    using hexdigit_value_bound[of c] by simp_all
  then show ?case by (simp add: hex_value_snoc)
qed (simp add: hex_value_def)

section \<open>Reading integers\<close>

text \<open>
  \<open>uN::from_str\<close> and \<open>i64::from_str\<close>: the empty string and a lone sign are errors, a
  \<open>+\<close> is skipped, and the first digit that is not one or that overflows ends the reading.
  The texts are those of \<open>ParseIntError\<close>.
\<close>

definition invalid_digit :: string where
  "invalid_digit = ''invalid digit found in string''"

definition digit_step :: "nat \<Rightarrow> string \<Rightarrow> nat \<Rightarrow> char \<Rightarrow> string + nat" where
  "digit_step limit overflow acc c =
     (if \<not> is_ascii_digit c then Inl invalid_digit
      else if 10 * acc + digit_value c < limit then Inr (10 * acc + digit_value c)
      else Inl overflow)"

definition strip_plus :: "string \<Rightarrow> string" where
  "strip_plus s = (case s of c # r \<Rightarrow> if c = CHR ''+'' then r else s | [] \<Rightarrow> [])"

definition parse_uint :: "nat \<Rightarrow> string \<Rightarrow> string + nat" where
  "parse_uint w s =
     (if s = [] then Inl ''cannot parse integer from empty string''
      else if s = ''+'' \<or> s = ''-'' then Inl invalid_digit
      else try_fold (digit_step (2 ^ w) ''number too large to fit in target type'') 0 (strip_plus s))"

definition parse_i64 :: "string \<Rightarrow> string + int" where
  "parse_i64 s =
     (if s = [] then Inl ''cannot parse integer from empty string''
      else if s = ''+'' \<or> s = ''-'' then Inl invalid_digit
      else if hd s = CHR ''-''
      then rbind (try_fold (digit_step (2 ^ 63 + 1) ''number too small to fit in target type'') 0 (tl s))
             (\<lambda>n. Inr (- int n))
      else rbind (try_fold (digit_step (2 ^ 63) ''number too large to fit in target type'') 0 (strip_plus s))
             (\<lambda>n. Inr (int n)))"

definition parse_u64 :: "string \<Rightarrow> nat option" where
  "parse_u64 s = result_ok (parse_uint 64 s)"

lemma not_digit_signs [simp]: "\<not> is_ascii_digit CHR ''+''" "\<not> is_ascii_digit CHR ''-''"
  by (simp_all add: is_ascii_digit_def)

lemma digit_fold_value:
  "acc < limit \<Longrightarrow> try_fold (digit_step limit ov) acc ds = Inr n \<longleftrightarrow>
     list_all is_ascii_digit ds \<and> acc * 10 ^ length ds + digits_value ds = n \<and> n < limit"
proof (induction ds arbitrary: acc)
  case Nil
  then show ?case by auto
next
  case (Cons c ds)
  have ge: "10 * acc + digit_value c \<le> acc * 10 ^ length (c # ds) + digits_value (c # ds)"
  proof -
    have "(10 * acc + digit_value c) * 1 \<le> (10 * acc + digit_value c) * 10 ^ length ds"
      by (intro mult_le_mono2) simp
    then show ?thesis by (simp add: digits_value_Cons algebra_simps)
  qed
  show ?case
  proof (cases "is_ascii_digit c \<and> 10 * acc + digit_value c < limit")
    case True
    then show ?thesis
      using Cons.IH[of "10 * acc + digit_value c"]
      by (auto simp: digit_step_def digits_value_Cons algebra_simps)
  next
    case False
    with ge show ?thesis by (auto simp: digit_step_def)
  qed
qed

lemma parse_uint_Inr:
  "parse_uint w s = Inr n \<longleftrightarrow>
     strip_plus s \<noteq> [] \<and> list_all is_ascii_digit (strip_plus s) \<and>
     digits_value (strip_plus s) = n \<and> n < 2 ^ w"
proof (cases "s = [] \<or> s = ''+'' \<or> s = ''-''")
  case True
  then show ?thesis by (auto simp: parse_uint_def strip_plus_def)
next
  case False
  then have "strip_plus s \<noteq> []" by (auto simp: strip_plus_def split: list.splits if_splits)
  with False show ?thesis by (auto simp: parse_uint_def digit_fold_value)
qed

lemma parse_u64_Some:
  "parse_u64 s = Some n \<longleftrightarrow>
     strip_plus s \<noteq> [] \<and> list_all is_ascii_digit (strip_plus s) \<and>
     digits_value (strip_plus s) = n \<and> n < 2 ^ 64"
  using parse_uint_Inr[of 64 s n] by (cases "parse_uint 64 s") (auto simp: parse_u64_def)

lemma strip_plus_digits: "list_all is_ascii_digit s \<Longrightarrow> strip_plus s = s"
  by (auto simp: strip_plus_def split: list.splits)

lemma parse_u64_show_nat: "n < 2 ^ 64 \<Longrightarrow> parse_u64 (show_nat n) = Some n"
  by (simp add: parse_u64_Some strip_plus_digits show_nat_digits)

section \<open>Characters of UTF-8 text\<close>

text \<open>\<open>value.chars().take(n).collect()\<close>: a scalar value is a leading byte and its
  continuation bytes \<open>10xxxxxx\<close>.\<close>

definition is_continuation :: "char \<Rightarrow> bool" where
  "is_continuation c \<longleftrightarrow> 128 \<le> char_code c \<and> char_code c < 192"

fun take_chars :: "nat \<Rightarrow> string \<Rightarrow> string" where
  "take_chars n [] = []"
| "take_chars n (c # s) =
     (if is_continuation c then c # take_chars n s
      else (case n of 0 \<Rightarrow> [] | Suc m \<Rightarrow> c # take_chars m s))"

lemma take_chars_prefix: "\<exists>t. s = take_chars n s @ t"
  by (induction n s rule: take_chars.induct) (auto split: nat.splits)

lemma take_chars_short: "length s \<le> n \<Longrightarrow> take_chars n s = s"
  by (induction n s rule: take_chars.induct) (auto split: nat.splits)

text \<open>\<open>str::trim\<close> removes the characters of Unicode's \<open>White_Space\<close> class at both ends:
  the ASCII ones and the UTF-8 encodings of U+0085, U+00A0, U+1680, U+2000 to U+200A, U+2028,
  U+2029, U+202F, U+205F and U+3000.\<close>

definition whitespace :: "string list" where
  "whitespace = map (map char_of)
     ([[9], [10], [11], [12], [13], [32], [194, 133], [194, 160], [225, 154, 128],
       [226, 128, 168], [226, 128, 169], [226, 128, 175], [226, 129, 159], [227, 128, 128]] @
      map (\<lambda>k. [226, 128, 128 + k]) [0 :: nat ..< 11])"

fun strip_fuel :: "nat \<Rightarrow> string list \<Rightarrow> string \<Rightarrow> string" where
  "strip_fuel 0 ws s = s"
| "strip_fuel (Suc k) ws s =
     (case find (\<lambda>w. take (length w) s = w) ws of
        None \<Rightarrow> s
      | Some w \<Rightarrow> strip_fuel k ws (drop (length w) s))"

definition trim_start :: "string \<Rightarrow> string" where
  "trim_start s = strip_fuel (length s) whitespace s"

definition trim_end :: "string \<Rightarrow> string" where
  "trim_end s = rev (strip_fuel (length s) (map rev whitespace) (rev s))"

definition str_trim :: "string \<Rightarrow> string" where
  "str_trim s = trim_end (trim_start s)"

text \<open>\<open>str::split_once(c)\<close>.\<close>

definition split_once :: "char \<Rightarrow> string \<Rightarrow> (string \<times> string) option" where
  "split_once c s =
     (if c \<in> set s then Some (takeWhile (\<lambda>d. d \<noteq> c) s, drop 1 (dropWhile (\<lambda>d. d \<noteq> c) s)) else None)"

text \<open>\<open>str::replace\<close> of a non-empty pattern, scanning from the left.\<close>

fun str_replace_fuel :: "nat \<Rightarrow> string \<Rightarrow> string \<Rightarrow> string \<Rightarrow> string" where
  "str_replace_fuel 0 s p r = s"
| "str_replace_fuel (Suc k) s p r =
     (if p \<noteq> [] \<and> take (length p) s = p then r @ str_replace_fuel k (drop (length p) s) p r
      else (case s of [] \<Rightarrow> [] | c # t \<Rightarrow> c # str_replace_fuel k t p r))"

definition str_replace :: "string \<Rightarrow> string \<Rightarrow> string \<Rightarrow> string" where
  "str_replace s p r = str_replace_fuel (Suc (length s)) s p r"

end
