(* ===== verification/Errors.thy ===== *)
theory Errors imports Text_Ops begin

text \<open>
  The explorer's error type (\<open>src/error.rs\<close>), its display texts, and its translation into
  an RFC 9457 problem response.
\<close>

section \<open>Errors\<close>

text \<open>The \<open>sqlx::Error\<close> values the sources distinguish; \<open>DatabaseError\<close> carries the
  SQLSTATE code the server reported, if it reported one.\<close>

datatype sqlx_error =
    PoolTimedOut
  | PoolClosed
  | WorkerCrashed
  | RowNotFound
  | DatabaseError "string option"
  | OtherSqlxError

datatype explorer_error =
    Config string
  | Database sqlx_error
  | Migration
  | RpcTransport
  | Rpc int string
  | InvalidNodeResponse string
  | InvalidAuxPow string
  | NotFound
  | InvalidRequest string
  | NotReady string

type_synonym 'a result = "explorer_error + 'a"

fun display_error :: "explorer_error \<Rightarrow> string" where
  "display_error (Config m) = ''configuration error: '' @ m"
| "display_error (Database e) = ''database error''"
| "display_error Migration = ''database migration error''"
| "display_error RpcTransport = ''node RPC transport error''"
| "display_error (Rpc code m) = ''node RPC '' @ show_int code @ '': '' @ m"
| "display_error (InvalidNodeResponse m) = ''invalid node response: '' @ m"
| "display_error (InvalidAuxPow m) = ''invalid AuxPoW proof: '' @ m"
| "display_error NotFound = ''resource not found''"
| "display_error (InvalidRequest m) = ''invalid request: '' @ m"
| "display_error (NotReady m) = ''service is not ready: '' @ m"

section \<open>Problem responses\<close>

record problem_response =
  pr_status :: nat
  pr_type :: string
  pr_title :: string
  pr_detail :: string
  pr_instance :: string
  pr_retry_after :: "string option"

fun database_error_code :: "sqlx_error \<Rightarrow> string option" where
  "database_error_code (DatabaseError c) = c"
| "database_error_code _ = None"

definition is_retryable_database_error :: "sqlx_error \<Rightarrow> bool" where
  "is_retryable_database_error e \<longleftrightarrow>
     (if e = PoolTimedOut \<or> e = PoolClosed \<or> e = WorkerCrashed then True
      else (case database_error_code e of None \<Rightarrow> False
        | Some code \<Rightarrow> code \<in> set [''55P03'', ''57014'', ''53300'', ''57P03'']))"

definition problem_base :: string where
  "problem_base = ''https://wcashexplorer.com/problems/''"

text \<open>The status, problem type, title and detail of the \<open>match\<close> in \<open>into_response\<close>.\<close>

fun problem_parts :: "explorer_error \<Rightarrow> nat \<times> string \<times> string \<times> string" where
  "problem_parts NotFound = (404, problem_base @ ''not-found'', ''Not found'',
     ''The requested explorer resource does not exist.'')"
| "problem_parts (InvalidRequest detail) =
     (400, problem_base @ ''invalid-request'', ''Invalid request'', detail)"
| "problem_parts (NotReady detail) =
     (503, problem_base @ ''not-ready'', ''Service not ready'', detail)"
| "problem_parts (Rpc code message) =
     (502, problem_base @ ''upstream-data'', ''Upstream data error'', message)"
| "problem_parts (InvalidNodeResponse message) =
     (502, problem_base @ ''upstream-data'', ''Upstream data error'', message)"
| "problem_parts (InvalidAuxPow message) =
     (502, problem_base @ ''upstream-data'', ''Upstream data error'', message)"
| "problem_parts (Config message) =
     (500, problem_base @ ''configuration'', ''Configuration error'', message)"
| "problem_parts (Database e) =
     (if is_retryable_database_error e
      then (503, problem_base @ ''not-ready'', ''Service not ready'',
            ''The explorer database is temporarily busy; retry the request.'')
      else (500, problem_base @ ''internal'', ''Internal service error'',
            ''The explorer could not complete this request.''))"
| "problem_parts Migration = (500, problem_base @ ''internal'', ''Internal service error'',
     ''The explorer could not complete this request.'')"
| "problem_parts RpcTransport = (500, problem_base @ ''internal'', ''Internal service error'',
     ''The explorer could not complete this request.'')"

definition retryable :: "explorer_error \<Rightarrow> bool" where
  "retryable e = (case e of Database d \<Rightarrow> is_retryable_database_error d | _ \<Rightarrow> False)"

text \<open>\<open>uuid\<close> is the fresh \<open>Uuid::new_v4()\<close> of the response.\<close>

definition into_response :: "string \<Rightarrow> explorer_error \<Rightarrow> problem_response" where
  "into_response uuid e =
     (let (status, ptype, title, detail) = problem_parts e
      in \<lparr>pr_status = status, pr_type = ptype, pr_title = title, pr_detail = detail,
          pr_instance = ''urn:uuid:'' @ uuid,
          pr_retry_after = (if retryable e then Some ''2'' else None)\<rparr>)"

definition is_infrastructure_error :: "explorer_error \<Rightarrow> bool" where
  "is_infrastructure_error e =
     (case e of Database _ \<Rightarrow> True | Migration \<Rightarrow> True | RpcTransport \<Rightarrow> True | _ \<Rightarrow> False)"

section \<open>Properties\<close>

lemma problem_status_cases: "fst (problem_parts e) \<in> {400, 404, 500, 502, 503}"
  by (cases e) simp_all

text \<open>Every failure becomes a 4xx or 5xx problem; the answer invites a retry exactly when a
  database error is transient, and a transient error is a 503; and an infrastructure failure
  (database, migration, RPC transport) is reported with one of two fixed texts that carry nothing of
  the underlying error.\<close>

theorem into_response_safe:
  "pr_status (into_response u e) \<in> {400, 404, 500, 502, 503} \<and>
   (pr_retry_after (into_response u e) = Some ''2'' \<longleftrightarrow>
      e \<in> Database ` {d. is_retryable_database_error d}) \<and>
   (pr_retry_after (into_response u e) = None \<or> pr_status (into_response u e) = 503) \<and>
   pr_detail (into_response u Migration) = ''The explorer could not complete this request.'' \<and>
   pr_detail (into_response u RpcTransport) = ''The explorer could not complete this request.'' \<and>
   pr_detail (into_response u (Database d)) =
     (if is_retryable_database_error d
      then ''The explorer database is temporarily busy; retry the request.''
      else ''The explorer could not complete this request.'')"
  by (cases e) (auto simp: into_response_def retryable_def Let_def problem_base_def)

end
