(* ===== verification/Models.thy ===== *)
theory Models imports Errors begin

text \<open>
  The data of \<open>src/models.rs\<close>: what the nodes answer, what verification yields and what the
  indexer hands to the database, with the crates the program links but this repository does not
  contain collected in one record of functions.
\<close>

section \<open>JSON values\<close>

text \<open>\<open>serde_json::Value\<close>; a number is one of the crate's three representations.\<close>

datatype json_number = PosInt nat | NegInt int | Float string

datatype json =
    JNull
  | JBool bool
  | JNumber json_number
  | JString string
  | JArray "json list"
  | JObject "(string \<times> json) list"

fun number_as_u64 :: "json_number \<Rightarrow> nat option" where
  "number_as_u64 (PosInt n) = Some n"
| "number_as_u64 _ = None"

fun number_text :: "json_number \<Rightarrow> string" where
  "number_text (PosInt n) = show_nat n"
| "number_text (NegInt i) = show_int i"
| "number_text (Float t) = t"

text \<open>A \<open>DateTime<Utc>\<close> is its offset from the epoch in microseconds, the database's
  resolution.\<close>

type_synonym datetime = int

section \<open>Node responses\<close>

record chain_value =
  cv_chain_value_zat :: "int option"
  cv_monitored :: "bool option"

record value_pool =
  vp_id :: string
  vp_chain_value_zat :: "int option"
  vp_value_delta_zat :: "int option"
  vp_monitored :: "bool option"

record blockchain_info =
  bi_chain :: string
  bi_blocks :: nat
  bi_headers :: nat
  bi_bestblockhash :: string
  bi_estimatedheight :: "nat option"
  bi_verificationprogress :: "string option"
  bi_chain_supply :: "chain_value option"
  bi_value_pools :: "value_pool list"

record script_pub_key =
  spk_asm :: "string option"
  spk_hex :: "string option"
  spk_script_type :: "string option"
  spk_address :: "string option"
  spk_addresses :: "string list"

definition primary_address :: "script_pub_key \<Rightarrow> string option" where
  "primary_address s =
     (case spk_address s of
        Some a \<Rightarrow> Some a
      | None \<Rightarrow> if length (spk_addresses s) = 1 then Some (spk_addresses s ! 0) else None)"

record rpc_input =
  ri_txid :: "string option"
  ri_vout :: "nat option"
  ri_coinbase :: "string option"
  ri_sequence :: "nat option"
  ri_script_sig :: "json option"
  ri_extra :: "(string \<times> json) list"

record rpc_output =
  ro_value_zat :: int
  ro_n :: nat
  ro_script_pub_key :: script_pub_key
  ro_extra :: "(string \<times> json) list"

record rpc_transaction =
  rt_txid :: string
  rt_authdigest :: "string option"
  rt_version :: int
  rt_size :: nat
  rt_locktime :: nat
  rt_expiryheight :: nat
  rt_vin :: "rpc_input list"
  rt_vout :: "rpc_output list"
  rt_shielded_spends :: "json list"
  rt_shielded_outputs :: "json list"
  rt_orchard :: "json option"
  rt_ironwood :: "json option"
  rt_value_balance_zat :: "int option"
  rt_hex :: "string option"
  rt_extra :: "(string \<times> json) list"

record rpc_block =
  rb_hash :: string
  rb_height :: nat
  rb_confirmations :: int
  rb_size :: nat
  rb_time :: int
  rb_bits :: string
  rb_difficulty :: json
  rb_nonce :: string
  rb_solution :: string
  rb_merkleroot :: string
  rb_blockcommitments :: "string option"
  rb_previousblockhash :: "string option"
  rb_nextblockhash :: "string option"
  rb_tx :: "rpc_transaction list"
  rb_chain_supply :: "chain_value option"
  rb_value_pools :: "value_pool list"
  rb_extra :: "(string \<times> json) list"

record parent_block =
  pb_hash :: string
  pb_height :: nat
  pb_confirmations :: int
  pb_time :: int
  pb_bits :: string
  pb_difficulty :: json
  pb_tx :: "json list"

section \<open>Verification results\<close>

datatype parent_lookup_state =
    Canonical
  | Orphaned
  | NotFoundState
  | Unavailable
  | NotConfigured
  | Disagreement

fun lookup_state_str :: "parent_lookup_state \<Rightarrow> string" where
  "lookup_state_str Canonical = ''canonical''"
| "lookup_state_str Orphaned = ''orphaned''"
| "lookup_state_str NotFoundState = ''not_found''"
| "lookup_state_str Unavailable = ''unavailable''"
| "lookup_state_str NotConfigured = ''not_configured''"
| "lookup_state_str Disagreement = ''disagreement''"

record parent_observation =
  po_source :: string
  po_state :: parent_lookup_state
  po_block :: "parent_block option"
  po_embedded_header_matches :: "bool option"
  po_checked_at :: datetime

record verified_auxpow =
  va_witness_hash :: string
  va_proof_version :: nat
  va_proof_size :: nat
  va_parent_block_hash :: string
  va_parent_header_bits :: string
  va_parent_hash_meets_claimed_target :: bool
  va_parent_coinbase_txid :: string
  va_parent_merkle_depth :: nat
  va_parent_coinbase_index :: nat
  va_auth_data_merkle_depth :: nat
  va_auth_data_coinbase_index :: nat
  va_auxiliary_merkle_depth :: nat
  va_auxiliary_index :: nat
  va_verification_state :: string
  va_verifier_version :: string
  va_exact_witness_state :: string
  va_witness_confirmations :: "nat option"
  va_parent_observations :: "parent_observation list"
  va_parent_lookup_state :: parent_lookup_state
  va_parent_sources_agree :: bool

record indexed_block =
  ib_block :: rpc_block
  ib_auxpow :: "verified_auxpow option"
  ib_fetched_at :: datetime
  ib_raw_block :: bytes
  ib_raw :: json

section \<open>Linked crates\<close>

text \<open>
  Functions of crates that are not part of this repository: \<open>sha2\<close>, \<open>hex\<close>,
  \<open>serde_json\<close> and \<open>chrono\<close>.  \<open>hex_decode\<close> and \<open>tx_to_value\<close> answer with the
  crate's error text on failure; \<open>from_timestamp\<close> is \<open>DateTime::from_timestamp(s, 0)\<close>.
\<close>

record crates =
  sha256 :: "bytes \<Rightarrow> bytes"
  hex_encode :: "bytes \<Rightarrow> string"
  hex_decode :: "string \<Rightarrow> string + bytes"
  hex_decode_to_slice :: "nat \<Rightarrow> string \<Rightarrow> string + bytes"
  value_to_string :: "json \<Rightarrow> string"
  tx_to_value :: "rpc_transaction \<Rightarrow> string + json"
  from_timestamp :: "int \<Rightarrow> datetime option"

definition string_bytes :: "string \<Rightarrow> bytes" where
  "string_bytes s = map (\<lambda>c. word_of_nat (char_code c)) s"

text \<open>The documented behaviour of the \<open>hex\<close> crate: encoding is lower case, two digits a
  byte, and decoding undoes it; decoding accepts only an even number of hexadecimal digits, two
  per byte; decoding into a slice of \<open>n\<close> bytes wants exactly \<open>n\<close>.\<close>

definition hex_crate_ok :: "crates \<Rightarrow> bool" where
  "hex_crate_ok X \<longleftrightarrow>
     (\<forall>bs. hex_decode X (hex_encode X bs) = Inr bs \<and>
           is_lower_hex_of_length (2 * length bs) (hex_encode X bs)) \<and>
     (\<forall>s bs. hex_decode X s = Inr bs \<longrightarrow> is_hex_of_length (2 * length bs) s) \<and>
     (\<forall>n s bs. hex_decode_to_slice X n s = Inr bs \<longleftrightarrow> hex_decode X s = Inr bs \<and> length bs = n)"

section \<open>Facts\<close>

lemma lookup_state_str_inj [simp]: "lookup_state_str a = lookup_state_str b \<longleftrightarrow> a = b"
  by (cases a; cases b) simp_all

lemma primary_address_Some:
  "primary_address s = Some a \<longleftrightarrow>
     spk_address s = Some a \<or> (spk_address s = None \<and> spk_addresses s = [a])"
  by (cases "spk_addresses s") (auto simp: primary_address_def split: option.splits)

lemma hex_encode_decode: "hex_crate_ok X \<Longrightarrow> hex_decode X (hex_encode X bs) = Inr bs"
  by (simp add: hex_crate_ok_def)

lemma hex_decode_to_slice_Inr:
  "hex_crate_ok X \<Longrightarrow> hex_decode_to_slice X n s = Inr bs \<longleftrightarrow> hex_decode X s = Inr bs \<and> length bs = n"
  by (simp add: hex_crate_ok_def)

lemma hex_encode_length: "hex_crate_ok X \<Longrightarrow> length (hex_encode X bs) = 2 * length bs"
  by (simp add: hex_crate_ok_def is_lower_hex_of_length_def)

lemma hex_decode_length: "hex_crate_ok X \<Longrightarrow> hex_decode X s = Inr bs \<Longrightarrow> length s = 2 * length bs"
  by (auto simp: hex_crate_ok_def is_hex_of_length_def)

section \<open>An instance of the linked crates\<close>

text \<open>A concrete instance of the \<open>hex\<close> crate's functions, for the witnesses.\<close>

fun example_unhex :: "string \<Rightarrow> string + bytes" where
  "example_unhex [] = Inr []"
| "example_unhex [c] = Inl ''Odd number of digits''"
| "example_unhex (c # d # s) =
     (if is_ascii_hexdigit c \<and> is_ascii_hexdigit d
      then rbind (example_unhex s) (\<lambda>bs. Inr (word_of_nat (hex_value [c, d]) # bs))
      else Inl ''Invalid character'')"

definition example_hex :: "bytes \<Rightarrow> string" where
  "example_hex bs = concat (map (\<lambda>b. hex_fixed 2 (unat b)) bs)"

definition example_crates :: crates where
  "example_crates =
     \<lparr>sha256 = (\<lambda>bs. take 32 (rev bs @ replicate 32 0)),
      hex_encode = example_hex,
      hex_decode = example_unhex,
      hex_decode_to_slice = (\<lambda>n s. rbind (example_unhex s) (\<lambda>bs.
        if length bs = n then Inr bs else Inl ''Invalid string length'')),
      value_to_string = (\<lambda>j. case j of JNumber n \<Rightarrow> number_text n | JString s \<Rightarrow> s | _ \<Rightarrow> []),
      tx_to_value = (\<lambda>t. Inr (JString (rt_txid t))),
      from_timestamp = (\<lambda>t. if \<bar>t\<bar> < 2 ^ 43 then Some (1000000 * t) else None)\<rparr>"

lemma hex_fixed_2: "\<exists>c d. hex_fixed 2 n = [c, d] \<and> is_lower_hexdigit c \<and> is_lower_hexdigit d"
  using hexdigit_lower[of "n div 16 mod 16"] hexdigit_lower[of "n mod 16"]
  by (simp add: numeral_2_eq_2)

lemma example_unhex_hex: "example_unhex (example_hex bs) = Inr bs"
proof (induction bs)
  case (Cons b bs)
  obtain c d where cd: "hex_fixed 2 (unat b) = [c, d]" "is_lower_hexdigit c" "is_lower_hexdigit d"
    using hex_fixed_2 by blast
  have "hex_value [c, d] = unat b"
    using hex_value_hex_fixed[of 2 "unat b"] unat_u8_bound[of b] cd by simp
  then show ?case using Cons cd by (simp add: example_hex_def lower_hexdigit_hexdigit)
qed (simp add: example_hex_def)

lemma example_hex_lower: "is_lower_hex_of_length (2 * length bs) (example_hex bs)"
proof (induction bs)
  case (Cons b bs)
  obtain c d where "hex_fixed 2 (unat b) = [c, d]" "is_lower_hexdigit c" "is_lower_hexdigit d"
    using hex_fixed_2 by blast
  with Cons show ?case by (simp add: example_hex_def is_lower_hex_of_length_def)
qed (simp add: example_hex_def is_lower_hex_of_length_def)

lemma example_unhex_Inr: "example_unhex s = Inr bs \<Longrightarrow> is_hex_of_length (2 * length bs) s"
  by (induction s arbitrary: bs rule: example_unhex.induct)
    (auto simp: is_hex_of_length_def split: if_splits)

lemma example_hex_crate_ok: "hex_crate_ok example_crates"
  by (auto simp: hex_crate_ok_def example_crates_def example_unhex_hex example_hex_lower
      example_unhex_Inr split: if_splits)

end
