(* ===== verification/Configuration.thy ===== *)
theory Configuration imports Models begin

text \<open>
  Runtime configuration (\<open>src/config.rs\<close>): the environment is read and checked once, before
  anything connects.  The environment is a function from names to values (after
  \<open>dotenvy\<close> has run); address and URL parsing are parameters.
\<close>

section \<open>Configuration data\<close>

definition PARENT_EVIDENCE_REFRESH_INTERVAL_SECONDS :: int where
  "PARENT_EVIDENCE_REFRESH_INTERVAL_SECONDS = 30"

definition PARENT_EVIDENCE_MAX_AGE_SECONDS :: int where
  "PARENT_EVIDENCE_MAX_AGE_SECONDS = PARENT_EVIDENCE_REFRESH_INTERVAL_SECONDS * 2"

definition WCASH_MAINNET_GENESIS_HASH :: string where
  "WCASH_MAINNET_GENESIS_HASH =
     ''5bae12c8662a577b04ce1591af1a137c128f0cb51018a5f1622d861d1bb6fc48''"

datatype rpc_auth = NoAuth | Basic string string | Cookie string

text \<open>A parsed URL, as far as the sources look at it.\<close>

record url =
  url_str :: string
  url_scheme :: string
  url_username :: string
  url_password :: "string option"

record rpc_config =
  rc_label :: string
  rc_url :: url
  rc_auth :: rpc_auth

record network_config =
  nc_id :: string
  nc_display_name :: string
  nc_symbol :: string
  nc_decimals :: nat
  nc_coinbase_maturity :: nat
  nc_target_spacing_seconds :: nat
  nc_max_supply_zat :: int
  nc_initial_subsidy_zat :: int
  nc_halving_interval :: nat
  nc_first_halving_height :: nat
  nc_genesis_hash :: string
  nc_parent_explorer_block_url :: string
  nc_parent_explorer_tx_url :: string

record config =
  cf_bind :: string
  cf_database_url :: string
  cf_wcash_rpc :: rpc_config
  cf_zcash_rpcs :: "rpc_config list"
  cf_network :: network_config
  cf_poll_interval_ms :: nat
  cf_rpc_timeout_ms :: nat
  cf_max_reorg_depth :: nat
  cf_evidence_refresh_depth :: nat
  cf_migrate :: bool
  cf_run_indexer :: bool
  cf_parent_chain :: string
  cf_parent_genesis_hash :: string
  cf_require_parent_quorum :: bool

text \<open>The process environment, and the parsers of \<open>std::net::SocketAddr\<close> (answering with the
  normalised address) and of the \<open>url\<close> crate.\<close>

record environment =
  env_var :: "string \<Rightarrow> string option"
  parse_addr :: "string \<Rightarrow> string + string"
  parse_url :: "string \<Rightarrow> string + url"

section \<open>Reading variables\<close>

definition required :: "environment \<Rightarrow> string \<Rightarrow> string result" where
  "required E name = ok_or (env_var E name) (Config (name @ '' is required''))"

definition env_or :: "environment \<Rightarrow> string \<Rightarrow> string \<Rightarrow> string" where
  "env_or E name dflt = (case env_var E name of Some v \<Rightarrow> v | None \<Rightarrow> dflt)"

definition parse_env :: "(string \<Rightarrow> string + 'a) \<Rightarrow> environment \<Rightarrow> string \<Rightarrow> 'a \<Rightarrow> 'a result" where
  "parse_env p E name dflt =
     (case env_var E name of
        Some v \<Rightarrow> map_err (\<lambda>error. Config (''invalid '' @ name @ '': '' @ error)) (p v)
      | None \<Rightarrow> Inr dflt)"

definition parse_bool :: "environment \<Rightarrow> string \<Rightarrow> bool \<Rightarrow> bool result" where
  "parse_bool E name dflt =
     (case env_var E name of
        Some v \<Rightarrow>
          (let w = to_ascii_lowercase v in
           if w \<in> set [''1'', ''true'', ''yes'', ''on''] then Inr True
           else if w \<in> set [''0'', ''false'', ''no'', ''off''] then Inr False
           else Inl (Config (name @ '' must be true or false'')))
      | None \<Rightarrow> Inr dflt)"

definition validate_hex_id :: "string \<Rightarrow> string \<Rightarrow> unit result" where
  "validate_hex_id name v =
     guard (is_hex_of_length 64 v)
       (Config (name @ '' must be a 32-byte hexadecimal identifier''))"

definition validate_mainnet_genesis :: "network_config \<Rightarrow> unit result" where
  "validate_mainnet_genesis n =
     guard (\<not> (nc_id n = ''mainnet'' \<and> nc_genesis_hash n \<noteq> WCASH_MAINNET_GENESIS_HASH))
       (Config (''Wcash Mainnet requires genesis '' @ WCASH_MAINNET_GENESIS_HASH))"

definition validate_parent_configuration :: "bool \<Rightarrow> bool \<Rightarrow> nat \<Rightarrow> unit result" where
  "validate_parent_configuration run_indexer require_parent_quorum parent_count =
     guard (\<not> (run_indexer \<and> require_parent_quorum \<and> parent_count < 2))
       (Config ''RUN_INDEXER requires two distinct Zcash parent RPC endpoints when REQUIRE_PARENT_QUORUM is enabled'')"

text \<open>\<open>to_ascii_lowercase().replace('_', "-")\<close>.\<close>

definition rpc_label :: "string \<Rightarrow> string" where
  "rpc_label prefix = map (\<lambda>c. if c = CHR ''_'' then CHR ''-'' else c) (to_ascii_lowercase prefix)"

definition rpc_auth_of :: "environment \<Rightarrow> string \<Rightarrow> rpc_auth result" where
  "rpc_auth_of E prefix =
     (let cookie_name = prefix @ ''_COOKIE_FILE''; username_name = prefix @ ''_USERNAME'';
          password_name = prefix @ ''_PASSWORD'' in
      case (env_var E cookie_name, env_var E username_name, env_var E password_name) of
        (Some cookie, None, None) \<Rightarrow> Inr (Cookie cookie)
      | (None, Some username, Some password) \<Rightarrow> Inr (Basic username password)
      | (None, None, None) \<Rightarrow> Inr NoAuth
      | _ \<Rightarrow> Inl (Config (''configure either '' @ cookie_name @ '' or both '' @ username_name @
                ''/'' @ password_name)))"

definition rpc_config_of :: "environment \<Rightarrow> string \<Rightarrow> bool \<Rightarrow> rpc_config option result" where
  "rpc_config_of E prefix required_endpoint =
     (let url_name = prefix @ ''_URL'' in
      case env_var E url_name of
        None \<Rightarrow> if required_endpoint then Inl (Config (url_name @ '' is required'')) else Inr None
      | Some raw_url \<Rightarrow>
          rbind (map_err (\<lambda>error. Config (''invalid '' @ url_name @ '': '' @ error)) (parse_url E raw_url)) (\<lambda>url.
          rbind (guard (\<not> (url_scheme url \<noteq> ''http'' \<and> url_scheme url \<noteq> ''https''))
                   (Config (url_name @ '' must use http or https''))) (\<lambda>_.
          rbind (guard (\<not> (url_username url \<noteq> [] \<or> url_password url \<noteq> None))
                   (Config (''credentials must not be embedded in '' @ url_name))) (\<lambda>_.
          rbind (rpc_auth_of E prefix) (\<lambda>auth.
          Inr (Some \<lparr>rc_label = rpc_label prefix, rc_url = url, rc_auth = auth\<rparr>))))))"

text \<open>\<open>filter_map(|p| rpc_config(p, false).transpose()).collect::<Result<Vec<_>>>()\<close>.\<close>

definition parent_rpcs :: "environment \<Rightarrow> rpc_config list result" where
  "parent_rpcs E =
     collect_res (List.map_filter
       (\<lambda>prefix. case rpc_config_of E prefix False of
          Inl e \<Rightarrow> Some (Inl e) | Inr None \<Rightarrow> None | Inr (Some r) \<Rightarrow> Some (Inr r))
       [''ZCASH_RPC'', ''ZCASH_RPC_SECONDARY''])"

section \<open>\<open>Config::from_env\<close>\<close>

text \<open>The network block of \<open>from_env\<close>.\<close>

definition network_of_env :: "environment \<Rightarrow> network_config result" where
  "network_of_env E =
     rbind (parse_env (parse_uint 8) E ''WCASH_DECIMALS'' 8) (\<lambda>decimals.
     rbind (parse_env (parse_uint 32) E ''WCASH_COINBASE_MATURITY'' 100) (\<lambda>coinbase_maturity.
     rbind (parse_env (parse_uint 32) E ''WCASH_TARGET_SPACING_SECONDS'' 75) (\<lambda>target_spacing_seconds.
     rbind (parse_env parse_i64 E ''WCASH_MAX_SUPPLY_ZAT'' 2100000000000000) (\<lambda>max_supply_zat.
     rbind (parse_env parse_i64 E ''WCASH_INITIAL_SUBSIDY_ZAT'' 625000000) (\<lambda>initial_subsidy_zat.
     rbind (parse_env (parse_uint 64) E ''WCASH_HALVING_INTERVAL'' 1680000) (\<lambda>halving_interval.
     rbind (parse_env (parse_uint 64) E ''WCASH_FIRST_HALVING_HEIGHT'' 1680001) (\<lambda>first_halving_height.
     Inr \<lparr>nc_id = env_or E ''WCASH_NETWORK'' ''testnet'',
          nc_display_name = env_or E ''WCASH_NETWORK_NAME'' ''Wcash Testnet'',
          nc_symbol = env_or E ''WCASH_SYMBOL'' ''TWC'',
          nc_decimals = decimals,
          nc_coinbase_maturity = coinbase_maturity,
          nc_target_spacing_seconds = target_spacing_seconds,
          nc_max_supply_zat = max_supply_zat,
          nc_initial_subsidy_zat = initial_subsidy_zat,
          nc_halving_interval = halving_interval,
          nc_first_halving_height = first_halving_height,
          nc_genesis_hash = env_or E ''WCASH_GENESIS_HASH''
            ''0271b5b0a10b2838f43cccdec9ca2f72aa72a7c103830082bac8f82f47f0593a'',
          nc_parent_explorer_block_url = env_or E ''PARENT_EXPLORER_BLOCK_URL''
            ''https://testnet.cipherscan.app/block/{hash}'',
          nc_parent_explorer_tx_url = env_or E ''PARENT_EXPLORER_TX_URL''
            ''https://testnet.cipherscan.app/tx/{txid}''\<rparr>)))))))"

definition i128_checked_mul :: "int \<Rightarrow> int \<Rightarrow> int option" where
  "i128_checked_mul a b =
     (if - (2 ^ 127) \<le> a * b \<and> a * b < 2 ^ 127 then Some (a * b) else None)"

definition expected_max_supply :: "network_config \<Rightarrow> int option" where
  "expected_max_supply n =
     Option.bind (i128_checked_mul (nc_initial_subsidy_zat n) (int (nc_halving_interval n)))
       (\<lambda>v. i128_checked_mul v 2)"

text \<open>The consensus checks on the network block, in the order of the source.\<close>

definition validate_network :: "network_config \<Rightarrow> unit result" where
  "validate_network n =
     rbind (validate_hex_id ''WCASH_GENESIS_HASH'' (nc_genesis_hash n)) (\<lambda>_.
     rbind (validate_mainnet_genesis n) (\<lambda>_.
     rbind (guard (\<not> nc_decimals n > 18) (Config ''WCASH_DECIMALS must be at most 18'')) (\<lambda>_.
     rbind (guard (\<not> (nc_max_supply_zat n \<le> 0 \<or> nc_initial_subsidy_zat n \<le> 0 \<or>
                     nc_halving_interval n = 0 \<or> nc_first_halving_height n = 0))
              (Config ''supply and halving settings must be positive'')) (\<lambda>_.
     rbind (ok_or (expected_max_supply n) (Config ''emission schedule overflow'')) (\<lambda>expected.
     guard (\<not> (nc_decimals n \<noteq> 8 \<or> nc_target_spacing_seconds n \<noteq> 75 \<or>
                nc_initial_subsidy_zat n \<noteq> 625000000 \<or>
                nc_max_supply_zat n \<noteq> 2100000000000000 \<or>
                nc_max_supply_zat n \<noteq> expected \<or>
                nc_first_halving_height n \<noteq> u64_saturating_add (nc_halving_interval n) 1))
       (Config ''Wcash settings must encode 8 decimals, 75-second blocks, a 6.25 WEC initial subsidy, four-year halvings, and a 21 million WEC cap''))))))"

definition from_env :: "environment \<Rightarrow> config result" where
  "from_env E =
     rbind (map_err (\<lambda>error. Config (''invalid bind address: '' @ error))
              (parse_addr E (env_or E ''WCASH_EXPLORER_BIND'' ''127.0.0.1:8080''))) (\<lambda>bind.
     rbind (required E ''DATABASE_URL'') (\<lambda>database_url.
     rbind (rpc_config_of E ''WCASH_RPC'' True) (\<lambda>wcash.
     rbind (ok_or wcash (Config ''WCASH_RPC_URL is required'')) (\<lambda>wcash_rpc.
     rbind (parent_rpcs E) (\<lambda>zcash_rpcs.
     rbind (network_of_env E) (\<lambda>network.
     rbind (validate_network network) (\<lambda>_.
     rbind (parse_bool E ''RUN_INDEXER'' True) (\<lambda>run_indexer.
     rbind (parse_bool E ''REQUIRE_PARENT_QUORUM'' True) (\<lambda>require_parent_quorum.
     rbind (guard (\<not> length (remdups (map (\<lambda>r. url_str (rc_url r)) zcash_rpcs)) \<noteq> length zcash_rpcs)
              (Config ''configured Zcash parent RPC endpoints must be distinct'')) (\<lambda>_.
     rbind (validate_parent_configuration run_indexer require_parent_quorum (length zcash_rpcs)) (\<lambda>_.
     let parent_genesis_hash = env_or E ''ZCASH_PARENT_GENESIS_HASH''
           ''05a60a92d99d85997cce3b87616c089f6124d7342af37106edc76126334a2c38'' in
     rbind (validate_hex_id ''ZCASH_PARENT_GENESIS_HASH'' parent_genesis_hash) (\<lambda>_.
     rbind (parse_env (parse_uint 64) E ''INDEXER_POLL_INTERVAL_MS'' 2000) (\<lambda>poll_interval.
     rbind (parse_env (parse_uint 64) E ''RPC_TIMEOUT_MS'' 15000) (\<lambda>rpc_timeout.
     rbind (parse_env (parse_uint 64) E ''MAX_REORG_DEPTH'' 10000) (\<lambda>max_reorg_depth.
     rbind (parse_env (parse_uint 64) E ''EVIDENCE_REFRESH_DEPTH'' 100) (\<lambda>evidence_refresh_depth.
     rbind (parse_bool E ''RUN_MIGRATIONS'' True) (\<lambda>migrate.
     Inr \<lparr>cf_bind = bind, cf_database_url = database_url, cf_wcash_rpc = wcash_rpc,
          cf_zcash_rpcs = zcash_rpcs, cf_network = network,
          cf_poll_interval_ms = poll_interval, cf_rpc_timeout_ms = rpc_timeout,
          cf_max_reorg_depth = max_reorg_depth, cf_evidence_refresh_depth = evidence_refresh_depth,
          cf_migrate = migrate, cf_run_indexer = run_indexer,
          cf_parent_chain = env_or E ''ZCASH_PARENT_CHAIN'' ''test'',
          cf_parent_genesis_hash = parent_genesis_hash,
          cf_require_parent_quorum = require_parent_quorum\<rparr>)))))))))))))))))"


section \<open>Properties\<close>

lemma validate_network_Inr:
  "validate_network n = Inr u \<longleftrightarrow>
     is_hex_of_length 64 (nc_genesis_hash n) \<and>
     (nc_id n = ''mainnet'' \<longrightarrow> nc_genesis_hash n = WCASH_MAINNET_GENESIS_HASH) \<and>
     nc_decimals n = 8 \<and> nc_target_spacing_seconds n = 75 \<and>
     nc_initial_subsidy_zat n = 625000000 \<and> nc_max_supply_zat n = 2100000000000000 \<and>
     nc_halving_interval n = 1680000 \<and> nc_first_halving_height n = 1680001"
proof
  assume "validate_network n = Inr u"
  then show "is_hex_of_length 64 (nc_genesis_hash n) \<and>
     (nc_id n = ''mainnet'' \<longrightarrow> nc_genesis_hash n = WCASH_MAINNET_GENESIS_HASH) \<and>
     nc_decimals n = 8 \<and> nc_target_spacing_seconds n = 75 \<and>
     nc_initial_subsidy_zat n = 625000000 \<and> nc_max_supply_zat n = 2100000000000000 \<and>
     nc_halving_interval n = 1680000 \<and> nc_first_halving_height n = 1680001"
    by (auto simp: validate_network_def validate_hex_id_def validate_mainnet_genesis_def
        expected_max_supply_def i128_checked_mul_def u64_saturating_add_def
        split: bind_splits if_splits)
qed (auto simp: validate_network_def validate_hex_id_def validate_mainnet_genesis_def
      expected_max_supply_def i128_checked_mul_def u64_saturating_add_def)

lemma rpc_config_of_Inr:
  assumes "rpc_config_of E p r = Inr (Some c)"
  shows "url_scheme (rc_url c) \<in> {''http'', ''https''}" and "url_username (rc_url c) = []"
    and "url_password (rc_url c) = None" and "rpc_auth_of E p = Inr (rc_auth c)"
    and "rc_label c = rpc_label p"
  using assms by (auto simp: rpc_config_of_def Let_def split: option.splits if_splits)

lemma rpc_config_of_required: "rpc_config_of E p True \<noteq> Inr None"
  by (auto simp: rpc_config_of_def Let_def split: option.splits)

text \<open>The authentication settings of an endpoint are all-or-nothing.\<close>

lemma rpc_auth_of_Inr:
  "rpc_auth_of E p = Inr a \<longleftrightarrow>
     (let c = env_var E (p @ ''_COOKIE_FILE''); u = env_var E (p @ ''_USERNAME'');
          w = env_var E (p @ ''_PASSWORD'') in
      (\<exists>f. c = Some f \<and> u = None \<and> w = None \<and> a = Cookie f) \<or>
      (\<exists>x y. c = None \<and> u = Some x \<and> w = Some y \<and> a = Basic x y) \<or>
      (c = None \<and> u = None \<and> w = None \<and> a = NoAuth))"
  by (auto simp: rpc_auth_of_def Let_def split: option.splits)

lemma parent_rpcs_from:
  "parent_rpcs E = Inr rs \<Longrightarrow> r \<in> set rs \<Longrightarrow>
     \<exists>p \<in> {''ZCASH_RPC'', ''ZCASH_RPC_SECONDARY''}. rpc_config_of E p False = Inr (Some r)"
  by (auto simp: parent_rpcs_def List.map_filter_def
      split: sum.splits option.splits if_splits)

lemma distinct_urls: "length (remdups (map f xs)) = length xs \<longleftrightarrow> distinct (map f xs)"
  using length_remdups_eq[of "map f xs"] by simp


definition endpoint_ok :: "rpc_config \<Rightarrow> bool" where
  "endpoint_ok c \<longleftrightarrow> url_scheme (rc_url c) \<in> {''http'', ''https''} \<and>
     url_username (rc_url c) = [] \<and> url_password (rc_url c) = None"

lemma rpc_config_of_endpoint_ok: "rpc_config_of E p r = Inr (Some c) \<Longrightarrow> endpoint_ok c"
  using rpc_config_of_Inr by (simp add: endpoint_ok_def)


definition example_environment :: environment where
  "example_environment =
     \<lparr>env_var = map_of
        [(''DATABASE_URL'', ''postgres://localhost/wcash''),
         (''WCASH_RPC_URL'', ''http://127.0.0.1:1''),
         (''ZCASH_RPC_URL'', ''http://127.0.0.1:2''),
         (''ZCASH_RPC_SECONDARY_URL'', ''https://127.0.0.1:3''),
         (''ZCASH_RPC_COOKIE_FILE'', ''/run/cookie'')],
      parse_addr = (\<lambda>s. Inr s),
      parse_url = (\<lambda>s. Inr \<lparr>url_str = s, url_scheme = takeWhile (\<lambda>c. c \<noteq> CHR '':'') s,
                             url_username = [], url_password = None\<rparr>)\<rparr>"

lemma example_environment_vars:
  "env_var example_environment ''WCASH_NETWORK'' = None"
  "env_or example_environment ''WCASH_GENESIS_HASH'' d = d"
  "env_or example_environment ''ZCASH_PARENT_GENESIS_HASH'' d = d"
  by (simp_all add: example_environment_def env_or_def)

lemma example_environment_reads:
  "parse_addr example_environment s = Inr s"
  "required example_environment ''DATABASE_URL'' = Inr ''postgres://localhost/wcash''"
  "\<exists>c. rpc_config_of example_environment ''WCASH_RPC'' True = Inr (Some c)"
  "parse_bool example_environment ''RUN_INDEXER'' d = Inr d"
  "parse_bool example_environment ''REQUIRE_PARENT_QUORUM'' d = Inr d"
  "parse_bool example_environment ''RUN_MIGRATIONS'' d = Inr d"
  "parse_env p example_environment ''INDEXER_POLL_INTERVAL_MS'' n = Inr n"
  "parse_env p example_environment ''RPC_TIMEOUT_MS'' n = Inr n"
  "parse_env p example_environment ''MAX_REORG_DEPTH'' n = Inr n"
  "parse_env p example_environment ''EVIDENCE_REFRESH_DEPTH'' n = Inr n"
  by (simp_all add: example_environment_def required_def rpc_config_of_def Let_def rpc_auth_of_def
      parse_bool_def parse_env_def)

lemma parent_default_genesis:
  "validate_hex_id name ''05a60a92d99d85997cce3b87616c089f6124d7342af37106edc76126334a2c38'' = Inr ()"
  by (simp add: validate_hex_id_def is_hex_of_length_def is_ascii_hexdigit_def)

lemma example_network: "\<exists>n. network_of_env example_environment = Inr n \<and> validate_network n = Inr ()"
  by (auto simp: network_of_env_def parse_env_def example_environment_def env_or_def
      validate_network_Inr is_hex_of_length_def is_ascii_hexdigit_def)

lemma example_parents: "\<exists>a b. parent_rpcs example_environment = Inr [a, b] \<and>
    url_str (rc_url a) \<noteq> url_str (rc_url b)"
  by (simp add: parent_rpcs_def List.map_filter_def rpc_config_of_def Let_def rpc_auth_of_def
      example_environment_def rbind_def)

lemma example_environment_loads: "is_ok (from_env example_environment)"
proof -
  obtain n where "network_of_env example_environment = Inr n" "validate_network n = Inr ()"
    using example_network by blast
  moreover obtain w where "rpc_config_of example_environment ''WCASH_RPC'' True = Inr (Some w)"
    using example_environment_reads(3) by blast
  moreover obtain a b where "parent_rpcs example_environment = Inr [a, b]"
    "url_str (rc_url a) \<noteq> url_str (rc_url b)"
    using example_parents by blast
  ultimately show ?thesis
    by (simp add: from_env_def Let_def validate_parent_configuration_def parent_default_genesis
        example_environment_vars example_environment_reads)
qed


end
