(* ===== verification/Effects.thy ===== *)
theory Effects imports Models begin

text \<open>
  Sequencing of effects.  A fallible asynchronous operation over a state \<open>'s\<close> returns its result
  and the state it leaves: an error keeps the effects that happened before it.  A PostgreSQL
  transaction is instead a function that yields a new state only on success, so an early return
  rolls everything back (\<open>in_transaction\<close>).  Total correctness of such operations is stated
  by \<open>triple\<close>, a Hoare triple with separate success and failure postconditions.
\<close>

named_theorems triple_rules "Hoare rules for effectful operations"

type_synonym ('s, 'a) io = "'s \<Rightarrow> 'a result \<times> 's"
type_synonym ('s, 'a) tx = "'s \<Rightarrow> ('a \<times> 's) result"

definition io_return :: "'a \<Rightarrow> ('s, 'a) io" where
  "io_return x s = (Inr x, s)"

definition io_fail :: "explorer_error \<Rightarrow> ('s, 'a) io" where
  "io_fail e s = (Inl e, s)"

definition io_bind :: "('s, 'a) io \<Rightarrow> ('a \<Rightarrow> ('s, 'b) io) \<Rightarrow> ('s, 'b) io" where
  "io_bind m k s = (case m s of (Inl e, t) \<Rightarrow> (Inl e, t) | (Inr x, t) \<Rightarrow> k x t)"

definition io_lift :: "'a result \<Rightarrow> ('s, 'a) io" where
  "io_lift r s = (r, s)"

text \<open>Run an operation on a component of the state.\<close>

definition io_zoom :: "('s \<Rightarrow> 't) \<Rightarrow> ('t \<Rightarrow> 's \<Rightarrow> 's) \<Rightarrow> ('t, 'a) io \<Rightarrow> ('s, 'a) io" where
  "io_zoom get put m s = (case m (get s) of (r, t) \<Rightarrow> (r, put t s))"

text \<open>\<open>begin\<close>, the statements, \<open>commit\<close>: an error drops every change.\<close>

definition in_transaction :: "('s, 'a) tx \<Rightarrow> ('s, 'a) io" where
  "in_transaction body s = (case body s of Inl e \<Rightarrow> (Inl e, s) | Inr (x, t) \<Rightarrow> (Inr x, t))"

text \<open>\<open>tokio::try_join!\<close> of two requests: both are started, in order; when both fail the
  scheduler decides whose error is returned.\<close>

definition try_join2 :: "bool \<Rightarrow> ('s, 'a) io \<Rightarrow> ('s, 'b) io \<Rightarrow> ('s, 'a \<times> 'b) io" where
  "try_join2 first_wins a b s =
     (let (ra, s1) = a s; (rb, s2) = b s1 in
      (case (ra, rb) of
         (Inr x, Inr y) \<Rightarrow> Inr (x, y)
       | (Inl e, Inr _) \<Rightarrow> Inl e
       | (Inr _, Inl e) \<Rightarrow> Inl e
       | (Inl e1, Inl e2) \<Rightarrow> Inl (if first_wins then e1 else e2), s2))"

text \<open>A \<open>for\<close> loop over a list whose body may leave the function with \<open>?\<close>.\<close>

fun io_fold :: "('acc \<Rightarrow> 'a \<Rightarrow> ('s, 'acc) io) \<Rightarrow> 'acc \<Rightarrow> 'a list \<Rightarrow> ('s, 'acc) io" where
  "io_fold f acc [] = io_return acc"
| "io_fold f acc (x # xs) = io_bind (f acc x) (\<lambda>acc'. io_fold f acc' xs)"

lemma io_simps [simp]:
  "io_return x s = (Inr x, s)"
  "io_fail e s = (Inl e, s)"
  "io_lift r s = (r, s)"
  by (simp_all add: io_return_def io_fail_def io_lift_def)

lemma io_bind_Inr [res_simps]:
  "io_bind m k s = (Inr y, u) \<longleftrightarrow> (\<exists>x t. m s = (Inr x, t) \<and> k x t = (Inr y, u))"
  by (auto simp: io_bind_def split: prod.splits sum.splits)

lemma io_bind_lift [simp]:
  "io_bind (io_lift (Inr x)) k s = k x s"
  "io_bind (io_lift (Inl e)) k s = (Inl e, s)"
  "io_bind (io_return x) k s = k x s"
  by (simp_all add: io_bind_def)

lemma io_bind_eval: "m s = (Inr x, t) \<Longrightarrow> io_bind m k s = k x t"
  by (simp add: io_bind_def)

lemma io_bind_fail: "m s = (Inl e, t) \<Longrightarrow> io_bind m k s = (Inl e, t)"
  by (simp add: io_bind_def)

lemma try_join2_Inr [res_simps]:
  "try_join2 p a b s = (Inr xy, u) \<longleftrightarrow>
     (\<exists>x t y. a s = (Inr x, t) \<and> b t = (Inr y, u) \<and> xy = (x, y))"
  by (auto simp: try_join2_def Let_def split: prod.splits sum.splits)

section \<open>Hoare triples\<close>

definition triple :: "('s \<Rightarrow> bool) \<Rightarrow> ('s, 'a) io \<Rightarrow> ('a \<Rightarrow> 's \<Rightarrow> bool) \<Rightarrow> ('s \<Rightarrow> bool) \<Rightarrow> bool" where
  "triple P m Q E \<longleftrightarrow>
     (\<forall>s. P s \<longrightarrow> (case m s of (Inl e, t) \<Rightarrow> E t | (Inr x, t) \<Rightarrow> Q x t))"

lemma tripleI:
  "(\<And>s x t. P s \<Longrightarrow> m s = (Inr x, t) \<Longrightarrow> Q x t) \<Longrightarrow>
   (\<And>s e t. P s \<Longrightarrow> m s = (Inl e, t) \<Longrightarrow> E t) \<Longrightarrow> triple P m Q E"
  by (auto simp: triple_def split: prod.splits sum.splits)

lemma tripleD_ok: "triple P m Q E \<Longrightarrow> P s \<Longrightarrow> m s = (Inr x, t) \<Longrightarrow> Q x t"
  by (auto simp: triple_def dest!: spec[of _ s])

lemma tripleD_err: "triple P m Q E \<Longrightarrow> P s \<Longrightarrow> m s = (Inl e, t) \<Longrightarrow> E t"
  by (auto simp: triple_def dest!: spec[of _ s])

lemma triple_final: "triple P m (\<lambda>_. E) E \<Longrightarrow> P s \<Longrightarrow> E (snd (m s))"
  by (cases "m s"; cases "fst (m s)") (auto simp: triple_def split: prod.splits sum.splits)

lemma triple_bind:
  "triple P m R E \<Longrightarrow> (\<And>x. triple (R x) (k x) Q E) \<Longrightarrow> triple P (io_bind m k) Q E"
  by (fastforce simp: triple_def io_bind_def split: prod.splits sum.splits)

lemma triple_return [triple_rules]: "(\<And>s. P s \<Longrightarrow> Q x s) \<Longrightarrow> triple P (io_return x) Q E"
  by (simp add: triple_def)

lemma triple_fail [triple_rules]: "(\<And>s. P s \<Longrightarrow> E s) \<Longrightarrow> triple P (io_fail e) Q E"
  by (simp add: triple_def)

lemma triple_lift [triple_rules]:
  "(\<And>s x. P s \<Longrightarrow> r = Inr x \<Longrightarrow> Q x s) \<Longrightarrow> (\<And>s. P s \<Longrightarrow> E s) \<Longrightarrow> triple P (io_lift r) Q E"
  by (auto simp: triple_def split: sum.splits)

lemma triple_weaken:
  "triple P m Q E \<Longrightarrow> (\<And>s. P' s \<Longrightarrow> P s) \<Longrightarrow> (\<And>x s. Q x s \<Longrightarrow> Q' x s) \<Longrightarrow>
   (\<And>s. E s \<Longrightarrow> E' s) \<Longrightarrow> triple P' m Q' E'"
  by (fastforce simp: triple_def split: prod.splits sum.splits)

lemma triple_case_option:
  "(\<And>x. v = Some x \<Longrightarrow> triple P (f x) Q E) \<Longrightarrow> (v = None \<Longrightarrow> triple P g Q E) \<Longrightarrow>
   triple P (case v of None \<Rightarrow> g | Some x \<Rightarrow> f x) Q E"
  by (cases v) simp_all

lemma triple_if:
  "(c \<Longrightarrow> triple P a Q E) \<Longrightarrow> (\<not> c \<Longrightarrow> triple P b Q E) \<Longrightarrow> triple P (if c then a else b) Q E"
  by simp

text \<open>A loop with an invariant on accumulator and state, indexed by the iterations done.\<close>

lemma triple_fold:
  assumes "\<And>i acc. i < length xs \<Longrightarrow> triple (I i acc) (f acc (xs ! i)) (I (Suc i)) E"
  shows "triple (I 0 acc) (io_fold f acc xs) (I (length xs)) E"
  using assms
proof (induction xs arbitrary: I acc)
  case Nil
  then show ?case by (simp add: triple_def)
next
  case (Cons x xs)
  have "triple (I 0 acc) (f acc x) (I 1) E" using Cons.prems[of 0 acc] by simp
  moreover have "triple (I 1 a) (io_fold f a xs) (I (length (x # xs))) E" for a
    using Cons.IH[of "\<lambda>i. I (Suc i)" a] Cons.prems[of "Suc _"] by simp
  ultimately show ?case unfolding io_fold.simps by (rule triple_bind)
qed

lemma triple_zoom:
  "(\<And>s r t. P s \<Longrightarrow> m (get s) = (r, t) \<Longrightarrow>
      (case r of Inl e \<Rightarrow> E (put t s) | Inr x \<Rightarrow> Q x (put t s))) \<Longrightarrow>
   triple P (io_zoom get put m) Q E"
  by (fastforce simp: triple_def io_zoom_def split: prod.splits sum.splits)

lemma triple_transaction:
  "(\<And>s x t. P s \<Longrightarrow> body s = Inr (x, t) \<Longrightarrow> Q x t) \<Longrightarrow> (\<And>s. P s \<Longrightarrow> E s) \<Longrightarrow>
   triple P (in_transaction body) Q E"
  by (auto simp: triple_def in_transaction_def split: sum.splits)

end
