(* ===== verification/Node_Rpc.thy ===== *)
theory Node_Rpc imports Configuration Effects begin

text \<open>
  The JSON-RPC client (\<open>src/rpc.rs\<close>).  A client's only state is its request counter; what the
  node, the network and the cookie file do in reply to a request is a function of the request's
  identifier, so every exchange may be answered differently.  Deserialization is a parameter
  (\<open>serde\<close>), called on the bytes the client accepted.
\<close>

definition MAX_RPC_RESPONSE_BYTES :: nat where
  "MAX_RPC_RESPONSE_BYTES = 32 * 1024 * 1024"

section \<open>The other side\<close>

record rpc_request =
  rq_jsonrpc :: string
  rq_id :: nat
  rq_method :: string
  rq_params :: json

text \<open>A reply: status code and its display text, the declared length, and the body's chunks,
  \<open>None\<close> where reading fails.\<close>

record http_response =
  hr_status :: nat
  hr_status_text :: string
  hr_content_length :: "nat option"
  hr_chunks :: "bytes option list"

text \<open>\<open>nd_http\<close> answers a request with its credentials, \<open>None\<close> when sending fails;
  \<open>nd_cookie\<close> is the cookie file when the request is built; \<open>nd_race\<close> says which of two
  concurrent failures is seen first.\<close>

record node =
  nd_config :: rpc_config
  nd_cookie :: "nat \<Rightarrow> string + string"
  nd_http :: "rpc_request \<Rightarrow> (string \<times> string) option \<Rightarrow> http_response option"
  nd_race :: "nat \<Rightarrow> bool"

record 'a rpc_response =
  rr_jsonrpc :: string
  rr_id :: nat
  rr_result :: "'a option"
  rr_error :: "(int \<times> string) option"

datatype aux_status =
    BestChain nat
  | SideChain
  | ConflictingWitness
  | Pending
  | Unknown

fun aux_state :: "aux_status \<Rightarrow> string" where
  "aux_state (BestChain _) = ''best_chain''"
| "aux_state SideChain = ''side_chain''"
| "aux_state ConflictingWitness = ''conflicting_witness''"
| "aux_state Pending = ''pending''"
| "aux_state Unknown = ''unknown''"

fun aux_confirmations :: "aux_status \<Rightarrow> nat option" where
  "aux_confirmations (BestChain confirmations) = Some confirmations"
| "aux_confirmations _ = None"

text \<open>The derived deserializers.\<close>

record codec =
  cd_info :: "bytes \<Rightarrow> string + blockchain_info rpc_response"
  cd_string :: "bytes \<Rightarrow> string + string rpc_response"
  cd_value :: "bytes \<Rightarrow> string + json rpc_response"
  cd_aux_status :: "bytes \<Rightarrow> string + aux_status rpc_response"
  cd_parent :: "bytes \<Rightarrow> string + parent_block rpc_response"
  cd_block :: "json \<Rightarrow> string + rpc_block"

section \<open>One exchange\<close>

definition validate_hash :: "string \<Rightarrow> unit result" where
  "validate_hash v =
     guard (is_hex_of_length 64 v)
       (InvalidRequest ''block hash must be exactly 32 bytes of hexadecimal'')"

definition ensure_json_rpc_version :: "string \<Rightarrow> unit result" where
  "ensure_json_rpc_version v =
     guard (v = ''2.0'') (InvalidNodeResponse ''node response is not JSON-RPC 2.0'')"

definition decode_hex_bounded :: "crates \<Rightarrow> string \<Rightarrow> string \<Rightarrow> nat \<Rightarrow> bytes result" where
  "decode_hex_bounded X label v maximum_bytes =
     (if odd (length v) \<or> length v div 2 > maximum_bytes
      then Inl (InvalidNodeResponse (label @ '' has an invalid encoded length''))
      else map_err (\<lambda>error. InvalidNodeResponse (label @ '' is not hexadecimal: '' @ error))
             (hex_decode X v))"

definition with_auth :: "node \<Rightarrow> nat \<Rightarrow> (string \<times> string) option result" where
  "with_auth N i =
     (case rc_auth (nd_config N) of
        NoAuth \<Rightarrow> Inr None
      | Basic username password \<Rightarrow> Inr (Some (username, password))
      | Cookie path \<Rightarrow>
          rbind (map_err (\<lambda>error. Config (''could not read RPC cookie '' @ path @ '': '' @ error))
                   (nd_cookie N i)) (\<lambda>cookie.
          rbind (ok_or (split_once CHR '':'' (str_trim cookie))
                   (Config (''RPC cookie '' @ path @ '' has an invalid format''))) (\<lambda>credentials.
          Inr (Some credentials))))"

definition response_too_large :: explorer_error where
  "response_too_large = InvalidNodeResponse ''node response exceeded the configured size limit''"

fun read_chunks :: "bytes \<Rightarrow> bytes option list \<Rightarrow> bytes result" where
  "read_chunks acc [] = Inr acc"
| "read_chunks acc (None # cs) = Inl RpcTransport"
| "read_chunks acc (Some c # cs) =
     (if length acc + length c > MAX_RPC_RESPONSE_BYTES then Inl response_too_large
      else read_chunks (acc @ c) cs)"

text \<open>The body of an accepted reply.\<close>

definition read_body :: "http_response \<Rightarrow> bytes result" where
  "read_body r =
     rbind (guard (200 \<le> hr_status r \<and> hr_status r < 300)
              (InvalidNodeResponse (''node returned HTTP '' @ hr_status_text r))) (\<lambda>_.
     rbind (guard (\<not> (case hr_content_length r of None \<Rightarrow> False
                        | Some n \<Rightarrow> n > MAX_RPC_RESPONSE_BYTES)) response_too_large) (\<lambda>_.
     read_chunks [] (hr_chunks r)))"

text \<open>The result of an accepted envelope.\<close>

definition open_envelope :: "nat \<Rightarrow> 'a rpc_response \<Rightarrow> 'a result" where
  "open_envelope i env =
     rbind (ensure_json_rpc_version (rr_jsonrpc env)) (\<lambda>_.
     rbind (guard (\<not> rr_id env \<noteq> i)
              (InvalidNodeResponse ''JSON-RPC response ID did not match the request'')) (\<lambda>_.
     (case rr_error env of
        Some (code, message) \<Rightarrow> Inl (Rpc code message)
      | None \<Rightarrow> ok_or (rr_result env)
          (InvalidNodeResponse ''JSON-RPC response omitted result''))))"

definition exchange :: "node \<Rightarrow> (bytes \<Rightarrow> string + 'a rpc_response) \<Rightarrow> nat \<Rightarrow> string \<Rightarrow> json \<Rightarrow> 'a result" where
  "exchange N decode i rpc_method params =
     (let request = \<lparr>rq_jsonrpc = ''2.0'', rq_id = i, rq_method = rpc_method, rq_params = params\<rparr> in
      rbind (with_auth N i) (\<lambda>auth.
      rbind (ok_or (nd_http N request auth) RpcTransport) (\<lambda>response.
      rbind (read_body response) (\<lambda>body.
      rbind (map_err (\<lambda>error. InvalidNodeResponse (''invalid JSON-RPC response: '' @ error))
               (decode body)) (\<lambda>envelope.
      open_envelope i envelope)))))"

text \<open>\<open>call\<close>: the identifier is taken with \<open>fetch_add\<close> (wrapping) before anything else.\<close>

definition call :: "node \<Rightarrow> (bytes \<Rightarrow> string + 'a rpc_response) \<Rightarrow> string \<Rightarrow> json \<Rightarrow> (u64, 'a) io" where
  "call N decode rpc_method params next_id =
     (exchange N decode (unat next_id) rpc_method params, next_id + 1)"

section \<open>The typed methods\<close>

definition json_u64 :: "nat \<Rightarrow> json" where
  "json_u64 n = JNumber (PosInt n)"

definition blockchain_info :: "node \<Rightarrow> codec \<Rightarrow> (u64, blockchain_info) io" where
  "blockchain_info N C = call N (cd_info C) ''getblockchaininfo'' (JArray [])"

definition block_hash :: "node \<Rightarrow> codec \<Rightarrow> nat \<Rightarrow> (u64, string) io" where
  "block_hash N C height = call N (cd_string C) ''getblockhash'' (JArray [json_u64 height])"

definition block_verbose :: "node \<Rightarrow> codec \<Rightarrow> string \<Rightarrow> (u64, rpc_block \<times> json) io" where
  "block_verbose N C hash =
     io_bind (io_lift (validate_hash hash)) (\<lambda>_.
     io_bind (call N (cd_value C) ''getblock'' (JArray [JString hash, json_u64 2])) (\<lambda>v.
     io_bind (io_lift (map_err (\<lambda>error. InvalidNodeResponse (''invalid verbose block: '' @ error))
                (cd_block C v))) (\<lambda>block.
     io_return (block, v))))"

definition block_raw :: "crates \<Rightarrow> node \<Rightarrow> codec \<Rightarrow> string \<Rightarrow> (u64, bytes) io" where
  "block_raw X N C hash =
     io_bind (io_lift (validate_hash hash)) (\<lambda>_.
     io_bind (call N (cd_string C) ''getblock'' (JArray [JString hash, json_u64 0])) (\<lambda>encoded.
     io_lift (decode_hex_bounded X ''raw block'' encoded (MAX_RPC_RESPONSE_BYTES div 2))))"

definition aux_block_status :: "node \<Rightarrow> codec \<Rightarrow> string \<Rightarrow> string \<Rightarrow> (u64, aux_status) io" where
  "aux_block_status N C hash proof_hex =
     io_bind (io_lift (validate_hash hash)) (\<lambda>_.
     io_bind (io_lift (guard (\<not> (length proof_hex > 512 * 1024 \<or> odd (length proof_hex)))
                (InvalidRequest ''AuxPoW proof has an invalid encoded length''))) (\<lambda>_.
     call N (cd_aux_status C) ''getauxblockstatus'' (JArray [JString hash, JString proof_hex])))"

definition parent_block :: "node \<Rightarrow> codec \<Rightarrow> string \<Rightarrow> (u64, parent_block) io" where
  "parent_block N C hash =
     io_bind (io_lift (validate_hash hash)) (\<lambda>_.
     call N (cd_parent C) ''getblock'' (JArray [JString hash, json_u64 1]))"

definition validate_chain_identity :: "node \<Rightarrow> codec \<Rightarrow> string \<Rightarrow> string \<Rightarrow> (u64, unit) io" where
  "validate_chain_identity N C expected_chain expected_genesis =
     io_bind (blockchain_info N C) (\<lambda>info.
     io_bind (block_hash N C 0) (\<lambda>genesis.
     io_lift (guard (\<not> (bi_chain info \<noteq> expected_chain \<or> genesis \<noteq> expected_genesis))
       (Config (''RPC '' @ rc_label (nd_config N) @ '' chain identity mismatch: expected '' @
          expected_chain @ ''/'' @ expected_genesis @ '', received '' @ bi_chain info @ ''/'' @ genesis)))))"

section \<open>Properties\<close>

lemma read_chunks_Inr:
  "length acc \<le> MAX_RPC_RESPONSE_BYTES \<Longrightarrow>
   read_chunks acc cs = Inr body \<longleftrightarrow>
     (\<exists>xs. cs = map Some xs \<and> body = acc @ concat xs \<and> length body \<le> MAX_RPC_RESPONSE_BYTES)"
proof (induction acc cs rule: read_chunks.induct)
  case (1 acc)
  then show ?case by auto
next
  case (2 acc cs)
  then show ?case by (auto simp: Cons_eq_map_conv)
next
  case (3 acc c cs)
  show ?case
  proof (cases "length acc + length c > MAX_RPC_RESPONSE_BYTES")
    case True
    then show ?thesis by (auto simp: Cons_eq_map_conv)
  next
    case False
    then show ?thesis using 3 by (fastforce simp: Cons_eq_map_conv)
  qed
qed

lemma read_body_Inr:
  "read_body r = Inr body \<longleftrightarrow>
     200 \<le> hr_status r \<and> hr_status r < 300 \<and>
     (case hr_content_length r of None \<Rightarrow> True | Some n \<Rightarrow> n \<le> MAX_RPC_RESPONSE_BYTES) \<and>
     (\<exists>xs. hr_chunks r = map Some xs \<and> body = concat xs \<and> length body \<le> MAX_RPC_RESPONSE_BYTES)"
  by (auto simp: read_body_def read_chunks_Inr split: option.splits)

lemma open_envelope_Inr:
  "open_envelope i env = Inr x \<longleftrightarrow>
     rr_jsonrpc env = ''2.0'' \<and> rr_id env = i \<and> rr_error env = None \<and> rr_result env = Some x"
  by (auto simp: open_envelope_def ensure_json_rpc_version_def split: option.splits)

text \<open>C39. A call succeeds exactly when: its credentials could be read; the node answered with a 2xx
  status, a declared length (if any) within the limit and a body that was read completely and is
  itself within 32 MiB; and that body is a JSON-RPC 2.0 envelope with the identifier of this very
  request, no error and a result, which is the value returned.  Success or not, the client's
  counter advances by one.\<close>

theorem call_accepts_exactly:
  "call N decode rpc_method params n = (Inr x, n') \<longleftrightarrow>
     n' = n + 1 \<and>
     (\<exists>auth r xs env.
        with_auth N (unat n) = Inr auth \<and>
        nd_http N \<lparr>rq_jsonrpc = ''2.0'', rq_id = unat n, rq_method = rpc_method, rq_params = params\<rparr> auth = Some r \<and>
        200 \<le> hr_status r \<and> hr_status r < 300 \<and>
        (case hr_content_length r of None \<Rightarrow> True | Some l \<Rightarrow> l \<le> MAX_RPC_RESPONSE_BYTES) \<and>
        hr_chunks r = map Some xs \<and> length (concat xs) \<le> MAX_RPC_RESPONSE_BYTES \<and>
        decode (concat xs) = Inr env \<and>
        rr_jsonrpc env = ''2.0'' \<and> rr_id env = unat n \<and> rr_error env = None \<and>
        rr_result env = Some x)"
  by (auto simp: call_def exchange_def Let_def read_body_Inr open_envelope_Inr)

lemma decode_hex_bounded_Inr:
  "hex_crate_ok X \<Longrightarrow> decode_hex_bounded X l v m = Inr bs \<longleftrightarrow> hex_decode X v = Inr bs \<and> length bs \<le> m"
  by (auto simp: decode_hex_bounded_def dest: hex_decode_length)

end
