(* ===== verification/Auxpow.thy ===== *)
theory Auxpow imports Node_Rpc begin

unbundle bit_operations_syntax

text \<open>
  AuxPoW verification (\<open>src/auxpow.rs\<close>): the solution carried by a raw block is extracted and
  compared with the verbose one, its proof is decoded and validated by the pinned consensus
  library under the rules of the block's own height, the node is asked about the exact witness,
  and the configured parent nodes are observed.
\<close>

section \<open>The consensus library\<close>

text \<open>
  What the verifier uses of \<open>zebra_chain\<close> and \<open>wcash_zcash_aux\<close>.  \<open>cs_testnet_params\<close> is
  \<open>Some g\<close> for a network of the \<open>Network::Testnet\<close> variant with genesis text \<open>g\<close>;
  \<open>cs_height_ok\<close> is \<open>Height::try_from(u32).is_ok()\<close>; fallible functions answer with their
  error text.  \<open>cs_decode\<close> only accepts byte strings longer than the marker
  \<open>cs_proof_magic\<close>, so the version byte after it exists.
\<close>

record ('net, 'rules, 'proof, 'target, 'validated) consensus =
  cs_mainnet :: "string + 'net"
  cs_testnet :: 'net
  cs_testnet_params :: "'net \<Rightarrow> string option"
  cs_is_wcash_mainnet :: "'net \<Rightarrow> bool"
  cs_nu7_height :: "'net \<Rightarrow> nat option"
  cs_height_ok :: "nat \<Rightarrow> bool"
  cs_rules_for :: "nat \<Rightarrow> nat option \<Rightarrow> 'rules"
  cs_proof_magic :: bytes
  cs_parent_header_bytes :: nat
  cs_decode :: "bytes \<Rightarrow> string + 'proof"
  cs_target :: "bytes \<Rightarrow> string + 'target"
  cs_target_met :: "'target \<Rightarrow> bytes \<Rightarrow> bool"
  cs_validate :: "'proof \<Rightarrow> bytes \<Rightarrow> 'target \<Rightarrow> 'rules \<Rightarrow> string + 'validated"
  cs_coinbase_txid :: "'validated \<Rightarrow> bytes"
  cs_header :: "'proof \<Rightarrow> bytes"
  cs_header_hash :: "'proof \<Rightarrow> bytes"
  cs_header_n_bits :: "'proof \<Rightarrow> u32"
  cs_parent_branch_len :: "'proof \<Rightarrow> nat"
  cs_parent_coinbase_index :: "'proof \<Rightarrow> nat"
  cs_auth_branch_len :: "'proof \<Rightarrow> nat"
  cs_auth_coinbase_index :: "'proof \<Rightarrow> nat"
  cs_aux_branch_len :: "'proof \<Rightarrow> nat"
  cs_aux_index :: "'proof \<Rightarrow> nat"

definition WITNESS_HASH_DOMAIN :: bytes where
  "WITNESS_HASH_DOMAIN = string_bytes ''WcashExplorer/AuxPoW-witness/v1'' @ [0]"

definition VERIFIER_VERSION :: string where
  "VERIFIER_VERSION = ''wcash-zcash-aux@9ea02e480d1583dfb26ef2ad46ee3ee7e84d1f8a''"

definition SOLUTION_OFFSET :: nat where
  "SOLUTION_OFFSET = 140"

section \<open>Network profile and height policy\<close>

definition consensus_network ::
    "('net, 'r, 'p, 't, 'v) consensus \<Rightarrow> string \<Rightarrow> string \<Rightarrow> 'net result" where
  "consensus_network S network_id genesis_hash =
     rbind (if network_id = ''mainnet'' then map_err Config (cs_mainnet S)
            else if network_id = ''testnet'' then Inr (cs_testnet S)
            else Inl (Config (''unsupported Wcash verifier network: '' @ network_id))) (\<lambda>network.
     rbind (ok_or (cs_testnet_params S network)
              (Config ''Wcash verifier requires a built-in Wcash consensus profile'')) (\<lambda>genesis.
     rbind (guard (\<not> (cs_is_wcash_mainnet S network \<and> genesis \<noteq> genesis_hash))
              (Config (''Wcash verifier genesis does not match the built-in '' @ network_id @ '' profile'')))
       (\<lambda>_. Inr network)))"

definition parent_rules_at_height ::
    "('net, 'r, 'p, 't, 'v) consensus \<Rightarrow> 'net \<Rightarrow> nat \<Rightarrow> 'r result" where
  "parent_rules_at_height S network height =
     (case Option.bind (u32_try_from height) (\<lambda>h. if cs_height_ok S h then Some h else None) of
        None \<Rightarrow> Inl (InvalidAuxPow ''Wcash block height is out of range'')
      | Some h \<Rightarrow> Inr (cs_rules_for S h (cs_nu7_height S network)))"

section \<open>The solution inside a raw block\<close>

definition truncated_size :: explorer_error where
  "truncated_size = InvalidNodeResponse ''truncated compact solution length''"

definition non_canonical_size :: explorer_error where
  "non_canonical_size = InvalidNodeResponse ''non-canonical compact solution length''"

definition decode_compact_size :: "bytes \<Rightarrow> (nat \<times> nat) result" where
  "decode_compact_size bs =
     (case bs of [] \<Rightarrow> Inl (InvalidNodeResponse ''raw block omitted its solution length'')
      | marker # _ \<Rightarrow>
          if marker \<le> 0xfc then Inr (unat marker, 1)
          else if marker = 0xfd then
            (case get_range bs 1 3 of None \<Rightarrow> Inl truncated_size
             | Some encoded \<Rightarrow> let v = le_value encoded in
                 if v < 0xfd then Inl non_canonical_size else Inr (v, 3))
          else if marker = 0xfe then
            (case get_range bs 1 5 of None \<Rightarrow> Inl truncated_size
             | Some encoded \<Rightarrow> let v = le_value encoded in
                 if v < 2 ^ 16 then Inl non_canonical_size else Inr (v, 5))
          else
            (case get_range bs 1 9 of None \<Rightarrow> Inl truncated_size
             | Some encoded \<Rightarrow> let v = le_value encoded in
                 if v < 2 ^ 32 then Inl non_canonical_size else Inr (v, 9)))"

text \<open>On a 64-bit target \<open>usize::try_from(u64)\<close> cannot fail, and the bound on the length keeps
  \<open>start + length\<close> far from overflow.\<close>

definition solution_from_raw_block :: "bytes \<Rightarrow> bytes result" where
  "solution_from_raw_block raw_block =
     rbind (ok_or (get_from raw_block SOLUTION_OFFSET)
              (InvalidNodeResponse ''raw block is shorter than its fixed header'')) (\<lambda>prefix.
     rbind (decode_compact_size prefix) (\<lambda>(len, encoded_length).
     rbind (guard (\<not> len > 256 * 1024)
              (InvalidNodeResponse ''raw block solution exceeded its size bound'')) (\<lambda>_.
     let start = SOLUTION_OFFSET + encoded_length in
     ok_or (get_range raw_block start (start + len))
       (InvalidNodeResponse ''raw block solution is truncated''))))"

section \<open>Hashes and targets\<close>

definition parse_display_hash :: "crates \<Rightarrow> string \<Rightarrow> bytes result" where
  "parse_display_hash X v =
     rbind (map_err (\<lambda>error. InvalidAuxPow (''invalid Wcash block hash: '' @ error))
              (hex_decode_to_slice X 32 v)) (\<lambda>bs. Inr (rev bs))"

definition display_hash :: "crates \<Rightarrow> bytes \<Rightarrow> string" where
  "display_hash X raw = hex_encode X (rev raw)"

definition block_witness_hash :: "crates \<Rightarrow> bytes \<Rightarrow> string" where
  "block_witness_hash X raw_block = hex_encode X (sha256 X (WITNESS_HASH_DOMAIN @ raw_block))"

text \<open>The 32 little-endian bytes of a compact difficulty.\<close>

definition target_bytes :: "u32 \<Rightarrow> bytes result" where
  "target_bytes compact =
     (let sz = unat (drop_bit 24 compact); mantissa = compact AND 0x007fffff in
      if mantissa = 0 \<or> compact AND 0x00800000 \<noteq> 0
      then Inl (InvalidAuxPow ''difficulty target is zero or negative'')
      else if sz \<le> 3 then Inr (le_bytes 4 (unat (drop_bit (8 * (3 - sz)) mantissa)) @ replicate 28 0)
      else let offset = sz - 3 in
        if offset + 3 > 32 then Inl (InvalidAuxPow ''difficulty target overflows 256 bits'')
        else Inr (replicate offset 0 @ take 3 (le_bytes 4 (unat mantissa)) @
                  replicate (32 - offset - 3) 0))"

definition compact_target :: "('net, 'r, 'p, 't, 'v) consensus \<Rightarrow> string \<Rightarrow> 't result" where
  "compact_target S bits =
     (if \<not> is_hex_of_length 8 bits
      then Inl (InvalidAuxPow ''difficulty bits must be exactly four hexadecimal bytes'')
      else rbind (target_bytes (word_of_nat (hex_value bits))) (\<lambda>target.
             map_err InvalidAuxPow (cs_target S target)))"

definition decode_hex_aux :: "crates \<Rightarrow> string \<Rightarrow> string \<Rightarrow> nat \<Rightarrow> bytes result" where
  "decode_hex_aux X label v maximum_bytes =
     (if odd (length v) \<or> length v div 2 > maximum_bytes
      then Inl (InvalidAuxPow (label @ '' has an invalid encoded length''))
      else map_err (\<lambda>error. InvalidAuxPow (label @ '' is not hex: '' @ error)) (hex_decode X v))"

section \<open>Parent observations\<close>

definition observe_parent ::
    "crates \<Rightarrow> codec \<Rightarrow> ('net, 'r, 'p, 't, 'v) consensus \<Rightarrow> node \<Rightarrow> string \<Rightarrow> bytes \<Rightarrow> datetime \<Rightarrow>
     u64 \<Rightarrow> parent_observation \<times> u64" where
  "observe_parent X C S N hash embedded_header checked_at s =
     (let source = rc_label (nd_config N);
          (res, t) = try_join2 (nd_race N (unat s)) (parent_block N C hash) (block_raw X N C hash) s in
      (case res of
         Inr (block, raw) \<Rightarrow>
           let header_matches = (get_range raw 0 (cs_parent_header_bytes S) = Some embedded_header);
               state = (if \<not> header_matches then Disagreement
                        else if pb_confirmations block < 0 then Orphaned else Canonical) in
           \<lparr>po_source = source, po_state = state, po_block = Some block,
            po_embedded_header_matches = Some header_matches, po_checked_at = checked_at\<rparr>
       | Inl (Rpc code _) \<Rightarrow>
           \<lparr>po_source = source,
            po_state = (if code = -5 \<or> code = -8 then NotFoundState else Unavailable),
            po_block = None, po_embedded_header_matches = None, po_checked_at = checked_at\<rparr>
       | Inl _ \<Rightarrow>
           \<lparr>po_source = source, po_state = Unavailable, po_block = None,
            po_embedded_header_matches = None, po_checked_at = checked_at\<rparr>, t))"

text \<open>\<open>join_all\<close> over the configured parents, each with its own client.\<close>

fun observe_parents ::
    "crates \<Rightarrow> codec \<Rightarrow> ('net, 'r, 'p, 't, 'v) consensus \<Rightarrow> string \<Rightarrow> bytes \<Rightarrow> (nat \<Rightarrow> datetime) \<Rightarrow> nat \<Rightarrow>
     node list \<Rightarrow> u64 list \<Rightarrow> parent_observation list \<times> u64 list" where
  "observe_parents X C S hash header clock k (N # Ns) (s # ss) =
     (let (ob, t) = observe_parent X C S N hash header (clock k) s;
          (obs, ts) = observe_parents X C S hash header clock (Suc k) Ns ss in (ob # obs, t # ts))"
| "observe_parents X C S hash header clock k _ ss = ([], ss)"

definition classify_observations :: "parent_observation list \<Rightarrow> parent_lookup_state \<times> bool" where
  "classify_observations obs =
     (case obs of [] \<Rightarrow> (NotConfigured, False)
      | ob # _ \<Rightarrow>
          let first = po_state ob;
              sources_agree = (length obs \<ge> 2 \<and> list_all (\<lambda>x. po_state x = first) obs);
              has = (\<lambda>st. list_ex (\<lambda>x. po_state x = st) obs);
              classified =
                (if has Disagreement \<or> (has Canonical \<and> (has NotFoundState \<or> has Orphaned))
                 then Disagreement
                 else if has Canonical then Canonical
                 else if has Orphaned then Orphaned
                 else if has NotFoundState then NotFoundState
                 else Unavailable)
          in (classified, sources_agree))"

section \<open>The verifier\<close>

record 'net verifier =
  av_wcash :: node
  av_parents :: "node list"
  av_network :: 'net

definition new_verifier ::
    "('net, 'r, 'p, 't, 'v) consensus \<Rightarrow> node \<Rightarrow> node list \<Rightarrow> string \<Rightarrow> string \<Rightarrow> 'net verifier result" where
  "new_verifier S wcash parents network_id genesis_hash =
     rbind (consensus_network S network_id genesis_hash) (\<lambda>network.
     Inr \<lparr>av_wcash = wcash, av_parents = parents, av_network = network\<rparr>)"

text \<open>The part of \<open>verify\<close> that needs no node: \<open>None\<close> for native genesis work, else the proof
  bytes, the proof and the validator's answer.\<close>

definition validate_locally ::
    "crates \<Rightarrow> ('net, 'r, 'p, 't, 'v) consensus \<Rightarrow> 'net \<Rightarrow> rpc_block \<Rightarrow> bytes \<Rightarrow>
     (bytes \<times> 'p \<times> 'v) option result" where
  "validate_locally X S network block raw_block =
     rbind (parent_rules_at_height S network (rb_height block)) (\<lambda>parent_rules.
     rbind (decode_hex_aux X ''Wcash solution'' (rb_solution block) (256 * 1024)) (\<lambda>proof_bytes.
     rbind (solution_from_raw_block raw_block) (\<lambda>raw_solution.
     rbind (guard (\<not> raw_solution \<noteq> proof_bytes)
              (InvalidAuxPow ''raw block witness does not match the verbose block solution'')) (\<lambda>_.
     if take (length (cs_proof_magic S)) proof_bytes \<noteq> cs_proof_magic S
     then (if rb_height block = 0 then Inr None
           else Inl (InvalidAuxPow ''a non-genesis Wcash block did not carry the WCAZ proof marker''))
     else
       rbind (map_err InvalidAuxPow (cs_decode S proof_bytes)) (\<lambda>proof.
       rbind (parse_display_hash X (rb_hash block)) (\<lambda>child_hash.
       rbind (compact_target S (rb_bits block)) (\<lambda>required_target.
       rbind (map_err InvalidAuxPow (cs_validate S proof child_hash required_target parent_rules)) (\<lambda>validated.
       Inr (Some (proof_bytes, proof, validated))))))))))"

definition verify ::
    "crates \<Rightarrow> codec \<Rightarrow> ('net, 'r, 'p, 't, 'v) consensus \<Rightarrow> 'net verifier \<Rightarrow> (nat \<Rightarrow> datetime) \<Rightarrow>
     rpc_block \<Rightarrow> bytes \<Rightarrow> (u64 \<times> u64 list, verified_auxpow option) io" where
  "verify X C S V clock block raw_block =
     io_bind (io_lift (validate_locally X S (av_network V) block raw_block)) (\<lambda>local.
     case local of None \<Rightarrow> io_return None
     | Some (proof_bytes, proof, validated) \<Rightarrow>
       let parent_block_hash = display_hash X (cs_header_hash S proof);
           parent_coinbase_txid = display_hash X (cs_coinbase_txid S validated);
           parent_header_bits = hex_fixed 8 (unat (cs_header_n_bits S proof));
           meets = (case compact_target S parent_header_bits of
                      Inr target \<Rightarrow> cs_target_met S target (cs_header_hash S proof)
                    | Inl _ \<Rightarrow> False);
           witness = block_witness_hash X raw_block in
       io_bind (io_zoom fst (\<lambda>w (_, ps). (w, ps))
                  (aux_block_status (av_wcash V) C (rb_hash block) (rb_solution block))) (\<lambda>exact_status.
       io_bind (io_lift (guard (case exact_status of BestChain _ \<Rightarrow> True | _ \<Rightarrow> False)
                  (InvalidAuxPow (''Wcash rejected the exact witness as canonical: '' @
                     aux_state exact_status)))) (\<lambda>_ (w, ps).
       let (observations, ps') =
             observe_parents X C S parent_block_hash (cs_header S proof) clock 0 (av_parents V) ps;
           (lookup_state, sources_agree) = classify_observations observations in
       (Inr (Some \<lparr>va_witness_hash = witness,
          va_proof_version = unat (proof_bytes ! length (cs_proof_magic S)),
          va_proof_size = length proof_bytes,
          va_parent_block_hash = parent_block_hash,
          va_parent_header_bits = parent_header_bits,
          va_parent_hash_meets_claimed_target = meets,
          va_parent_coinbase_txid = parent_coinbase_txid,
          va_parent_merkle_depth = cs_parent_branch_len S proof,
          va_parent_coinbase_index = cs_parent_coinbase_index S proof,
          va_auth_data_merkle_depth = cs_auth_branch_len S proof,
          va_auth_data_coinbase_index = cs_auth_coinbase_index S proof,
          va_auxiliary_merkle_depth = cs_aux_branch_len S proof,
          va_auxiliary_index = cs_aux_index S proof,
          va_verification_state = ''auxpow_verified'',
          va_verifier_version = VERIFIER_VERSION,
          va_exact_witness_state = aux_state exact_status,
          va_witness_confirmations = aux_confirmations exact_status,
          va_parent_observations = observations,
          va_parent_lookup_state = lookup_state,
          va_parent_sources_agree = sources_agree\<rparr>), (w, ps')))))"

section \<open>Compact sizes and the embedded solution\<close>

text \<open>The canonical \<open>CompactSize\<close> encoding, as the reference for the decoder.\<close>

definition encode_compact_size :: "nat \<Rightarrow> bytes" where
  "encode_compact_size n =
     (if n < 0xfd then [word_of_nat n]
      else if n < 2 ^ 16 then 0xfd # le_bytes 2 n
      else if n < 2 ^ 32 then 0xfe # le_bytes 4 n
      else 0xff # le_bytes 8 n)"

lemma get_range_Cons [simp]:
  "get_range (m # rest) 1 (Suc k) = (if k \<le> length rest then Some (take k rest) else None)"
  by (auto simp: get_range_def)

lemma take_le_bytes:
  "(\<exists>rest. bs = le_bytes k n @ rest) \<and> n < 256 ^ k \<longleftrightarrow> le_value (take k bs) = n"
  if "k \<le> length bs"
proof
  assume "(\<exists>rest. bs = le_bytes k n @ rest) \<and> n < 256 ^ k"
  then show "le_value (take k bs) = n" by (auto simp: le_value_le_bytes)
next
  assume v: "le_value (take k bs) = n"
  have "le_bytes k n = take k bs" using le_bytes_le_value[of "take k bs"] that v by simp
  then have "bs = le_bytes k n @ drop k bs" by simp
  moreover have "n < 256 ^ k" using le_value_bound[of "take k bs"] that v by simp
  ultimately show "(\<exists>rest. bs = le_bytes k n @ rest) \<and> n < 256 ^ k" by blast
qed

lemma marker_cases:
  fixes m :: u8
  shows "m \<le> 0xfc \<and> unat m \<le> 252 \<or> m = 0xfd \<or> m = 0xfe \<or> m = 0xff"
proof -
  have "unat m < 256" by (rule unat_u8_bound)
  then consider "unat m \<le> 252" | "unat m = 253" | "unat m = 254" | "unat m = 255" by linarith
  then show ?thesis by cases (auto simp: word_le_nat_alt word_unat_eq_iff)
qed

lemma decode_compact_wide:
  assumes "m \<in> {0xfd, 0xfe, 0xff}"
    and "w = (if m = 0xfd then 2 else if m = 0xfe then 4 else 8)"
    and "l = (if m = 0xfd then 0xfd else if m = 0xfe then 2 ^ 16 else 2 ^ 32)"
  shows "decode_compact_size (m # bs) =
     (if length bs < w then Inl truncated_size
      else if le_value (take w bs) < l then Inl non_canonical_size
      else Inr (le_value (take w bs), Suc w))"
proof -
  have n: "\<not> (0xfd :: u8) \<le> 0xfc" "\<not> (0xfe :: u8) \<le> 0xfc" "\<not> (0xff :: u8) \<le> 0xfc"
    "(0xfe :: u8) \<noteq> 0xfd" "(0xff :: u8) \<noteq> 0xfd" "(0xff :: u8) \<noteq> 0xfe"
    by (simp_all add: word_le_nat_alt)
  have "get_range (m # bs) 1 3 = (if 2 \<le> length bs then Some (take 2 bs) else None)"
    "get_range (m # bs) 1 5 = (if 4 \<le> length bs then Some (take 4 bs) else None)"
    "get_range (m # bs) 1 9 = (if 8 \<le> length bs then Some (take 8 bs) else None)"
    using get_range_Cons[of m bs 2] get_range_Cons[of m bs 4] get_range_Cons[of m bs 8]
    by (simp_all add: numeral_eq_Suc)
  then show ?thesis using assms n
    by (elim insertE emptyE) (simp_all add: decode_compact_size_def Let_def not_less)
qed


lemma encode_wide_iff:
  assumes "w \<le> length bs"
  shows "(le_value (take w bs) = n \<and> l \<le> n) \<longleftrightarrow> (\<exists>rest. bs = le_bytes w n @ rest) \<and> n < 256 ^ w \<and> l \<le> n"
  using take_le_bytes[OF assms, of n] by blast

text \<open>C37. The compact-size decoder accepts exactly the canonical encodings of 64-bit numbers: it
  answers \<open>(n, k)\<close> if and only if the bytes begin with the shortest encoding of \<open>n\<close>, which is
  \<open>k\<close> bytes long.\<close>

theorem decode_compact_size_canonical:
  "decode_compact_size bs = Inr (n, k) \<longleftrightarrow>
     n < 2 ^ 64 \<and> k = length (encode_compact_size n) \<and>
     (\<exists>rest. bs = encode_compact_size n @ rest)"
proof (cases bs)
  case Nil
  then show ?thesis by (simp add: decode_compact_size_def encode_compact_size_def)
next
  case (Cons m r)
  have ne: "(0xfd :: u8) \<noteq> 0xfe" "(0xfd :: u8) \<noteq> 0xff" "(0xfe :: u8) \<noteq> 0xff" by simp_all
  have one: "(word_of_nat n :: u8) \<noteq> 0xfd" "(word_of_nat n :: u8) \<noteq> 0xfe" "(word_of_nat n :: u8) \<noteq> 0xff"
    "unat (word_of_nat n :: u8) = n" if "n < 253"
    using that by (auto simp: word_unat_eq_iff unat_of_nat)
  from marker_cases[of m] consider (small) "m \<le> 0xfc" "unat m < 253"
    | (wide) "m \<in> {0xfd, 0xfe, 0xff}" by fastforce
  then show ?thesis
  proof cases
    case small
    then have "m \<notin> {0xfd, 0xfe, 0xff}" by (auto simp: word_le_nat_alt)
    moreover have "word_of_nat (unat m) = m" by simp
    ultimately show ?thesis using small Cons one
      by (auto simp: decode_compact_size_def encode_compact_size_def)
  next
    case wide
    define w :: nat where "w = (if m = 0xfd then 2 else if m = 0xfe then 4 else 8)"
    define l :: nat where "l = (if m = 0xfd then 0xfd else if m = 0xfe then 2 ^ 16 else 2 ^ 32)"
    have "encode_compact_size n = m # le_bytes w n \<longleftrightarrow> n < 256 ^ w \<and> l \<le> n \<or> w = 8 \<and> 2 ^ 64 \<le> n"
      using wide ne one by (auto simp: encode_compact_size_def w_def l_def)
    moreover have "(\<exists>rest. bs = encode_compact_size n @ rest) \<longleftrightarrow>
        encode_compact_size n = m # le_bytes w n \<and> (\<exists>rest. r = le_bytes w n @ rest)" if "n < 2 ^ 64"
      using wide ne one Cons by (auto simp: encode_compact_size_def w_def)
    moreover have "256 ^ w \<le> (2 :: nat) ^ 64" by (auto simp: w_def)
    moreover have "decode_compact_size bs = Inr (n, k) \<longleftrightarrow>
        w \<le> length r \<and> le_value (take w r) = n \<and> l \<le> n \<and> k = Suc w"
      using decode_compact_wide[OF wide w_def l_def, of r] Cons by auto
    moreover have "w \<le> length r" if "r = le_bytes w n @ rest" for rest using that by simp
    ultimately show ?thesis
      using encode_wide_iff[of w r n l] by (cases "n < 2 ^ 64") fastforce+
  qed
qed


lemma encode_compact_size_nonempty [simp]: "encode_compact_size n \<noteq> []"
  by (simp add: encode_compact_size_def)

text \<open>C36. The solution is cut out of a raw block exactly: extraction succeeds with \<open>sol\<close> if and only
  if the block is a 140-byte header, the canonical length of \<open>sol\<close>, \<open>sol\<close> itself and a rest,
  and \<open>sol\<close> is at most 256 KiB.\<close>

theorem solution_from_raw_block_exact:
  "solution_from_raw_block raw = Inr sol \<longleftrightarrow>
     length sol \<le> 256 * 1024 \<and>
     (\<exists>header rest. length header = 140 \<and>
        raw = header @ encode_compact_size (length sol) @ sol @ rest)"
  (is "?L \<longleftrightarrow> ?R")
proof
  assume ?L
  then obtain n k where d: "decode_compact_size (drop 140 raw) = Inr (n, k)" and le: "140 \<le> length raw"
    and n: "n \<le> 256 * 1024" and r: "140 + k + n \<le> length raw" and sol: "sol = take n (drop (140 + k) raw)"
    by (auto simp: solution_from_raw_block_def SOLUTION_OFFSET_def Let_def split: prod.splits)
  from d[unfolded decode_compact_size_canonical] obtain rest where
    k: "k = length (encode_compact_size n)" and rest: "drop 140 raw = encode_compact_size n @ rest" by blast
  have "drop (140 + k) raw = rest" using rest k by (simp flip: drop_drop add: add.commute)
  moreover from this have "n \<le> length rest" using r by auto
  ultimately have "length sol = n" "rest = sol @ drop n rest" using sol by auto
  moreover have "raw = take 140 raw @ encode_compact_size n @ rest" using rest by (metis append_take_drop_id)
  moreover have "length (take 140 raw) = 140" using le by simp
  ultimately show ?R using n by metis
next
  assume ?R
  then obtain header rest where h: "length header = 140" and n: "length sol \<le> 256 * 1024"
    and raw: "raw = header @ encode_compact_size (length sol) @ sol @ rest" by blast
  define e where "e = encode_compact_size (length sol)"
  have "decode_compact_size (e @ sol @ rest) = Inr (length sol, length e)"
    unfolding decode_compact_size_canonical e_def using n by auto
  moreover have "get_from raw 140 = Some (e @ sol @ rest)" using h by (simp add: raw e_def)
  moreover have "get_range raw (140 + length e) (140 + length e + length sol) = Some sol"
    using get_range_append[of "header @ e" sol rest] h by (simp add: raw e_def)
  moreover have "\<not> length sol > 256 * 1024" using n by simp
  ultimately show ?L
    by (simp only: solution_from_raw_block_def SOLUTION_OFFSET_def Let_def ok_or_eval rbind_simps
        prod.case guard_eval not_True_eq_False not_False_eq_True)
qed

section \<open>Difficulty targets\<close>

lemma take_le_bytes_min: "take j (le_bytes k n) = le_bytes (min j k) n"
proof (induction k arbitrary: j n)
  case (Suc k)
  then show ?case by (cases j) simp_all
qed simp

lemma le_value_target: "m < 2 ^ 24 \<Longrightarrow> le_value (take 3 (le_bytes 4 m)) = m"
  by (simp add: take_le_bytes_min le_value_le_bytes)

lemma unat_drop_bit_div: "unat (drop_bit n w) = unat w div 2 ^ n"
  unfolding unat_drop_bit_eq by (rule drop_bit_eq_div)

lemma compact_parts:
  fixes c :: u32
  shows "unat (drop_bit 24 c) = unat c div 2 ^ 24"
    and "unat (c AND 0x007fffff) = unat c mod 2 ^ 23"
    and "c AND 0x00800000 \<noteq> 0 \<longleftrightarrow> odd (unat c div 2 ^ 23)"
proof -
  show "unat (drop_bit 24 c) = unat c div 2 ^ 24"
    by (rule unat_drop_bit_div)
  have "(0x007fffff :: u32) = mask 23" by (simp add: mask_eq_exp_minus_1)
  then show "unat (c AND 0x007fffff) = unat c mod 2 ^ 23"
    by (simp only: flip: take_bit_eq_mask) (simp only: unsigned_take_bit_eq, rule take_bit_eq_mod)
  have "(0x00800000 :: u32) = push_bit 23 1" by simp
  then have "c AND 0x00800000 \<noteq> 0 \<longleftrightarrow> bit c 23" 
    by (metis bit_iff_and_push_bit_not_eq_0)
  also have "\<dots> \<longleftrightarrow> bit (unat c) 23" by (simp add: bit_unsigned_iff)
  also have "\<dots> \<longleftrightarrow> odd (unat c div 2 ^ 23)" by (simp add: bit_iff_odd)
  finally show "c AND 0x00800000 \<noteq> 0 \<longleftrightarrow> odd (unat c div 2 ^ 23)" .
qed


lemma exp3: "(256 :: nat) ^ 3 = 2 ^ 24"
  by simp

lemma target_value_small:
  assumes "sz \<le> 3"
  shows "m div 256 ^ (3 - sz) = m * 256 ^ sz div (256 :: nat) ^ 3"
proof -
  have "(256 :: nat) ^ 3 = 256 ^ (3 - sz) * 256 ^ sz" using assms by (simp flip: power_add)
  then have "m * 256 ^ sz div 256 ^ 3 = m * 256 ^ sz div (256 ^ (3 - sz) * 256 ^ sz)" by (rule arg_cong)
  also have "\<dots> = m div 256 ^ (3 - sz)" by (rule div_mult_mult2) simp
  finally show ?thesis ..
qed

lemma target_value_large:
  assumes "\<not> sz \<le> 3"
  shows "256 ^ (sz - 3) * m = m * 256 ^ sz div (256 :: nat) ^ 3"
proof -
  have "sz = (sz - 3) + 3" using assms by simp
  then have "(256 :: nat) ^ sz = 256 ^ (sz - 3) * 256 ^ 3" by (metis power_add)
  then have "m * 256 ^ sz div 256 ^ 3 = m * (256 ^ (sz - 3) * 256 ^ 3) div 256 ^ 3" by (rule arg_cong)
  also have "\<dots> = m * 256 ^ (sz - 3)"
    using nonzero_mult_div_cancel_right[of "(256::nat) ^ 3" "m * 256 ^ (sz - 3)"] by (simp only: mult.assoc power_not_zero) simp
  finally show ?thesis by (simp only: mult.commute)
qed

lemma le_value_inj: "length xs = length ys \<Longrightarrow> le_value xs = le_value ys \<longleftrightarrow> xs = ys"
  by (metis le_bytes_le_value)

lemma target_bytes_value:
  assumes "target_bytes c = Inr t"
  shows "length t = 32 \<and>
     le_value t = (unat c mod 2 ^ 23) * 256 ^ (unat c div 2 ^ 24) div 256 ^ 3"
proof -
  define sz where "sz = unat (drop_bit 24 c)"
  define m where "m = c AND 0x007fffff"
  have um: "unat m = unat c mod 2 ^ 23" unfolding m_def by (rule compact_parts(2))
  then have lt: "unat m < 2 ^ 23" by simp
  have usz: "sz = unat c div 2 ^ 24" unfolding sz_def by (rule compact_parts(1))
  show ?thesis
  proof (cases "sz \<le> 3")
    case True
    have t: "t = le_bytes 4 (unat (drop_bit (8 * (3 - sz)) m)) @ replicate 28 0"
      using assms True by (simp only: target_bytes_def Let_def flip: sz_def m_def)
        (simp split: if_splits)
    have "unat (drop_bit (8 * (3 - sz)) m) = unat m div 256 ^ (3 - sz)"
      by (simp only: unat_drop_bit_div power_mult) simp
    then have "le_value t = unat m div 256 ^ (3 - sz) mod 256 ^ 4"
      by (simp only: t le_value_append le_value_zeros le_value_le_bytes mult_0_right add_0_right)
    moreover have "unat m div 256 ^ (3 - sz) \<le> unat m" by (rule div_le_dividend)
    moreover have "unat m < 256 ^ 4" using lt by simp
    ultimately have "le_value t = unat m div 256 ^ (3 - sz)" by (metis mod_less le_less_trans)
    then show ?thesis unfolding um usz[symmetric] using target_value_small[OF True] um t by simp
  next
    case False
    have t: "t = replicate (sz - 3) 0 @ take 3 (le_bytes 4 (unat m)) @ replicate (32 - (sz - 3) - 3) 0"
      and fits: "sz - 3 + 3 \<le> 32"
      using assms False by (simp_all only: target_bytes_def Let_def flip: sz_def m_def)
        (simp_all split: if_splits)
    have "unat m < 2 ^ 24" using lt by simp
    then have "le_value t = 256 ^ (sz - 3) * unat m"
      by (simp only: t le_value_append le_value_zeros le_value_target length_replicate) simp
    then show ?thesis unfolding um usz[symmetric] using target_value_large[OF False] um t fits by simp
  qed
qed


lemma target_bytes_ok:
  "is_ok (target_bytes c) \<longleftrightarrow>
     unat c mod 2 ^ 23 \<noteq> 0 \<and> even (unat c div 2 ^ 23) \<and> unat c div 2 ^ 24 \<le> 32"
proof -
  have z: "c AND 0x007fffff = 0 \<longleftrightarrow> unat c mod 2 ^ 23 = 0"
    using compact_parts(2)[of c] unat_eq_0 by metis
  have fits: "sz - 3 + 3 > 32 \<longleftrightarrow> \<not> sz \<le> 32" if "\<not> sz \<le> 3" for sz :: nat using that by arith
  show ?thesis
    unfolding target_bytes_def Let_def compact_parts(1) z compact_parts(3) is_ok_def
    using fits[of "unat c div 2 ^ 24"] by simp
qed

lemma target_bytes_exact:
  "target_bytes c = Inr t \<longleftrightarrow>
     unat c mod 2 ^ 23 \<noteq> 0 \<and> even (unat c div 2 ^ 23) \<and> unat c div 2 ^ 24 \<le> 32 \<and>
     length t = 32 \<and> le_value t = (unat c mod 2 ^ 23) * 256 ^ (unat c div 2 ^ 24) div 256 ^ 3"
  (is "?L \<longleftrightarrow> ?R")
proof
  assume ?L
  then show ?R using target_bytes_value[of c t] target_bytes_ok[of c] by (simp add: is_ok_iff)
next
  assume r: ?R
  then obtain t' where "target_bytes c = Inr t'" using target_bytes_ok[of c] by (auto simp: is_ok_iff)
  with target_bytes_value[of c t'] r le_value_inj[of t t'] show ?L by simp
qed

text \<open>C38. A difficulty text is accepted exactly when it is eight hexadecimal digits, its mantissa is
  neither zero nor negative, its exponent is at most 32 and the consensus library accepts the
  32-byte little-endian number \<open>mantissa * 256 ^ exponent div 256 ^ 3\<close>: no high byte is lost and
  no accepted difficulty denotes another target.\<close>

theorem compact_target_exact:
  "compact_target S bits = Inr target \<longleftrightarrow>
     is_hex_of_length 8 bits \<and>
     (let mantissa = hex_value bits mod 2 ^ 23; exponent = hex_value bits div 2 ^ 24 in
      mantissa \<noteq> 0 \<and> even (hex_value bits div 2 ^ 23) \<and> exponent \<le> 32 \<and>
      (\<exists>t. length t = 32 \<and> le_value t = mantissa * 256 ^ exponent div 256 ^ 3 \<and>
           cs_target S t = Inr target))"
proof (cases "is_hex_of_length 8 bits")
  case True
  then have "hex_value bits < 16 ^ 8" using hex_value_bound[of bits] by (simp add: is_hex_of_length_def)
  then have u: "unat (word_of_nat (hex_value bits) :: u32) = hex_value bits"
    by (simp add: unat_of_nat)
  have "compact_target S bits = Inr target \<longleftrightarrow>
      (\<exists>t. target_bytes (word_of_nat (hex_value bits)) = Inr t \<and> cs_target S t = Inr target)"
    using True by (simp add: compact_target_def)
  then show ?thesis unfolding target_bytes_exact u Let_def using True by blast
qed (simp add: compact_target_def)

section \<open>Parent observations\<close>

text \<open>The parent's joint answer to the two concurrent requests for the block.\<close>

definition parent_answer ::
    "crates \<Rightarrow> codec \<Rightarrow> node \<Rightarrow> string \<Rightarrow> u64 \<Rightarrow> (parent_block \<times> bytes) result" where
  "parent_answer X C N hash s =
     fst (try_join2 (nd_race N (unat s)) (parent_block N C hash) (block_raw X N C hash) s)"

definition carries_header :: "('net, 'r, 'p, 't, 'v) consensus \<Rightarrow> bytes \<Rightarrow> bytes \<Rightarrow> bool" where
  "carries_header S raw header \<longleftrightarrow> get_range raw 0 (cs_parent_header_bytes S) = Some header"

lemma observe_parent_state:
  "po_state (fst (observe_parent X C S N hash header now s)) =
     (case parent_answer X C N hash s of
        Inr (b, raw) \<Rightarrow> if \<not> carries_header S raw header then Disagreement
                        else if pb_confirmations b < 0 then Orphaned else Canonical
      | Inl (Rpc code m) \<Rightarrow> if code = -5 \<or> code = -8 then NotFoundState else Unavailable
      | Inl e \<Rightarrow> Unavailable)"
  by (auto simp: observe_parent_def parent_answer_def carries_header_def Let_def
      simp del: get_range_Some split: prod.splits sum.splits explorer_error.splits)

text \<open>What a parent observation claims is what the parent node said: a block is reported
  canonical or orphaned only if the node served both forms of it, the raw form begins with the
  header embedded in the proof, and the sign of its confirmations says which; it is reported
  absent only on the node's own \<open>not found\<close> answers (-5 and -8); and every transport failure or
  malformed answer is reported as unavailable, never as evidence.\<close>

theorem observe_parent_honest:
  "(case po_state (fst (observe_parent X C S N hash header now s)) of
      Canonical \<Rightarrow> \<exists>b raw. parent_answer X C N hash s = Inr (b, raw) \<and>
        carries_header S raw header \<and> 0 \<le> pb_confirmations b
    | Orphaned \<Rightarrow> \<exists>b raw. parent_answer X C N hash s = Inr (b, raw) \<and>
        carries_header S raw header \<and> pb_confirmations b < 0
    | Disagreement \<Rightarrow> \<exists>b raw. parent_answer X C N hash s = Inr (b, raw) \<and>
        \<not> carries_header S raw header
    | NotFoundState \<Rightarrow> \<exists>code m. parent_answer X C N hash s = Inl (Rpc code m) \<and> code \<in> {-5, -8}
    | Unavailable \<Rightarrow> \<exists>e. parent_answer X C N hash s = Inl e \<and> e \<notin> (\<Union>m. {Rpc (-5) m, Rpc (-8) m})
    | NotConfigured \<Rightarrow> False)"
  unfolding observe_parent_state
  by (cases "parent_answer X C N hash s") (auto split: explorer_error.splits)

section \<open>Classification\<close>

definition states :: "parent_observation list \<Rightarrow> parent_lookup_state set" where
  "states obs = po_state ` set obs"

lemma list_ex_state [simp]: "list_ex (\<lambda>x. po_state x = st) obs \<longleftrightarrow> st \<in> states obs"
  by (auto simp: list_ex_iff states_def)

text \<open>C35. Conflicts between parents are never hidden.  The classification depends only on which
  states were observed: it is canonical exactly when some parent has the block as canonical and
  none contradicts it, \<open>unavailable\<close> only when no parent gave an answer, and a disagreement
  exactly when one served another header or one's canonical block is another's orphan or unknown.
  The sources agree exactly when there are at least two and all report the same state, and then
  that state is the classification.\<close>

theorem classify_observations_sound:
  "(fst (classify_observations obs) = Canonical \<longleftrightarrow>
      Canonical \<in> states obs \<and> states obs \<subseteq> {Canonical, Unavailable, NotConfigured}) \<and>
   (fst (classify_observations obs) = Disagreement \<longleftrightarrow>
      Disagreement \<in> states obs \<or>
      (Canonical \<in> states obs \<and> states obs \<inter> {NotFoundState, Orphaned} \<noteq> {})) \<and>
   (fst (classify_observations obs) = Orphaned \<longleftrightarrow>
      Orphaned \<in> states obs \<and> states obs \<inter> {Canonical, Disagreement} = {}) \<and>
   (fst (classify_observations obs) = NotFoundState \<longleftrightarrow>
      NotFoundState \<in> states obs \<and> states obs \<inter> {Canonical, Disagreement, Orphaned} = {}) \<and>
   (fst (classify_observations obs) = NotConfigured \<longleftrightarrow> obs = []) \<and>
   (fst (classify_observations obs) = Unavailable \<longleftrightarrow>
      obs \<noteq> [] \<and> states obs \<subseteq> {Unavailable, NotConfigured}) \<and>
   (snd (classify_observations obs) \<longleftrightarrow> 2 \<le> length obs \<and> (\<exists>st. states obs = {st}))"
proof (cases obs)
  case Nil
  then show ?thesis by (simp add: classify_observations_def states_def)
next
  case (Cons ob rest)
  have all: "list_all (\<lambda>x. po_state x = po_state ob) obs \<longleftrightarrow> (\<exists>st. states obs = {st})"
    unfolding Cons states_def list_all_iff by auto
  have ne: "states obs \<noteq> {}" by (simp add: Cons states_def)
  define A where "A = states obs"
  have cl: "classify_observations obs =
     (if Disagreement \<in> A \<or> (Canonical \<in> A \<and> (NotFoundState \<in> A \<or> Orphaned \<in> A)) then Disagreement
      else if Canonical \<in> A then Canonical else if Orphaned \<in> A then Orphaned
      else if NotFoundState \<in> A then NotFoundState else Unavailable,
      2 \<le> length obs \<and> (\<exists>st. A = {st}))"
    using all by (simp add: classify_observations_def Cons Let_def A_def)
  have sub: "A \<subseteq> {Unavailable, NotConfigured} \<longleftrightarrow> A \<inter> {Canonical, Orphaned, NotFoundState, Disagreement} = {}"
    "A \<subseteq> {Canonical, Unavailable, NotConfigured} \<longleftrightarrow> A \<inter> {Orphaned, NotFoundState, Disagreement} = {}"
    using parent_lookup_state.exhaust by blast+
  have "obs \<noteq> []" using Cons by simp
  then show ?thesis unfolding cl A_def[symmetric] sub by auto
qed


section \<open>The verdict\<close>

lemma validate_locally_None:
  "validate_locally X S net block raw = Inr None \<longleftrightarrow>
     rb_height block = 0 \<and> is_ok (parent_rules_at_height S net 0) \<and>
     (\<exists>pb. decode_hex_aux X ''Wcash solution'' (rb_solution block) (256 * 1024) = Inr pb \<and>
        solution_from_raw_block raw = Inr pb \<and>
        take (length (cs_proof_magic S)) pb \<noteq> cs_proof_magic S)"
  by (auto simp: validate_locally_def is_ok_iff split: if_splits)

lemma validate_locally_Some:
  "validate_locally X S net block raw = Inr (Some (pb, proof, validated)) \<longleftrightarrow>
     decode_hex_aux X ''Wcash solution'' (rb_solution block) (256 * 1024) = Inr pb \<and>
     solution_from_raw_block raw = Inr pb \<and>
     take (length (cs_proof_magic S)) pb = cs_proof_magic S \<and> cs_decode S pb = Inr proof \<and>
     (\<exists>rules child target.
        parent_rules_at_height S net (rb_height block) = Inr rules \<and>
        parse_display_hash X (rb_hash block) = Inr child \<and>
        compact_target S (rb_bits block) = Inr target \<and>
        cs_validate S proof child target rules = Inr validated)"
  by (auto simp: validate_locally_def)

lemma decode_hex_aux_Inr:
  "decode_hex_aux X l v m = Inr bs \<Longrightarrow> hex_decode X v = Inr bs"
  by (auto simp: decode_hex_aux_def split: if_splits)

lemma verify_best_chain:
  assumes "validate_locally X S (av_network V) block raw = Inr (Some (pb, prov, validated))"
    and "aux_block_status (av_wcash V) C (rb_hash block) (rb_solution block) w = (Inr (BestChain n), w')"
  shows "\<exists>v ps'. verify X C S V clock block raw (w, ps) = (Inr (Some v), (w', ps')) \<and>
    va_witness_hash v = block_witness_hash X raw \<and>
    va_exact_witness_state v = ''best_chain'' \<and> va_witness_confirmations v = Some n \<and>
    va_parent_block_hash v = display_hash X (cs_header_hash S prov) \<and>
    (va_parent_lookup_state v, va_parent_sources_agree v) = classify_observations (va_parent_observations v)"
  using assms by (simp add: verify_def io_bind_def io_zoom_def Let_def split: prod.splits)

lemma verify_not_best_chain:
  assumes "validate_locally X S (av_network V) block raw = Inr (Some (pb, prov, validated))"
    and "aux_block_status (av_wcash V) C (rb_hash block) (rb_solution block) w = (a, w')"
    and "\<nexists>n. a = Inr (BestChain n)"
  shows "\<exists>e. verify X C S V clock block raw (w, ps) = (Inl e, (w', ps))"
  using assms
  by (cases a; cases "projr a") (auto simp: verify_def io_bind_def io_zoom_def Let_def guard_def)

text \<open>C31. Verification accepts a block only on its own evidence.  A result is recorded only if the
  raw block carries exactly the verbose solution, the solution decodes to a proof that the
  consensus library validates against this block's hash, its difficulty and the rules of its own
  height, and the node confirms that exact witness on its best chain; the recorded witness hash is
  that of the raw block, and the recorded classification that of the recorded observations.  Only
  height zero passes without a proof, and then no node is asked.  On failure no parent has been
  contacted, and if the local checks failed the Wcash node has not been either.\<close>

theorem verify_verdict:
  "case verify X C S V clock block raw (w, ps) of
     (Inr None, st) \<Rightarrow> st = (w, ps) \<and> rb_height block = 0 \<and>
       (\<exists>pb. hex_decode X (rb_solution block) = Inr pb \<and> solution_from_raw_block raw = Inr pb \<and>
          take (length (cs_proof_magic S)) pb \<noteq> cs_proof_magic S)
   | (Inr (Some v), (w', ps')) \<Rightarrow>
       (\<exists>rules pb proof child target validated n.
          parent_rules_at_height S (av_network V) (rb_height block) = Inr rules \<and>
          hex_decode X (rb_solution block) = Inr pb \<and> solution_from_raw_block raw = Inr pb \<and>
          take (length (cs_proof_magic S)) pb = cs_proof_magic S \<and> cs_decode S pb = Inr proof \<and>
          parse_display_hash X (rb_hash block) = Inr child \<and>
          compact_target S (rb_bits block) = Inr target \<and>
          cs_validate S proof child target rules = Inr validated \<and>
          aux_block_status (av_wcash V) C (rb_hash block) (rb_solution block) w = (Inr (BestChain n), w') \<and>
          va_witness_hash v = block_witness_hash X raw \<and>
          va_exact_witness_state v = ''best_chain'' \<and> va_witness_confirmations v = Some n \<and>
          va_parent_block_hash v = display_hash X (cs_header_hash S proof) \<and>
          (va_parent_lookup_state v, va_parent_sources_agree v) =
            classify_observations (va_parent_observations v))
   | (Inl e, (w', ps')) \<Rightarrow> ps' = ps \<and>
       (w' = w \<or> is_ok (validate_locally X S (av_network V) block raw))"
proof (cases "\<exists>p. validate_locally X S (av_network V) block raw = Inr (Some p)")
  case False
  then show ?thesis
    using validate_locally_None[of X S "av_network V" block raw] decode_hex_aux_Inr
    by (cases "validate_locally X S (av_network V) block raw") (auto simp: verify_def)
next
  case True
  then obtain pb prov validated where loc: "validate_locally X S (av_network V) block raw = Inr (Some (pb, prov, validated))"
    by auto
  obtain a and w' :: u64 where st: "aux_block_status (av_wcash V) C (rb_hash block) (rb_solution block) w = (a, w')"
    by fastforce
  show ?thesis
  proof (cases "\<exists>n. a = Inr (BestChain n)")
    case True
    then obtain n where a: "a = Inr (BestChain n)" ..
    then obtain v ps' where v: "verify X C S V clock block raw (w, ps) = (Inr (Some v), (w', ps'))"
      "va_witness_hash v = block_witness_hash X raw"
      "va_exact_witness_state v = ''best_chain'' \<and> va_witness_confirmations v = Some n"
      "va_parent_block_hash v = display_hash X (cs_header_hash S prov)"
      "(va_parent_lookup_state v, va_parent_sources_agree v) = classify_observations (va_parent_observations v)"
      using verify_best_chain[OF loc st[unfolded a]] by blast
    note l = loc[unfolded validate_locally_Some]
    moreover have "hex_decode X (rb_solution block) = Inr pb" using l decode_hex_aux_Inr by blast
    ultimately show ?thesis using v st a by auto
  next
    case False
    from verify_not_best_chain[OF loc st False, of clock ps] loc show ?thesis by auto
  qed
qed


section \<open>Hash texts\<close>

text \<open>Internal hashes and their display texts correspond one to one: showing a 32-byte hash and
  parsing the text gives it back, and a text that parses is 64 hexadecimal digits.\<close>

theorem display_hash_roundtrip:
  assumes "hex_crate_ok X"
  shows "(parse_display_hash X (display_hash X h) = Inr h \<longleftrightarrow> length h = 32) \<and>
         (is_ok (parse_display_hash X s) \<longleftrightarrow> is_ok (hex_decode X s) \<and> length s = 64)"
proof -
  have "is_ok (parse_display_hash X s) \<longleftrightarrow> (\<exists>bs. hex_decode X s = Inr bs \<and> length bs = 32)"
    using assms by (cases "hex_decode_to_slice X 32 s")
      (auto simp: parse_display_hash_def is_ok_iff simp flip: hex_decode_to_slice_Inr)
  also have "\<dots> \<longleftrightarrow> is_ok (hex_decode X s) \<and> length s = 64"
    using hex_decode_length[OF assms] by (auto simp: is_ok_iff)
  finally show ?thesis
    using assms by (auto simp: parse_display_hash_def display_hash_def hex_decode_to_slice_Inr
        hex_encode_decode)
qed

theorem display_hash_roundtrip_witness:
  "parse_display_hash example_crates (display_hash example_crates (replicate 31 0 @ [7])) =
     Inr (replicate 31 0 @ [7])"
  using display_hash_roundtrip[OF example_hex_crate_ok, of "replicate 31 0 @ [7]" "[]"] by simp

end
