(* ===== verification/Db_Schema.thy ===== *)
theory Db_Schema imports Tables Auxpow begin

text \<open>
  The relational schema of \<open>migrations/*.sql\<close> as far as \<open>src/db.rs\<close> writes it: one
  record per row, one keyed table per relation, and the \<open>CHECK\<close>, \<open>UNIQUE\<close> and foreign
  key constraints as the row checks of the insertions.  A violated constraint is the database
  error with the SQLSTATE PostgreSQL reports.
\<close>

section \<open>Rows\<close>

record network_row =
  nr_display_name :: string
  nr_symbol :: string
  nr_decimals :: int
  nr_coinbase_maturity :: int
  nr_target_spacing_seconds :: int
  nr_max_supply_zat :: int
  nr_initial_subsidy_zat :: int
  nr_halving_interval :: int
  nr_first_halving_height :: int
  nr_genesis_hash :: string
  nr_created_at :: datetime

record block_row =
  br_network_id :: string
  br_height :: int
  br_previous_block_hash :: "string option"
  br_merkle_root :: string
  br_block_commitments :: "string option"
  br_block_time :: datetime
  br_size_bytes :: int
  br_transaction_count :: int
  br_bits :: string
  br_difficulty_text :: string
  br_nonce :: string
  br_chain_supply_zat :: "int option"
  br_first_seen_at :: datetime
  br_raw_rpc :: json

record witness_row =
  wr_raw_block :: bytes
  wr_auxpow_bytes :: "bytes option"
  wr_exact_witness_state :: string
  wr_witness_confirmations :: "int option"
  wr_local_validation_state :: string
  wr_verifier_version :: "string option"
  wr_indexed_at :: datetime

record canonical_row =
  cr_block_hash :: string
  cr_witness_hash :: string
  cr_selected_at :: datetime

record instance_row =
  tr_txid :: string
  tr_instance_digest :: string
  tr_auth_digest :: "string option"
  tr_raw_hash :: string
  tr_raw_transaction :: "bytes option"
  tr_version :: int
  tr_size_bytes :: int
  tr_lock_time :: int
  tr_expiry_height :: int
  tr_is_coinbase :: bool
  tr_fee_zat :: "int option"
  tr_value_balance_zat :: "int option"
  tr_sapling_spend_count :: int
  tr_sapling_output_count :: int
  tr_orchard_action_count :: int
  tr_ironwood_action_count :: int
  tr_raw_rpc :: json

record input_row =
  ir_previous_txid :: "string option"
  ir_previous_output_index :: "int option"
  ir_coinbase_data :: "string option"
  ir_sequence :: "int option"

record output_row =
  or_value_zat :: int
  or_address :: "string option"
  or_script_type :: "string option"
  or_script_hex :: "string option"

record pool_row =
  pl_chain_value_zat :: "int option"
  pl_value_delta_zat :: "int option"
  pl_monitored :: "bool option"

record link_row =
  lk_proof_version :: int
  lk_proof_size :: int
  lk_parent_block_hash :: string
  lk_parent_header_bits :: string
  lk_parent_hash_meets_claimed_target :: bool
  lk_parent_coinbase_txid :: string
  lk_parent_merkle_depth :: int
  lk_parent_coinbase_index :: int
  lk_auth_data_merkle_depth :: int
  lk_auth_data_coinbase_index :: int
  lk_auxiliary_merkle_depth :: int
  lk_auxiliary_index :: int
  lk_parent_lookup_state :: string
  lk_parent_sources_agree :: bool
  lk_verified_at :: datetime

record observation_row =
  ow_observation_state :: string
  ow_parent_height :: "int option"
  ow_parent_confirmations :: "int option"
  ow_parent_time :: "datetime option"
  ow_parent_bits :: "string option"
  ow_parent_difficulty_text :: "string option"
  ow_embedded_header_matches :: "bool option"
  ow_checked_at :: datetime

record chain_state_row =
  st_indexed_height :: "int option"
  st_indexed_hash :: "string option"
  st_indexed_witness_hash :: "string option"
  st_node_height :: "int option"
  st_node_hash :: "string option"
  st_status :: string
  st_last_error :: "string option"
  st_updated_at :: datetime

record reorg_row =
  re_network_id :: string
  re_old_tip_height :: int
  re_old_tip_hash :: string
  re_common_ancestor_height :: "int option"
  re_common_ancestor_hash :: "string option"
  re_detected_at :: datetime
  re_completed_at :: "datetime option"

section \<open>The database\<close>

text \<open>Keys: a network by its id; a block by its hash; a witness by block and witness hash; a
  canonical selection by network and height; positions, inputs, outputs, pools and observations
  by their owner and index or name.  \<open>db_next_instance\<close> is the \<open>BIGSERIAL\<close> sequence; an
  aborted transaction gives its numbers back here, while PostgreSQL would leave a gap, and
  nothing in the sources depends on the numbers but their being distinct.\<close>

type_synonym witness_key = "string \<times> string"

record db =
  db_networks :: "(string, network_row) table"
  db_blocks :: "(string, block_row) table"
  db_witnesses :: "(witness_key, witness_row) table"
  db_canonical :: "(string \<times> int, canonical_row) table"
  db_instances :: "(int, instance_row) table"
  db_next_instance :: int
  db_block_transactions :: "(witness_key \<times> int, int) table"
  db_outputs :: "(int \<times> int, output_row) table"
  db_inputs :: "(int \<times> int, input_row) table"
  db_pools :: "(witness_key \<times> string, pool_row) table"
  db_links :: "(witness_key, link_row) table"
  db_observations :: "(witness_key \<times> string, observation_row) table"
  db_chain_state :: "(string, chain_state_row) table"
  db_reorgs :: "(string, reorg_row) table"

definition empty_db :: db where
  "empty_db =
     \<lparr>db_networks = [], db_blocks = [], db_witnesses = [], db_canonical = [], db_instances = [],
      db_next_instance = 1, db_block_transactions = [], db_outputs = [], db_inputs = [],
      db_pools = [], db_links = [], db_observations = [], db_chain_state = [], db_reorgs = []\<rparr>"

section \<open>Constraints\<close>

definition check_violation :: explorer_error where
  "check_violation = Database (DatabaseError (Some ''23514''))"

definition foreign_key_violation :: explorer_error where
  "foreign_key_violation = Database (DatabaseError (Some ''23503''))"

definition unique_violation :: explorer_error where
  "unique_violation = Database (DatabaseError (Some ''23505''))"

definition hash_text :: "string \<Rightarrow> bool" where
  "hash_text s \<longleftrightarrow> is_lower_hex_of_length 64 s"

definition opt_all :: "('a \<Rightarrow> bool) \<Rightarrow> 'a option \<Rightarrow> bool" where
  "opt_all P v = (case v of None \<Rightarrow> True | Some x \<Rightarrow> P x)"

definition check_network :: "string \<Rightarrow> network_row \<Rightarrow> unit result" where
  "check_network k r =
     guard (0 \<le> nr_decimals r \<and> nr_decimals r \<le> 18 \<and> 0 \<le> nr_coinbase_maturity r \<and>
            0 < nr_target_spacing_seconds r \<and> 0 < nr_max_supply_zat r \<and>
            0 < nr_initial_subsidy_zat r \<and> 0 < nr_halving_interval r \<and>
            0 < nr_first_halving_height r \<and> hash_text (nr_genesis_hash r)) check_violation"

definition check_block :: "string \<Rightarrow> block_row \<Rightarrow> unit result" where
  "check_block k r =
     guard (hash_text k \<and> 0 \<le> br_height r \<and> opt_all hash_text (br_previous_block_hash r) \<and>
            hash_text (br_merkle_root r) \<and> opt_all hash_text (br_block_commitments r) \<and>
            0 < br_size_bytes r \<and> 0 \<le> br_transaction_count r \<and>
            is_lower_hex_of_length 8 (br_bits r)) check_violation"

definition block_refs :: "db \<Rightarrow> string \<Rightarrow> block_row \<Rightarrow> unit result" where
  "block_refs d k r = guard (t_find (db_networks d) (br_network_id r) \<noteq> None) foreign_key_violation"

definition check_witness :: "witness_key \<Rightarrow> witness_row \<Rightarrow> unit result" where
  "check_witness k r =
     guard (hash_text (snd k) \<and> 0 < length (wr_raw_block r) \<and>
            opt_all (\<lambda>n. 0 \<le> n) (wr_witness_confirmations r)) check_violation"

definition witness_refs :: "db \<Rightarrow> witness_key \<Rightarrow> 'r \<Rightarrow> unit result" where
  "witness_refs d k r = guard (t_find (db_blocks d) (fst k) \<noteq> None) foreign_key_violation"

text \<open>The foreign key into \<open>block_witnesses\<close> that six relations share.\<close>

definition of_witness :: "db \<Rightarrow> witness_key \<Rightarrow> unit result" where
  "of_witness d w = guard (t_find (db_witnesses d) w \<noteq> None) foreign_key_violation"

definition check_canonical :: "string \<times> int \<Rightarrow> canonical_row \<Rightarrow> unit result" where
  "check_canonical k r = guard (0 \<le> snd k) check_violation"

definition canonical_refs :: "db \<Rightarrow> string \<times> int \<Rightarrow> canonical_row \<Rightarrow> unit result" where
  "canonical_refs d k r =
     rbind (guard (\<not> list_ex (\<lambda>((n, h), r'). n = fst k \<and> cr_block_hash r' = cr_block_hash r)
                        (db_canonical d)) unique_violation) (\<lambda>_.
     rbind (guard (t_find (db_networks d) (fst k) \<noteq> None) foreign_key_violation) (\<lambda>_.
     of_witness d (cr_block_hash r, cr_witness_hash r)))"

definition check_instance_row :: "int \<Rightarrow> instance_row \<Rightarrow> unit result" where
  "check_instance_row k r =
     guard (hash_text (tr_txid r) \<and> hash_text (tr_instance_digest r) \<and> hash_text (tr_raw_hash r) \<and>
            opt_all hash_text (tr_auth_digest r) \<and>
            ((tr_version r < 5 \<and> tr_auth_digest r = None) \<or> (5 \<le> tr_version r \<and> tr_auth_digest r \<noteq> None)) \<and>
            0 < tr_size_bytes r \<and> 0 \<le> tr_lock_time r \<and> 0 \<le> tr_expiry_height r \<and>
            0 \<le> tr_sapling_spend_count r \<and> 0 \<le> tr_sapling_output_count r \<and>
            0 \<le> tr_orchard_action_count r \<and> 0 \<le> tr_ironwood_action_count r) check_violation"

definition check_position :: "witness_key \<times> int \<Rightarrow> int \<Rightarrow> unit result" where
  "check_position k i = guard (0 \<le> snd k) check_violation"

definition position_refs :: "db \<Rightarrow> witness_key \<times> int \<Rightarrow> int \<Rightarrow> unit result" where
  "position_refs d k i =
     rbind (guard (\<not> list_ex (\<lambda>((w, p), i'). w = fst k \<and> i' = i) (db_block_transactions d))
              unique_violation) (\<lambda>_.
     rbind (guard (t_find (db_instances d) i \<noteq> None) foreign_key_violation) (\<lambda>_.
     of_witness d (fst k)))"

definition check_output :: "int \<times> int \<Rightarrow> output_row \<Rightarrow> unit result" where
  "check_output k r = guard (0 \<le> snd k \<and> 0 \<le> or_value_zat r) check_violation"

definition check_input :: "int \<times> int \<Rightarrow> input_row \<Rightarrow> unit result" where
  "check_input k r =
     guard (0 \<le> snd k \<and> opt_all hash_text (ir_previous_txid r) \<and>
            opt_all (\<lambda>n. 0 \<le> n) (ir_previous_output_index r) \<and>
            opt_all (\<lambda>n. 0 \<le> n \<and> n \<le> 4294967295) (ir_sequence r) \<and>
            ((ir_coinbase_data r \<noteq> None \<and> ir_previous_txid r = None \<and> ir_previous_output_index r = None) \<or>
             (ir_coinbase_data r = None \<and> ir_previous_txid r \<noteq> None \<and> ir_previous_output_index r \<noteq> None)))
       check_violation"

definition of_instance :: "db \<Rightarrow> int \<times> int \<Rightarrow> 'r \<Rightarrow> unit result" where
  "of_instance d k r = guard (t_find (db_instances d) (fst k) \<noteq> None) foreign_key_violation"

definition check_pool :: "witness_key \<times> string \<Rightarrow> pool_row \<Rightarrow> unit result" where
  "check_pool k r = Inr ()"

definition check_link :: "witness_key \<Rightarrow> link_row \<Rightarrow> unit result" where
  "check_link k r =
     guard (0 \<le> lk_proof_version r \<and> 0 < lk_proof_size r \<and> hash_text (lk_parent_block_hash r) \<and>
            is_lower_hex_of_length 8 (lk_parent_header_bits r) \<and>
            hash_text (lk_parent_coinbase_txid r)) check_violation"

definition check_observation :: "witness_key \<times> string \<Rightarrow> observation_row \<Rightarrow> unit result" where
  "check_observation k r = Inr ()"

section \<open>Statements on one relation\<close>

definition put_network :: "string \<Rightarrow> network_row \<Rightarrow> db \<Rightarrow> db result" where
  "put_network k r d =
     rbind (insert_nothing check_network (\<lambda>_ _. Inr ()) k r (db_networks d))
       (\<lambda>t. Inr (d\<lparr>db_networks := t\<rparr>))"

definition put_block :: "string \<Rightarrow> block_row \<Rightarrow> db \<Rightarrow> db result" where
  "put_block k r d =
     rbind (insert_nothing check_block (block_refs d) k r (db_blocks d))
       (\<lambda>t. Inr (d\<lparr>db_blocks := t\<rparr>))"

text \<open>The \<open>DO UPDATE SET\<close> lists of the witness and of the link.\<close>

definition witness_update :: "witness_row \<Rightarrow> witness_row \<Rightarrow> witness_row" where
  "witness_update old excluded =
     old\<lparr>wr_exact_witness_state := wr_exact_witness_state excluded,
         wr_witness_confirmations := wr_witness_confirmations excluded,
         wr_indexed_at := wr_indexed_at excluded\<rparr>"

definition link_update :: "link_row \<Rightarrow> link_row \<Rightarrow> link_row" where
  "link_update old excluded =
     old\<lparr>lk_parent_lookup_state := lk_parent_lookup_state excluded,
         lk_parent_sources_agree := lk_parent_sources_agree excluded,
         lk_verified_at := lk_verified_at excluded\<rparr>"

definition put_witness :: "witness_key \<Rightarrow> witness_row \<Rightarrow> db \<Rightarrow> db result" where
  "put_witness k r d =
     rbind (insert_update check_witness (witness_refs d) witness_update k r (db_witnesses d))
       (\<lambda>t. Inr (d\<lparr>db_witnesses := t\<rparr>))"

definition put_canonical :: "string \<times> int \<Rightarrow> canonical_row \<Rightarrow> db \<Rightarrow> db result" where
  "put_canonical k r d =
     rbind (insert_nothing check_canonical (canonical_refs d) k r (db_canonical d))
       (\<lambda>t. Inr (d\<lparr>db_canonical := t\<rparr>))"

definition put_position :: "witness_key \<times> int \<Rightarrow> int \<Rightarrow> db \<Rightarrow> db result" where
  "put_position k i d =
     rbind (insert_nothing check_position (position_refs d) k i (db_block_transactions d))
       (\<lambda>t. Inr (d\<lparr>db_block_transactions := t\<rparr>))"

definition put_input :: "int \<times> int \<Rightarrow> input_row \<Rightarrow> db \<Rightarrow> db result" where
  "put_input k r d =
     rbind (insert_nothing check_input (of_instance d) k r (db_inputs d))
       (\<lambda>t. Inr (d\<lparr>db_inputs := t\<rparr>))"

definition put_output :: "int \<times> int \<Rightarrow> output_row \<Rightarrow> db \<Rightarrow> db result" where
  "put_output k r d =
     rbind (insert_nothing check_output (of_instance d) k r (db_outputs d))
       (\<lambda>t. Inr (d\<lparr>db_outputs := t\<rparr>))"

definition put_pool :: "witness_key \<times> string \<Rightarrow> pool_row \<Rightarrow> db \<Rightarrow> db result" where
  "put_pool k r d =
     rbind (insert_update check_pool (\<lambda>k _. of_witness d (fst k)) (\<lambda>old new. new) k r (db_pools d))
       (\<lambda>t. Inr (d\<lparr>db_pools := t\<rparr>))"

definition put_link :: "witness_key \<Rightarrow> link_row \<Rightarrow> db \<Rightarrow> db result" where
  "put_link k r d =
     rbind (insert_update check_link (\<lambda>k _. of_witness d k) link_update k r (db_links d))
       (\<lambda>t. Inr (d\<lparr>db_links := t\<rparr>))"

definition put_observation :: "witness_key \<times> string \<Rightarrow> observation_row \<Rightarrow> db \<Rightarrow> db result" where
  "put_observation k r d =
     rbind (insert_update check_observation (\<lambda>k _. of_witness d (fst k)) (\<lambda>old new. new) k r
              (db_observations d))
       (\<lambda>t. Inr (d\<lparr>db_observations := t\<rparr>))"

text \<open>\<open>UPDATE chain_state SET ... WHERE network_id = $1\<close> touches no row when there is none.\<close>

definition update_chain_state :: "string \<Rightarrow> (chain_state_row \<Rightarrow> chain_state_row) \<Rightarrow> db \<Rightarrow> db" where
  "update_chain_state net f d =
     (case t_find (db_chain_state d) net of
        None \<Rightarrow> d
      | Some r \<Rightarrow> d\<lparr>db_chain_state := t_put net (f r) (db_chain_state d)\<rparr>)"

end
