(* ===== verification/Db_Insert.thy ===== *)
theory Db_Insert imports Db_Schema begin

text \<open>
  Writing one block (\<open>insert_block\<close>, \<open>insert_transaction\<close> and their helpers in
  \<open>src/db.rs\<close>): each immutable fact is inserted if absent, read back and compared, so a
  block that is stored twice must be the same block; observations are replaced.
\<close>

section \<open>Helpers\<close>

definition RAW_TX_HASH_DOMAIN :: bytes where
  "RAW_TX_HASH_DOMAIN = string_bytes ''WcashExplorer/raw-transaction/v1'' @ [0]"

definition to_i64 :: "nat \<Rightarrow> string \<Rightarrow> int result" where
  "to_i64 v label = ok_or (i64_try_from v) (InvalidNodeResponse (label @ '' exceeds the database range''))"

definition to_i32 :: "nat \<Rightarrow> string \<Rightarrow> int result" where
  "to_i32 v label = ok_or (i32_try_from v) (InvalidNodeResponse (label @ '' exceeds the database range''))"

definition db_ensure_hash :: "string \<Rightarrow> string \<Rightarrow> unit result" where
  "db_ensure_hash label v =
     guard (is_hex_of_length 64 v)
       (InvalidNodeResponse (label @ '' is not a 32-byte hexadecimal identifier''))"

definition db_decode_hex :: "crates \<Rightarrow> string \<Rightarrow> nat \<Rightarrow> bytes result" where
  "db_decode_hex X v maximum_bytes =
     (if odd (length v) \<or> length v div 2 > maximum_bytes
      then Inl (InvalidNodeResponse ''hexadecimal payload exceeded its size bound'')
      else map_err (\<lambda>error. InvalidNodeResponse (''invalid hexadecimal payload: '' @ error))
             (hex_decode X v))"

definition scalar_text :: "crates \<Rightarrow> json \<Rightarrow> string" where
  "scalar_text X v =
     (case v of JString s \<Rightarrow> s | JNumber n \<Rightarrow> number_text n | other \<Rightarrow> value_to_string X other)"

definition i32_max :: int where
  "i32_max = 2 ^ 31 - 1"

definition bundle_action_count :: "json option \<Rightarrow> int" where
  "bundle_action_count v =
     (case v of
        None \<Rightarrow> 0
      | Some (JArray actions) \<Rightarrow>
          (case i32_try_from (length actions) of Some n \<Rightarrow> n | None \<Rightarrow> i32_max)
      | Some (JObject object) \<Rightarrow>
          (case Option.bind (map_of object ''actions'') (\<lambda>actions.
                  case actions of
                    JArray xs \<Rightarrow> i32_try_from (length xs)
                  | JNumber number \<Rightarrow> Option.bind (number_as_u64 number) i32_try_from
                  | _ \<Rightarrow> None) of
             Some n \<Rightarrow> n | None \<Rightarrow> 0)
      | Some _ \<Rightarrow> 0)"

definition raw_transaction_hash :: "crates \<Rightarrow> rpc_transaction \<Rightarrow> bytes option \<Rightarrow> string" where
  "raw_transaction_hash X t raw =
     hex_encode X (sha256 X (RAW_TX_HASH_DOMAIN @
       (case raw of
          Some bs \<Rightarrow> bs
        | None \<Rightarrow> string_bytes (rt_txid t) @
            (if rt_version t \<ge> 5
             then (case rt_authdigest t of Some a \<Rightarrow> string_bytes a | None \<Rightarrow> [])
             else []))))"

definition witness_hash :: "crates \<Rightarrow> indexed_block \<Rightarrow> string" where
  "witness_hash X b =
     (case ib_auxpow b of
        None \<Rightarrow> block_witness_hash X (ib_raw_block b)
      | Some aux \<Rightarrow> va_witness_hash aux)"

section \<open>A transaction's identity\<close>

record tx_identity =
  ti_raw :: "bytes option"
  ti_raw_hash :: string
  ti_auth_digest :: "string option"
  ti_instance_digest :: string

definition auth_digest_of :: "rpc_transaction \<Rightarrow> string option result" where
  "auth_digest_of t =
     (if rt_version t \<ge> 5
      then rbind (ok_or (rt_authdigest t)
                    (InvalidNodeResponse (''version '' @ show_int (rt_version t) @ '' transaction '' @
                       rt_txid t @ '' has no authorization digest''))) (\<lambda>auth_digest.
           rbind (db_ensure_hash ''transaction authorization digest'' auth_digest) (\<lambda>_.
           Inr (Some auth_digest)))
      else Inr None)"

definition tx_identity_of :: "crates \<Rightarrow> rpc_transaction \<Rightarrow> tx_identity result" where
  "tx_identity_of X t =
     rbind (transpose_opt (map_option (\<lambda>v. db_decode_hex X v (4 * 1024 * 1024)) (rt_hex t))) (\<lambda>raw.
     let raw_hash = raw_transaction_hash X t raw in
     rbind (db_ensure_hash ''transaction ID'' (rt_txid t)) (\<lambda>_.
     rbind (auth_digest_of t) (\<lambda>auth_digest.
     Inr \<lparr>ti_raw = raw, ti_raw_hash = raw_hash, ti_auth_digest = auth_digest,
          ti_instance_digest = (case auth_digest of Some a \<Rightarrow> a | None \<Rightarrow> raw_hash)\<rparr>)))"

section \<open>The transaction instance\<close>

definition instance_values :: "crates \<Rightarrow> rpc_transaction \<Rightarrow> tx_identity \<Rightarrow> instance_row result" where
  "instance_values X t i =
     rbind (map_err (\<lambda>error. InvalidNodeResponse (''could not preserve transaction JSON: '' @ error))
              (tx_to_value X t)) (\<lambda>raw_rpc.
     rbind (to_i64 (rt_size t) ''transaction size'') (\<lambda>sz.
     rbind (to_i64 (rt_locktime t) ''lock time'') (\<lambda>lock_time.
     rbind (to_i64 (rt_expiryheight t) ''expiry height'') (\<lambda>expiry_height.
     rbind (to_i32 (length (rt_shielded_spends t)) ''Sapling spend count'') (\<lambda>spends.
     rbind (to_i32 (length (rt_shielded_outputs t)) ''Sapling output count'') (\<lambda>outputs.
     Inr \<lparr>tr_txid = rt_txid t, tr_instance_digest = ti_instance_digest i,
          tr_auth_digest = ti_auth_digest i, tr_raw_hash = ti_raw_hash i,
          tr_raw_transaction = ti_raw i, tr_version = rt_version t, tr_size_bytes = sz,
          tr_lock_time = lock_time, tr_expiry_height = expiry_height,
          tr_is_coinbase = list_ex (\<lambda>input. ri_coinbase input \<noteq> None) (rt_vin t),
          tr_fee_zat = None, tr_value_balance_zat = rt_value_balance_zat t,
          tr_sapling_spend_count = spends, tr_sapling_output_count = outputs,
          tr_orchard_action_count = bundle_action_count (rt_orchard t),
          tr_ironwood_action_count = bundle_action_count (rt_ironwood t),
          tr_raw_rpc = raw_rpc\<rparr>))))))"

definition find_instance :: "db \<Rightarrow> string \<Rightarrow> string \<Rightarrow> int option" where
  "find_instance d txid digest =
     map_option fst (find (\<lambda>(_, r). tr_txid r = txid \<and> tr_instance_digest r = digest) (db_instances d))"

text \<open>The sequence is advanced before the conflict on \<open>(txid, instance_digest)\<close> is seen.\<close>

definition insert_instance :: "instance_row \<Rightarrow> (db, int) tx" where
  "insert_instance row d =
     (let new_id = db_next_instance d; d1 = d\<lparr>db_next_instance := new_id + 1\<rparr> in
      rbind (check_instance_row new_id row) (\<lambda>_.
      (case find_instance d1 (tr_txid row) (tr_instance_digest row) of
         Some existing \<Rightarrow> Inr (existing, d1)
       | None \<Rightarrow>
           rbind (guard (t_find (db_instances d1) new_id = None) unique_violation) (\<lambda>_.
           Inr (new_id, d1\<lparr>db_instances := t_put new_id row (db_instances d1)\<rparr>)))))"

text \<open>The columns the code compares with what the node says now.\<close>

definition instance_facts :: "instance_row \<Rightarrow>
    (string \<times> string option \<times> string \<times> bytes option) \<times> (int \<times> int \<times> int \<times> int) \<times>
    (bool \<times> int option) \<times> (int \<times> int \<times> int \<times> int)" where
  "instance_facts r =
     ((tr_instance_digest r, tr_auth_digest r, tr_raw_hash r, tr_raw_transaction r),
      (tr_version r, tr_size_bytes r, tr_lock_time r, tr_expiry_height r),
      (tr_is_coinbase r, tr_value_balance_zat r),
      (tr_sapling_spend_count r, tr_sapling_output_count r,
       tr_orchard_action_count r, tr_ironwood_action_count r))"

definition check_instance :: "instance_row \<Rightarrow> int \<Rightarrow> db \<Rightarrow> unit result" where
  "check_instance row i d =
     rbind (ok_or (t_find (db_instances d) i) (Database RowNotFound)) (\<lambda>stored.
     guard (\<not> instance_facts stored \<noteq> instance_facts row)
       (InvalidNodeResponse (''immutable transaction facts changed for '' @ tr_txid row @ '':'' @
          tr_instance_digest row)))"

section \<open>Transparent inputs and outputs\<close>

definition input_values :: "nat \<times> rpc_input \<Rightarrow> (int \<times> input_row) result" where
  "input_values pi =
     (let (position, input) = pi in
      rbind (to_i32 position ''input index'') (\<lambda>index.
      rbind (transpose_opt (map_option (\<lambda>v. ok_or (i32_try_from v)
               (InvalidNodeResponse ''previous output index exceeds the database range''))
               (ri_vout input))) (\<lambda>previous_output.
      rbind (transpose_opt (map_option (\<lambda>v. to_i64 v ''input sequence'') (ri_sequence input))) (\<lambda>sequence.
      Inr (index, \<lparr>ir_previous_txid = ri_txid input, ir_previous_output_index = previous_output,
                   ir_coinbase_data = ri_coinbase input, ir_sequence = sequence\<rparr>)))))"

definition insert_inputs :: "int \<Rightarrow> rpc_input list \<Rightarrow> db \<Rightarrow> db result" where
  "insert_inputs i inputs d =
     try_fold (\<lambda>d pi. rbind (input_values pi) (\<lambda>(index, row). put_input (i, index) row d)) d
       (List.enumerate 0 inputs)"

definition inputs_changed :: "rpc_transaction \<Rightarrow> tx_identity \<Rightarrow> explorer_error" where
  "inputs_changed t ident = InvalidNodeResponse (''immutable transparent inputs changed for '' @
     rt_txid t @ '':'' @ ti_instance_digest ident)"

definition check_inputs :: "rpc_transaction \<Rightarrow> tx_identity \<Rightarrow> int \<Rightarrow> db \<Rightarrow> unit result" where
  "check_inputs t ident i d =
     (let stored = rows_of i (db_inputs d) in
      rbind (guard (\<not> length stored \<noteq> length (rt_vin t)) (inputs_changed t ident)) (\<lambda>_.
      try_fold (\<lambda>_ (row, pi). rbind (input_values pi) (\<lambda>expected.
          guard (\<not> row \<noteq> expected) (inputs_changed t ident))) ()
        (zip stored (List.enumerate 0 (rt_vin t)))))"

definition output_values :: "rpc_output \<Rightarrow> (int \<times> output_row) result" where
  "output_values out =
     rbind (ok_or (i32_try_from (ro_n out)) (InvalidNodeResponse ''output index overflow'')) (\<lambda>index.
     Inr (index, \<lparr>or_value_zat = ro_value_zat out,
                  or_address = primary_address (ro_script_pub_key out),
                  or_script_type = spk_script_type (ro_script_pub_key out),
                  or_script_hex = spk_hex (ro_script_pub_key out)\<rparr>))"

definition insert_outputs :: "int \<Rightarrow> rpc_output list \<Rightarrow> db \<Rightarrow> db result" where
  "insert_outputs i outputs d =
     try_fold (\<lambda>d out. rbind (output_values out) (\<lambda>(index, row). put_output (i, index) row d)) d outputs"

definition outputs_changed :: "rpc_transaction \<Rightarrow> tx_identity \<Rightarrow> explorer_error" where
  "outputs_changed t ident = InvalidNodeResponse (''immutable transparent outputs changed for '' @
     rt_txid t @ '':'' @ ti_instance_digest ident)"

definition check_outputs :: "rpc_transaction \<Rightarrow> tx_identity \<Rightarrow> int \<Rightarrow> db \<Rightarrow> unit result" where
  "check_outputs t ident i d =
     (let stored = rows_of i (db_outputs d) in
      rbind (guard (\<not> length stored \<noteq> length (rt_vout t)) (outputs_changed t ident)) (\<lambda>_.
      try_fold (\<lambda>_ (row, out). rbind (output_values out) (\<lambda>expected.
          guard (\<not> row \<noteq> expected) (outputs_changed t ident))) ()
        (zip stored (rt_vout t))))"

definition insert_transaction :: "crates \<Rightarrow> rpc_transaction \<Rightarrow> (db, int) tx" where
  "insert_transaction X t d =
     rbind (tx_identity_of X t) (\<lambda>ident.
     rbind (instance_values X t ident) (\<lambda>row.
     rbind (insert_instance row d) (\<lambda>(i, d1).
     rbind (check_instance row i d1) (\<lambda>_.
     rbind (insert_inputs i (rt_vin t) d1) (\<lambda>d2.
     rbind (check_inputs t ident i d2) (\<lambda>_.
     rbind (insert_outputs i (rt_vout t) d2) (\<lambda>d3.
     rbind (check_outputs t ident i d3) (\<lambda>_.
     Inr (i, d3)))))))))"

section \<open>The block and its witness\<close>

definition block_values :: "crates \<Rightarrow> string \<Rightarrow> indexed_block \<Rightarrow> block_row result" where
  "block_values X net b =
     (let block = ib_block b in
      rbind (ok_or (from_timestamp X (rb_time block))
               (InvalidNodeResponse ''block timestamp is out of range'')) (\<lambda>block_time.
      rbind (to_i64 (rb_height block) ''block height'') (\<lambda>height.
      rbind (to_i64 (rb_size block) ''block size'') (\<lambda>sz.
      rbind (ok_or (i32_try_from (length (rb_tx block)))
               (InvalidNodeResponse ''too many transactions in block'')) (\<lambda>tx_count.
      Inr \<lparr>br_network_id = net, br_height = height,
           br_previous_block_hash = rb_previousblockhash block,
           br_merkle_root = rb_merkleroot block,
           br_block_commitments = rb_blockcommitments block,
           br_block_time = block_time, br_size_bytes = sz, br_transaction_count = tx_count,
           br_bits = rb_bits block, br_difficulty_text = scalar_text X (rb_difficulty block),
           br_nonce = rb_nonce block,
           br_chain_supply_zat = Option.bind (rb_chain_supply block) cv_chain_value_zat,
           br_first_seen_at = ib_fetched_at b, br_raw_rpc = ib_raw b\<rparr>)))))"

definition block_facts :: "block_row \<Rightarrow>
    (string \<times> int \<times> string option \<times> string) \<times> (string option \<times> datetime \<times> int \<times> int) \<times>
    (string \<times> string \<times> int option)" where
  "block_facts r =
     ((br_network_id r, br_height r, br_previous_block_hash r, br_merkle_root r),
      (br_block_commitments r, br_block_time r, br_size_bytes r, br_transaction_count r),
      (br_bits r, br_nonce r, br_chain_supply_zat r))"

definition store_block :: "crates \<Rightarrow> string \<Rightarrow> indexed_block \<Rightarrow> db \<Rightarrow> db result" where
  "store_block X net b d =
     rbind (block_values X net b) (\<lambda>row.
     rbind (put_block (rb_hash (ib_block b)) row d) (\<lambda>d1.
     rbind (ok_or (t_find (db_blocks d1) (rb_hash (ib_block b))) (Database RowNotFound)) (\<lambda>stored.
     rbind (guard (block_facts stored = block_facts row)
              (InvalidNodeResponse (''immutable block facts changed for '' @ rb_hash (ib_block b)))) (\<lambda>_.
     Inr d1))))"

definition witness_values :: "crates \<Rightarrow> indexed_block \<Rightarrow> witness_row result" where
  "witness_values X b =
     (case ib_auxpow b of
        Some aux \<Rightarrow>
          rbind (db_decode_hex X (rb_solution (ib_block b)) (256 * 1024)) (\<lambda>proof_bytes.
          Inr \<lparr>wr_raw_block = ib_raw_block b, wr_auxpow_bytes = Some proof_bytes,
               wr_exact_witness_state = va_exact_witness_state aux,
               wr_witness_confirmations = map_option int (va_witness_confirmations aux),
               wr_local_validation_state = va_verification_state aux,
               wr_verifier_version = Some (va_verifier_version aux),
               wr_indexed_at = ib_fetched_at b\<rparr>)
      | None \<Rightarrow>
          Inr \<lparr>wr_raw_block = ib_raw_block b, wr_auxpow_bytes = None,
               wr_exact_witness_state = ''native_genesis'',
               wr_witness_confirmations = Some (max (rb_confirmations (ib_block b)) 0),
               wr_local_validation_state = ''genesis'', wr_verifier_version = None,
               wr_indexed_at = ib_fetched_at b\<rparr>)"

definition witness_of :: "crates \<Rightarrow> indexed_block \<Rightarrow> witness_key" where
  "witness_of X b = (rb_hash (ib_block b), witness_hash X b)"

definition store_witness :: "crates \<Rightarrow> indexed_block \<Rightarrow> db \<Rightarrow> db result" where
  "store_witness X b d = rbind (witness_values X b) (\<lambda>row. put_witness (witness_of X b) row d)"

definition store_position :: "crates \<Rightarrow> witness_key \<Rightarrow> db \<Rightarrow> nat \<times> rpc_transaction \<Rightarrow> db result" where
  "store_position X w d pt =
     (let (position, t) = pt in
      rbind (insert_transaction X t d) (\<lambda>(i, d1).
      rbind (ok_or (i32_try_from position) (InvalidNodeResponse ''transaction position overflow'')) (\<lambda>pos.
      rbind (put_position (w, pos) i d1) (\<lambda>d2.
      rbind (ok_or (t_find (db_block_transactions d2) (w, pos)) (Database RowNotFound)) (\<lambda>stored.
      rbind (guard (\<not> stored \<noteq> i)
               (InvalidNodeResponse (''immutable transaction position changed for '' @ fst w @ '':'' @
                  show_int pos))) (\<lambda>_.
      Inr d2))))))"

definition store_transactions :: "crates \<Rightarrow> indexed_block \<Rightarrow> db \<Rightarrow> db result" where
  "store_transactions X b d =
     try_fold (store_position X (witness_of X b)) d (List.enumerate 0 (rb_tx (ib_block b)))"

definition store_pools :: "crates \<Rightarrow> indexed_block \<Rightarrow> db \<Rightarrow> db result" where
  "store_pools X b d =
     try_fold (\<lambda>d pool. put_pool (witness_of X b, vp_id pool)
         \<lparr>pl_chain_value_zat = vp_chain_value_zat pool, pl_value_delta_zat = vp_value_delta_zat pool,
          pl_monitored = vp_monitored pool\<rparr> d) d (rb_value_pools (ib_block b))"

section \<open>Merge-mining evidence\<close>

definition link_values :: "indexed_block \<Rightarrow> verified_auxpow \<Rightarrow> link_row result" where
  "link_values b aux =
     rbind (to_i64 (va_proof_size aux) ''proof size'') (\<lambda>proof_size.
     rbind (ok_or (i32_try_from (va_parent_merkle_depth aux))
              (InvalidNodeResponse ''parent branch depth overflow'')) (\<lambda>parent_depth.
     rbind (ok_or (i32_try_from (va_auth_data_merkle_depth aux))
              (InvalidNodeResponse ''auth-data branch depth overflow'')) (\<lambda>auth_depth.
     rbind (ok_or (i32_try_from (va_auxiliary_merkle_depth aux))
              (InvalidNodeResponse ''auxiliary branch depth overflow'')) (\<lambda>auxiliary_depth.
     Inr \<lparr>lk_proof_version = int (va_proof_version aux), lk_proof_size = proof_size,
          lk_parent_block_hash = va_parent_block_hash aux,
          lk_parent_header_bits = va_parent_header_bits aux,
          lk_parent_hash_meets_claimed_target = va_parent_hash_meets_claimed_target aux,
          lk_parent_coinbase_txid = va_parent_coinbase_txid aux,
          lk_parent_merkle_depth = parent_depth,
          lk_parent_coinbase_index = int (va_parent_coinbase_index aux),
          lk_auth_data_merkle_depth = auth_depth,
          lk_auth_data_coinbase_index = int (va_auth_data_coinbase_index aux),
          lk_auxiliary_merkle_depth = auxiliary_depth,
          lk_auxiliary_index = int (va_auxiliary_index aux),
          lk_parent_lookup_state = lookup_state_str (va_parent_lookup_state aux),
          lk_parent_sources_agree = va_parent_sources_agree aux,
          lk_verified_at = ib_fetched_at b\<rparr>))))"

definition observation_values :: "crates \<Rightarrow> parent_observation \<Rightarrow> observation_row result" where
  "observation_values X ob =
     rbind (transpose_opt (map_option (\<lambda>parent. to_i64 (pb_height parent) ''parent height'')
              (po_block ob))) (\<lambda>parent_height.
     Inr \<lparr>ow_observation_state = lookup_state_str (po_state ob), ow_parent_height = parent_height,
          ow_parent_confirmations = map_option pb_confirmations (po_block ob),
          ow_parent_time = Option.bind (po_block ob) (\<lambda>parent. from_timestamp X (pb_time parent)),
          ow_parent_bits = map_option pb_bits (po_block ob),
          ow_parent_difficulty_text = map_option (\<lambda>p. scalar_text X (pb_difficulty p)) (po_block ob),
          ow_embedded_header_matches = po_embedded_header_matches ob,
          ow_checked_at = po_checked_at ob\<rparr>)"

definition delete_observations :: "witness_key \<Rightarrow> db \<Rightarrow> db" where
  "delete_observations w d = d\<lparr>db_observations := t_remove (\<lambda>k. fst k = w) (db_observations d)\<rparr>"

definition store_observation :: "crates \<Rightarrow> witness_key \<Rightarrow> db \<Rightarrow> parent_observation \<Rightarrow> db result" where
  "store_observation X w d ob =
     rbind (observation_values X ob) (\<lambda>row. put_observation (w, po_source ob) row d)"

definition store_evidence :: "crates \<Rightarrow> indexed_block \<Rightarrow> db \<Rightarrow> db result" where
  "store_evidence X b d =
     (case ib_auxpow b of
        None \<Rightarrow> Inr d
      | Some aux \<Rightarrow>
          rbind (link_values b aux) (\<lambda>row.
          rbind (put_link (witness_of X b) row d) (\<lambda>d1.
          try_fold (store_observation X (witness_of X b)) (delete_observations (witness_of X b) d1)
            (va_parent_observations aux))))"

definition insert_block :: "crates \<Rightarrow> string \<Rightarrow> indexed_block \<Rightarrow> db \<Rightarrow> db result" where
  "insert_block X net b d =
     rbind (store_block X net b d) (\<lambda>d1.
     rbind (store_witness X b d1) (\<lambda>d2.
     rbind (store_transactions X b d2) (\<lambda>d3.
     rbind (store_pools X b d3) (\<lambda>d4.
     store_evidence X b d4))))"

end
