(* ===== verification/Examples.thy ===== *)
theory Examples imports Db_Insert begin

text \<open>
  Concrete data for the witnesses: an instance of the linked crates that evaluates quickly, a
  one-transaction block and a database with its network row.
\<close>

definition tiny_crates :: crates where
  "tiny_crates =
     \<lparr>sha256 = (\<lambda>bs. [last bs]),
      hex_encode = (\<lambda>bs. replicate 63 CHR ''0'' @ [''0123456789abcdef'' ! (unat (last bs) mod 16)]),
      hex_decode = (\<lambda>s. Inr (replicate (length s div 2) 0)),
      hex_decode_to_slice = (\<lambda>n s. Inr (replicate n 0)),
      value_to_string = (\<lambda>j. []),
      tx_to_value = (\<lambda>t. Inr (JString (rt_txid t))),
      from_timestamp = (\<lambda>t. Some (1000000 * t))\<rparr>"

definition id64 :: "char \<Rightarrow> string" where
  "id64 c = replicate 63 CHR ''0'' @ [c]"

lemma id64_eq [simp]: "id64 c = id64 c' \<longleftrightarrow> c = c'"
  by (simp add: id64_def)

definition example_coinbase :: "char \<Rightarrow> rpc_transaction" where
  "example_coinbase c =
     \<lparr>rt_txid = id64 c, rt_authdigest = Some (id64 c), rt_version = 5, rt_size = 100, rt_locktime = 0,
      rt_expiryheight = 0,
      rt_vin = [\<lparr>ri_txid = None, ri_vout = None, ri_coinbase = Some ''00'', ri_sequence = Some 0,
                 ri_script_sig = None, ri_extra = []\<rparr>],
      rt_vout = [\<lparr>ro_value_zat = 625000000, ro_n = 0,
                  ro_script_pub_key = \<lparr>spk_asm = None, spk_hex = None, spk_script_type = None,
                    spk_address = Some [c], spk_addresses = []\<rparr>, ro_extra = []\<rparr>],
      rt_shielded_spends = [], rt_shielded_outputs = [], rt_orchard = None, rt_ironwood = None,
      rt_value_balance_zat = None, rt_hex = None, rt_extra = []\<rparr>"

definition example_block :: "char \<Rightarrow> nat \<Rightarrow> string option \<Rightarrow> indexed_block" where
  "example_block c h prev =
     \<lparr>ib_block = \<lparr>rb_hash = id64 c, rb_height = h, rb_confirmations = 1, rb_size = 200, rb_time = 75,
        rb_bits = ''1d00ffff'', rb_difficulty = JNumber (PosInt 1), rb_nonce = id64 c, rb_solution = [],
        rb_merkleroot = id64 c, rb_blockcommitments = None, rb_previousblockhash = prev,
        rb_nextblockhash = None, rb_tx = [example_coinbase c], rb_chain_supply = None,
        rb_value_pools = [\<lparr>vp_id = ''transparent'', vp_chain_value_zat = Some 625000000,
          vp_value_delta_zat = None, vp_monitored = Some True\<rparr>], rb_extra = []\<rparr>,
      ib_auxpow = None, ib_fetched_at = 5, ib_raw_block = [word_of_nat h], ib_raw = JNull\<rparr>"

definition example_db :: db where
  "example_db = empty_db\<lparr>db_networks := [(''testnet'',
     \<lparr>nr_display_name = [], nr_symbol = [], nr_decimals = 8, nr_coinbase_maturity = 100,
      nr_target_spacing_seconds = 75, nr_max_supply_zat = 1, nr_initial_subsidy_zat = 1,
      nr_halving_interval = 1, nr_first_halving_height = 2, nr_genesis_hash = [], nr_created_at = 0\<rparr>)]\<rparr>"

end
