(* ===== verification/Db_Facts.thy ===== *)
theory Db_Facts imports Examples begin

text \<open>
  What storing a block changes and what it never changes: stored facts only grow, the canonical
  chain is not touched, and afterwards the database says of the block, its witness and every
  transaction exactly what the node said.
\<close>

section \<open>Ordered rows\<close>

lemma rows_of_keys:
  assumes "t_wf t"
  shows "sorted (map fst (rows_of j t)) \<and> distinct (map fst (rows_of j t))"
proof -
  define v where "v = filter (\<lambda>((o', _), _). o' = j) t"
  have "distinct (map fst v)" using assms by (simp add: v_def t_wf_def distinct_map_filter)
  moreover have "inj_on snd (fst ` set v)" by (auto simp: v_def inj_on_def)
  ultimately have "distinct (map snd (map fst v))" by (simp add: distinct_map comp_inj_on)
  moreover have "map fst (map (\<lambda>((_, i), r). (i, r)) v) = map snd (map fst v)"
    by (auto simp: case_prod_beta)
  ultimately have "distinct (map fst (map (\<lambda>((_, i), r). (i, r)) v))" by (rule ssubst[rotated])
  then have "distinct (map fst (rows_of j t))"
    unfolding rows_of_def v_def[symmetric] by (metis distinct_map distinct_sort set_sort)
  then show ?thesis by (simp add: rows_of_def)
qed

lemma rows_of_cong:
  assumes "t_wf t" and "t_wf t'" and "\<And>k. t_find t (j, k) = t_find t' (j, k)"
  shows "rows_of j t = rows_of j t'"
proof -
  have sets: "set (rows_of j t) = set (rows_of j t')"
    using assms by (auto simp: rows_of_find)
  have "inj_on fst (set (rows_of j t) \<union> set (rows_of j t'))"
    unfolding sets using rows_of_keys[OF assms(2)] by (simp add: distinct_map)
  then show ?thesis
    using rows_of_keys[OF assms(1)] rows_of_keys[OF assms(2)] sets
    by (blast intro: map_sorted_distinct_set_unique)
qed

section \<open>Well-formed databases\<close>

text \<open>Keys are unique, identifiers come from the sequence, and a witness lists a transaction
  instance at one position only.\<close>

definition db_wf :: "db \<Rightarrow> bool" where
  "db_wf d \<longleftrightarrow>
     t_wf (db_blocks d) \<and> t_wf (db_witnesses d) \<and> t_wf (db_canonical d) \<and> t_wf (db_instances d) \<and>
     t_wf (db_block_transactions d) \<and> t_wf (db_outputs d) \<and> t_wf (db_inputs d) \<and>
     (\<forall>i r. t_find (db_instances d) i = Some r \<longrightarrow> i < db_next_instance d) \<and>
     (\<forall>w p q i. t_find (db_block_transactions d) (w, p) = Some i \<longrightarrow>
        t_find (db_block_transactions d) (w, q) = Some i \<longrightarrow> p = q)"

lemma empty_db_wf: "db_wf empty_db"
  by (simp add: db_wf_def empty_db_def)

section \<open>What one transaction changes\<close>

text \<open>Storing the instance \<open>i\<close> adds to the instances and to the inputs and outputs of \<open>i\<close>.\<close>

definition tx_frame :: "db \<Rightarrow> db \<Rightarrow> bool" where
  "tx_frame d d' \<longleftrightarrow>
     db_networks d' = db_networks d \<and> db_blocks d' = db_blocks d \<and>
     db_witnesses d' = db_witnesses d \<and> db_canonical d' = db_canonical d \<and>
     db_block_transactions d' = db_block_transactions d \<and> db_pools d' = db_pools d \<and>
     db_links d' = db_links d \<and> db_observations d' = db_observations d \<and>
     db_chain_state d' = db_chain_state d \<and> db_reorgs d' = db_reorgs d"

definition tx_step :: "int \<Rightarrow> db \<Rightarrow> db \<Rightarrow> bool" where
  "tx_step i d d' \<longleftrightarrow> tx_frame d d' \<and>
     alist.extends (db_instances d) (db_instances d') \<and>
     alist.extends (db_inputs d) (db_inputs d') \<and> alist.extends (db_outputs d) (db_outputs d') \<and>
     (\<forall>j k. j \<noteq> i \<longrightarrow> t_find (db_inputs d') (j, k) = t_find (db_inputs d) (j, k)) \<and>
     (\<forall>j k. j \<noteq> i \<longrightarrow> t_find (db_outputs d') (j, k) = t_find (db_outputs d) (j, k)) \<and>
     (db_wf d \<longrightarrow> db_wf d')"

lemma tx_step_refl: "tx_step i d d"
  by (simp add: tx_step_def tx_frame_def alist.extends_refl)

lemma tx_step_trans: "tx_step i d e \<Longrightarrow> tx_step i e f \<Longrightarrow> tx_step i d f"
  unfolding tx_step_def tx_frame_def using alist.extends_trans by (simp add: alist.extends_def)

lemma put_input_step:
  assumes "put_input (i, k) r d = Inr d'" shows "tx_step i d d'"
proof -
  from assms obtain t where t: "insert_nothing check_input (of_instance d) (i, k) r (db_inputs d) = Inr t"
    and d': "d' = d\<lparr>db_inputs := t\<rparr>" by (auto simp: put_input_def)
  show ?thesis
    using insert_nothing_extends[OF t] insert_nothing_wf[OF t] insert_nothing_find[OF t]
    by (simp add: d' tx_step_def tx_frame_def db_wf_def alist.extends_refl)
qed

lemma put_output_step:
  assumes "put_output (i, k) r d = Inr d'" shows "tx_step i d d'"
proof -
  from assms obtain t where t: "insert_nothing check_output (of_instance d) (i, k) r (db_outputs d) = Inr t"
    and d': "d' = d\<lparr>db_outputs := t\<rparr>" by (auto simp: put_output_def)
  show ?thesis
    using insert_nothing_extends[OF t] insert_nothing_wf[OF t] insert_nothing_find[OF t]
    by (simp add: d' tx_step_def tx_frame_def db_wf_def alist.extends_refl)
qed

lemma insert_inputs_step:
  assumes "insert_inputs i ins d = Inr d'" shows "tx_step i d d'"
  by (rule try_fold_rule[OF assms[unfolded insert_inputs_def] tx_step_refl])
    (auto dest: put_input_step intro: tx_step_trans)

lemma insert_outputs_step:
  assumes "insert_outputs i outs d = Inr d'" shows "tx_step i d d'"
  by (rule try_fold_rule[OF assms[unfolded insert_outputs_def] tx_step_refl])
    (auto dest: put_output_step intro: tx_step_trans)

lemma insert_instance_cases:
  assumes "insert_instance row d = Inr (i, d')"
  obtains (old) "find_instance d (tr_txid row) (tr_instance_digest row) = Some i"
      "d' = d\<lparr>db_next_instance := db_next_instance d + 1\<rparr>"
    | (new) "i = db_next_instance d" "t_find (db_instances d) i = None"
      "d' = d\<lparr>db_next_instance := i + 1, db_instances := t_put i row (db_instances d)\<rparr>"
proof -
  have f: "find_instance (d\<lparr>db_next_instance := n\<rparr>) a b = find_instance d a b" for n a b
    by (simp add: find_instance_def)
  show thesis
    using assms old new by (auto simp: insert_instance_def Let_def f split: option.splits)
qed

lemma insert_instance_step:
  assumes "insert_instance row d = Inr (i, d')" shows "tx_step i d d'"
  using assms
proof (cases rule: insert_instance_cases)
  case old
  then show ?thesis
    by (force simp: tx_step_def tx_frame_def alist.extends_refl db_wf_def)
next
  case new
  have ext: "alist.extends (db_instances d) (db_instances d')"
    using new alist.extends_put_new by simp
  have "db_wf d'" if "db_wf d"
    using that new by (auto simp: db_wf_def) 
  with ext new show ?thesis by (simp add: tx_step_def tx_frame_def alist.extends_refl)
qed


section \<open>What one transaction stores\<close>

lemma find_instance_Some:
  assumes "find_instance d a b = Some i" and "t_wf (db_instances d)"
  shows "\<exists>r. t_find (db_instances d) i = Some r \<and> tr_txid r = a \<and> tr_instance_digest r = b"
proof -
  from assms(1) obtain r where "(i, r) \<in> set (db_instances d)" "tr_txid r = a" "tr_instance_digest r = b"
    by (auto simp: find_instance_def find_Some_iff in_set_conv_nth) (metis nth_mem)
  with assms(2) show ?thesis by (auto simp: t_find_set)
qed

lemma insert_instance_finds:
  assumes "insert_instance row d = Inr (i, d')" and "db_wf d"
  shows "\<exists>r. t_find (db_instances d') i = Some r \<and> tr_txid r = tr_txid row"
  using assms(1)
proof (cases rule: insert_instance_cases)
  case old
  then show ?thesis using find_instance_Some assms(2) by (fastforce simp: db_wf_def)
qed simp

lemma zip_check:
  assumes "length rs = length xs"
    and "try_fold (\<lambda>_ (row, x). rbind (f x) (\<lambda>e. guard (\<not> row \<noteq> e) E)) () (zip rs xs) = Inr u"
  shows "collect_res (map f xs) = Inr rs"
  using assms by (induction rs xs rule: list_induct2) auto

lemma check_inputs_rows:
  "check_inputs t ident i d = Inr u \<Longrightarrow>
     collect_res (map input_values (List.enumerate 0 (rt_vin t))) = Inr (rows_of i (db_inputs d))"
  by (auto simp: check_inputs_def Let_def intro!: zip_check)

lemma check_outputs_rows:
  "check_outputs t ident i d = Inr u \<Longrightarrow>
     collect_res (map output_values (rt_vout t)) = Inr (rows_of i (db_outputs d))"
  by (auto simp: check_outputs_def Let_def intro!: zip_check)

lemma insert_outputs_only:
  assumes "insert_outputs i outs d = Inr d'"
  shows "db_inputs d' = db_inputs d \<and> db_instances d' = db_instances d"
  by (rule try_fold_rule[OF assms[unfolded insert_outputs_def]]) (auto simp: put_output_def)

lemma insert_inputs_only:
  assumes "insert_inputs i ins d = Inr d'"
  shows "db_instances d' = db_instances d"
  by (rule try_fold_rule[OF assms[unfolded insert_inputs_def]]) (auto simp: put_input_def)

text \<open>The database says of instance \<open>i\<close> what the node said of the transaction.\<close>

definition tx_stored :: "crates \<Rightarrow> rpc_transaction \<Rightarrow> int \<Rightarrow> db \<Rightarrow> bool" where
  "tx_stored X t i d \<longleftrightarrow>
     (\<exists>ident row stored.
        tx_identity_of X t = Inr ident \<and> instance_values X t ident = Inr row \<and>
        t_find (db_instances d) i = Some stored \<and> tr_txid stored = rt_txid t \<and>
        instance_facts stored = instance_facts row \<and>
        collect_res (map input_values (List.enumerate 0 (rt_vin t))) = Inr (rows_of i (db_inputs d)) \<and>
        collect_res (map output_values (rt_vout t)) = Inr (rows_of i (db_outputs d)))"

lemma insert_transaction_parts:
  assumes "insert_transaction X t d = Inr (i, d')"
  obtains ident row d1 d2 where
    "tx_identity_of X t = Inr ident" "instance_values X t ident = Inr row"
    "insert_instance row d = Inr (i, d1)" "check_instance row i d1 = Inr ()"
    "insert_inputs i (rt_vin t) d1 = Inr d2" "check_inputs t ident i d2 = Inr ()"
    "insert_outputs i (rt_vout t) d2 = Inr d'" "check_outputs t ident i d' = Inr ()"
  using assms by (auto simp: insert_transaction_def)

lemma insert_transaction_step:
  assumes "insert_transaction X t d = Inr (i, d')" shows "tx_step i d d'"
  using assms
  by (rule insert_transaction_parts)
    (blast intro: tx_step_trans insert_instance_step insert_inputs_step insert_outputs_step)

lemma instance_values_txid: "instance_values X t i = Inr row \<Longrightarrow> tr_txid row = rt_txid t"
  by (auto simp: instance_values_def)

lemma insert_transaction_stored:
  assumes "insert_transaction X t d = Inr (i, d')" and "db_wf d"
  shows "tx_stored X t i d'"
  using assms(1)
proof (rule insert_transaction_parts)
  fix ident row d1 d2
  assume a: "tx_identity_of X t = Inr ident" "instance_values X t ident = Inr row"
    "insert_instance row d = Inr (i, d1)" "check_instance row i d1 = Inr ()"
    "insert_inputs i (rt_vin t) d1 = Inr d2" "check_inputs t ident i d2 = Inr ()"
    "insert_outputs i (rt_vout t) d2 = Inr d'" "check_outputs t ident i d' = Inr ()"
  have inst: "db_instances d' = db_instances d1" and inp: "db_inputs d' = db_inputs d2"
    using insert_outputs_only[OF a(7)] insert_inputs_only[OF a(5)] by simp_all
  obtain stored where "t_find (db_instances d1) i = Some stored" "tr_txid stored = rt_txid t"
    using insert_instance_finds[OF a(3) assms(2)] instance_values_txid[OF a(2)] by auto
  moreover from this have "instance_facts stored = instance_facts row"
    using a(4) by (auto simp: check_instance_def)
  ultimately show ?thesis
    unfolding tx_stored_def inst inp
    using a(1,2) check_inputs_rows[OF a(6)] check_outputs_rows[OF a(8)] by blast
qed

lemma tx_stored_keeps:
  assumes "tx_stored X t i d" and "tx_step j d d'" and "j \<noteq> i" and "db_wf d"
  shows "tx_stored X t i d'"
proof -
  have "db_wf d'" using assms by (simp add: tx_step_def)
  then have "rows_of i (db_inputs d') = rows_of i (db_inputs d)"
    "rows_of i (db_outputs d') = rows_of i (db_outputs d)"
    using assms by (auto intro!: rows_of_cong simp: tx_step_def db_wf_def)
  moreover have "t_find (db_instances d) i = Some r \<Longrightarrow> t_find (db_instances d') i = Some r" for r
    using assms(2) by (simp add: tx_step_def alist.extends_def)
  ultimately show ?thesis using assms(1) unfolding tx_stored_def by metis
qed


section \<open>What storing a block changes\<close>

text \<open>The parts of a witness and of its merge-mining link that are never rewritten.\<close>

definition witness_facts :: "witness_row \<Rightarrow> witness_row" where
  "witness_facts r = r\<lparr>wr_exact_witness_state := [], wr_witness_confirmations := None, wr_indexed_at := 0\<rparr>"

definition link_facts :: "link_row \<Rightarrow> link_row" where
  "link_facts r = r\<lparr>lk_parent_lookup_state := [], lk_parent_sources_agree := False, lk_verified_at := 0\<rparr>"

definition keeps_facts :: "('r \<Rightarrow> 'f) \<Rightarrow> ('k, 'r) table \<Rightarrow> ('k, 'r) table \<Rightarrow> bool" where
  "keeps_facts f t t' \<longleftrightarrow> (\<forall>k r. t_find t k = Some r \<longrightarrow> (\<exists>r'. t_find t' k = Some r' \<and> f r' = f r))"

lemma keeps_facts_refl: "keeps_facts f t t"
  by (simp add: keeps_facts_def)

lemma keeps_facts_trans: "keeps_facts f t u \<Longrightarrow> keeps_facts f u v \<Longrightarrow> keeps_facts f t v"
  unfolding keeps_facts_def by metis

lemma insert_update_keeps:
  assumes "insert_update c refs upd k r t = Inr t'" and "\<And>old new. f (upd old new) = f old"
  shows "keeps_facts f t t'"
  using insert_update_find[OF assms(1)] assms(2) by (auto simp: keeps_facts_def split: option.splits)

definition block_step :: "db \<Rightarrow> db \<Rightarrow> bool" where
  "block_step d d' \<longleftrightarrow>
     db_networks d' = db_networks d \<and> db_canonical d' = db_canonical d \<and>
     db_chain_state d' = db_chain_state d \<and> db_reorgs d' = db_reorgs d \<and>
     alist.extends (db_blocks d) (db_blocks d') \<and>
     alist.extends (db_instances d) (db_instances d') \<and>
     alist.extends (db_block_transactions d) (db_block_transactions d') \<and>
     alist.extends (db_inputs d) (db_inputs d') \<and> alist.extends (db_outputs d) (db_outputs d') \<and>
     keeps_facts witness_facts (db_witnesses d) (db_witnesses d') \<and>
     keeps_facts link_facts (db_links d) (db_links d') \<and>
     (db_wf d \<longrightarrow> db_wf d')"

lemmas step_refls = alist.extends_refl keeps_facts_refl

lemma block_step_refl: "block_step d d"
  by (simp add: block_step_def step_refls)

lemma block_step_trans: "block_step d e \<Longrightarrow> block_step e f \<Longrightarrow> block_step d f"
  using keeps_facts_trans[of witness_facts "db_witnesses d" "db_witnesses e" "db_witnesses f"]
    keeps_facts_trans[of link_facts "db_links d" "db_links e" "db_links f"]
  unfolding block_step_def by (simp add: alist.extends_def)

lemma tx_step_block_step: "tx_step i d d' \<Longrightarrow> block_step d d'"
  by (simp add: tx_step_def tx_frame_def block_step_def keeps_facts_refl alist.extends_refl)

lemma store_block_parts:
  assumes "store_block X net b d = Inr d'"
  obtains row t where "block_values X net b = Inr row"
    "insert_nothing check_block (block_refs d) (rb_hash (ib_block b)) row (db_blocks d) = Inr t"
    "d' = d\<lparr>db_blocks := t\<rparr>"
    "\<exists>stored. t_find t (rb_hash (ib_block b)) = Some stored \<and> block_facts stored = block_facts row"
  using assms by (auto simp: store_block_def put_block_def)

lemma store_block_step:
  assumes "store_block X net b d = Inr d'" shows "block_step d d'"
  using assms
proof (rule store_block_parts)
  fix row t
  assume t: "insert_nothing check_block (block_refs d) (rb_hash (ib_block b)) row (db_blocks d) = Inr t"
    and d': "d' = d\<lparr>db_blocks := t\<rparr>"
  show ?thesis using insert_nothing_extends[OF t] insert_nothing_wf[OF t]
    by (simp add: d' block_step_def step_refls db_wf_def)
qed

lemma update_facts:
  "witness_facts (witness_update old new) = witness_facts old"
  "link_facts (link_update l l') = link_facts l"
  by (simp_all add: witness_facts_def witness_update_def link_facts_def link_update_def)

lemma store_witness_parts:
  assumes "store_witness X b d = Inr d'"
  obtains row t where "witness_values X b = Inr row"
    "insert_update check_witness (witness_refs d) witness_update (witness_of X b) row (db_witnesses d) = Inr t"
    "d' = d\<lparr>db_witnesses := t\<rparr>"
  using assms by (auto simp: store_witness_def put_witness_def)

lemma store_witness_step:
  assumes "store_witness X b d = Inr d'" shows "block_step d d'"
  using assms
proof (rule store_witness_parts)
  fix row t
  assume t: "insert_update check_witness (witness_refs d) witness_update (witness_of X b) row (db_witnesses d) = Inr t"
    and d': "d' = d\<lparr>db_witnesses := t\<rparr>"
  have "keeps_facts witness_facts (db_witnesses d) t" by (rule insert_update_keeps[OF t]) (rule update_facts)
  then show ?thesis using insert_update_wf[OF t]
    by (simp add: d' block_step_def step_refls db_wf_def)
qed

lemma put_position_parts:
  assumes "put_position (w, p) i d = Inr d'"
  obtains t where "d' = d\<lparr>db_block_transactions := t\<rparr>"
    "insert_nothing check_position (position_refs d) (w, p) i (db_block_transactions d) = Inr t"
  using assms by (auto simp: put_position_def)

lemma put_position_step:
  assumes "put_position (w, p) i d = Inr d'" shows "block_step d d'"
  using assms
proof (rule put_position_parts)
  fix t
  assume t: "insert_nothing check_position (position_refs d) (w, p) i (db_block_transactions d) = Inr t"
    and d': "d' = d\<lparr>db_block_transactions := t\<rparr>"
  have fresh: "t_find (db_block_transactions d) (w, q) \<noteq> Some i"
    if "t_find (db_block_transactions d) (w, p) = None" for q
  proof
    assume q: "t_find (db_block_transactions d) (w, q) = Some i"
    from t that have "position_refs d (w, p) i = Inr ()" by (simp add: insert_nothing_Inr)
    then have "\<forall>x \<in> set (db_block_transactions d). \<not> (fst (fst x) = w \<and> snd x = i)"
      by (simp add: position_refs_def list_ex_iff case_prod_beta)
    with t_find_in_set[OF q] show False by force
  qed
  have "db_wf d'" if wf: "db_wf d"
  proof -
    let ?T = "db_block_transactions d"
    have inj: "p' = q'" if "t_find ?T (w', p') = Some j" "t_find ?T (w', q') = Some j" for w' p' q' j
      using that wf unfolding db_wf_def by blast
    have find: "t_find t (w', p') = (if w' = w \<and> p' = p then Some (case t_find ?T (w, p) of
        None \<Rightarrow> i | Some old \<Rightarrow> old) else t_find ?T (w', p'))" for w' p'
      using insert_nothing_find[OF t, of "(w', p')"] by simp
    have "p' = q'" if "t_find t (w', p') = Some j" "t_find t (w', q') = Some j" for w' p' q' j
    proof (cases "t_find ?T (w, p)")
      case None
      then show ?thesis using that fresh[of p'] fresh[of q'] inj unfolding find by (auto split: if_splits)
    next
      case (Some old)
      then have "t_find t = t_find ?T" using find by fastforce
      then show ?thesis using that inj by simp
    qed
    then show ?thesis using wf insert_nothing_wf[OF t] by (simp add: d' db_wf_def)
  qed
  with insert_nothing_extends[OF t] show ?thesis by (simp add: d' block_step_def step_refls)
qed

lemma store_position_parts:
  assumes "store_position X w d (k, t) = Inr d'"
  obtains i d1 where "insert_transaction X t d = Inr (i, d1)" "k < 2 ^ 31"
    "put_position (w, int k) i d1 = Inr d'"
    "t_find (db_block_transactions d') (w, int k) = Some i"
  using assms by (auto simp: store_position_def)

lemma store_position_step:
  assumes "store_position X w d (k, t) = Inr d'" shows "block_step d d'"
  using assms
  by (rule store_position_parts)
    (blast intro: block_step_trans tx_step_block_step insert_transaction_step put_position_step)

lemma store_transactions_step:
  assumes "store_transactions X b d = Inr d'" shows "block_step d d'"
  by (rule try_fold_rule[OF assms[unfolded store_transactions_def] block_step_refl])
    (auto intro: block_step_trans store_position_step)

lemma put_pool_step: "put_pool k r d = Inr d' \<Longrightarrow> block_step d d'"
  by (auto simp: put_pool_def block_step_def step_refls db_wf_def)

lemma store_pools_step:
  assumes "store_pools X b d = Inr d'" shows "block_step d d'"
  by (rule try_fold_rule[OF assms[unfolded store_pools_def] block_step_refl])
    (auto intro: block_step_trans put_pool_step)

lemma put_link_parts:
  assumes "put_link k r d = Inr d'"
  obtains t where "insert_update check_link (\<lambda>k _. of_witness d k) link_update k r (db_links d) = Inr t"
    "d' = d\<lparr>db_links := t\<rparr>"
  using assms by (auto simp: put_link_def)

lemma put_link_step:
  assumes "put_link k r d = Inr d'" shows "block_step d d'"
  using assms
proof (rule put_link_parts)
  fix t
  assume t: "insert_update check_link (\<lambda>k _. of_witness d k) link_update k r (db_links d) = Inr t"
    and d': "d' = d\<lparr>db_links := t\<rparr>"
  have "keeps_facts link_facts (db_links d) t" by (rule insert_update_keeps[OF t]) (rule update_facts)
  then show ?thesis using insert_update_wf[OF t]
    by (simp add: d' block_step_def step_refls db_wf_def)
qed

lemma store_observation_step: "store_observation X w d ob = Inr d' \<Longrightarrow> block_step d d'"
  by (auto simp: store_observation_def put_observation_def block_step_def step_refls db_wf_def)

lemma delete_observations_step: "block_step d (delete_observations w d)"
  by (simp add: delete_observations_def block_step_def step_refls db_wf_def)

lemma store_observations_step:
  assumes "try_fold (store_observation X w) d obs = Inr d'" shows "block_step d d'"
  by (rule try_fold_rule[OF assms block_step_refl])
    (auto intro: block_step_trans store_observation_step)

lemma store_evidence_step:
  assumes "store_evidence X b d = Inr d'" shows "block_step d d'"
proof (cases "ib_auxpow b")
  case None
  then show ?thesis using assms by (simp add: store_evidence_def block_step_refl)
next
  case (Some aux)
  then obtain row d1 where "put_link (witness_of X b) row d = Inr d1"
    "try_fold (store_observation X (witness_of X b)) (delete_observations (witness_of X b) d1)
       (va_parent_observations aux) = Inr d'"
    using assms by (auto simp: store_evidence_def)
  then show ?thesis
    by (blast intro: block_step_trans put_link_step delete_observations_step store_observations_step)
qed

lemma insert_block_parts:
  assumes "insert_block X net b d = Inr d'"
  obtains d1 d2 d3 d4 where "store_block X net b d = Inr d1" "store_witness X b d1 = Inr d2"
    "store_transactions X b d2 = Inr d3" "store_pools X b d3 = Inr d4" "store_evidence X b d4 = Inr d'"
  using assms by (auto simp: insert_block_def)

lemma insert_block_step:
  assumes "insert_block X net b d = Inr d'" shows "block_step d d'"
  using assms
proof (rule insert_block_parts)
  fix d1 d2 d3 d4
  assume "store_block X net b d = Inr d1" "store_witness X b d1 = Inr d2"
    "store_transactions X b d2 = Inr d3" "store_pools X b d3 = Inr d4" "store_evidence X b d4 = Inr d'"
  then have "block_step d d1" "block_step d1 d2" "block_step d2 d3" "block_step d3 d4" "block_step d4 d'"
    by (simp_all add: store_block_step store_witness_step store_transactions_step store_pools_step
        store_evidence_step)
  then show ?thesis by (meson block_step_trans)
qed


section \<open>What storing a block leaves behind\<close>

definition ev_frame :: "db \<Rightarrow> db \<Rightarrow> bool" where
  "ev_frame d d' \<longleftrightarrow>
     db_blocks d' = db_blocks d \<and> db_witnesses d' = db_witnesses d \<and> db_instances d' = db_instances d \<and>
     db_inputs d' = db_inputs d \<and> db_outputs d' = db_outputs d \<and>
     db_block_transactions d' = db_block_transactions d"

lemma ev_frame_refl: "ev_frame d d"
  by (simp add: ev_frame_def)

lemma ev_frame_trans: "ev_frame d e \<Longrightarrow> ev_frame e f \<Longrightarrow> ev_frame d f"
  by (simp add: ev_frame_def)

lemma store_pools_frame:
  assumes "store_pools X b d = Inr d'" shows "ev_frame d d' \<and> db_links d' = db_links d"
  by (rule try_fold_rule[OF assms[unfolded store_pools_def]]) (auto simp: ev_frame_def put_pool_def)

lemma store_observation_frame:
  "store_observation X w d ob = Inr d' \<Longrightarrow> ev_frame d d' \<and> db_links d' = db_links d"
  by (auto simp: store_observation_def put_observation_def ev_frame_def)

lemma store_observations_frame:
  assumes "try_fold (store_observation X w) d obs = Inr d'"
  shows "ev_frame d d' \<and> db_links d' = db_links d"
proof (rule try_fold_rule[OF assms])
  fix x t t'
  assume "ev_frame d t \<and> db_links t = db_links d" "store_observation X w t x = Inr t'"
  then show "ev_frame d t' \<and> db_links t' = db_links d"
    using store_observation_frame[of X w t x t'] ev_frame_trans[of d t t'] by simp
qed (simp add: ev_frame_refl)

lemma store_evidence_frame:
  assumes "store_evidence X b d = Inr d'" shows "ev_frame d d'"
proof (cases "ib_auxpow b")
  case None
  then show ?thesis using assms by (simp add: store_evidence_def ev_frame_refl)
next
  case (Some aux)
  then obtain row d1 where "put_link (witness_of X b) row d = Inr d1"
    and "try_fold (store_observation X (witness_of X b)) (delete_observations (witness_of X b) d1)
       (va_parent_observations aux) = Inr d'"
    using assms by (auto simp: store_evidence_def)
  moreover from this have "ev_frame d (delete_observations (witness_of X b) d1)"
    by (auto simp: put_link_def ev_frame_def delete_observations_def)
  ultimately show ?thesis using store_observations_frame ev_frame_trans by blast
qed

definition txs_stored :: "crates \<Rightarrow> witness_key \<Rightarrow> rpc_transaction list \<Rightarrow> nat \<Rightarrow> db \<Rightarrow> bool" where
  "txs_stored X w ts n d \<longleftrightarrow>
     (\<forall>p < n. \<exists>i. t_find (db_block_transactions d) (w, int p) = Some i \<and> tx_stored X (ts ! p) i d)"

lemma store_position_stored:
  assumes "txs_stored X w ts k d" and "db_wf d" and "store_position X w d (k, ts ! k) = Inr d'"
  shows "txs_stored X w ts (Suc k) d'"
  using assms(3)
proof (rule store_position_parts)
  fix i d1
  assume t: "insert_transaction X (ts ! k) d = Inr (i, d1)" and k: "k < 2 ^ 31"
    and pos: "put_position (w, int k) i d1 = Inr d'"
    and at: "t_find (db_block_transactions d') (w, int k) = Some i"
  have step: "tx_step i d d1" using t by (rule insert_transaction_step)
  have wf': "db_wf d'"
    using step put_position_step[OF pos] assms(2) by (simp add: tx_step_def block_step_def)
  have tabs: "db_instances d' = db_instances d1" "db_inputs d' = db_inputs d1" "db_outputs d' = db_outputs d1"
    using pos by (auto simp: put_position_def)
  have moved: "tx_stored X t' j d1 \<longleftrightarrow> tx_stored X t' j d'" for t' j
    by (simp add: tx_stored_def tabs)
  have "\<exists>j. t_find (db_block_transactions d') (w, int p) = Some j \<and> tx_stored X (ts ! p) j d'"
    if "p < k" for p
  proof -
    from assms(1) that obtain j where j: "t_find (db_block_transactions d) (w, int p) = Some j"
      and st: "tx_stored X (ts ! p) j d" by (auto simp: txs_stored_def)
    have at': "t_find (db_block_transactions d') (w, int p) = Some j"
      using j step alist.extendsD[of "db_block_transactions d1" "db_block_transactions d'"]
        put_position_step[OF pos] by (simp add: tx_step_def tx_frame_def block_step_def)
    have "i \<noteq> j"
    proof
      assume "i = j"
      with at at' wf' have "int k = int p" unfolding db_wf_def by blast
      with that show False by simp
    qed
    then show ?thesis using at' tx_stored_keeps[OF st step _ assms(2)] moved by blast
  qed
  moreover have "tx_stored X (ts ! k) i d'"
    using insert_transaction_stored[OF t assms(2)] moved by simp
  ultimately show ?thesis using at by (auto simp: txs_stored_def less_Suc_eq)
qed

lemma store_transactions_stored:
  assumes "store_transactions X b d = Inr d'" and "db_wf d"
  shows "txs_stored X (witness_of X b) (rb_tx (ib_block b)) (length (rb_tx (ib_block b))) d'"
proof -
  let ?ts = "rb_tx (ib_block b)"
  let ?w = "witness_of X b"
  have "txs_stored X ?w ?ts (length (List.enumerate 0 ?ts)) d' \<and> db_wf d'"
  proof (rule try_fold_invariant[OF assms(1)[unfolded store_transactions_def]])
    show "txs_stored X ?w ?ts 0 d \<and> db_wf d" using assms(2) by (simp add: txs_stored_def)
    fix i t t'
    assume i: "i < length (List.enumerate 0 ?ts)" and inv: "txs_stored X ?w ?ts i t \<and> db_wf t"
      and st: "store_position X ?w t (List.enumerate 0 ?ts ! i) = Inr t'"
    have "List.enumerate 0 ?ts ! i = (i, ?ts ! i)" using i by (simp add: nth_enumerate_eq)
    then show "txs_stored X ?w ?ts (Suc i) t' \<and> db_wf t'"
      using st inv store_position_stored store_position_step by (metis block_step_def)
  qed
  then show ?thesis by simp
qed

definition block_stored :: "crates \<Rightarrow> string \<Rightarrow> indexed_block \<Rightarrow> db \<Rightarrow> bool" where
  "block_stored X net b d \<longleftrightarrow>
     (\<exists>row stored. block_values X net b = Inr row \<and>
        t_find (db_blocks d) (rb_hash (ib_block b)) = Some stored \<and> block_facts stored = block_facts row) \<and>
     (\<exists>w stored. witness_values X b = Inr w \<and> t_find (db_witnesses d) (witness_of X b) = Some stored \<and>
        wr_exact_witness_state stored = wr_exact_witness_state w \<and>
        wr_witness_confirmations stored = wr_witness_confirmations w \<and>
        wr_indexed_at stored = ib_fetched_at b) \<and>
     txs_stored X (witness_of X b) (rb_tx (ib_block b)) (length (rb_tx (ib_block b))) d"

lemma witness_values_at: "witness_values X b = Inr w \<Longrightarrow> wr_indexed_at w = ib_fetched_at b"
  by (auto simp: witness_values_def split: option.splits)

lemma insert_block_stored:
  assumes "insert_block X net b d = Inr d'" and "db_wf d"
  shows "block_stored X net b d'"
  using assms(1)
proof (rule insert_block_parts)
  fix d1 d2 d3 d4
  assume s: "store_block X net b d = Inr d1" "store_witness X b d1 = Inr d2"
    "store_transactions X b d2 = Inr d3" "store_pools X b d3 = Inr d4" "store_evidence X b d4 = Inr d'"
  have fr: "ev_frame d3 d'"
    using store_pools_frame[OF s(4)] store_evidence_frame[OF s(5)] ev_frame_trans by blast
  have b3: "block_step d1 d3"
    using store_witness_step[OF s(2)] store_transactions_step[OF s(3)] by (rule block_step_trans)
  have wf2: "db_wf d2"
    using store_block_step[OF s(1)] store_witness_step[OF s(2)] assms(2) by (simp add: block_step_def)
  have "\<exists>row stored. block_values X net b = Inr row \<and>
      t_find (db_blocks d') (rb_hash (ib_block b)) = Some stored \<and> block_facts stored = block_facts row"
    using s(1) b3 fr
    by (auto elim!: store_block_parts simp: block_step_def alist.extends_def ev_frame_def)
  moreover have "db_witnesses d' = db_witnesses d2"
  proof -
    have "db_witnesses d3 = db_witnesses d2"
      by (rule try_fold_rule[OF s(3)[unfolded store_transactions_def]])
        (auto elim!: store_position_parts dest!: insert_transaction_step
          simp: tx_step_def tx_frame_def put_position_def)
    then show ?thesis using fr by (simp add: ev_frame_def)
  qed
  moreover have "\<exists>w stored. witness_values X b = Inr w \<and> t_find (db_witnesses d2) (witness_of X b) = Some stored \<and>
        wr_exact_witness_state stored = wr_exact_witness_state w \<and>
        wr_witness_confirmations stored = wr_witness_confirmations w \<and>
        wr_indexed_at stored = ib_fetched_at b"
    using s(2)
  proof (rule store_witness_parts)
    fix w t
    assume w: "witness_values X b = Inr w" and d2: "d2 = d1\<lparr>db_witnesses := t\<rparr>"
      and t: "insert_update check_witness (witness_refs d1) witness_update (witness_of X b) w (db_witnesses d1) = Inr t"
    show ?thesis
      using w witness_values_at[OF w] insert_update_find[OF t, of "witness_of X b"]
      by (cases "t_find (db_witnesses d1) (witness_of X b)") (simp_all add: d2 witness_update_def)
  qed
  moreover have "txs_stored X (witness_of X b) (rb_tx (ib_block b)) (length (rb_tx (ib_block b))) d'"
    using store_transactions_stored[OF s(3) wf2] fr
    by (simp add: txs_stored_def tx_stored_def ev_frame_def)
  ultimately show ?thesis unfolding block_stored_def by metis
qed


section \<open>The evidence of a stored block\<close>

lemma store_observation_find:
  assumes "store_observation X w d ob = Inr d'"
  shows "t_find (db_observations d') (w', s) =
     (if w' = w \<and> s = po_source ob then result_ok (observation_values X ob)
      else t_find (db_observations d) (w', s))"
proof -
  from assms obtain row t where row: "observation_values X ob = Inr row"
    and t: "insert_update check_observation (\<lambda>k _. of_witness d (fst k)) (\<lambda>old new. new) (w, po_source ob) row
              (db_observations d) = Inr t"
    and d': "d' = d\<lparr>db_observations := t\<rparr>"
    by (auto simp: store_observation_def put_observation_def)
  show ?thesis using insert_update_find[OF t, of "(w', s)"] row
    by (auto simp: d' split: option.splits)
qed

lemma store_observations_find:
  "try_fold (store_observation X w) d obs = Inr d' \<Longrightarrow>
   t_find (db_observations d') (w', s) =
     (case find (\<lambda>ob. w' = w \<and> po_source ob = s) (rev obs) of
        Some ob \<Rightarrow> result_ok (observation_values X ob)
      | None \<Rightarrow> t_find (db_observations d) (w', s))"
proof (induction obs arbitrary: d' rule: rev_induct)
  case (snoc ob obs)
  then obtain e where e: "try_fold (store_observation X w) d obs = Inr e"
    and last: "store_observation X w e ob = Inr d'" by (auto simp: try_fold_append)
  show ?case using snoc.IH[OF e] store_observation_find[OF last] by auto
qed simp

text \<open>After storing, the link of the witness carries the classification and time of this very pass,
  and its observations are those of this pass and no others.\<close>

definition evidence_stored :: "crates \<Rightarrow> indexed_block \<Rightarrow> db \<Rightarrow> bool" where
  "evidence_stored X b d =
     (case ib_auxpow b of
        None \<Rightarrow> True
      | Some aux \<Rightarrow>
          (\<exists>l. t_find (db_links d) (witness_of X b) = Some l \<and> lk_verified_at l = ib_fetched_at b \<and>
             lk_parent_lookup_state l = lookup_state_str (va_parent_lookup_state aux) \<and>
             lk_parent_sources_agree l = va_parent_sources_agree aux) \<and>
          (\<forall>s. t_find (db_observations d) (witness_of X b, s) =
             Option.bind (find (\<lambda>ob. po_source ob = s) (rev (va_parent_observations aux)))
               (\<lambda>ob. result_ok (observation_values X ob))))"

lemma link_values_mutable:
  "link_values b aux = Inr row \<Longrightarrow> lk_verified_at row = ib_fetched_at b \<and>
     lk_parent_lookup_state row = lookup_state_str (va_parent_lookup_state aux) \<and>
     lk_parent_sources_agree row = va_parent_sources_agree aux"
  by (auto simp: link_values_def)

lemma store_evidence_stored:
  assumes "store_evidence X b d = Inr d'"
  shows "evidence_stored X b d'"
proof (cases "ib_auxpow b")
  case None
  then show ?thesis by (simp add: evidence_stored_def)
next
  case (Some aux)
  define w where "w = witness_of X b"
  from Some assms obtain row d1 where row: "link_values b aux = Inr row"
    and put: "put_link w row d = Inr d1"
    and obs: "try_fold (store_observation X w) (delete_observations w d1) (va_parent_observations aux) = Inr d'"
    by (auto simp: store_evidence_def w_def)
  from put obtain t where
    t: "insert_update check_link (\<lambda>k _. of_witness d k) link_update w row (db_links d) = Inr t"
    and d1: "d1 = d\<lparr>db_links := t\<rparr>" by (rule put_link_parts)
  have "db_links d' = t"
    using store_observations_frame[OF obs] by (simp add: delete_observations_def d1)
  moreover have "\<exists>l. t_find t w = Some l \<and> lk_verified_at l = ib_fetched_at b \<and>
      lk_parent_lookup_state l = lookup_state_str (va_parent_lookup_state aux) \<and>
      lk_parent_sources_agree l = va_parent_sources_agree aux"
    using insert_update_find[OF t, of w] link_values_mutable[OF row]
    by (cases "t_find (db_links d) w") (simp_all add: link_update_def)
  moreover have "t_find (db_observations d') (w, s) =
      Option.bind (find (\<lambda>ob. po_source ob = s) (rev (va_parent_observations aux)))
        (\<lambda>ob. result_ok (observation_values X ob))" for s
    using store_observations_find[OF obs, of w s]
    by (simp add: delete_observations_def split: option.splits)
  ultimately show ?thesis by (simp add: evidence_stored_def Some w_def)
qed

lemma insert_block_evidence: "insert_block X net b d = Inr d' \<Longrightarrow> evidence_stored X b d'"
  by (erule insert_block_parts) (rule store_evidence_stored)

section \<open>Properties\<close>

text \<open>C32. Storing a block is faithful: on a well-formed database a successful store leaves a
  well-formed database in which the block row has the node's facts, the witness the state of this
  pass, every transaction of the block stands at its position with exactly the node's facts,
  inputs and outputs in order, and the merge-mining link and observations are those of this
  verification pass, with no observation left over from sources of an earlier one.\<close>

theorem insert_block_faithful:
  assumes "insert_block X net b d = Inr d'" and "db_wf d"
  shows "db_wf d' \<and> block_stored X net b d' \<and> evidence_stored X b d'"
  using assms insert_block_step[OF assms(1)] insert_block_stored[OF assms] insert_block_evidence[OF assms(1)]
  by (simp add: block_step_def)

text \<open>C33. Stored facts are immutable.  Whatever block is stored, successfully or again, no stored
  block, transaction instance, position, input or output changes, nor the immutable part of a
  witness or of a merge-mining link; and the networks, the canonical chain, the indexer's state
  and the reorganization log are not touched.\<close>

theorem stored_facts_immutable:
  assumes "insert_block X net b d = Inr d'"
  shows "(\<forall>k r. t_find (db_blocks d) k = Some r \<longrightarrow> t_find (db_blocks d') k = Some r) \<and>
     (\<forall>k r. t_find (db_instances d) k = Some r \<longrightarrow> t_find (db_instances d') k = Some r) \<and>
     (\<forall>k r. t_find (db_block_transactions d) k = Some r \<longrightarrow> t_find (db_block_transactions d') k = Some r) \<and>
     (\<forall>k r. t_find (db_inputs d) k = Some r \<longrightarrow> t_find (db_inputs d') k = Some r) \<and>
     (\<forall>k r. t_find (db_outputs d) k = Some r \<longrightarrow> t_find (db_outputs d') k = Some r) \<and>
     keeps_facts witness_facts (db_witnesses d) (db_witnesses d') \<and>
     keeps_facts link_facts (db_links d) (db_links d') \<and>
     db_networks d' = db_networks d \<and> db_canonical d' = db_canonical d \<and>
     db_chain_state d' = db_chain_state d \<and> db_reorgs d' = db_reorgs d"
  using insert_block_step[OF assms] unfolding block_step_def alist.extends_def by blast

lemma example_stores:
  "is_ok (insert_block tiny_crates ''testnet'' (example_block CHR ''1'' 0 None) example_db)"
  by code_simp

lemma example_db_wf: "db_wf example_db"
  by (simp add: db_wf_def example_db_def empty_db_def)

theorem insert_block_faithful_witness:
  "\<exists>d'. insert_block tiny_crates ''testnet'' (example_block CHR ''1'' 0 None) example_db = Inr d' \<and>
     db_wf d' \<and> block_stored tiny_crates ''testnet'' (example_block CHR ''1'' 0 None) d'"
proof -
  obtain d' where d': "insert_block tiny_crates ''testnet'' (example_block CHR ''1'' 0 None) example_db = Inr d'"
    using example_stores by (auto simp: is_ok_iff)
  show ?thesis using insert_block_faithful[OF d' example_db_wf] d' by blast
qed

theorem stored_facts_immutable_witness:
  "\<exists>d'. insert_block tiny_crates ''testnet'' (example_block CHR ''1'' 0 None) example_db = Inr d' \<and>
     db_networks d' = db_networks example_db"
proof -
  obtain d' where d': "insert_block tiny_crates ''testnet'' (example_block CHR ''1'' 0 None) example_db = Inr d'"
    using example_stores by (auto simp: is_ok_iff)
  show ?thesis using stored_facts_immutable[OF d'] d' by blast
qed

text \<open>The comparison of inputs and outputs follows their insertion, so it cannot see a trailing
  output that is new: the same transaction reported with one more output is accepted.\<close>

definition grown_coinbase :: "char \<Rightarrow> rpc_transaction" where
  "grown_coinbase c = (example_coinbase c)
     \<lparr>rt_vout := rt_vout (example_coinbase c) @ [(rt_vout (example_coinbase c) ! 0)\<lparr>ro_n := 1\<rparr>]\<rparr>"

lemma trailing_output_accepted:
  "(case insert_transaction tiny_crates (example_coinbase CHR ''1'') example_db of
      Inr (i, d1) \<Rightarrow>
        (case insert_transaction tiny_crates (grown_coinbase CHR ''1'') d1 of
           Inr (j, d2) \<Rightarrow> j = i \<and> length (rows_of i (db_outputs d1)) = 1 \<and>
             length (rows_of i (db_outputs d2)) = 2
         | Inl _ \<Rightarrow> False)
    | Inl _ \<Rightarrow> False)"
  by code_simp

end
