(* ===== verification/Db_Chain.thy ===== *)
theory Db_Chain imports Db_Facts begin

text \<open>
  The canonical chain in the database (\<open>Database\<close> in \<open>src/db.rs\<close>): binding the database
  to a network, reading the tip and a height, committing the next block, replacing a branch in one
  transaction, and the indexer's progress row.  Every operation is a transaction body: a function
  that yields its answer and the new database, or an error, on which nothing is kept.
  \<open>now\<close> is the transaction's time.
\<close>

record chain_tip =
  ct_height :: nat
  ct_block_hash :: string
  ct_witness_hash :: string

section \<open>The network row\<close>

definition network_values :: "network_config \<Rightarrow> int \<Rightarrow> int \<Rightarrow> datetime \<Rightarrow> network_row" where
  "network_values n halving_interval first_halving_height now =
     \<lparr>nr_display_name = nc_display_name n, nr_symbol = nc_symbol n, nr_decimals = int (nc_decimals n),
      nr_coinbase_maturity = int (nc_coinbase_maturity n),
      nr_target_spacing_seconds = int (nc_target_spacing_seconds n),
      nr_max_supply_zat = nc_max_supply_zat n, nr_initial_subsidy_zat = nc_initial_subsidy_zat n,
      nr_halving_interval = halving_interval, nr_first_halving_height = first_halving_height,
      nr_genesis_hash = nc_genesis_hash n, nr_created_at = now\<rparr>"

text \<open>Every column that identifies the chain: all but the ticker and the creation time.\<close>

definition network_identity :: "network_row \<Rightarrow> string \<times> int \<times> string \<times> int \<times> int \<times> int \<times> int \<times> int \<times> int" where
  "network_identity r =
     (nr_genesis_hash r, nr_decimals r, nr_display_name r, nr_coinbase_maturity r,
      nr_target_spacing_seconds r, nr_max_supply_zat r, nr_initial_subsidy_zat r,
      nr_halving_interval r, nr_first_halving_height r)"

definition starting_state :: "datetime \<Rightarrow> chain_state_row" where
  "starting_state now =
     \<lparr>st_indexed_height = None, st_indexed_hash = None, st_indexed_witness_hash = None,
      st_node_height = None, st_node_hash = None, st_status = ''starting'', st_last_error = None,
      st_updated_at = now\<rparr>"

definition initialize_network :: "network_config \<Rightarrow> datetime \<Rightarrow> (db, unit) tx" where
  "initialize_network n now d =
     rbind (to_i64 (nc_halving_interval n) ''halving interval'') (\<lambda>halving_interval.
     rbind (to_i64 (nc_first_halving_height n) ''first halving height'') (\<lambda>first_halving_height.
     let row = network_values n halving_interval first_halving_height now in
     rbind (put_network (nc_id n) row d) (\<lambda>d1.
     rbind (ok_or (t_find (db_networks d1) (nc_id n)) (Database RowNotFound)) (\<lambda>stored.
     rbind (guard (\<not> network_identity stored \<noteq> network_identity row)
              (Config (''database network identity for '' @ nc_id n @
                 '' does not match runtime configuration''))) (\<lambda>_.
     let d2 = d1\<lparr>db_networks := t_put (nc_id n) (stored\<lparr>nr_symbol := nc_symbol n\<rparr>) (db_networks d1)\<rparr> in
     rbind (insert_nothing (\<lambda>_ _. Inr ())
              (\<lambda>k _. guard (t_find (db_networks d2) k \<noteq> None) foreign_key_violation)
              (nc_id n) (starting_state now) (db_chain_state d2)) (\<lambda>states.
     Inr ((), d2\<lparr>db_chain_state := states\<rparr>)))))))"

section \<open>Reading the chain\<close>

definition canonical_tip :: "string \<Rightarrow> db \<Rightarrow> chain_tip option result" where
  "canonical_tip net d =
     (case rev (rows_of net (db_canonical d)) of
        [] \<Rightarrow> Inr None
      | (height, row) # _ \<Rightarrow>
          rbind (ok_or (u64_try_from height) (InvalidNodeResponse ''negative stored height'')) (\<lambda>h.
          Inr (Some \<lparr>ct_height = h, ct_block_hash = cr_block_hash row,
                     ct_witness_hash = cr_witness_hash row\<rparr>)))"

definition canonical_hash :: "string \<Rightarrow> nat \<Rightarrow> db \<Rightarrow> string option result" where
  "canonical_hash net height d =
     rbind (to_i64 height ''height'') (\<lambda>h.
     Inr (map_option cr_block_hash (t_find (db_canonical d) (net, h))))"

text \<open>The canonical selections with a link, with their height, hash and time of verification.\<close>

definition linked_selections :: "string \<Rightarrow> db \<Rightarrow> (int \<times> string \<times> datetime) list" where
  "linked_selections net d =
     List.map_filter (\<lambda>((n, h), r).
       if n \<noteq> net then None
       else map_option (\<lambda>l. (h, cr_block_hash r, lk_verified_at l))
              (t_find (db_links d) (cr_block_hash r, cr_witness_hash r))) (db_canonical d)"

text \<open>Rows with equal keys come in table order; SQL leaves their order open.\<close>

definition evidence_refresh_candidate ::
    "string \<Rightarrow> nat \<Rightarrow> datetime \<Rightarrow> db \<Rightarrow> (nat \<times> string) option result" where
  "evidence_refresh_candidate net depth now d =
     rbind (to_i64 depth ''evidence refresh depth'') (\<lambda>depth.
     let tip = (case rev (rows_of net (db_canonical d)) of [] \<Rightarrow> 0 | (h, _) # _ \<Rightarrow> h);
         stale = filter (\<lambda>(h, _, verified_at). h \<ge> max 1 (tip - depth) \<and>
                    verified_at < now - PARENT_EVIDENCE_REFRESH_INTERVAL_SECONDS * 1000000)
                   (linked_selections net d);
         by_time = sort_key (\<lambda>(_, _, verified_at). verified_at) stale;
         ordered = filter (\<lambda>(h, _). h = tip) by_time @ filter (\<lambda>(h, _). h \<noteq> tip) by_time in
     (case ordered of
        [] \<Rightarrow> Inr None
      | (height, hash, _) # _ \<Rightarrow>
          rbind (ok_or (u64_try_from height) (InvalidNodeResponse ''negative refresh candidate height''))
            (\<lambda>h. Inr (Some (h, hash)))))"

section \<open>Committing the next block\<close>

definition insert_canonical_selector ::
    "crates \<Rightarrow> string \<Rightarrow> datetime \<Rightarrow> indexed_block \<Rightarrow> db \<Rightarrow> db result" where
  "insert_canonical_selector X net now b d =
     rbind (to_i64 (rb_height (ib_block b)) ''block height'') (\<lambda>height.
     put_canonical (net, height)
       \<lparr>cr_block_hash = rb_hash (ib_block b), cr_witness_hash = witness_hash X b, cr_selected_at = now\<rparr> d)"

definition select_canonical :: "crates \<Rightarrow> string \<Rightarrow> datetime \<Rightarrow> indexed_block \<Rightarrow> db \<Rightarrow> db result" where
  "select_canonical X net now b d =
     rbind (insert_canonical_selector X net now b d) (\<lambda>d1.
     rbind (to_i64 (rb_height (ib_block b)) ''block height'') (\<lambda>height.
     rbind (ok_or (t_find (db_canonical d1) (net, height)) (Database RowNotFound)) (\<lambda>row.
     rbind (guard (\<not> (cr_block_hash row \<noteq> rb_hash (ib_block b) \<or> cr_witness_hash row \<noteq> witness_hash X b))
              (NotReady ''canonical height changed before the block could be committed'')) (\<lambda>_.
     Inr (update_chain_state net (\<lambda>s. s\<lparr>st_indexed_height := Some height,
            st_indexed_hash := Some (rb_hash (ib_block b)),
            st_indexed_witness_hash := Some (witness_hash X b),
            st_status := ''syncing'', st_last_error := None, st_updated_at := now\<rparr>) d1)))))"

definition commit_block :: "crates \<Rightarrow> string \<Rightarrow> datetime \<Rightarrow> indexed_block \<Rightarrow> (db, unit) tx" where
  "commit_block X net now b d =
     rbind (insert_block X net b d) (\<lambda>d1.
     rbind (select_canonical X net now b d1) (\<lambda>d2.
     Inr ((), d2)))"

definition refresh_block_evidence :: "crates \<Rightarrow> string \<Rightarrow> indexed_block \<Rightarrow> (db, unit) tx" where
  "refresh_block_evidence X net b d = rbind (insert_block X net b d) (\<lambda>d1. Inr ((), d1))"

section \<open>Replacing a branch\<close>

definition not_contiguous :: explorer_error where
  "not_contiguous = NotReady ''staged reorganization branch is not contiguous''"

fun contiguous_from :: "nat \<Rightarrow> string option \<Rightarrow> indexed_block list \<Rightarrow> unit result" where
  "contiguous_from expected_height expected_previous [] = Inr ()"
| "contiguous_from expected_height expected_previous (b # bs) =
     (if rb_height (ib_block b) \<noteq> expected_height \<or>
         rb_previousblockhash (ib_block b) \<noteq> expected_previous
      then Inl not_contiguous
      else contiguous_from (u64_saturating_add expected_height 1) (Some (rb_hash (ib_block b))) bs)"

definition validate_replacement_branch ::
    "(nat \<times> string) option \<Rightarrow> indexed_block list \<Rightarrow> unit result" where
  "validate_replacement_branch ancestor replacement =
     contiguous_from (case ancestor of None \<Rightarrow> 0 | Some (height, _) \<Rightarrow> u64_saturating_add height 1)
       (map_option snd ancestor) replacement"

definition lock_tip :: "string \<Rightarrow> chain_tip \<Rightarrow> db \<Rightarrow> unit result" where
  "lock_tip net old_tip d =
     rbind (ok_or (t_find (db_chain_state d) net) (Database RowNotFound)) (\<lambda>locked.
     rbind (to_i64 (ct_height old_tip) ''old tip height'') (\<lambda>height.
     guard (\<not> (st_indexed_height locked \<noteq> Some height \<or>
                st_indexed_hash locked \<noteq> Some (ct_block_hash old_tip)))
       (NotReady ''canonical tip changed before the reorganization could be published'')))"

definition insert_reorg_event ::
    "string \<Rightarrow> string \<Rightarrow> datetime \<Rightarrow> chain_tip \<Rightarrow> int option \<Rightarrow> string option \<Rightarrow> db \<Rightarrow> db result" where
  "insert_reorg_event event_id net now old_tip ancestor_height ancestor_hash d =
     rbind (to_i64 (ct_height old_tip) ''old tip height'') (\<lambda>height.
     rbind (guard (t_find (db_reorgs d) event_id = None) unique_violation) (\<lambda>_.
     rbind (guard (t_find (db_networks d) net \<noteq> None) foreign_key_violation) (\<lambda>_.
     Inr (d\<lparr>db_reorgs := t_put event_id
            \<lparr>re_network_id = net, re_old_tip_height = height, re_old_tip_hash = ct_block_hash old_tip,
             re_common_ancestor_height = ancestor_height, re_common_ancestor_hash = ancestor_hash,
             re_detected_at = now, re_completed_at = None\<rparr> (db_reorgs d)\<rparr>))))"

definition delete_above :: "string \<Rightarrow> int option \<Rightarrow> db \<Rightarrow> db" where
  "delete_above net ancestor_height d =
     d\<lparr>db_canonical := t_remove (\<lambda>(n, h). n = net \<and>
         (case ancestor_height of None \<Rightarrow> True | Some height \<Rightarrow> h > height)) (db_canonical d)\<rparr>"

definition or_else :: "'a option \<Rightarrow> 'a option \<Rightarrow> 'a option" where
  "or_else v w = (case v of None \<Rightarrow> w | Some x \<Rightarrow> Some x)"

definition last_opt :: "'a list \<Rightarrow> 'a option" where
  "last_opt xs = (if xs = [] then None else Some (last xs))"

text \<open>The last part: the progress row takes the new tip, or the ancestor when nothing replaces the
  branch (and then no witness), and the event is completed.\<close>

definition publish_tip ::
    "crates \<Rightarrow> string \<Rightarrow> datetime \<Rightarrow> string \<Rightarrow> int option \<Rightarrow> string option \<Rightarrow> indexed_block list \<Rightarrow>
     db \<Rightarrow> db result" where
  "publish_tip X net now event_id ancestor_height ancestor_hash replacement d =
     (let new_tip = last_opt replacement in
      rbind (transpose_opt (map_option (\<lambda>b. to_i64 (rb_height (ib_block b)) ''replacement tip height'')
               new_tip)) (\<lambda>new_height.
      let d1 = update_chain_state net (\<lambda>s. s\<lparr>st_indexed_height := or_else new_height ancestor_height,
             st_indexed_hash := or_else (map_option (\<lambda>b. rb_hash (ib_block b)) new_tip) ancestor_hash,
             st_indexed_witness_hash := map_option (witness_hash X) new_tip,
             st_status := ''syncing'', st_last_error := None, st_updated_at := now\<rparr>) d in
      Inr (case t_find (db_reorgs d1) event_id of
             None \<Rightarrow> d1
           | Some e \<Rightarrow> d1\<lparr>db_reorgs := t_put event_id (e\<lparr>re_completed_at := Some now\<rparr>) (db_reorgs d1)\<rparr>)))"

definition replace_canonical_branch ::
    "crates \<Rightarrow> string \<Rightarrow> datetime \<Rightarrow> string \<Rightarrow> chain_tip \<Rightarrow> (nat \<times> string) option \<Rightarrow>
     indexed_block list \<Rightarrow> (db, unit) tx" where
  "replace_canonical_branch X net now event_id old_tip ancestor replacement d =
     rbind (lock_tip net old_tip d) (\<lambda>_.
     rbind (validate_replacement_branch ancestor replacement) (\<lambda>_.
     rbind (try_fold (\<lambda>d b. insert_block X net b d) d replacement) (\<lambda>d1.
     rbind (transpose_opt (map_option (\<lambda>(height, _). to_i64 height ''ancestor height'') ancestor))
       (\<lambda>ancestor_height.
     rbind (insert_reorg_event event_id net now old_tip ancestor_height (map_option snd ancestor) d1) (\<lambda>d2.
     rbind (try_fold (\<lambda>d b. insert_canonical_selector X net now b d)
              (delete_above net ancestor_height d2) replacement) (\<lambda>d3.
     rbind (publish_tip X net now event_id ancestor_height (map_option snd ancestor) replacement d3) (\<lambda>d4.
     Inr ((), d4))))))))"

section \<open>The progress row\<close>

definition mark_indexer_error :: "string \<Rightarrow> datetime \<Rightarrow> string \<Rightarrow> (db, unit) tx" where
  "mark_indexer_error net now error d =
     Inr ((), update_chain_state net (\<lambda>s. s\<lparr>st_status := ''error'',
       st_last_error := Some (take_chars 1000 error), st_updated_at := now\<rparr>) d)"

definition observe_node_tip :: "string \<Rightarrow> datetime \<Rightarrow> nat \<Rightarrow> string \<Rightarrow> (db, unit) tx" where
  "observe_node_tip net now node_height node_hash d =
     rbind (to_i64 node_height ''node height'') (\<lambda>h.
     Inr ((), update_chain_state net (\<lambda>s. s\<lparr>st_node_height := Some h, st_node_hash := Some node_hash,
       st_status := (if st_indexed_height s = Some h \<and> st_indexed_hash s = Some node_hash
                     then st_status s else ''syncing''), st_updated_at := now\<rparr>) d))"

definition update_node_tip ::
    "string \<Rightarrow> datetime \<Rightarrow> nat \<Rightarrow> string \<Rightarrow> string \<Rightarrow> string option \<Rightarrow> (db, unit) tx" where
  "update_node_tip net now node_height node_hash status error d =
     rbind (to_i64 node_height ''node height'') (\<lambda>h.
     Inr ((), update_chain_state net (\<lambda>s. s\<lparr>st_node_height := Some h, st_node_hash := Some node_hash,
       st_status := status, st_last_error := map_option (take_chars 1000) error,
       st_updated_at := now\<rparr>) d))"

end
