(* ===== verification/Chain_Facts.thy ===== *)
theory Chain_Facts imports Db_Chain begin

text \<open>
  The canonical chain of a network is a list of blocks with their witnesses.  The database
  represents such a list when its selections are exactly the list's positions, every block row has
  its height and links to its predecessor, every witness is stored, and the progress row names the
  tip; heights fit the column's \<open>BIGINT\<close>.  Committing appends to the list and replacing a branch rewrites its end.
\<close>

section \<open>The chain a database represents\<close>

type_synonym chain = "(string \<times> string) list"

definition selected :: "string \<Rightarrow> db \<Rightarrow> int \<Rightarrow> (string \<times> string) option" where
  "selected net d h =
     map_option (\<lambda>r. (cr_block_hash r, cr_witness_hash r)) (t_find (db_canonical d) (net, h))"

definition chain_at :: "chain \<Rightarrow> int \<Rightarrow> (string \<times> string) option" where
  "chain_at cs h = (if 0 \<le> h \<and> h < int (length cs) then Some (cs ! nat h) else None)"

definition block_linked :: "string \<Rightarrow> db \<Rightarrow> chain \<Rightarrow> nat \<Rightarrow> bool" where
  "block_linked net d cs i \<longleftrightarrow>
     (\<exists>r w. t_find (db_blocks d) (fst (cs ! i)) = Some r \<and> br_network_id r = net \<and>
        br_height r = int i \<and>
        (i = 0 \<or> br_previous_block_hash r = Some (fst (cs ! (i - 1)))) \<and>
        t_find (db_witnesses d) (cs ! i) = Some w)"

definition tip_named :: "string \<Rightarrow> db \<Rightarrow> chain \<Rightarrow> bool" where
  "tip_named net d cs \<longleftrightarrow>
     (\<exists>s. t_find (db_chain_state d) net = Some s \<and>
        st_indexed_height s = (if cs = [] then None else Some (int (length cs) - 1)) \<and>
        st_indexed_hash s = map_option fst (last_opt cs) \<and>
        st_indexed_witness_hash s \<in> {None, map_option snd (last_opt cs)})"

definition chain_ok :: "string \<Rightarrow> db \<Rightarrow> chain \<Rightarrow> bool" where
  "chain_ok net d cs \<longleftrightarrow>
     db_wf d \<and> length cs \<le> 2 ^ 63 \<and> selected net d = chain_at cs \<and> (\<forall>i < length cs. block_linked net d cs i) \<and>
     tip_named net d cs"

lemma chain_at_nth: "i < length cs \<Longrightarrow> chain_at cs (int i) = Some (cs ! i)"
  by (simp add: chain_at_def)

lemma chain_at_inject: "chain_at cs = chain_at cs' \<Longrightarrow> cs = cs'"
proof -
  assume eq: "chain_at cs = chain_at cs'"
  have "length cs = length cs'"
  proof (rule ccontr)
    assume "length cs \<noteq> length cs'"
    then obtain i where "i < length cs \<longleftrightarrow> \<not> i < length cs'" by (metis linorder_neqE_nat order_less_irrefl)
    with fun_cong[OF eq, of "int i"] show False by (auto simp: chain_at_def split: if_splits)
  qed
  moreover have "cs ! i = cs' ! i" if "i < length cs" "i < length cs'" for i
    using fun_cong[OF eq, of "int i"] that by (simp add: chain_at_def)
  ultimately show "cs = cs'" by (simp add: list_eq_iff_nth_eq)
qed

text \<open>The represented chain is unique and its blocks are pairwise distinct.\<close>

lemma chain_unique: "chain_ok net d cs \<Longrightarrow> chain_ok net d cs' \<Longrightarrow> cs = cs'"
  by (metis chain_ok_def chain_at_inject)

lemma chain_distinct: "chain_ok net d cs \<Longrightarrow> distinct (map fst cs)"
proof -
  assume "chain_ok net d cs"
  then have "\<forall>i < length cs. \<exists>r. t_find (db_blocks d) (map fst cs ! i) = Some r \<and> br_height r = int i"
    unfolding chain_ok_def block_linked_def by (metis length_map nth_map)
  then show "distinct (map fst cs)"
    unfolding distinct_conv_nth by (metis length_map of_nat_eq_iff option.inject)
qed

section \<open>Reading\<close>

lemma rows_of_sorted: "sorted (map fst (rows_of net t))"
  by (simp add: rows_of_def)

lemma rows_of_chain:
  assumes "t_wf (db_canonical d)" and "selected net d = chain_at cs"
  shows "map (\<lambda>(h, r). (h, cr_block_hash r, cr_witness_hash r)) (rows_of net (db_canonical d)) =
         map (\<lambda>i. (int i, cs ! i)) [0..<length cs]"
proof -
  let ?R = "rows_of net (db_canonical d)"
  let ?f = "\<lambda>(h, r). (h, cr_block_hash r, cr_witness_hash r)"
  have mem: "(h, r) \<in> set ?R \<longleftrightarrow> t_find (db_canonical d) (net, h) = Some r" for h r
    using assms(1) by (rule rows_of_find)
  have sel: "(\<exists>r. t_find (db_canonical d) (net, h) = Some r \<and> (cr_block_hash r, cr_witness_hash r) = x) \<longleftrightarrow>
      chain_at cs h = Some x" for h x
    using fun_cong[OF assms(2), of h] by (auto simp: selected_def)
  have set: "set (map ?f ?R) = set (map (\<lambda>i. (int i, cs ! i)) [0..<length cs])"
  proof (rule set_eqI)
    fix y :: "int \<times> string \<times> string"
    obtain h x where y: "y = (h, x)" by (cases y)
    have "y \<in> set (map ?f ?R) \<longleftrightarrow> chain_at cs h = Some x"
      using sel[of h x] by (force simp: y mem)
    also have "\<dots> \<longleftrightarrow> y \<in> set (map (\<lambda>i. (int i, cs ! i)) [0..<length cs])"
      by (auto simp: y chain_at_def image_iff) (metis atLeastLessThan_iff nat_less_iff nat_0_le zero_le)
    finally show "y \<in> set (map ?f ?R) \<longleftrightarrow> y \<in> set (map (\<lambda>i. (int i, cs ! i)) [0..<length cs])" .
  qed
  have "map fst (map ?f ?R) = map fst ?R" by (auto simp: case_prod_beta)
  moreover have "sorted (map fst ?R)" and "distinct (map fst ?R)"
    using rows_of_keys[OF assms(1)] by simp_all
  ultimately have "sorted (map fst (map ?f ?R))" "distinct (map fst (map ?f ?R))" by (simp_all only:)
  moreover have "map fst (map (\<lambda>i. (int i, cs ! i)) [0..<length cs]) = map int [0..<length cs]" by simp
  then have "sorted (map fst (map (\<lambda>i. (int i, cs ! i)) [0..<length cs]))"
    "distinct (map fst (map (\<lambda>i. (int i, cs ! i)) [0..<length cs]))"
    by (simp_all only:) (simp_all add: sorted_map distinct_map)
  moreover have "inj_on fst (set (map ?f ?R) \<union> set (map (\<lambda>i. (int i, cs ! i)) [0..<length cs]))"
    unfolding set by (auto simp: inj_on_def)
  ultimately show ?thesis using set by (intro map_sorted_distinct_set_unique[where f = fst])
qed

lemma canonical_tip_chain:
  assumes "chain_ok net d cs"
  shows "canonical_tip net d = Inr (if cs = [] then None
     else Some \<lparr>ct_height = length cs - 1, ct_block_hash = fst (last cs), ct_witness_hash = snd (last cs)\<rparr>)"
proof -
  have rows: "map (\<lambda>(h, r). (h, cr_block_hash r, cr_witness_hash r)) (rows_of net (db_canonical d)) =
         map (\<lambda>i. (int i, cs ! i)) [0..<length cs]"
    using assms by (intro rows_of_chain) (simp_all add: chain_ok_def db_wf_def)
  show ?thesis
  proof (cases "cs = []")
    case True
    then show ?thesis using rows by (simp add: canonical_tip_def)
  next
    case False
    let ?R = "rows_of net (db_canonical d)"
    have ne: "?R \<noteq> []" using rows False by (cases ?R) auto
    have "(\<lambda>(h, r). (h, cr_block_hash r, cr_witness_hash r)) (last ?R) = (int (length cs - 1), last cs)"
      using arg_cong[OF rows, of last] ne False by (simp add: last_map last_conv_nth)
    moreover obtain h r where hr: "last ?R = (h, r)" by fastforce
    ultimately have "h = int (length cs - 1)" "cr_block_hash r = fst (last cs)" "cr_witness_hash r = snd (last cs)"
      by (auto simp: prod_eq_iff)
    moreover have rv: "rev ?R = (h, r) # rev (butlast ?R)"
      using ne hr by (metis append_butlast_last_id rev.simps(2) rev_eq_Cons_iff rev_rev_ident)
    ultimately show ?thesis using False unfolding canonical_tip_def rv by simp
  qed
qed

lemma canonical_hash_chain:
  assumes "chain_ok net d cs" and "h < 2 ^ 63"
  shows "canonical_hash net h d = Inr (if h < length cs then Some (fst (cs ! h)) else None)"
proof -
  have "map_option fst (selected net d (int h)) = (if h < length cs then Some (fst (cs ! h)) else None)"
    using assms(1) by (simp add: chain_ok_def chain_at_def)
  then show ?thesis using assms(2)
    by (simp add: canonical_hash_def to_i64_def i64_try_from_def selected_def option.map_comp comp_def)
qed

section \<open>What selection changes\<close>

lemma t_find_update_chain_state:
  "t_find (db_chain_state (update_chain_state net f d)) n =
     (if n = net then map_option f (t_find (db_chain_state d) net) else t_find (db_chain_state d) n)"
  by (auto simp: update_chain_state_def split: option.splits)

lemma update_chain_state_same [simp]:
  "db_networks (update_chain_state net f d) = db_networks d"
  "db_blocks (update_chain_state net f d) = db_blocks d"
  "db_witnesses (update_chain_state net f d) = db_witnesses d"
  "db_canonical (update_chain_state net f d) = db_canonical d"
  "db_links (update_chain_state net f d) = db_links d"
  "db_reorgs (update_chain_state net f d) = db_reorgs d"
  "selected n (update_chain_state net f d) = selected n d"
  "block_linked n (update_chain_state net f d) cs i = block_linked n d cs i"
  "db_wf (update_chain_state net f d) = db_wf d"
  by (auto simp: update_chain_state_def selected_def block_linked_def db_wf_def fun_eq_iff
      split: option.splits)

lemma block_linked_step:
  assumes "block_linked net d cs i" and "block_step d d'"
  shows "block_linked net d' cs i"
proof -
  from assms(1) obtain r w where r: "t_find (db_blocks d) (fst (cs ! i)) = Some r" "br_network_id r = net"
    "br_height r = int i" "i = 0 \<or> br_previous_block_hash r = Some (fst (cs ! (i - 1)))"
    and w: "t_find (db_witnesses d) (cs ! i) = Some w" by (auto simp: block_linked_def)
  have "t_find (db_blocks d') (fst (cs ! i)) = Some r"
    using assms(2) r(1) alist.extendsD[of "db_blocks d" "db_blocks d'"] by (simp add: block_step_def)
  moreover obtain w' where "t_find (db_witnesses d') (cs ! i) = Some w'"
    using assms(2) w unfolding block_step_def keeps_facts_def by blast
  ultimately show ?thesis using r unfolding block_linked_def by blast
qed

lemma chain_ok_step:
  assumes "chain_ok net d cs" and "block_step d d'"
  shows "chain_ok net d' cs"
  using assms block_linked_step[OF _ assms(2)]
  by (simp add: chain_ok_def block_step_def selected_def fun_eq_iff tip_named_def)

text \<open>What a stored block contributes to a chain.\<close>

definition fits :: "string \<Rightarrow> db \<Rightarrow> (string \<times> string) \<Rightarrow> nat \<Rightarrow> string option \<Rightarrow> bool" where
  "fits net d c i prev \<longleftrightarrow>
     (\<exists>r w. t_find (db_blocks d) (fst c) = Some r \<and> br_network_id r = net \<and> br_height r = int i \<and>
        (i = 0 \<or> br_previous_block_hash r = prev) \<and> t_find (db_witnesses d) c = Some w)"

lemma block_stored_fits:
  "block_stored X net b d \<Longrightarrow>
     fits net d (witness_of X b) (rb_height (ib_block b)) (rb_previousblockhash (ib_block b))"
  unfolding block_stored_def fits_def
  by (force simp: block_values_def block_facts_def witness_of_def Let_def to_i64_def)

lemma fits_step: "fits net d c i prev \<Longrightarrow> block_step d d' \<Longrightarrow> fits net d' c i prev"
  unfolding fits_def block_step_def keeps_facts_def alist.extends_def by blast

lemma block_linked_fits:
  "block_linked net d cs i \<longleftrightarrow> fits net d (cs ! i) i (Some (fst (cs ! (i - 1))))"
  by (simp add: block_linked_def fits_def)

lemma linked_append:
  assumes "\<forall>i < length cs. block_linked net d cs i"
    and "fits net d c (length cs) prev" and "cs = [] \<or> prev = Some (fst (last cs))"
  shows "\<forall>i < length (cs @ [c]). block_linked net d (cs @ [c]) i"
proof (intro allI impI)
  fix i assume i: "i < length (cs @ [c])"
  show "block_linked net d (cs @ [c]) i"
  proof (cases "i < length cs")
    case True
    then have "block_linked net d cs i" using assms(1) by simp
    then show ?thesis using True by (auto simp: block_linked_def nth_append)
  next
    case False
    then have i': "i = length cs" using i by simp
    show ?thesis
    proof (cases "cs = []")
      case True
      then show ?thesis using assms(2) i' by (auto simp: block_linked_fits fits_def)
    next
      case ne: False
      then have "(cs @ [c]) ! (length cs - 1) = last cs" by (simp add: nth_append last_conv_nth)
      then show ?thesis using assms(2,3) ne i' by (simp add: block_linked_fits)
    qed
  qed
qed

lemma chain_at_append: "chain_at (cs @ [c]) = (chain_at cs)(int (length cs) := Some c)"
  by (auto simp: chain_at_def fun_eq_iff nth_append nat_less_iff)

lemma put_canonical_parts:
  assumes "put_canonical k r d = Inr d'"
  obtains t where "insert_nothing check_canonical (canonical_refs d) k r (db_canonical d) = Inr t"
    "d' = d\<lparr>db_canonical := t\<rparr>"
  using assms by (auto simp: put_canonical_def)

lemma insert_selector_selected:
  assumes "insert_canonical_selector X net now b d = Inr d'"
    and "selected net d (int (rb_height (ib_block b))) = None"
  shows "selected net d' = (selected net d)(int (rb_height (ib_block b)) := Some (witness_of X b))"
proof -
  from assms(1) obtain t where
    t: "insert_nothing check_canonical (canonical_refs d) (net, int (rb_height (ib_block b)))
      \<lparr>cr_block_hash = rb_hash (ib_block b), cr_witness_hash = witness_hash X b, cr_selected_at = now\<rparr>
      (db_canonical d) = Inr t" and d': "d' = d\<lparr>db_canonical := t\<rparr>"
    by (auto simp: insert_canonical_selector_def to_i64_def elim!: put_canonical_parts)
  show ?thesis
    using insert_nothing_find[OF t] assms(2)
    by (auto simp: fun_eq_iff selected_def d' witness_of_def split: option.splits)
qed

text \<open>A selector changes one relation and only for its network.\<close>

lemma insert_selector_frame:
  assumes "insert_canonical_selector X net now b d = Inr d'"
  shows "db_blocks d' = db_blocks d \<and> db_witnesses d' = db_witnesses d \<and>
     db_chain_state d' = db_chain_state d \<and> db_reorgs d' = db_reorgs d \<and> (db_wf d \<longrightarrow> db_wf d') \<and>
     (\<forall>n. n \<noteq> net \<longrightarrow> selected n d' = selected n d)"
proof -
  from assms obtain t k r where
    t: "insert_nothing check_canonical (canonical_refs d) (net, k) r (db_canonical d) = Inr t"
    and d': "d' = d\<lparr>db_canonical := t\<rparr>"
    by (auto simp: insert_canonical_selector_def elim!: put_canonical_parts)
  show ?thesis using insert_nothing_wf[OF t] insert_nothing_find[OF t]
    by (auto simp: d' db_wf_def selected_def fun_eq_iff)
qed


section \<open>Committing appends\<close>

lemma chain_okI:
  "db_wf d \<Longrightarrow> length cs \<le> 2 ^ 63 \<Longrightarrow> selected net d = chain_at cs \<Longrightarrow> (\<And>i. i < length cs \<Longrightarrow> block_linked net d cs i) \<Longrightarrow>
   tip_named net d cs \<Longrightarrow> chain_ok net d cs"
  by (simp add: chain_ok_def)

lemma block_linked_cong:
  "db_blocks d' = db_blocks d \<Longrightarrow> db_witnesses d' = db_witnesses d \<Longrightarrow>
   block_linked net d' cs i = block_linked net d cs i"
  by (simp add: block_linked_def)

lemma select_canonical_parts:
  assumes "select_canonical X net now b d = Inr d'"
  obtains d1 where "insert_canonical_selector X net now b d = Inr d1" "rb_height (ib_block b) < 2 ^ 63"
    "selected net d1 (int (rb_height (ib_block b))) = Some (witness_of X b)"
    "d' = update_chain_state net (\<lambda>s. s\<lparr>st_indexed_height := Some (int (rb_height (ib_block b))),
            st_indexed_hash := Some (rb_hash (ib_block b)),
            st_indexed_witness_hash := Some (witness_hash X b),
            st_status := ''syncing'', st_last_error := None, st_updated_at := now\<rparr>) d1"
  using assms by (auto simp: select_canonical_def to_i64_def selected_def witness_of_def)

lemma select_canonical_tables:
  assumes "select_canonical X net now b d = Inr d'"
  shows "db_instances d' = db_instances d \<and> db_inputs d' = db_inputs d \<and>
     db_outputs d' = db_outputs d \<and> db_block_transactions d' = db_block_transactions d"
  using assms
  by (auto simp: select_canonical_def insert_canonical_selector_def put_canonical_def
      update_chain_state_def split: option.splits)

lemma commit_block_parts:
  assumes "commit_block X net now b d = Inr (u, d')"
  obtains d1 where "insert_block X net b d = Inr d1" "select_canonical X net now b d1 = Inr d'"
  using assms by (auto simp: commit_block_def)

lemma commit_block_appends:
  assumes "commit_block X net now b d = Inr (u, d')" and "chain_ok net d cs"
    and "rb_height (ib_block b) = length cs"
    and "cs = [] \<or> rb_previousblockhash (ib_block b) = Some (fst (last cs))"
  shows "chain_ok net d' (cs @ [witness_of X b])"
  using assms(1)
proof (rule commit_block_parts)
  fix d1 assume ins: "insert_block X net b d = Inr d1" and sel: "select_canonical X net now b d1 = Inr d'"
  have step: "block_step d d1" using ins by (rule insert_block_step)
  have ok1: "chain_ok net d1 cs" using chain_ok_step[OF assms(2) step] .
  have stored: "block_stored X net b d1"
    using insert_block_stored[OF ins] assms(2) by (simp add: chain_ok_def)
  from sel obtain d2 where s: "insert_canonical_selector X net now b d1 = Inr d2"
    and bound: "rb_height (ib_block b) < 2 ^ 63"
    and d': "d' = update_chain_state net (\<lambda>s. s\<lparr>st_indexed_height := Some (int (rb_height (ib_block b))),
            st_indexed_hash := Some (rb_hash (ib_block b)),
            st_indexed_witness_hash := Some (witness_hash X b),
            st_status := ''syncing'', st_last_error := None, st_updated_at := now\<rparr>) d2"
    by (rule select_canonical_parts)
  note fr = insert_selector_frame[OF s]
  have d2: "db_blocks d2 = db_blocks d1" "db_witnesses d2 = db_witnesses d1"
    "db_chain_state d2 = db_chain_state d1" "db_wf d2"
    using fr ok1 by (simp_all add: chain_ok_def)
  have none: "selected net d1 (int (rb_height (ib_block b))) = None"
    using ok1 assms(3) by (simp add: chain_ok_def chain_at_def)
  have "selected net d' = chain_at (cs @ [witness_of X b])"
    using insert_selector_selected[OF s none] ok1 assms(3)
    by (simp add: d' chain_at_append chain_ok_def)
  moreover have "\<forall>i < length (cs @ [witness_of X b]). block_linked net d1 (cs @ [witness_of X b]) i"
    using ok1 block_stored_fits[OF stored] assms(3,4) by (intro linked_append) (simp_all add: chain_ok_def)
  moreover have "tip_named net d' (cs @ [witness_of X b])"
    using ok1 assms(3) by (auto simp: tip_named_def d' t_find_update_chain_state d2 last_opt_def
        witness_of_def chain_ok_def)
  ultimately show ?thesis
    using d2 bound assms(3) by (intro chain_okI) (simp_all add: d' block_linked_cong[OF d2(1,2)])
qed

section \<open>Replacing rewrites the end\<close>

lemma u64_saturating_add_Suc: "n < 2 ^ 64 - 1 \<Longrightarrow> u64_saturating_add n 1 = Suc n"
  by (simp add: u64_saturating_add_def)

lemma contiguous_from_iff:
  "\<forall>b \<in> set bs. rb_height (ib_block b) < 2 ^ 63 \<Longrightarrow>
   contiguous_from n prev bs = Inr u \<longleftrightarrow>
     (\<forall>i < length bs. rb_height (ib_block (bs ! i)) = n + i \<and>
        rb_previousblockhash (ib_block (bs ! i)) =
          (if i = 0 then prev else Some (rb_hash (ib_block (bs ! (i - 1))))))"
proof (induction bs arbitrary: n prev)
  case (Cons b bs)
  show ?case
  proof (cases "rb_height (ib_block b) = n \<and> rb_previousblockhash (ib_block b) = prev")
    case True
    then have "u64_saturating_add n 1 = Suc n" using Cons.prems by (intro u64_saturating_add_Suc) auto
    then have "contiguous_from n prev (b # bs) = Inr u \<longleftrightarrow>
        contiguous_from (Suc n) (Some (rb_hash (ib_block b))) bs = Inr u" using True by simp
    also have "\<dots> \<longleftrightarrow> (\<forall>i < length bs. rb_height (ib_block (bs ! i)) = Suc n + i \<and>
        rb_previousblockhash (ib_block (bs ! i)) =
          (if i = 0 then Some (rb_hash (ib_block b)) else Some (rb_hash (ib_block (bs ! (i - 1))))))"
      using Cons by simp
    also have "\<dots> \<longleftrightarrow> (\<forall>i < length (b # bs). rb_height (ib_block ((b # bs) ! i)) = n + i \<and>
        rb_previousblockhash (ib_block ((b # bs) ! i)) =
          (if i = 0 then prev else Some (rb_hash (ib_block ((b # bs) ! (i - 1))))))"
      using True by (auto simp: less_Suc_eq_0_disj nth_Cons')
    finally show ?thesis .
  next
    case False
    then show ?thesis by (auto split: if_splits)
  qed
qed simp

lemma insert_blocks_step:
  assumes "try_fold (\<lambda>d b. insert_block X net b d) d bs = Inr d'"
  shows "block_step d d'"
  by (rule try_fold_rule[OF assms block_step_refl]) (auto intro: block_step_trans insert_block_step)

lemma insert_blocks_fit:
  assumes "try_fold (\<lambda>d b. insert_block X net b d) d bs = Inr d'" and "db_wf d" and "b \<in> set bs"
  shows "fits net d' (witness_of X b) (rb_height (ib_block b)) (rb_previousblockhash (ib_block b)) \<and>
     rb_height (ib_block b) < 2 ^ 63"
  using assms
proof (induction bs arbitrary: d)
  case (Cons c bs)
  from Cons.prems(1) obtain e where e: "insert_block X net c d = Inr e"
    and rest: "try_fold (\<lambda>d b. insert_block X net b d) e bs = Inr d'" by auto
  have st: "block_stored X net c e" using insert_block_stored[OF e Cons.prems(2)] .
  then have "rb_height (ib_block c) < 2 ^ 63"
    by (auto simp: block_stored_def block_values_def Let_def to_i64_def)
  moreover have "fits net d' (witness_of X c) (rb_height (ib_block c)) (rb_previousblockhash (ib_block c))"
    using block_stored_fits[OF st] insert_blocks_step[OF rest] by (rule fits_step)
  moreover have "db_wf e" using insert_block_step[OF e] Cons.prems(2) by (simp add: block_step_def)
  ultimately show ?case using Cons.IH[OF rest] Cons.prems(3) by auto
qed simp

text \<open>Where the replacement starts.\<close>

definition kept :: "(nat \<times> string) option \<Rightarrow> nat" where
  "kept ancestor = (case ancestor of None \<Rightarrow> 0 | Some (height, _) \<Rightarrow> Suc height)"

definition on_chain :: "chain \<Rightarrow> (nat \<times> string) option \<Rightarrow> bool" where
  "on_chain cs ancestor =
     (case ancestor of None \<Rightarrow> True | Some (height, hash) \<Rightarrow> height < length cs \<and> fst (cs ! height) = hash)"

definition replaced :: "crates \<Rightarrow> chain \<Rightarrow> (nat \<times> string) option \<Rightarrow> indexed_block list \<Rightarrow> chain" where
  "replaced X cs ancestor bs = take (kept ancestor) cs @ map (witness_of X) bs"

lemma on_chain_kept: "on_chain cs ancestor \<Longrightarrow> kept ancestor \<le> length cs"
  by (auto simp: on_chain_def kept_def split: option.splits)

lemma on_chain_prev:
  "on_chain cs ancestor \<Longrightarrow>
     map_option snd ancestor = map_option fst (last_opt (take (kept ancestor) cs))"
  by (auto simp: on_chain_def kept_def last_opt_def take_Suc_conv_app_nth split: option.splits)

lemma replaced_linked:
  assumes "\<forall>i < length cs. block_linked net d cs i" and "on_chain cs ancestor"
    and "\<forall>i < length bs. fits net d (witness_of X (bs ! i)) (kept ancestor + i)
      (if i = 0 then map_option snd ancestor else Some (rb_hash (ib_block (bs ! (i - 1)))))"
  shows "i < length (replaced X cs ancestor bs) \<Longrightarrow> block_linked net d (replaced X cs ancestor bs) i"
  using assms(3)
proof (induction bs arbitrary: i rule: rev_induct)
  case Nil
  then show ?case using assms(1) by (auto simp: replaced_def block_linked_def)
next
  case (snoc b bs)
  let ?cs = "replaced X cs ancestor bs"
  have len: "length ?cs = kept ancestor + length bs"
    using on_chain_kept[OF assms(2)] by (simp add: replaced_def)
  have "fits net d (witness_of X (bs ! i)) (kept ancestor + i)
      (if i = 0 then map_option snd ancestor else Some (rb_hash (ib_block (bs ! (i - 1)))))"
    if "i < length bs" for i
    using snoc.prems(2)[rule_format, of i] that by (simp add: nth_append split: if_splits)
  then have IH: "\<forall>i < length ?cs. block_linked net d ?cs i" using snoc.IH by blast
  define prev where "prev = (if length bs = 0 then map_option snd ancestor
      else Some (rb_hash (ib_block (bs ! (length bs - 1)))))"
  have "fits net d (witness_of X b) (length ?cs) prev"
    using snoc.prems(2)[rule_format, of "length bs"] len
    by (auto simp: prev_def nth_append split: if_splits)
  moreover have "?cs = [] \<or> prev = Some (fst (last ?cs))"
  proof (cases "bs = []")
    case True
    then have "prev = map_option fst (last_opt ?cs)"
      using on_chain_prev[OF assms(2)] by (simp add: prev_def replaced_def)
    then show ?thesis by (cases "?cs = []") (simp_all only: last_opt_def if_True if_False option.map simp_thms)
  next
    case False
    then have "prev = Some (rb_hash (ib_block (last bs)))" by (simp add: prev_def last_conv_nth)
    moreover have "last ?cs = witness_of X (last bs)" using False by (simp add: replaced_def last_map)
    ultimately show ?thesis by (simp add: witness_of_def)
  qed
  ultimately have "\<forall>i < length (?cs @ [witness_of X b]). block_linked net d (?cs @ [witness_of X b]) i"
    using IH by (intro linked_append)
  then show ?case using snoc.prems(1) by (simp add: replaced_def)
qed


lemma replace_parts:
  assumes "replace_canonical_branch X net now ev old_tip ancestor bs d = Inr (u, d')"
  obtains d1 ah d2 d3 where "lock_tip net old_tip d = Inr ()"
    "validate_replacement_branch ancestor bs = Inr ()"
    "try_fold (\<lambda>d b. insert_block X net b d) d bs = Inr d1"
    "ah = map_option (\<lambda>(h, _). int h) ancestor" "\<And>h x. ancestor = Some (h, x) \<Longrightarrow> h < 2 ^ 63"
    "insert_reorg_event ev net now old_tip ah (map_option snd ancestor) d1 = Inr d2"
    "try_fold (\<lambda>d b. insert_canonical_selector X net now b d) (delete_above net ah d2) bs = Inr d3"
    "publish_tip X net now ev ah (map_option snd ancestor) bs d3 = Inr d'"
  using assms
  by (cases ancestor) (auto simp: replace_canonical_branch_def to_i64_def transpose_opt_Inr)

lemma insert_reorg_event_frame:
  assumes "insert_reorg_event ev net now tip ah ax d = Inr d'"
  shows "db_blocks d' = db_blocks d \<and> db_witnesses d' = db_witnesses d \<and>
     db_canonical d' = db_canonical d \<and> db_chain_state d' = db_chain_state d \<and> (db_wf d' \<longleftrightarrow> db_wf d)"
  using assms by (auto simp: insert_reorg_event_def db_wf_def)

lemma delete_above_frame:
  "db_blocks (delete_above net ah d) = db_blocks d"
  "db_witnesses (delete_above net ah d) = db_witnesses d"
  "db_chain_state (delete_above net ah d) = db_chain_state d"
  "db_wf d \<Longrightarrow> db_wf (delete_above net ah d)"
  "n \<noteq> net \<Longrightarrow> selected n (delete_above net ah d) = selected n d"
  by (auto simp: delete_above_def db_wf_def selected_def fun_eq_iff)

lemma delete_above_selected:
  assumes "selected net d = chain_at cs" and "on_chain cs ancestor"
  shows "selected net (delete_above net (map_option (\<lambda>(h, _). int h) ancestor) d) =
     chain_at (take (kept ancestor) cs)"
proof (rule ext)
  fix h
  have "selected net (delete_above net (map_option (\<lambda>(h, _). int h) ancestor) d) h =
      (if h \<ge> int (kept ancestor) \<and> ancestor \<noteq> None \<or> ancestor = None then None else selected net d h)"
    by (auto simp: delete_above_def selected_def kept_def split: option.splits)
  then show "selected net (delete_above net (map_option (\<lambda>(h, _). int h) ancestor) d) h =
      chain_at (take (kept ancestor) cs) h"
    using assms(1) on_chain_kept[OF assms(2)]
    by (auto simp: chain_at_def kept_def nat_less_iff split: option.splits)
qed

lemma insert_selectors_selected:
  assumes "try_fold (\<lambda>d b. insert_canonical_selector X net now b d) d bs = Inr d'"
    and "selected net d = chain_at cs"
    and "\<forall>i < length bs. rb_height (ib_block (bs ! i)) = length cs + i"
  shows "selected net d' = chain_at (cs @ map (witness_of X) bs)"
  using assms
proof (induction bs arbitrary: d cs)
  case (Cons b bs)
  from Cons.prems(1) obtain e where e: "insert_canonical_selector X net now b d = Inr e"
    and rest: "try_fold (\<lambda>d b. insert_canonical_selector X net now b d) e bs = Inr d'" by auto
  have h: "rb_height (ib_block b) = length cs" using Cons.prems(3)[rule_format, of 0] by simp
  have "selected net d (int (rb_height (ib_block b))) = None"
    using Cons.prems(2) h by (simp add: chain_at_def)
  then have "selected net e = chain_at (cs @ [witness_of X b])"
    using insert_selector_selected[OF e] Cons.prems(2) h by (simp add: chain_at_append)
  moreover have "\<forall>i < length bs. rb_height (ib_block (bs ! i)) = length (cs @ [witness_of X b]) + i"
    using Cons.prems(3) by auto
  ultimately show ?case using Cons.IH[OF rest, of "cs @ [witness_of X b]"] by simp
qed simp

lemma insert_selectors_frame:
  assumes "try_fold (\<lambda>d b. insert_canonical_selector X net now b d) d bs = Inr d'"
  shows "db_blocks d' = db_blocks d \<and> db_witnesses d' = db_witnesses d \<and>
     db_chain_state d' = db_chain_state d \<and> db_reorgs d' = db_reorgs d \<and> (db_wf d \<longrightarrow> db_wf d') \<and>
     (\<forall>n. n \<noteq> net \<longrightarrow> selected n d' = selected n d)"
proof (rule try_fold_rule[OF assms])
  fix b t t'
  assume "db_blocks t = db_blocks d \<and> db_witnesses t = db_witnesses d \<and>
     db_chain_state t = db_chain_state d \<and> db_reorgs t = db_reorgs d \<and> (db_wf d \<longrightarrow> db_wf t) \<and>
     (\<forall>n. n \<noteq> net \<longrightarrow> selected n t = selected n d)" "insert_canonical_selector X net now b t = Inr t'"
  then show "db_blocks t' = db_blocks d \<and> db_witnesses t' = db_witnesses d \<and>
     db_chain_state t' = db_chain_state d \<and> db_reorgs t' = db_reorgs d \<and> (db_wf d \<longrightarrow> db_wf t') \<and>
     (\<forall>n. n \<noteq> net \<longrightarrow> selected n t' = selected n d)"
    using insert_selector_frame[of X net now b t t'] by simp
qed simp

lemma publish_tip_effect:
  assumes "publish_tip X net now ev ah ax bs d = Inr d'"
  shows "db_blocks d' = db_blocks d \<and> db_witnesses d' = db_witnesses d \<and>
     db_canonical d' = db_canonical d \<and> (db_wf d' \<longleftrightarrow> db_wf d) \<and>
     (\<forall>n. t_find (db_chain_state d') n = (if n = net then map_option
        (\<lambda>s. s\<lparr>st_indexed_height := or_else (map_option (\<lambda>b. int (rb_height (ib_block b))) (last_opt bs)) ah,
             st_indexed_hash := or_else (map_option (\<lambda>b. rb_hash (ib_block b)) (last_opt bs)) ax,
             st_indexed_witness_hash := map_option (witness_hash X) (last_opt bs),
             st_status := ''syncing'', st_last_error := None, st_updated_at := now\<rparr>)
        (t_find (db_chain_state d) net) else t_find (db_chain_state d) n))"
proof -
  define upd where "upd = update_chain_state net (\<lambda>s. s\<lparr>
      st_indexed_height := or_else (map_option (\<lambda>b. int (rb_height (ib_block b))) (last_opt bs)) ah,
      st_indexed_hash := or_else (map_option (\<lambda>b. rb_hash (ib_block b)) (last_opt bs)) ax,
      st_indexed_witness_hash := map_option (witness_hash X) (last_opt bs),
      st_status := ''syncing'', st_last_error := None, st_updated_at := now\<rparr>) d"
  have height: "transpose_opt (map_option (\<lambda>b. to_i64 (rb_height (ib_block b)) l) v) = Inr nh \<Longrightarrow>
      nh = map_option (\<lambda>b. int (rb_height (ib_block b))) v" for v nh l
    by (cases v) (auto simp: to_i64_def transpose_opt_Inr)
  have d': "d' = (case t_find (db_reorgs upd) ev of None \<Rightarrow> upd
      | Some e \<Rightarrow> upd\<lparr>db_reorgs := t_put ev (e\<lparr>re_completed_at := Some now\<rparr>) (db_reorgs upd)\<rparr>)"
    using assms unfolding publish_tip_def Let_def upd_def by (auto dest!: height)
  have wf: "db_wf (d\<lparr>db_reorgs := r\<rparr>) = db_wf d" for d r by (simp add: db_wf_def)
  show ?thesis
    by (cases "t_find (db_reorgs d) ev")
      (simp_all add: d' upd_def t_find_update_chain_state wf)
qed


lemma lock_tip_chain:
  assumes "lock_tip net old_tip d = Inr ()" and "chain_ok net d cs"
  shows "cs \<noteq> [] \<and> ct_height old_tip = length cs - 1 \<and> ct_block_hash old_tip = fst (last cs)"
proof -
  obtain s where s: "t_find (db_chain_state d) net = Some s"
    "st_indexed_height s = (if cs = [] then None else Some (int (length cs) - 1))"
    "st_indexed_hash s = map_option fst (last_opt cs)"
    using assms(2) by (auto simp: chain_ok_def tip_named_def)
  then have h: "st_indexed_height s = Some (int (ct_height old_tip))"
    "st_indexed_hash s = Some (ct_block_hash old_tip)"
    using assms(1) by (auto simp: lock_tip_def to_i64_def)
  have ne: "cs \<noteq> []" using h(1) s(2) by auto
  with h s(2,3) show ?thesis by (simp add: last_opt_def)
qed

lemma replacement_contiguous:
  assumes "validate_replacement_branch ancestor bs = Inr ()"
    and "\<And>h x. ancestor = Some (h, x) \<Longrightarrow> h < 2 ^ 63"
    and "\<And>b. b \<in> set bs \<Longrightarrow> rb_height (ib_block b) < 2 ^ 63"
  shows "\<forall>i < length bs. rb_height (ib_block (bs ! i)) = kept ancestor + i \<and>
      rb_previousblockhash (ib_block (bs ! i)) =
        (if i = 0 then map_option snd ancestor else Some (rb_hash (ib_block (bs ! (i - 1)))))"
proof -
  have "contiguous_from (kept ancestor) (map_option snd ancestor) bs = Inr ()"
    using assms(1,2) u64_saturating_add_Suc
    by (auto simp: validate_replacement_branch_def kept_def split: option.splits)
  then show ?thesis using assms(3) by (subst (asm) contiguous_from_iff) auto
qed

lemma replaced_length:
  assumes "on_chain cs ancestor" and "length cs \<le> 2 ^ 63"
    and "bs \<noteq> [] \<Longrightarrow> kept ancestor + (length bs - 1) < 2 ^ 63"
  shows "length (replaced X cs ancestor bs) \<le> 2 ^ 63"
  using assms on_chain_kept[OF assms(1)] by (cases "bs = []") (simp_all add: replaced_def min.coboundedI1)

lemma published_tip_named:
  assumes anc: "on_chain cs ancestor" and s: "t_find (db_chain_state d) net = Some s"
    and pub: "publish_tip X net now ev (map_option (\<lambda>(h, _). int h) ancestor) (map_option snd ancestor) bs d = Inr d'"
    and top: "bs \<noteq> [] \<Longrightarrow> rb_height (ib_block (last bs)) = kept ancestor + (length bs - 1)"
  shows "tip_named net d' (replaced X cs ancestor bs)"
proof -
  let ?ah = "map_option (\<lambda>(h, _). int h) ancestor" and ?low = "take (kept ancestor) cs"
  let ?new = "replaced X cs ancestor bs"
  define s' where "s' = s\<lparr>st_indexed_height := or_else (map_option (\<lambda>b. int (rb_height (ib_block b))) (last_opt bs)) ?ah,
           st_indexed_hash := or_else (map_option (\<lambda>b. rb_hash (ib_block b)) (last_opt bs)) (map_option snd ancestor),
           st_indexed_witness_hash := map_option (witness_hash X) (last_opt bs),
           st_status := ''syncing'', st_last_error := None, st_updated_at := now\<rparr>"
  have s': "t_find (db_chain_state d') net = Some s'"
    using publish_tip_effect[OF pub] s by (simp add: s'_def)
  have "st_indexed_height s' = (if ?new = [] then None else Some (int (length ?new) - 1)) \<and>
      st_indexed_hash s' = map_option fst (last_opt ?new) \<and>
      st_indexed_witness_hash s' \<in> {None, map_option snd (last_opt ?new)}"
  proof (cases "bs = []")
    case True
    moreover have "?ah = (if ?low = [] then None else Some (int (length ?low) - 1))"
      using anc by (auto simp: kept_def on_chain_def split: option.splits)
    ultimately show ?thesis using on_chain_prev[OF anc]
      by (simp add: s'_def replaced_def or_else_def last_opt_def del: take_eq_Nil)
  next
    case False
    then show ?thesis using top on_chain_kept[OF anc]
      by (simp add: s'_def replaced_def or_else_def last_opt_def last_map witness_of_def of_nat_diff Suc_le_eq)
  qed
  then show ?thesis using s' by (auto simp: tip_named_def)
qed

lemma replace_branch_rewrites:
  assumes "replace_canonical_branch X net now ev old_tip ancestor bs d = Inr (u, d')"
    and "chain_ok net d cs" and "on_chain cs ancestor"
  shows "chain_ok net d' (replaced X cs ancestor bs)"
  using assms(1)
proof (rule replace_parts)
  fix d1 ah d2 d3
  assume lock: "lock_tip net old_tip d = Inr ()"
    and val: "validate_replacement_branch ancestor bs = Inr ()"
    and ins: "try_fold (\<lambda>d b. insert_block X net b d) d bs = Inr d1"
    and ah: "ah = map_option (\<lambda>(h, _). int h) ancestor"
    and bound: "\<And>h x. ancestor = Some (h, x) \<Longrightarrow> h < 2 ^ 63"
    and ev: "insert_reorg_event ev net now old_tip ah (map_option snd ancestor) d1 = Inr d2"
    and sel: "try_fold (\<lambda>d b. insert_canonical_selector X net now b d) (delete_above net ah d2) bs = Inr d3"
    and pub: "publish_tip X net now ev ah (map_option snd ancestor) bs d3 = Inr d'"
  let ?n = "kept ancestor" and ?new = "replaced X cs ancestor bs"
  have wf: "db_wf d" using assms(2) by (simp add: chain_ok_def)
  have ok1: "chain_ok net d1 cs" using assms(2) insert_blocks_step[OF ins] by (rule chain_ok_step)
  note fit = insert_blocks_fit[OF ins wf]
  have cont: "\<forall>i < length bs. rb_height (ib_block (bs ! i)) = ?n + i \<and>
      rb_previousblockhash (ib_block (bs ! i)) =
        (if i = 0 then map_option snd ancestor else Some (rb_hash (ib_block (bs ! (i - 1)))))"
    using val bound fit by (intro replacement_contiguous) auto
  have fits: "fits net d1 (witness_of X (bs ! i)) (?n + i)
      (if i = 0 then map_option snd ancestor else Some (rb_hash (ib_block (bs ! (i - 1)))))" if "i < length bs" for i
    using fit[OF nth_mem[OF that]] cont[rule_format, OF that] by (simp only:)
  have linked: "block_linked net d1 ?new i" if "i < length ?new" for i
    using ok1 assms(3) fits that by (intro replaced_linked) (simp_all add: chain_ok_def)
  note frs = insert_reorg_event_frame[OF ev] insert_selectors_frame[OF sel] publish_tip_effect[OF pub]
  have "selected net d2 = chain_at cs"
    using frs(1) ok1 by (simp add: chain_ok_def selected_def fun_eq_iff)
  then have "selected net (delete_above net ah d2) = chain_at (take ?n cs)"
    unfolding ah using assms(3) by (rule delete_above_selected)
  then have "selected net d3 = chain_at ?new"
    unfolding replaced_def using sel cont on_chain_kept[OF assms(3)] by (intro insert_selectors_selected) simp_all
  then have sel': "selected net d' = chain_at ?new"
    using frs(3) by (simp add: selected_def fun_eq_iff)
  have wf': "db_wf d'" using frs ok1 by (simp add: delete_above_frame chain_ok_def)
  obtain s where "t_find (db_chain_state d3) net = Some s"
    using frs(1,2) ok1 by (auto simp: delete_above_frame chain_ok_def tip_named_def)
  then have tip: "tip_named net d' ?new"
    using pub cont unfolding ah by (intro published_tip_named[OF assms(3)]) (simp_all add: last_conv_nth)
  have same: "db_blocks d' = db_blocks d1" "db_witnesses d' = db_witnesses d1"
    using frs by (simp_all add: delete_above_frame)
  have "length ?new \<le> 2 ^ 63"
    using assms(2,3) cont fit[OF last_in_set] by (intro replaced_length) (simp_all add: last_conv_nth chain_ok_def)
  then show ?thesis
    using wf' sel' linked tip by (intro chain_okI) (simp_all add: block_linked_cong[OF same])
qed


section \<open>Operations that leave chains alone\<close>

lemma tip_named_update:
  "(\<And>s. st_indexed_height (f s) = st_indexed_height s \<and> st_indexed_hash (f s) = st_indexed_hash s \<and>
        st_indexed_witness_hash (f s) = st_indexed_witness_hash s) \<Longrightarrow>
   tip_named n d cs \<Longrightarrow> tip_named n (update_chain_state net f d) cs"
  by (auto simp: tip_named_def t_find_update_chain_state)

lemma chain_ok_update:
  "(\<And>s. st_indexed_height (f s) = st_indexed_height s \<and> st_indexed_hash (f s) = st_indexed_hash s \<and>
        st_indexed_witness_hash (f s) = st_indexed_witness_hash s) \<Longrightarrow>
   chain_ok n d cs \<Longrightarrow> chain_ok n (update_chain_state net f d) cs"
  using tip_named_update by (simp add: chain_ok_def)

lemma progress_ops_keep:
  assumes "chain_ok n d cs"
  shows "observe_node_tip net now h x d = Inr (u, d') \<Longrightarrow> chain_ok n d' cs"
    and "update_node_tip net now h x st er d = Inr (u, d') \<Longrightarrow> chain_ok n d' cs"
    and "mark_indexer_error net now msg d = Inr (u, d') \<Longrightarrow> chain_ok n d' cs"
    and "refresh_block_evidence X net b d = Inr (u, d') \<Longrightarrow> chain_ok n d' cs"
  using assms insert_block_step chain_ok_step
  by (auto simp: observe_node_tip_def update_node_tip_def mark_indexer_error_def
      refresh_block_evidence_def intro!: chain_ok_update)

lemma tip_named_other:
  "t_find (db_chain_state d') n = t_find (db_chain_state d) n \<Longrightarrow> tip_named n d' cs = tip_named n d cs"
  by (simp add: tip_named_def)

lemma commit_block_other:
  assumes "commit_block X net now b d = Inr (u, d')" and "n \<noteq> net" and "chain_ok n d cs"
  shows "chain_ok n d' cs"
  using assms(1)
proof (rule commit_block_parts)
  fix d1 assume ins: "insert_block X net b d = Inr d1" and sel: "select_canonical X net now b d1 = Inr d'"
  have ok1: "chain_ok n d1 cs" using chain_ok_step[OF assms(3) insert_block_step[OF ins]] .
  from sel obtain d2 f where s: "insert_canonical_selector X net now b d1 = Inr d2"
    and d': "d' = update_chain_state net f d2" by (rule select_canonical_parts)
  note fr = insert_selector_frame[OF s]
  have "block_linked n d2 cs i = block_linked n d1 cs i" for i
    using fr by (intro block_linked_cong) simp_all
  moreover have "tip_named n d' cs = tip_named n d1 cs"
    using fr assms(2) by (intro tip_named_other) (simp add: d' t_find_update_chain_state)
  ultimately show ?thesis using ok1 fr assms(2) by (simp add: chain_ok_def d')
qed

lemma replace_branch_other:
  assumes "replace_canonical_branch X net now ev old_tip ancestor bs d = Inr (u, d')"
    and "n \<noteq> net" and "chain_ok n d cs"
  shows "chain_ok n d' cs"
  using assms(1)
proof (rule replace_parts)
  fix d1 ah d2 d3
  assume ins: "try_fold (\<lambda>d b. insert_block X net b d) d bs = Inr d1"
    and ev: "insert_reorg_event ev net now old_tip ah (map_option snd ancestor) d1 = Inr d2"
    and sel: "try_fold (\<lambda>d b. insert_canonical_selector X net now b d) (delete_above net ah d2) bs = Inr d3"
    and pub: "publish_tip X net now ev ah (map_option snd ancestor) bs d3 = Inr d'"
  have ok1: "chain_ok n d1 cs" using chain_ok_step[OF assms(3) insert_blocks_step[OF ins]] .
  note frs = insert_reorg_event_frame[OF ev] insert_selectors_frame[OF sel] publish_tip_effect[OF pub]
  have "block_linked n d' cs i = block_linked n d1 cs i" for i
    using frs by (intro block_linked_cong) (simp_all add: delete_above_frame)
  moreover have "tip_named n d' cs = tip_named n d1 cs"
    using frs assms(2) by (intro tip_named_other) (simp add: delete_above_frame)
  moreover have "selected n d' = selected n d1"
    using frs assms(2) by (simp add: fun_eq_iff selected_def delete_above_def) 
  moreover have "db_wf d'" using frs ok1 by (simp add: delete_above_frame chain_ok_def)
  ultimately show ?thesis using ok1 by (simp add: chain_ok_def)
qed

end
