(* ===== verification/Chain_Store.thy ===== *)
theory Chain_Store imports Chain_Facts begin

text \<open>
  The contract between the indexer and the database: the canonical chain as an abstract list, the
  laws the database promises for reading, committing and replacing, and what the indexer may
  conclude when the database service itself can fail at any call.  The locale is interpreted on the
  model of \<open>src/db.rs\<close>.
\<close>

section \<open>A service that can fail\<close>

text \<open>What PostgreSQL or the connection to it does to one call beyond the statements' own errors:
  nothing; refuse it with nothing kept (a pool timeout, a statement timeout, a lost connection); or
  keep its effects and lose the acknowledgement.\<close>

datatype db_fault = NoFault | Refused sqlx_error | AckLost sqlx_error

definition db_run :: "db_fault \<Rightarrow> ('s, 'a) tx \<Rightarrow> ('s, 'a) io" where
  "db_run fault body s =
     (case fault of
        NoFault \<Rightarrow> in_transaction body s
      | Refused e \<Rightarrow> (Inl (Database e), s)
      | AckLost e \<Rightarrow>
          (case body s of Inl e' \<Rightarrow> (Inl e', s) | Inr (_, t) \<Rightarrow> (Inl (Database e), t)))"

text \<open>A query has no effects.\<close>

definition db_query :: "('s \<Rightarrow> 'a result) \<Rightarrow> ('s, 'a) tx" where
  "db_query q s = rbind (q s) (\<lambda>x. Inr (x, s))"

lemma db_run_cases:
  assumes "db_run fault body s = (r, t)"
  obtains (unchanged) e where "r = Inl e" "t = s"
    | (lost) e x where "r = Inl e" "body s = Inr (x, t)"
    | (ok) x where "r = Inr x" "body s = Inr (x, t)"
  using assms
  by (cases fault) (auto simp: db_run_def in_transaction_def split: sum.splits prod.splits)

section \<open>The contract\<close>

locale chain_store =
  fixes inv :: "'s \<Rightarrow> chain \<Rightarrow> bool"
    and key :: "indexed_block \<Rightarrow> string \<times> string"
    and ok :: "indexed_block \<Rightarrow> bool"
    and tip_of :: "'s \<Rightarrow> chain_tip option result"
    and hash_at :: "nat \<Rightarrow> 's \<Rightarrow> string option result"
    and commit :: "datetime \<Rightarrow> indexed_block \<Rightarrow> ('s, unit) tx"
    and replace :: "datetime \<Rightarrow> string \<Rightarrow> chain_tip \<Rightarrow> (nat \<times> string) option \<Rightarrow> indexed_block list \<Rightarrow> ('s, unit) tx"
  assumes unique: "inv s cs \<Longrightarrow> inv s cs' \<Longrightarrow> cs = cs'"
    and tip: "inv s cs \<Longrightarrow> tip_of s = Inr (if cs = [] then None
       else Some \<lparr>ct_height = length cs - 1, ct_block_hash = fst (last cs), ct_witness_hash = snd (last cs)\<rparr>)"
    and hash_at: "inv s cs \<Longrightarrow> h < 2 ^ 63 \<Longrightarrow>
       hash_at h s = Inr (if h < length cs then Some (fst (cs ! h)) else None)"
    and key_hash: "fst (key b) = rb_hash (ib_block b)"
    and bound: "inv s cs \<Longrightarrow> length cs \<le> 2 ^ 63"
    and commit: "commit now b s = Inr (u, s') \<Longrightarrow> inv s cs \<Longrightarrow> ok b \<Longrightarrow> rb_height (ib_block b) = length cs \<Longrightarrow>
       cs = [] \<or> rb_previousblockhash (ib_block b) = Some (fst (last cs)) \<Longrightarrow> inv s' (cs @ [key b])"
    and replace: "replace now ev old anc bs s = Inr (u, s') \<Longrightarrow> inv s cs \<Longrightarrow> list_all ok bs \<Longrightarrow>
       on_chain cs anc \<Longrightarrow>
       inv s' (take (kept anc) cs @ map key bs)"
begin

text \<open>A run of commits in which each block extends the one before.\<close>

fun extends_tip :: "chain \<Rightarrow> indexed_block list \<Rightarrow> bool" where
  "extends_tip cs [] \<longleftrightarrow> True"
| "extends_tip cs (b # bs) \<longleftrightarrow>
     ok b \<and> rb_height (ib_block b) = length cs \<and>
     (cs = [] \<or> rb_previousblockhash (ib_block b) = Some (fst (last cs))) \<and>
     extends_tip (cs @ [key b]) bs"

lemma commits_append:
  "extends_tip cs bs \<Longrightarrow> inv s cs \<Longrightarrow>
   try_fold (\<lambda>s b. rbind (commit now b s) (\<lambda>(_, s'). Inr s')) s bs = Inr s' \<Longrightarrow>
   inv s' (cs @ map key bs)"
proof (induction cs bs arbitrary: s rule: extends_tip.induct)
  case (2 cs b bs)
  from "2.prems"(3) obtain t where t: "commit now b s = Inr ((), t)"
    and rest: "try_fold (\<lambda>s b. rbind (commit now b s) (\<lambda>(_, s'). Inr s')) t bs = Inr s'" by auto
  have "inv t (cs @ [key b])" using commit[OF t "2.prems"(2)] "2.prems"(1) by simp
  with "2.IH" rest "2.prems"(1) show ?case by fastforce
qed simp

text \<open>With faults: a commit that reports success appended; one that reports failure appended or
  did nothing.\<close>

lemma commit_run:
  assumes "db_run fault (commit now b) s = (r, t)" and "inv s cs" and "ok b"
    and "rb_height (ib_block b) = length cs"
    and "cs = [] \<or> rb_previousblockhash (ib_block b) = Some (fst (last cs))"
  shows "case r of Inr _ \<Rightarrow> inv t (cs @ [key b]) | Inl _ \<Rightarrow> inv t cs \<or> inv t (cs @ [key b])"
  using assms(1)
proof (cases rule: db_run_cases)
  case (lost e x)
  then show ?thesis using commit[OF _ assms(2-5), of now x t] by simp
next
  case (ok x)
  then show ?thesis using commit[OF _ assms(2-5), of now x t] by simp
qed (use assms(2) in simp)

lemma replace_run:
  assumes "db_run fault (replace now ev old anc bs) s = (r, t)" and "inv s cs" and "list_all ok bs"
    and "on_chain cs anc"
  shows "case r of Inr _ \<Rightarrow> inv t (take (kept anc) cs @ map key bs)
    | Inl _ \<Rightarrow> inv t cs \<or> inv t (take (kept anc) cs @ map key bs)"
  using assms(1)
proof (cases rule: db_run_cases)
  case (lost e x)
  then show ?thesis using replace[OF _ assms(2-4), of now ev old x t] by simp
next
  case (ok x)
  then show ?thesis using replace[OF _ assms(2-4), of now ev old x t] by simp
qed (use assms(2) in simp)

lemma query_run: "db_run fault (db_query q) s = (r, t) \<Longrightarrow> t = s \<and> (r = q s \<or> (\<exists>e. r = Inl e))"
  by (cases fault; cases "q s") (auto simp: db_run_def db_query_def in_transaction_def)

text \<open>A height whose hash is found is on the chain.\<close>

lemma found_on_chain:
  "inv s cs \<Longrightarrow> h < 2 ^ 63 \<Longrightarrow> hash_at h s = Inr (Some x) \<Longrightarrow> on_chain cs (Some (h, x))"
  by (auto simp: hash_at on_chain_def split: if_splits)

end

interpretation store: chain_store "chain_ok net" "witness_of X" "\<lambda>_. True" "canonical_tip net" "canonical_hash net"
    "commit_block X net" "replace_canonical_branch X net" for X net
proof unfold_locales
  show "fst (witness_of X b) = rb_hash (ib_block b)" for b by (simp add: witness_of_def)
  show "length cs \<le> 2 ^ 63" if "chain_ok net s cs" for s cs using that by (simp add: chain_ok_def)
qed (fact chain_unique canonical_tip_chain canonical_hash_chain
      | (rule commit_block_appends; assumption)
      | (rule replace_branch_rewrites[unfolded replaced_def]; assumption))+

section \<open>Binding the database to a network\<close>

lemma initialize_network_parts:
  assumes "initialize_network n now d = Inr (u, d')"
  obtains row t states stored where
    "row = network_values n (int (nc_halving_interval n)) (int (nc_first_halving_height n)) now"
    "t = alist.put_absent (nc_id n) row (db_networks d)" "t_find t (nc_id n) = Some stored"
    "network_identity stored = network_identity row"
    "states = alist.put_absent (nc_id n) (starting_state now) (db_chain_state d)"
    "d' = d\<lparr>db_networks := t_put (nc_id n) (stored\<lparr>nr_symbol := nc_symbol n\<rparr>) t, db_chain_state := states\<rparr>"
  using assms
  by (auto simp: initialize_network_def to_i64_def Let_def put_network_def insert_nothing_Inr)

lemma initialize_network_chain:
  assumes "initialize_network n now d = Inr (u, d')" and "chain_ok net d cs"
  shows "chain_ok net d' cs"
  using assms(1)
proof (rule initialize_network_parts)
  fix states stored t
  assume st: "states = alist.put_absent (nc_id n) (starting_state now) (db_chain_state d)"
    and d': "d' = d\<lparr>db_networks := t_put (nc_id n) (stored\<lparr>nr_symbol := nc_symbol n\<rparr>) t, db_chain_state := states\<rparr>"
  have "t_find (db_chain_state d) net = Some s \<Longrightarrow> t_find (db_chain_state d') net = Some s" for s
    unfolding d' st by (simp add: alist.extendsD[OF alist.put_absent_extends])
  then have "tip_named net d' cs"
    using assms(2) unfolding chain_ok_def tip_named_def by blast
  then show ?thesis using assms(2)
    by (simp add: chain_ok_def d' db_wf_def selected_def fun_eq_iff block_linked_def)
qed

lemma initialize_network_fresh:
  assumes "initialize_network n now d = Inr (u, d')" and "db_wf d"
    and "t_find (db_chain_state d) (nc_id n) = None" and "selected (nc_id n) d = chain_at []"
  shows "chain_ok (nc_id n) d' []"
  using assms(1)
  by (rule initialize_network_parts)
    (use assms(2-4) in \<open>simp add: chain_ok_def db_wf_def selected_def fun_eq_iff tip_named_def
        alist.put_absent_find starting_state_def last_opt_def\<close>)


end
