(* ===== verification/Store_Props.thy ===== *)
theory Store_Props imports Chain_Store begin

text \<open>
  The properties of the canonical chain in the database, with a concrete run that initialises a
  network, commits two blocks and replaces the second by a rival.
\<close>

section \<open>A concrete run\<close>

definition example_network :: network_config where
  "example_network =
     \<lparr>nc_id = ''testnet'', nc_display_name = ''Wcash Testnet'', nc_symbol = ''TWC'', nc_decimals = 8,
      nc_coinbase_maturity = 100, nc_target_spacing_seconds = 75, nc_max_supply_zat = 2100000000000000,
      nc_initial_subsidy_zat = 625000000, nc_halving_interval = 1680000,
      nc_first_halving_height = 1680001, nc_genesis_hash = id64 CHR ''1'',
      nc_parent_explorer_block_url = [], nc_parent_explorer_tx_url = []\<rparr>"

definition genesis_block :: indexed_block where
  "genesis_block = example_block CHR ''1'' 0 None"

definition first_block :: indexed_block where
  "first_block = example_block CHR ''2'' 1 (Some (id64 CHR ''1''))"

definition rival_block :: indexed_block where
  "rival_block = example_block CHR ''3'' 1 (Some (id64 CHR ''1''))"

definition example_tip :: chain_tip where
  "example_tip = \<lparr>ct_height = 1, ct_block_hash = id64 CHR ''2'', ct_witness_hash = []\<rparr>"

definition example_run :: "(db \<times> db \<times> db \<times> db) result" where
  "example_run =
     rbind (initialize_network example_network 0 empty_db) (\<lambda>(_, d0).
     rbind (commit_block tiny_crates ''testnet'' 1 genesis_block d0) (\<lambda>(_, d1).
     rbind (commit_block tiny_crates ''testnet'' 2 first_block d1) (\<lambda>(_, d2).
     rbind (replace_canonical_branch tiny_crates ''testnet'' 3 ''e1'' example_tip
              (Some (0, id64 CHR ''1'')) [rival_block] d2) (\<lambda>(_, d3).
     Inr (d0, d1, d2, d3)))))"

lemma example_run_ok: "is_ok example_run"
  by code_simp

lemma example_steps:
  obtains d0 d1 d2 d3 where
    "initialize_network example_network 0 empty_db = Inr ((), d0)"
    "commit_block tiny_crates ''testnet'' 1 genesis_block d0 = Inr ((), d1)"
    "commit_block tiny_crates ''testnet'' 2 first_block d1 = Inr ((), d2)"
    "replace_canonical_branch tiny_crates ''testnet'' 3 ''e1'' example_tip
       (Some (0, id64 CHR ''1'')) [rival_block] d2 = Inr ((), d3)"
  using example_run_ok by (auto simp: is_ok_iff example_run_def)

abbreviation example_chain :: chain where
  "example_chain \<equiv> [witness_of tiny_crates genesis_block, witness_of tiny_crates first_block]"

lemma example_blocks:
  "rb_height (ib_block genesis_block) = 0" "rb_hash (ib_block genesis_block) = id64 CHR ''1''"
  "rb_height (ib_block first_block) = 1" "rb_hash (ib_block first_block) = id64 CHR ''2''"
  "rb_previousblockhash (ib_block first_block) = Some (id64 CHR ''1'')"
  by (simp_all add: genesis_block_def first_block_def example_block_def)

lemma example_fresh:
  assumes "initialize_network example_network 0 empty_db = Inr ((), d0)"
  shows "chain_ok ''testnet'' d0 []"
proof -
  have "nc_id example_network = ''testnet''" by (simp add: example_network_def)
  moreover have "selected n empty_db = chain_at []" "t_find (db_chain_state empty_db) n = None" for n
    by (simp_all add: selected_def empty_db_def chain_at_def fun_eq_iff)
  ultimately show ?thesis using initialize_network_fresh[OF assms empty_db_wf] by simp
qed

lemma example_genesis:
  assumes "initialize_network example_network 0 empty_db = Inr ((), d0)"
    and "commit_block tiny_crates ''testnet'' 1 genesis_block d0 = Inr ((), d1)"
  shows "chain_ok ''testnet'' d1 [witness_of tiny_crates genesis_block]"
  using store.commit[OF assms(2) example_fresh[OF assms(1)]] by (simp add: example_blocks)

lemma example_two:
  assumes "initialize_network example_network 0 empty_db = Inr ((), d0)"
    and "commit_block tiny_crates ''testnet'' 1 genesis_block d0 = Inr ((), d1)"
    and "commit_block tiny_crates ''testnet'' 2 first_block d1 = Inr ((), d2)"
  shows "chain_ok ''testnet'' d2 example_chain"
  using store.commit[OF assms(3) example_genesis[OF assms(1,2)]]
  by (simp add: example_blocks witness_of_def)


section \<open>Properties\<close>

text \<open>C1. Committing refines appending.  If the database represents the chain \<open>cs\<close> and the committed
  block has the next height and names the tip as its predecessor, then after a successful commit the
  database represents \<open>cs\<close> with that block and its witness at the end, the tip that is read is that
  block, everything the node said of it is stored, and the chains of other networks are unchanged.\<close>

theorem commit_block_refines_append:
  assumes "commit_block X net now b d = Inr (u, d')" and "chain_ok net d cs"
    and "rb_height (ib_block b) = length cs"
    and "cs = [] \<or> rb_previousblockhash (ib_block b) = Some (fst (last cs))"
  shows "chain_ok net d' (cs @ [witness_of X b]) \<and>
     canonical_tip net d' = Inr (Some \<lparr>ct_height = length cs, ct_block_hash = rb_hash (ib_block b),
       ct_witness_hash = witness_hash X b\<rparr>) \<and>
     txs_stored X (witness_of X b) (rb_tx (ib_block b)) (length (rb_tx (ib_block b))) d' \<and>
     (\<forall>n ds. n \<noteq> net \<and> chain_ok n d ds \<longrightarrow> chain_ok n d' ds)"
proof -
  have ok: "chain_ok net d' (cs @ [witness_of X b])" using store.commit[OF assms(1,2)] assms(3,4) by simp
  moreover have "txs_stored X (witness_of X b) (rb_tx (ib_block b)) (length (rb_tx (ib_block b))) d'"
    using assms(1)
  proof (rule commit_block_parts)
    fix d1 assume ins: "insert_block X net b d = Inr d1" and sel: "select_canonical X net now b d1 = Inr d'"
    have "db_instances d' = db_instances d1" "db_inputs d' = db_inputs d1" "db_outputs d' = db_outputs d1"
      "db_block_transactions d' = db_block_transactions d1"
      using select_canonical_tables[OF sel] by simp_all
    then show ?thesis using insert_block_stored[OF ins] assms(2)
      by (simp add: chain_ok_def block_stored_def txs_stored_def tx_stored_def)
  qed
  ultimately show ?thesis
    using store.tip[OF ok] commit_block_other[OF assms(1)] by (auto simp: witness_of_def)
qed

theorem commit_block_refines_append_witness:
  "\<exists>d1 d2. commit_block tiny_crates ''testnet'' 2 first_block d1 = Inr ((), d2) \<and>
     chain_ok ''testnet'' d2 example_chain"
proof (rule example_steps)
  fix d0 d1 d2
  assume a: "initialize_network example_network 0 empty_db = Inr ((), d0)"
    "commit_block tiny_crates ''testnet'' 1 genesis_block d0 = Inr ((), d1)"
    "commit_block tiny_crates ''testnet'' 2 first_block d1 = Inr ((), d2)"
  show ?thesis
    using commit_block_refines_append[OF a(3) example_genesis[OF a(1,2)]] a(3)
    by (auto simp: example_blocks witness_of_def)
qed

text \<open>C2. Publishing a reorganization refines rewriting the end of the chain.  On a database that
  represents \<open>cs\<close>, a successful replacement from an ancestor on the chain leaves exactly the blocks
  up to the ancestor followed by the replacement, in one step; the tip that was replaced was the tip
  of \<open>cs\<close>; and the chains of other networks are unchanged.  In particular the new branch is linked
  block by block to the ancestor.\<close>

theorem replace_branch_refines_rewrite:
  assumes "replace_canonical_branch X net now ev old_tip ancestor bs d = Inr (u, d')"
    and "chain_ok net d cs" and "on_chain cs ancestor"
  shows "chain_ok net d' (take (kept ancestor) cs @ map (witness_of X) bs) \<and>
     cs \<noteq> [] \<and> ct_height old_tip = length cs - 1 \<and> ct_block_hash old_tip = fst (last cs) \<and>
     (\<forall>n ds. n \<noteq> net \<and> chain_ok n d ds \<longrightarrow> chain_ok n d' ds)"
proof -
  have "lock_tip net old_tip d = Inr ()" using assms(1) by (rule replace_parts)
  then show ?thesis
    using store.replace[OF assms(1,2) _ assms(3)] lock_tip_chain[OF _ assms(2)]
      replace_branch_other[OF assms(1)] by (simp add: list.pred_True)
qed

theorem replace_branch_refines_rewrite_witness:
  "\<exists>d2 d3. replace_canonical_branch tiny_crates ''testnet'' 3 ''e1'' example_tip
       (Some (0, id64 CHR ''1'')) [rival_block] d2 = Inr ((), d3) \<and>
     chain_ok ''testnet'' d3 [witness_of tiny_crates genesis_block, witness_of tiny_crates rival_block]"
proof (rule example_steps)
  fix d0 d1 d2 d3
  assume a: "initialize_network example_network 0 empty_db = Inr ((), d0)"
    "commit_block tiny_crates ''testnet'' 1 genesis_block d0 = Inr ((), d1)"
    "commit_block tiny_crates ''testnet'' 2 first_block d1 = Inr ((), d2)"
    "replace_canonical_branch tiny_crates ''testnet'' 3 ''e1'' example_tip
       (Some (0, id64 CHR ''1'')) [rival_block] d2 = Inr ((), d3)"
  have "on_chain example_chain (Some (0, id64 CHR ''1''))"
    by (simp add: on_chain_def witness_of_def example_blocks)
  from replace_branch_refines_rewrite[OF a(4) example_two[OF a(1-3)] this] a(4)
  show ?thesis by (auto simp: kept_def)
qed

text \<open>Only a published reorganization can change a selected height: a successful commit, of any
  block at any height, keeps every selection of every network.\<close>

theorem commit_block_keeps_selections:
  assumes "commit_block X net now b d = Inr (u, d')" and "selected n d h = Some c"
  shows "selected n d' h = Some c"
  using assms(1)
proof (rule commit_block_parts)
  fix d1 assume ins: "insert_block X net b d = Inr d1" and sel: "select_canonical X net now b d1 = Inr d'"
  have d1: "selected n d1 h = Some c"
    using insert_block_step[OF ins] assms(2) by (simp add: block_step_def selected_def)
  from sel obtain d2 f where s: "insert_canonical_selector X net now b d1 = Inr d2"
    and d': "d' = update_chain_state net f d2" by (rule select_canonical_parts)
  from s obtain k r t where t: "insert_nothing check_canonical (canonical_refs d1) k r (db_canonical d1) = Inr t"
    and d2: "d2 = d1\<lparr>db_canonical := t\<rparr>"
    by (auto simp: insert_canonical_selector_def elim!: put_canonical_parts)
  from d1 obtain row where "t_find (db_canonical d1) (n, h) = Some row"
    "(cr_block_hash row, cr_witness_hash row) = c" by (auto simp: selected_def)
  moreover from this(1) have "t_find t (n, h) = Some row"
    by (rule alist.extendsD[OF insert_nothing_extends[OF t]])
  ultimately show ?thesis by (simp add: d' d2 selected_def)
qed

theorem commit_block_keeps_selections_witness:
  "\<exists>d1 d2. commit_block tiny_crates ''testnet'' 2 first_block d1 = Inr ((), d2) \<and>
     selected ''testnet'' d2 0 = Some (witness_of tiny_crates genesis_block)"
proof (rule example_steps)
  fix d0 d1 d2
  assume a: "initialize_network example_network 0 empty_db = Inr ((), d0)"
    "commit_block tiny_crates ''testnet'' 1 genesis_block d0 = Inr ((), d1)"
    "commit_block tiny_crates ''testnet'' 2 first_block d1 = Inr ((), d2)"
  have "selected ''testnet'' d1 0 = Some (witness_of tiny_crates genesis_block)"
    using example_genesis[OF a(1,2)] by (simp add: chain_ok_def chain_at_def)
  from commit_block_keeps_selections[OF a(3) this] a(3) show ?thesis by blast
qed

end
