(* ===== verification/Stored_Values.thy ===== *)
theory Stored_Values imports Chain_Store begin

text \<open>
  What \<open>src/db.rs\<close> stores beyond the constraints of the migrations: the columns without a
  \<open>CHECK\<close> that hold depths, indices, heights and hashes are what their names say, because of the
  conversions the code makes before it writes them.
\<close>

section \<open>Rows under a constraint\<close>

definition rows_ok :: "('k \<Rightarrow> 'r \<Rightarrow> unit result) \<Rightarrow> ('k, 'r) table \<Rightarrow> bool" where
  "rows_ok c t \<longleftrightarrow> list_all (\<lambda>(k, r). is_ok (c k r)) t"

lemma rows_okD: "rows_ok c t \<Longrightarrow> t_find t k = Some r \<Longrightarrow> c k r = Inr ()"
  by (fastforce simp: rows_ok_def list_all_iff is_ok_iff dest: t_find_in_set)

lemma rows_ok_put: "rows_ok c t \<Longrightarrow> is_ok (c k r) \<Longrightarrow> rows_ok c (t_put k r t)"
  unfolding rows_ok_def by (induction k r t rule: t_put.induct) auto

lemma rows_ok_remove: "rows_ok c t \<Longrightarrow> rows_ok c (t_remove P t)"
  by (auto simp: rows_ok_def t_remove_def list_all_iff)

lemma rows_ok_mono: "rows_ok c t \<Longrightarrow> (\<And>k r. is_ok (c k r) \<Longrightarrow> is_ok (c' k r)) \<Longrightarrow> rows_ok c' t"
  by (auto simp: rows_ok_def list_all_iff)

lemma rows_ok_put_absent: "rows_ok c t \<Longrightarrow> is_ok (c k r) \<Longrightarrow> rows_ok c (alist.put_absent k r t)"
  by (auto simp: alist.put_absent_def rows_ok_put split: option.splits)

lemma insert_nothing_check:
  "insert_nothing check refs k r t = Inr t' \<Longrightarrow> rows_ok check t \<Longrightarrow> rows_ok check t'"
  by (auto simp: insert_nothing_Inr rows_ok_put_absent)

lemma insert_nothing_refs:
  "insert_nothing check refs k r t = Inr t' \<Longrightarrow> rows_ok c t \<Longrightarrow> (refs k r = Inr () \<Longrightarrow> is_ok (c k r)) \<Longrightarrow> rows_ok c t'"
  by (auto simp: insert_nothing_Inr alist.put_absent_def rows_ok_put split: option.splits)

lemma insert_update_check:
  "insert_update check refs upd k r t = Inr t' \<Longrightarrow> rows_ok check t \<Longrightarrow> rows_ok check t'"
  by (auto simp: insert_update_Inr rows_ok_put split: option.splits)

text \<open>A constraint of the code rather than of the schema.\<close>

definition rows_sat :: "('k \<Rightarrow> 'r \<Rightarrow> bool) \<Rightarrow> ('k, 'r) table \<Rightarrow> bool" where
  "rows_sat P = rows_ok (\<lambda>k r. guard (P k r) check_violation)"

lemma is_ok_guard [simp]: "is_ok (guard c e) = c"
  by (simp add: guard_def)

lemma rows_satD: "rows_sat P t \<Longrightarrow> t_find t k = Some r \<Longrightarrow> P k r"
  unfolding rows_sat_def by (drule (1) rows_okD) (simp add: guard_Inr)

lemma rows_sat_in: "rows_sat P t \<Longrightarrow> (k, r) \<in> set t \<Longrightarrow> P k r"
  by (fastforce simp: rows_sat_def rows_ok_def list_all_iff)

lemma rows_sat_empty [simp]: "rows_sat P []"
  by (simp add: rows_sat_def rows_ok_def)

lemma rows_sat_put: "rows_sat P t \<Longrightarrow> P k r \<Longrightarrow> rows_sat P (t_put k r t)"
  by (simp add: rows_sat_def rows_ok_put)

lemma rows_sat_remove: "rows_sat P t \<Longrightarrow> rows_sat P (t_remove Q t)"
  by (simp add: rows_sat_def rows_ok_remove)

lemma rows_sat_absent: "rows_sat P t \<Longrightarrow> P k r \<Longrightarrow> rows_sat P (alist.put_absent k r t)"
  by (simp add: rows_sat_def rows_ok_put_absent)

lemma rows_sat_insert_nothing:
  "insert_nothing check refs k r t = Inr t' \<Longrightarrow> rows_sat P t \<Longrightarrow> (check k r = Inr () \<Longrightarrow> P k r) \<Longrightarrow> rows_sat P t'"
  by (auto simp: insert_nothing_Inr rows_sat_absent)

lemma rows_sat_insert_update:
  "insert_update check refs upd k r t = Inr t' \<Longrightarrow> rows_sat P t \<Longrightarrow> P k r \<Longrightarrow>
   (\<And>old. P k old \<Longrightarrow> P k (upd old r)) \<Longrightarrow> rows_sat P t'"
  by (cases "t_find t k") (auto simp: insert_update_Inr intro: rows_sat_put dest: rows_satD)

section \<open>Stored values\<close>

definition sane_link :: "link_row \<Rightarrow> bool" where
  "sane_link r \<longleftrightarrow>
     0 \<le> lk_parent_merkle_depth r \<and> 0 \<le> lk_parent_coinbase_index r \<and> 0 \<le> lk_auth_data_merkle_depth r \<and>
     0 \<le> lk_auth_data_coinbase_index r \<and> 0 \<le> lk_auxiliary_merkle_depth r \<and> 0 \<le> lk_auxiliary_index r"

definition sane_reorg :: "reorg_row \<Rightarrow> bool" where
  "sane_reorg r \<longleftrightarrow>
     0 \<le> re_old_tip_height r \<and> hash_text (re_old_tip_hash r) \<and>
     opt_all (\<lambda>h. 0 \<le> h) (re_common_ancestor_height r) \<and> opt_all hash_text (re_common_ancestor_hash r)"

definition values_ok :: "db \<Rightarrow> bool" where
  "values_ok d \<longleftrightarrow>
     rows_sat (\<lambda>x _. hash_text x) (db_blocks d) \<and> rows_sat (\<lambda>_. sane_link) (db_links d) \<and>
     rows_sat (\<lambda>_ r. opt_all (\<lambda>h. 0 \<le> h) (ow_parent_height r)) (db_observations d) \<and>
     rows_sat (\<lambda>_ s. opt_all (\<lambda>h. 0 \<le> h) (st_node_height s)) (db_chain_state d) \<and>
     rows_sat (\<lambda>_. sane_reorg) (db_reorgs d)"

lemma empty_db_values: "values_ok empty_db"
  by (simp add: values_ok_def empty_db_def)

lemma values_frame:
  "values_ok d \<Longrightarrow> db_blocks d' = db_blocks d \<Longrightarrow> db_links d' = db_links d \<Longrightarrow>
   db_observations d' = db_observations d \<Longrightarrow> db_chain_state d' = db_chain_state d \<Longrightarrow> db_reorgs d' = db_reorgs d \<Longrightarrow>
   values_ok d'"
  by (simp add: values_ok_def)

lemma opt_all_map [simp]: "opt_all P (map_option f v) = opt_all (\<lambda>x. P (f x)) v"
  by (cases v) (simp_all add: opt_all_def)

subsection \<open>Storing a block\<close>

lemma link_values_sane: "link_values b aux = Inr row \<Longrightarrow> sane_link row"
  by (auto simp: link_values_def sane_link_def)

lemma observation_values_sane: "observation_values X ob = Inr row \<Longrightarrow> opt_all (\<lambda>h. 0 \<le> h) (ow_parent_height row)"
  by (cases "po_block ob") (auto simp: observation_values_def to_i64_def transpose_opt_Inr opt_all_def)

lemma put_block_values: "put_block k r d = Inr d' \<Longrightarrow> values_ok d \<Longrightarrow> values_ok d'"
  by (auto simp: put_block_def values_ok_def check_block_def guard_Inr elim!: rows_sat_insert_nothing)

lemma put_link_values: "put_link k r d = Inr d' \<Longrightarrow> sane_link r \<Longrightarrow> values_ok d \<Longrightarrow> values_ok d'"
  by (auto simp: put_link_def values_ok_def elim!: rows_sat_insert_update)
    (simp_all add: sane_link_def link_update_def)

lemma store_observation_values: "store_observation X w d ob = Inr d' \<Longrightarrow> values_ok d \<Longrightarrow> values_ok d'"
  by (auto simp: store_observation_def put_observation_def values_ok_def dest: observation_values_sane
      elim!: rows_sat_insert_update)

lemma store_position_values: "store_position X w d pt = Inr d' \<Longrightarrow> values_ok d \<Longrightarrow> values_ok d'"
proof (cases pt)
  case (Pair k t)
  assume "store_position X w d pt = Inr d'" and ok: "values_ok d"
  then obtain i d1 where "insert_transaction X t d = Inr (i, d1)" "put_position (w, int k) i d1 = Inr d'"
    unfolding Pair by (auto elim: store_position_parts)
  then have "tx_frame d d1" "values_ok d1 \<Longrightarrow> values_ok d'"
    using insert_transaction_step by (auto simp: tx_step_def put_position_def values_ok_def)
  then show ?thesis using values_frame[OF ok, of d1] by (simp add: tx_frame_def)
qed

lemma store_evidence_values:
  assumes "store_evidence X b d = Inr d'" and "values_ok d"
  shows "values_ok d'"
proof (cases "ib_auxpow b")
  case None
  then show ?thesis using assms by (simp add: store_evidence_def)
next
  case (Some aux)
  with assms(1) obtain row d1 where row: "link_values b aux = Inr row" "put_link (witness_of X b) row d = Inr d1"
    and obs: "try_fold (store_observation X (witness_of X b)) (delete_observations (witness_of X b) d1)
        (va_parent_observations aux) = Inr d'" by (auto simp: store_evidence_def)
  have "values_ok d1" using put_link_values[OF row(2) link_values_sane[OF row(1)] assms(2)] .
  then have "values_ok (delete_observations (witness_of X b) d1)"
    by (simp add: delete_observations_def values_ok_def rows_sat_remove)
  then show ?thesis by (rule try_fold_rule[OF obs]) (rule store_observation_values)
qed

lemma insert_block_values:
  assumes "insert_block X net b d = Inr d'" and "values_ok d"
  shows "values_ok d'"
  using assms(1)
proof (rule insert_block_parts)
  fix d1 d2 d3 d4
  assume a: "store_block X net b d = Inr d1" "store_witness X b d1 = Inr d2" "store_transactions X b d2 = Inr d3"
    "store_pools X b d3 = Inr d4" "store_evidence X b d4 = Inr d'"
  have "values_ok d1" using a(1) assms(2) put_block_values by (auto simp: store_block_def)
  then have "values_ok d2" using a(2) by (auto simp: store_witness_def put_witness_def values_ok_def)
  then have "values_ok d3"
    by (rule try_fold_rule[OF a(3)[unfolded store_transactions_def]]) (rule store_position_values)
  then have "values_ok d4"
    by (rule try_fold_rule[OF a(4)[unfolded store_pools_def]]) (auto simp: put_pool_def values_ok_def)
  then show ?thesis by (rule store_evidence_values[OF a(5)])
qed

subsection \<open>The chain and the progress row\<close>

lemma update_chain_state_values:
  assumes "values_ok d" and "\<And>s. opt_all (\<lambda>h. 0 \<le> h) (st_node_height s) \<Longrightarrow> opt_all (\<lambda>h. 0 \<le> h) (st_node_height (f s))"
  shows "values_ok (update_chain_state net f d)"
proof (cases "t_find (db_chain_state d) net")
  case (Some s)
  then have "opt_all (\<lambda>h. 0 \<le> h) (st_node_height (f s))"
    using assms rows_satD[OF _ Some] by (fastforce simp: values_ok_def)
  then show ?thesis using assms(1) Some by (simp add: update_chain_state_def values_ok_def rows_sat_put)
qed (use assms(1) in \<open>simp add: update_chain_state_def\<close>)

lemma selector_values: "insert_canonical_selector X net now b d = Inr d' \<Longrightarrow> values_ok d \<Longrightarrow> values_ok d'"
  by (auto simp: insert_canonical_selector_def put_canonical_def values_ok_def)

lemma commit_block_values:
  assumes "commit_block X net now b d = Inr (u, d')" and "values_ok d"
  shows "values_ok d'"
  using assms by (auto simp: commit_block_def select_canonical_def
      intro!: update_chain_state_values elim!: selector_values insert_block_values)

lemma insert_reorg_event_values:
  assumes "insert_reorg_event ev net now old ah ax d = Inr d'" and "values_ok d"
    and "hash_text (ct_block_hash old)" and "opt_all (\<lambda>h. 0 \<le> h) ah" and "opt_all hash_text ax"
  shows "values_ok d'"
  using assms by (auto simp: insert_reorg_event_def values_ok_def to_i64_def sane_reorg_def intro!: rows_sat_put)

lemma publish_tip_values:
  assumes "publish_tip X net now ev ah ax bs d = Inr d'" and "values_ok d"
  shows "values_ok d'"
proof -
  from assms(1) obtain f where d': "d' = (case t_find (db_reorgs (update_chain_state net f d)) ev of
      None \<Rightarrow> update_chain_state net f d
    | Some e \<Rightarrow> (update_chain_state net f d)\<lparr>db_reorgs :=
        t_put ev (e\<lparr>re_completed_at := Some now\<rparr>) (db_reorgs (update_chain_state net f d))\<rparr>)"
    and f: "st_node_height (f s) = st_node_height s" for s
    by (auto simp: publish_tip_def Let_def)
  have ok: "values_ok (update_chain_state net f d)" using assms(2) by (rule update_chain_state_values) (simp add: f)
  show ?thesis
  proof (cases "t_find (db_reorgs (update_chain_state net f d)) ev")
    case (Some e)
    have "sane_reorg e" using ok rows_satD[OF _ Some] by (fastforce simp: values_ok_def)
    then have "sane_reorg (e\<lparr>re_completed_at := Some now\<rparr>)" by (simp add: sane_reorg_def)
    then show ?thesis using ok Some unfolding d' by (simp add: values_ok_def rows_sat_put)
  qed (use ok in \<open>simp add: d'\<close>)
qed

text \<open>The hashes a represented chain names.\<close>

lemma chain_hash_text:
  assumes "chain_ok net d cs" and "values_ok d" and "i < length cs"
  shows "hash_text (fst (cs ! i))"
proof -
  obtain r where "t_find (db_blocks d) (fst (cs ! i)) = Some r"
    using assms(1,3) by (auto simp: chain_ok_def block_linked_def)
  with assms(2) show ?thesis by (auto simp: values_ok_def dest: rows_satD)
qed

lemma replace_branch_values:
  assumes "replace_canonical_branch X net now ev old_tip ancestor bs d = Inr (u, d')"
    and "chain_ok net d cs" and "values_ok d" and "on_chain cs ancestor"
  shows "values_ok d'"
  using assms(1)
proof (rule replace_parts)
  fix d1 ah d2 d3
  assume a: "lock_tip net old_tip d = Inr ()" "try_fold (\<lambda>d b. insert_block X net b d) d bs = Inr d1"
    "ah = map_option (\<lambda>(h, _). int h) ancestor"
    "insert_reorg_event ev net now old_tip ah (map_option snd ancestor) d1 = Inr d2"
    "try_fold (\<lambda>d b. insert_canonical_selector X net now b d) (delete_above net ah d2) bs = Inr d3"
    "publish_tip X net now ev ah (map_option snd ancestor) bs d3 = Inr d'"
  have "hash_text (ct_block_hash old_tip)"
    using lock_tip_chain[OF a(1) assms(2)] chain_hash_text[OF assms(2,3), of "length cs - 1"] by (simp add: last_conv_nth)
  moreover have "opt_all hash_text (map_option snd ancestor)"
    using assms(4) chain_hash_text[OF assms(2,3)] by (auto simp: on_chain_def opt_all_def split: option.splits)
  moreover have "values_ok d1" by (rule try_fold_rule[OF a(2), of values_ok, OF assms(3)]) (rule insert_block_values)
  moreover have "opt_all (\<lambda>h. 0 \<le> h) ah" by (auto simp: a(3) opt_all_def split: option.splits)
  ultimately have "values_ok d2" by (intro insert_reorg_event_values[OF a(4)])
  then have "values_ok (delete_above net ah d2)" by (simp add: delete_above_def values_ok_def)
  then have "values_ok d3" by (rule try_fold_rule[OF a(5)]) (rule selector_values)
  then show ?thesis by (rule publish_tip_values[OF a(6)])
qed

lemma progress_ops_values:
  assumes "values_ok d"
  shows "observe_node_tip net now h x d = Inr (u, d') \<Longrightarrow> values_ok d'"
    and "update_node_tip net now h x st er d = Inr (u, d') \<Longrightarrow> values_ok d'"
    and "mark_indexer_error net now msg d = Inr (u, d') \<Longrightarrow> values_ok d'"
    and "refresh_block_evidence X net b d = Inr (u, d') \<Longrightarrow> values_ok d'"
  using assms insert_block_values
  by (auto simp: observe_node_tip_def update_node_tip_def mark_indexer_error_def refresh_block_evidence_def
      to_i64_def opt_all_def intro!: update_chain_state_values)

lemma initialize_network_values:
  assumes "initialize_network n now d = Inr (u, d')" and "values_ok d"
  shows "values_ok d'"
  using assms(1)
  by (rule initialize_network_parts)
    (use assms(2) in \<open>auto simp: values_ok_def starting_state_def opt_all_def intro!: rows_sat_absent\<close>)

end
