(* ===== verification/Proven_Chain.thy ===== *)
theory Proven_Chain imports Stored_Values begin

text \<open>
  The chain the indexer maintains carries proof: every selected block above genesis has a verified
  merge-mining link.  This stronger invariant satisfies the same store contract for blocks that
  were verified.
\<close>

definition has_link :: "db \<Rightarrow> string \<times> string \<Rightarrow> bool" where
  "has_link d c \<longleftrightarrow> t_find (db_links d) c \<noteq> None"

definition links_ok :: "db \<Rightarrow> chain \<Rightarrow> bool" where
  "links_ok d cs \<longleftrightarrow> (\<forall>i < length cs. i = 0 \<or> has_link d (cs ! i))"

definition proven :: "indexed_block \<Rightarrow> bool" where
  "proven b \<longleftrightarrow> ib_auxpow b \<noteq> None \<or> rb_height (ib_block b) = 0"

text \<open>The represented chain with its proofs, in a database whose columns hold what their names say.\<close>

definition indexed :: "string \<Rightarrow> db \<Rightarrow> chain \<Rightarrow> bool" where
  "indexed net d cs \<longleftrightarrow> chain_ok net d cs \<and> links_ok d cs \<and> values_ok d"

lemma has_link_step: "has_link d c \<Longrightarrow> block_step d d' \<Longrightarrow> has_link d' c"
  unfolding has_link_def block_step_def keeps_facts_def by (metis option.exhaust_sel option.distinct(1))

lemma links_ok_step: "links_ok d cs \<Longrightarrow> block_step d d' \<Longrightarrow> links_ok d' cs"
  unfolding links_ok_def using has_link_step by blast

lemma insert_block_link:
  assumes "insert_block X net b d = Inr d'" and "ib_auxpow b \<noteq> None"
  shows "has_link d' (witness_of X b)"
  using insert_block_evidence[OF assms(1)] assms(2) by (auto simp: evidence_stored_def has_link_def)

lemma links_ok_append:
  "links_ok d (cs @ [c]) \<longleftrightarrow> links_ok d cs \<and> (cs = [] \<or> has_link d c)"
  by (auto simp: links_ok_def nth_append less_Suc_eq)

lemma links_ok_take: "links_ok d cs \<Longrightarrow> links_ok d (take n cs)"
  by (simp add: links_ok_def)

lemma select_canonical_links: "select_canonical X net now b d = Inr d' \<Longrightarrow> db_links d' = db_links d"
  by (auto simp: select_canonical_def insert_canonical_selector_def put_canonical_def
      update_chain_state_def split: option.splits)

lemma commit_block_indexed:
  assumes "commit_block X net now b d = Inr (u, d')" and "indexed net d cs" and "proven b"
    and "rb_height (ib_block b) = length cs"
    and "cs = [] \<or> rb_previousblockhash (ib_block b) = Some (fst (last cs))"
  shows "indexed net d' (cs @ [witness_of X b])"
proof -
  have ok: "chain_ok net d' (cs @ [witness_of X b])"
    using assms(2) commit_block_appends[OF assms(1) _ assms(4,5)] by (simp add: indexed_def)
  from assms(1) obtain d1 where ins: "insert_block X net b d = Inr d1"
    and sel: "select_canonical X net now b d1 = Inr d'" by (rule commit_block_parts)
  have "links_ok d1 cs"
    using links_ok_step[OF _ insert_block_step[OF ins]] assms(2) by (simp add: indexed_def)
  moreover have "cs = [] \<or> has_link d1 (witness_of X b)"
    using insert_block_link[OF ins] assms(3,4) by (auto simp: proven_def)
  ultimately have "links_ok d' (cs @ [witness_of X b])"
    using select_canonical_links[OF sel] by (simp add: links_ok_append) (simp add: links_ok_def has_link_def)
  with ok show ?thesis using commit_block_values[OF assms(1)] assms(2) by (simp add: indexed_def)
qed

lemma insert_blocks_link:
  assumes "try_fold (\<lambda>d b. insert_block X net b d) d bs = Inr d'" and "b \<in> set bs" and "ib_auxpow b \<noteq> None"
  shows "has_link d' (witness_of X b)"
  using assms
proof (induction bs arbitrary: d)
  case (Cons c bs)
  from Cons.prems(1) obtain e where e: "insert_block X net c d = Inr e"
    and rest: "try_fold (\<lambda>d b. insert_block X net b d) e bs = Inr d'" by auto
  show ?case
  proof (cases "b \<in> set bs")
    case True
    then show ?thesis using Cons.IH[OF rest] Cons.prems(3) by simp
  next
    case False
    then have "has_link e (witness_of X b)" using Cons.prems insert_block_link[OF e] by simp
    then show ?thesis using insert_blocks_step[OF rest] by (rule has_link_step)
  qed
qed simp

lemma selectors_links:
  assumes "try_fold (\<lambda>d b. insert_canonical_selector X net now b d) d bs = Inr d'"
  shows "db_links d' = db_links d"
  by (rule try_fold_rule[OF assms]) (auto simp: insert_canonical_selector_def put_canonical_def)

lemma replace_links:
  assumes "replace_canonical_branch X net now ev old_tip ancestor bs d = Inr (u, d')"
  obtains d1 where "try_fold (\<lambda>d b. insert_block X net b d) d bs = Inr d1" "db_links d' = db_links d1"
    "db_blocks d' = db_blocks d1"
  using assms
proof (rule replace_parts)
  fix d1 ah d2 d3
  assume a: "try_fold (\<lambda>d b. insert_block X net b d) d bs = Inr d1"
    "insert_reorg_event ev net now old_tip ah (map_option snd ancestor) d1 = Inr d2"
    "try_fold (\<lambda>d b. insert_canonical_selector X net now b d) (delete_above net ah d2) bs = Inr d3"
    "publish_tip X net now ev ah (map_option snd ancestor) bs d3 = Inr d'"
  have "db_links d' = db_links d3"
    using a(4) by (auto simp: publish_tip_def Let_def split: option.splits)
  moreover have "db_links d3 = db_links d2" using selectors_links[OF a(3)] by (simp add: delete_above_def)
  moreover have "db_links d2 = db_links d1" using a(2) by (auto simp: insert_reorg_event_def)
  moreover have "db_blocks d' = db_blocks d1"
    using insert_reorg_event_frame[OF a(2)] insert_selectors_frame[OF a(3)] publish_tip_effect[OF a(4)]
    by (simp add: delete_above_frame)
  ultimately show thesis using that a(1) by simp
qed

lemma replace_branch_indexed:
  assumes "replace_canonical_branch X net now ev old_tip ancestor bs d = Inr (u, d')"
    and "indexed net d cs" and "list_all proven bs" and "on_chain cs ancestor"
  shows "indexed net d' (take (kept ancestor) cs @ map (witness_of X) bs)"
proof -
  let ?new = "take (kept ancestor) cs @ map (witness_of X) bs"
  have ok: "chain_ok net d' ?new"
    using assms replace_branch_rewrites[of X net now ev old_tip ancestor bs d u d' cs]
    by (simp add: indexed_def replaced_def)
  from assms(1) obtain d1 where ins: "try_fold (\<lambda>d b. insert_block X net b d) d bs = Inr d1"
    and same: "db_links d' = db_links d1" "db_blocks d' = db_blocks d1" by (rule replace_links)
  have old: "links_ok d1 cs"
    using links_ok_step[OF _ insert_blocks_step[OF ins]] assms(2) by (simp add: indexed_def)
  have n: "length (take (kept ancestor) cs) = kept ancestor" using on_chain_kept[OF assms(4)] by simp
  have "has_link d1 (?new ! i)" if i: "i < length ?new" "i \<noteq> 0" for i
  proof (cases "i < kept ancestor")
    case True
    then have "i < length cs" "?new ! i = cs ! i" using n by (simp_all add: nth_append)
    then show ?thesis using old i(2) by (metis links_ok_def)
  next
    case False
    define j where "j = i - kept ancestor"
    have j: "j < length bs" "?new ! i = witness_of X (bs ! j)"
      using i n False by (auto simp: j_def nth_append)
    have fit: "fits net d1 (witness_of X (bs ! j)) (rb_height (ib_block (bs ! j)))
        (rb_previousblockhash (ib_block (bs ! j)))"
      using insert_blocks_fit[OF ins, of "bs ! j"] assms(2) j by (simp add: indexed_def chain_ok_def)
    have "block_linked net d' ?new i" using ok i by (simp add: chain_ok_def)
    then have "rb_height (ib_block (bs ! j)) = i" 
      using fit j by (auto simp: block_linked_def fits_def same)
    then have "ib_auxpow (bs ! j) \<noteq> None"
      using assms(3) j i by (auto simp: list_all_length proven_def)
    then show ?thesis using insert_blocks_link[OF ins, of "bs ! j"] j by simp
  qed
  then have "links_ok d' ?new" by (auto simp: links_ok_def has_link_def same)
  with ok show ?thesis using replace_branch_values[OF assms(1) _ _ assms(4)] assms(2) by (simp add: indexed_def)
qed

lemma indexed_empty: "chain_ok net d [] \<Longrightarrow> values_ok d \<Longrightarrow> indexed net d []"
  by (simp add: indexed_def links_ok_def)

lemma indexed_chain: "indexed net d cs \<Longrightarrow> chain_ok net d cs"
  by (simp add: indexed_def)

interpretation indexed_store: chain_store "indexed net" "witness_of X" proven "canonical_tip net"
    "canonical_hash net" "commit_block X net" "replace_canonical_branch X net" for X net
proof unfold_locales
  fix s cs cs' h
  assume "indexed net s cs"
  then have ok: "chain_ok net s cs" by (rule indexed_chain)
  show "indexed net s cs' \<Longrightarrow> cs = cs'" using ok store.unique indexed_chain by blast
  show "canonical_tip net s = Inr (if cs = [] then None
      else Some \<lparr>ct_height = length cs - 1, ct_block_hash = fst (last cs), ct_witness_hash = snd (last cs)\<rparr>)"
    using ok by (rule store.tip)
  show "h < 2 ^ 63 \<Longrightarrow> canonical_hash net h s = Inr (if h < length cs then Some (fst (cs ! h)) else None)"
    using ok by (rule store.hash_at)
  show "length cs \<le> 2 ^ 63" using ok by (rule store.bound)
qed (simp add: witness_of_def, (fact commit_block_indexed replace_branch_indexed)+)

lemma links_ok_update: "links_ok (update_chain_state net f d) cs = links_ok d cs"
  by (simp add: links_ok_def has_link_def)

lemma progress_ops_indexed:
  assumes "indexed n d cs"
  shows "observe_node_tip net now h x d = Inr (u, d') \<Longrightarrow> indexed n d' cs"
    and "update_node_tip net now h x st er d = Inr (u, d') \<Longrightarrow> indexed n d' cs"
    and "mark_indexer_error net now msg d = Inr (u, d') \<Longrightarrow> indexed n d' cs"
    and "refresh_block_evidence X net b d = Inr (u, d') \<Longrightarrow> indexed n d' cs"
proof -
  have ok: "chain_ok n d cs" and links: "links_ok d cs" and vals: "values_ok d"
    using assms by (simp_all add: indexed_def)
  show "indexed n d' cs" if u: "observe_node_tip net now h x d = Inr (u, d')"
  proof -
    from u obtain f where "d' = update_chain_state net f d" by (auto simp: observe_node_tip_def)
    then show ?thesis using progress_ops_keep(1)[OF ok u] progress_ops_values(1)[OF vals u] links
      by (simp add: indexed_def links_ok_update)
  qed
  show "indexed n d' cs" if u: "update_node_tip net now h x st er d = Inr (u, d')"
  proof -
    from u obtain f where "d' = update_chain_state net f d" by (auto simp: update_node_tip_def)
    then show ?thesis using progress_ops_keep(2)[OF ok u] progress_ops_values(2)[OF vals u] links
      by (simp add: indexed_def links_ok_update)
  qed
  show "indexed n d' cs" if u: "mark_indexer_error net now msg d = Inr (u, d')"
  proof -
    from u obtain f where "d' = update_chain_state net f d" by (auto simp: mark_indexer_error_def)
    then show ?thesis using progress_ops_keep(3)[OF ok u] progress_ops_values(3)[OF vals u] links
      by (simp add: indexed_def links_ok_update)
  qed
  show "indexed n d' cs" if u: "refresh_block_evidence X net b d = Inr (u, d')"
  proof -
    from u have "insert_block X net b d = Inr d'" by (auto simp: refresh_block_evidence_def)
    then show ?thesis using progress_ops_keep(4)[OF ok u] progress_ops_values(4)[OF vals u] links_ok_step[OF links insert_block_step]
      by (simp add: indexed_def)
  qed
qed

end
