(* ===== verification/Indexer.thy ===== *)
theory Indexer imports Proven_Chain begin

text \<open>
  The chain synchronizer (\<open>src/indexer.rs\<close>).  Its world is the database and the request
  counters of its clients; what the nodes answer, when the database service fails, the clock and
  the fresh identifiers are functions of these counters, so they may be different at every step.
\<close>

definition ZERO_HASH :: string where
  "ZERO_HASH = replicate 64 CHR ''0''"

record ('net, 'rules, 'proof, 'target, 'validated) indexer =
  ix_wcash :: node
  ix_auxpow :: "'net verifier"
  ix_network :: network_config
  ix_max_reorg_depth :: nat
  ix_evidence_refresh_depth :: nat
  ix_crates :: crates
  ix_codec :: codec
  ix_consensus :: "('net, 'rules, 'proof, 'target, 'validated) consensus"
  ix_fault :: "nat \<Rightarrow> db_fault"
  ix_clock :: "nat \<Rightarrow> datetime"
  ix_uuid :: "nat \<Rightarrow> string"

text \<open>\<open>w_ticks\<close> counts the calls to the database and the readings of the clock.\<close>

record world =
  w_db :: db
  w_next_id :: u64
  w_parent_ids :: "u64 list"
  w_ticks :: nat

definition ix_net :: "('net, 'r, 'p, 't, 'v) indexer \<Rightarrow> string" where
  "ix_net I = nc_id (ix_network I)"

section \<open>Calls\<close>

definition ask_node :: "(u64, 'a) io \<Rightarrow> (world, 'a) io" where
  "ask_node m = io_zoom w_next_id (\<lambda>i w. w\<lparr>w_next_id := i\<rparr>) m"

definition call_db ::
    "('net, 'r, 'p, 't, 'v) indexer \<Rightarrow> (datetime \<Rightarrow> string \<Rightarrow> (db, 'a) tx) \<Rightarrow> (world, 'a) io" where
  "call_db I body w =
     (case db_run (ix_fault I (w_ticks w)) (body (ix_clock I (w_ticks w)) (ix_uuid I (w_ticks w))) (w_db w) of
        (r, d) \<Rightarrow> (r, w\<lparr>w_db := d, w_ticks := Suc (w_ticks w)\<rparr>))"

definition query_db ::
    "('net, 'r, 'p, 't, 'v) indexer \<Rightarrow> (datetime \<Rightarrow> db \<Rightarrow> 'a result) \<Rightarrow> (world, 'a) io" where
  "query_db I q = call_db I (\<lambda>now _. db_query (q now))"

definition utc_now :: "('net, 'r, 'p, 't, 'v) indexer \<Rightarrow> (world, datetime) io" where
  "utc_now I w = (Inr (ix_clock I (w_ticks w)), w\<lparr>w_ticks := Suc (w_ticks w)\<rparr>)"

definition run_verify ::
    "('net, 'r, 'p, 't, 'v) indexer \<Rightarrow> rpc_block \<Rightarrow> bytes \<Rightarrow> (world, verified_auxpow option) io" where
  "run_verify I block raw_block w =
     io_zoom (\<lambda>w. (w_next_id w, w_parent_ids w)) (\<lambda>(i, ps) w. w\<lparr>w_next_id := i, w_parent_ids := ps\<rparr>)
       (verify (ix_crates I) (ix_codec I) (ix_consensus I) (ix_auxpow I)
          (\<lambda>k. ix_clock I (w_ticks w + k)) block raw_block) w"

definition node_hash_at :: "('net, 'r, 'p, 't, 'v) indexer \<Rightarrow> nat \<Rightarrow> (world, string) io" where
  "node_hash_at I height = ask_node (block_hash (ix_wcash I) (ix_codec I) height)"

section \<open>Identity\<close>

definition expected_chain :: "string \<Rightarrow> string" where
  "expected_chain network_id =
     (if network_id = ''mainnet'' then ''main''
      else if network_id = ''testnet'' then ''test'' else network_id)"

definition validate_identity :: "('net, 'r, 'p, 't, 'v) indexer \<Rightarrow> string \<Rightarrow> (world, unit) io" where
  "validate_identity I node_chain =
     io_bind (node_hash_at I 0) (\<lambda>node_genesis.
     io_bind (io_lift (guard (\<not> node_genesis \<noteq> nc_genesis_hash (ix_network I))
                (Config (''Wcash RPC genesis mismatch: expected '' @ nc_genesis_hash (ix_network I) @
                   '', received '' @ node_genesis)))) (\<lambda>_.
     io_lift (guard (\<not> node_chain \<noteq> expected_chain (ix_net I))
       (Config (''Wcash RPC network mismatch: expected '' @ expected_chain (ix_net I) @
          '', received '' @ node_chain)))))"

section \<open>Fetching one block\<close>

definition previous_matches :: "nat \<Rightarrow> string option \<Rightarrow> rpc_block \<Rightarrow> bool" where
  "previous_matches height expected_previous block =
     (if height = 0
      then (case rb_previousblockhash block of None \<Rightarrow> True | Some hash \<Rightarrow> hash = ZERO_HASH)
      else rb_previousblockhash block = expected_previous)"

definition fetch_pair ::
    "('net, 'r, 'p, 't, 'v) indexer \<Rightarrow> string \<Rightarrow> (world, bytes \<times> (rpc_block \<times> json)) io" where
  "fetch_pair I hash = ask_node (\<lambda>i.
     try_join2 (nd_race (ix_wcash I) (unat i))
       (block_raw (ix_crates I) (ix_wcash I) (ix_codec I) hash)
       (block_verbose (ix_wcash I) (ix_codec I) hash) i)"

definition fetch_indexed_block ::
    "('net, 'r, 'p, 't, 'v) indexer \<Rightarrow> nat \<Rightarrow> string option \<Rightarrow> (world, indexed_block) io" where
  "fetch_indexed_block I height expected_previous =
     io_bind (node_hash_at I height) (\<lambda>expected_hash.
     io_bind (fetch_pair I expected_hash) (\<lambda>(raw_block, block, raw).
     io_bind (io_lift (guard (\<not> (rb_hash block \<noteq> expected_hash \<or> rb_height block \<noteq> height))
                (InvalidNodeResponse (''node returned inconsistent block identity at height '' @
                   show_nat height)))) (\<lambda>_.
     io_bind (io_lift (guard (previous_matches height expected_previous block)
                (NotReady (''chain changed while fetching height '' @ show_nat height @ ''; retrying'')))) (\<lambda>_.
     io_bind (run_verify I block raw_block) (\<lambda>auxpow.
     io_bind (node_hash_at I height) (\<lambda>hash.
     io_bind (io_lift (guard (\<not> hash \<noteq> expected_hash)
                (NotReady (''chain changed while validating height '' @ show_nat height @ ''; retrying'')))) (\<lambda>_.
     io_bind (utc_now I) (\<lambda>fetched_at.
     io_return \<lparr>ib_block = block, ib_auxpow = auxpow, ib_fetched_at = fetched_at,
                ib_raw_block = raw_block, ib_raw = raw\<rparr>))))))))"

section \<open>The common ancestor\<close>

text \<open>One iteration's two readings: the node's hash when it is also the stored one.\<close>

definition ancestor_probe :: "('net, 'r, 'p, 't, 'v) indexer \<Rightarrow> nat \<Rightarrow> (world, string option) io" where
  "ancestor_probe I height =
     io_bind (query_db I (\<lambda>_. canonical_hash (ix_net I) height)) (\<lambda>stored.
     io_bind (node_hash_at I height) (\<lambda>node.
     io_return (if stored = Some node then Some node else None)))"

fun ancestor_loop ::
    "('net, 'r, 'p, 't, 'v) indexer \<Rightarrow> nat \<Rightarrow> nat \<Rightarrow> (world, (nat \<times> string) option) io" where
  "ancestor_loop I height examined =
     (if examined > ix_max_reorg_depth I
      then io_fail (NotReady (''chain divergence exceeds MAX_REORG_DEPTH ('' @
             show_nat (ix_max_reorg_depth I) @ '')''))
      else io_bind (ancestor_probe I height) (\<lambda>found.
        case found of
          Some node \<Rightarrow> io_return (Some (height, node))
        | None \<Rightarrow>
            (case height of
               0 \<Rightarrow> io_fail (Config ''stored and node genesis blocks differ'')
             | Suc below \<Rightarrow> ancestor_loop I below (examined + 1))))"

declare ancestor_loop.simps [simp del]

definition find_common_ancestor ::
    "('net, 'r, 'p, 't, 'v) indexer \<Rightarrow> chain_tip \<Rightarrow> nat \<Rightarrow> (world, (nat \<times> string) option) io" where
  "find_common_ancestor I stored_tip node_height =
     ancestor_loop I (min (ct_height stored_tip) node_height) 0"

section \<open>One synchronization pass\<close>

record sync_outcome =
  so_indexed_blocks :: nat
  so_indexed_height :: nat
  so_node_height :: nat
  so_reorg_depth :: nat

text \<open>\<open>for height in start..=last\<close>, staging the fetched blocks.\<close>

definition stage_branch ::
    "('net, 'r, 'p, 't, 'v) indexer \<Rightarrow> nat \<Rightarrow> nat \<Rightarrow> string option \<Rightarrow>
     (world, string option \<times> indexed_block list) io" where
  "stage_branch I start final expected_previous =
     io_fold (\<lambda>(expected_previous, replacement) height.
         io_bind (fetch_indexed_block I height expected_previous) (\<lambda>b.
         io_return (Some (rb_hash (ib_block b)), replacement @ [b])))
       (expected_previous, []) [start ..< Suc final]"

text \<open>Nothing moved while the branch was staged: neither the node's tip nor the ancestor.\<close>

definition recheck_snapshot ::
    "('net, 'r, 'p, 't, 'v) indexer \<Rightarrow> nat \<Rightarrow> string \<Rightarrow> (nat \<times> string) option \<Rightarrow> (world, unit) io" where
  "recheck_snapshot I node_height node_tip_hash ancestor =
     io_bind (node_hash_at I node_height) (\<lambda>tip_hash.
     io_bind (io_lift (guard (\<not> tip_hash \<noteq> node_tip_hash)
                (NotReady ''Wcash tip changed while staging a replacement branch''))) (\<lambda>_.
     (case ancestor of
        None \<Rightarrow> io_return ()
      | Some (height, hash) \<Rightarrow>
          io_bind (node_hash_at I height) (\<lambda>now_hash.
          io_lift (guard (\<not> now_hash \<noteq> hash)
            (NotReady ''Wcash common ancestor changed while staging a replacement branch''))))))"

definition publish_branch ::
    "('net, 'r, 'p, 't, 'v) indexer \<Rightarrow> chain_tip \<Rightarrow> (nat \<times> string) option \<Rightarrow> indexed_block list \<Rightarrow>
     (world, chain_tip option) io" where
  "publish_branch I stored_tip ancestor replacement =
     io_bind (call_db I (\<lambda>now uuid. replace_canonical_branch (ix_crates I) (ix_net I) now uuid stored_tip
                ancestor replacement)) (\<lambda>_.
     query_db I (\<lambda>_. canonical_tip (ix_net I)))"

text \<open>The stored tip is not on the node's chain: answers with the depth of the reorganization and
  the number of blocks indexed.\<close>

definition reorganize ::
    "('net, 'r, 'p, 't, 'v) indexer \<Rightarrow> chain_tip \<Rightarrow> nat \<Rightarrow> string \<Rightarrow> (world, nat \<times> nat) io" where
  "reorganize I stored_tip node_height node_tip_hash =
     io_bind (find_common_ancestor I stored_tip node_height) (\<lambda>ancestor.
     let reorg_depth = ct_height stored_tip - (case ancestor of None \<Rightarrow> 0 | Some (height, _) \<Rightarrow> height);
         start = (case ancestor of None \<Rightarrow> 0 | Some (height, _) \<Rightarrow> u64_saturating_add height 1) in
     io_bind (stage_branch I start node_height (map_option snd ancestor)) (\<lambda>(_, replacement).
     io_bind (recheck_snapshot I node_height node_tip_hash ancestor) (\<lambda>_.
     io_bind (publish_branch I stored_tip ancestor replacement) (\<lambda>_.
     io_return (reorg_depth, length replacement)))))"

text \<open>The stored tip is on the node's chain, or there is none.\<close>

definition extend_chain ::
    "('net, 'r, 'p, 't, 'v) indexer \<Rightarrow> chain_tip option \<Rightarrow> nat \<Rightarrow> (world, nat) io" where
  "extend_chain I tip node_height =
     io_bind (io_fold (\<lambda>(expected_previous, indexed_blocks) height.
         io_bind (fetch_indexed_block I height expected_previous) (\<lambda>b.
         io_bind (call_db I (\<lambda>now _. commit_block (ix_crates I) (ix_net I) now b)) (\<lambda>_.
         io_return (Some (rb_hash (ib_block b)), u64_saturating_add indexed_blocks 1))))
       (map_option ct_block_hash tip, 0)
       [(case tip of None \<Rightarrow> 0 | Some t \<Rightarrow> u64_saturating_add (ct_height t) 1) ..< Suc node_height])
       (\<lambda>(_, indexed_blocks). io_return indexed_blocks)"

definition refresh_evidence :: "('net, 'r, 'p, 't, 'v) indexer \<Rightarrow> (world, unit) io" where
  "refresh_evidence I =
     io_bind (query_db I (\<lambda>now. evidence_refresh_candidate (ix_net I) (ix_evidence_refresh_depth I) now)) (\<lambda>candidate.
     (case candidate of
        None \<Rightarrow> io_return ()
      | Some (height, _) \<Rightarrow>
          io_bind (if height = 0 then io_return None
                   else io_bind (node_hash_at I (height - 1)) (\<lambda>h. io_return (Some h))) (\<lambda>expected_previous.
          io_bind (fetch_indexed_block I height expected_previous) (\<lambda>refreshed.
          call_db I (\<lambda>_ _. refresh_block_evidence (ix_crates I) (ix_net I) refreshed)))))"

text \<open>Whether the stored tip is still the node's block at its height.\<close>

definition tip_matches ::
    "('net, 'r, 'p, 't, 'v) indexer \<Rightarrow> chain_tip \<Rightarrow> nat \<Rightarrow> (world, bool) io" where
  "tip_matches I stored_tip node_height =
     (if ct_height stored_tip \<le> node_height
      then io_bind (node_hash_at I (ct_height stored_tip)) (\<lambda>h. io_return (h = ct_block_hash stored_tip))
      else io_return False)"

definition finish_pass ::
    "('net, 'r, 'p, 't, 'v) indexer \<Rightarrow> nat \<Rightarrow> string \<Rightarrow> nat \<Rightarrow> nat \<Rightarrow> (world, sync_outcome) io" where
  "finish_pass I node_height node_tip_hash reorg_depth indexed_blocks =
     io_bind (query_db I (\<lambda>_. canonical_tip (ix_net I))) (\<lambda>final_tip.
     let final_height = (case final_tip of None \<Rightarrow> 0 | Some t \<Rightarrow> ct_height t) in
     io_bind (call_db I (\<lambda>now _. update_node_tip (ix_net I) now node_height node_tip_hash
                (if final_height = node_height then ''ready'' else ''syncing'') None)) (\<lambda>_.
     io_return \<lparr>so_indexed_blocks = indexed_blocks, so_indexed_height = final_height,
                so_node_height = node_height, so_reorg_depth = reorg_depth\<rparr>))"

definition sync_once :: "('net, 'r, 'p, 't, 'v) indexer \<Rightarrow> (world, sync_outcome) io" where
  "sync_once I =
     io_bind (ask_node (blockchain_info (ix_wcash I) (ix_codec I))) (\<lambda>info.
     io_bind (node_hash_at I (bi_blocks info)) (\<lambda>node_tip_hash.
     io_bind (validate_identity I (bi_chain info)) (\<lambda>_.
     io_bind (query_db I (\<lambda>_. canonical_tip (ix_net I))) (\<lambda>tip.
     io_bind (call_db I (\<lambda>now _. observe_node_tip (ix_net I) now (bi_blocks info) node_tip_hash)) (\<lambda>_.
     io_bind (case tip of
                None \<Rightarrow> io_return True
              | Some stored_tip \<Rightarrow> tip_matches I stored_tip (bi_blocks info)) (\<lambda>canonical_matches.
     io_bind (case tip of
                Some stored_tip \<Rightarrow>
                  if canonical_matches
                  then io_bind (extend_chain I tip (bi_blocks info)) (\<lambda>n. io_return (0, n))
                  else reorganize I stored_tip (bi_blocks info) node_tip_hash
              | None \<Rightarrow> io_bind (extend_chain I tip (bi_blocks info)) (\<lambda>n. io_return (0, n)))
       (\<lambda>(reorg_depth, indexed_blocks).
     io_bind (refresh_evidence I) (\<lambda>_.
     finish_pass I (bi_blocks info) node_tip_hash reorg_depth indexed_blocks))))))))"

end
