(* ===== verification/Indexer_Facts.thy ===== *)
theory Indexer_Facts imports Indexer begin

text \<open>
  What a synchronization pass guarantees, whatever the nodes answer and whenever the database
  service fails: the lemmas follow the definitions of \<open>Indexer\<close> with the Hoare rules of
  \<open>Effects\<close> and the contract of \<open>Chain_Store\<close>.
\<close>

named_theorems keeps "operations that do not write to the database"

section \<open>Operations that do not write\<close>

definition keeps_db :: "(world, 'a) io \<Rightarrow> bool" where
  "keeps_db m \<longleftrightarrow> (\<forall>w. w_db (snd (m w)) = w_db w)"

lemma keeps_dbD: "keeps_db m \<Longrightarrow> m w = (r, w') \<Longrightarrow> w_db w' = w_db w"
  unfolding keeps_db_def by (metis snd_conv)

lemma keeps_bind [keeps]: "keeps_db m \<Longrightarrow> (\<And>x. keeps_db (k x)) \<Longrightarrow> keeps_db (io_bind m k)"
  by (auto simp: keeps_db_def io_bind_def split: prod.splits sum.splits) (metis snd_conv)+

lemma keeps_basic [keeps]:
  "keeps_db (io_return x)" "keeps_db (io_fail e)" "keeps_db (io_lift r)"
  by (simp_all add: keeps_db_def)

lemma keeps_ask_node [keeps]: "keeps_db (ask_node m)"
  by (simp add: keeps_db_def ask_node_def io_zoom_def split: prod.splits)

lemma keeps_node_hash_at [keeps]: "keeps_db (node_hash_at I h)"
  by (simp add: node_hash_at_def keeps)

lemma keeps_utc_now [keeps]: "keeps_db (utc_now I)"
  by (simp add: keeps_db_def utc_now_def)

lemma keeps_run_verify [keeps]: "keeps_db (run_verify I b raw)"
  by (auto simp: keeps_db_def run_verify_def io_zoom_def split: prod.splits)

lemma keeps_query_db [keeps]: "keeps_db (query_db I q)"
  by (auto simp: keeps_db_def query_db_def call_db_def split: prod.splits dest!: store.query_run)

lemma keeps_case_option [keeps]:
  "(v = None \<Longrightarrow> keeps_db m) \<Longrightarrow> (\<And>x. v = Some x \<Longrightarrow> keeps_db (k x)) \<Longrightarrow>
   keeps_db (case v of None \<Rightarrow> m | Some x \<Rightarrow> k x)"
  by (cases v) simp_all

lemma keeps_if [keeps]: "(c \<Longrightarrow> keeps_db m) \<Longrightarrow> (\<not> c \<Longrightarrow> keeps_db k) \<Longrightarrow> keeps_db (if c then m else k)"
  by simp

lemma keeps_case_prod [keeps]: "(\<And>x y. keeps_db (f x y)) \<Longrightarrow> keeps_db (case p of (x, y) \<Rightarrow> f x y)"
  by (cases p) simp

lemma keeps_case_prod2 [keeps]:
  "(\<And>x y. keeps_db (f x y z)) \<Longrightarrow> keeps_db ((case p of (x, y) \<Rightarrow> f x y) z)"
  by (cases p) simp

lemma keeps_fold [keeps]: "(\<And>acc x. keeps_db (f acc x)) \<Longrightarrow> keeps_db (io_fold f acc xs)"
  by (induction xs arbitrary: acc) (simp_all add: keeps)

lemma keeps_validate_identity [keeps]: "keeps_db (validate_identity I c)"
  by (simp add: validate_identity_def keeps)

lemma keeps_fetch [keeps]: "keeps_db (fetch_indexed_block I h prev)"
  unfolding fetch_indexed_block_def fetch_pair_def by (intro keeps)

lemma keeps_stage [keeps]: "keeps_db (stage_branch I a b prev)"
  unfolding stage_branch_def by (intro keeps)

lemma keeps_ancestor_probe [keeps]: "keeps_db (ancestor_probe I h)"
  unfolding ancestor_probe_def by (intro keeps)

lemma keeps_ancestor_loop [keeps]: "keeps_db (ancestor_loop I h e)"
proof (induction h arbitrary: e)
  case 0
  show ?case by (subst ancestor_loop.simps) (auto intro!: keeps)
next
  case (Suc h)
  show ?case by (subst ancestor_loop.simps) (auto intro!: keeps Suc)
qed

lemma keeps_find_common_ancestor [keeps]: "keeps_db (find_common_ancestor I t n)"
  by (simp add: find_common_ancestor_def keeps)

lemma keeps_tip_matches [keeps]: "keeps_db (tip_matches I t n)"
  unfolding tip_matches_def by (intro keeps)

section \<open>A fetched block\<close>

lemma verify_None_genesis:
  assumes "verify X C S V clock block raw s = (Inr None, s')"
  shows "rb_height block = 0"
proof (cases "validate_locally X S (av_network V) block raw")
  case (Inl e)
  then show ?thesis using assms by (simp add: verify_def)
next
  case (Inr l)
  show ?thesis
  proof (cases l)
    case None
    then show ?thesis using Inr validate_locally_None[of X S "av_network V" block raw] by simp
  next
    case (Some x)
    then show ?thesis using assms Inr
      by (cases x) (auto simp: verify_def io_bind_def io_zoom_def Let_def split: prod.splits sum.splits)
  qed
qed

lemma fetch_indexed_block_ok:
  assumes "fetch_indexed_block I h prev w = (Inr b, w')"
  shows "rb_height (ib_block b) = h \<and> proven b \<and> previous_matches h prev (ib_block b)"
proof -
  from assms obtain block raw_block u u' aux where
    "rb_height block = h" "previous_matches h prev block"
    "run_verify I block raw_block u = (Inr aux, u')" "ib_block b = block" "ib_auxpow b = aux"
    by (auto simp: fetch_indexed_block_def io_bind_Inr)
  moreover from this(3) have "aux = None \<Longrightarrow> rb_height block = 0"
    by (auto simp: run_verify_def io_zoom_def split: prod.splits dest: verify_None_genesis)
  ultimately show ?thesis unfolding proven_def by metis
qed


section \<open>Database calls\<close>

abbreviation chain_is :: "('net, 'r, 'p, 't, 'v) indexer \<Rightarrow> chain \<Rightarrow> world \<Rightarrow> bool" where
  "chain_is I cs w \<equiv> indexed (ix_net I) (w_db w) cs"

lemma io_bind_assoc: "io_bind (io_bind m k) l = io_bind m (\<lambda>x. io_bind (k x) l)"
  by (rule ext) (simp add: io_bind_def split: prod.splits sum.splits)

lemma keeps_triple:
  "keeps_db m \<Longrightarrow> (\<And>w r w'. P (w_db w) \<Longrightarrow> m w = (Inr r, w') \<Longrightarrow> Q r) \<Longrightarrow>
   triple (\<lambda>w. P (w_db w)) m (\<lambda>r w. P (w_db w) \<and> Q r) (\<lambda>w. P (w_db w))"
  by (rule tripleI) (auto dest: keeps_dbD)

lemma call_db_cases:
  assumes "call_db I body w = (r, w')"
  obtains now u where "db_run (ix_fault I (w_ticks w)) (body now u) (w_db w) = (r, w_db w')"
  using assms by (auto simp: call_db_def split: prod.splits)

lemma call_db_keeps:
  assumes "\<And>now u d x d'. body now u d = Inr (x, d') \<Longrightarrow> P d \<Longrightarrow> P d'"
  shows "triple (\<lambda>w. P (w_db w)) (call_db I body) (\<lambda>_ w. P (w_db w)) (\<lambda>w. P (w_db w))"
proof -
  have "P (w_db w')" if "call_db I body w = (r, w')" "P (w_db w)" for w r w'
    using that(1)
  proof (rule call_db_cases)
    fix now u assume "db_run (ix_fault I (w_ticks w)) (body now u) (w_db w) = (r, w_db w')"
    then show ?thesis using that(2) assms by (cases rule: db_run_cases) metis+
  qed
  then show ?thesis by (intro tripleI)
qed

lemma call_db_ok:
  assumes "call_db I body w = (Inr x, w')"
  shows "body (ix_clock I (w_ticks w)) (ix_uuid I (w_ticks w)) (w_db w) = Inr (x, w_db w')"
  using assms by (auto simp: call_db_def split: prod.splits elim: db_run_cases)

lemma query_db_ok:
  assumes "query_db I q w = (Inr x, w')"
  shows "\<exists>now. q now (w_db w) = Inr x"
  using call_db_ok[OF assms[unfolded query_db_def]] by (auto simp: db_query_def)

text \<open>One commit, with faults.\<close>

lemma commit_triple:
  assumes "proven b" and "rb_height (ib_block b) = length cs"
    and "cs = [] \<or> rb_previousblockhash (ib_block b) = Some (fst (last cs))"
  shows "triple (chain_is I cs) (call_db I (\<lambda>now _. commit_block (ix_crates I) (ix_net I) now b))
     (\<lambda>_. chain_is I (cs @ [witness_of (ix_crates I) b]))
     (\<lambda>w. chain_is I cs w \<or> chain_is I (cs @ [witness_of (ix_crates I) b]) w)"
proof (rule tripleI)
  fix w x w' assume "chain_is I cs w"
    and call: "call_db I (\<lambda>now _. commit_block (ix_crates I) (ix_net I) now b) w = (Inr x, w')"
  from call obtain now where
    "db_run (ix_fault I (w_ticks w)) (commit_block (ix_crates I) (ix_net I) now b) (w_db w) = (Inr x, w_db w')"
    by (rule call_db_cases)
  from indexed_store.commit_run[OF this \<open>chain_is I cs w\<close> assms]
  show "chain_is I (cs @ [witness_of (ix_crates I) b]) w'" by simp
next
  fix w e w' assume "chain_is I cs w"
    and call: "call_db I (\<lambda>now _. commit_block (ix_crates I) (ix_net I) now b) w = (Inl e, w')"
  from call obtain now where
    "db_run (ix_fault I (w_ticks w)) (commit_block (ix_crates I) (ix_net I) now b) (w_db w) = (Inl e, w_db w')"
    by (rule call_db_cases)
  from indexed_store.commit_run[OF this \<open>chain_is I cs w\<close> assms]
  show "chain_is I cs w' \<or> chain_is I (cs @ [witness_of (ix_crates I) b]) w'" by simp
qed

lemma replace_triple:
  assumes "list_all proven bs" and "on_chain cs anc"
  shows "triple (chain_is I cs)
     (call_db I (\<lambda>now uuid. replace_canonical_branch (ix_crates I) (ix_net I) now uuid old anc bs))
     (\<lambda>_. chain_is I (take (kept anc) cs @ map (witness_of (ix_crates I)) bs))
     (\<lambda>w. chain_is I cs w \<or> chain_is I (take (kept anc) cs @ map (witness_of (ix_crates I)) bs) w)"
proof (rule tripleI)
  fix w x w' assume "chain_is I cs w"
    and call: "call_db I (\<lambda>now uuid. replace_canonical_branch (ix_crates I) (ix_net I) now uuid old anc bs) w = (Inr x, w')"
  from call obtain now u where
    "db_run (ix_fault I (w_ticks w)) (replace_canonical_branch (ix_crates I) (ix_net I) now u old anc bs) (w_db w) = (Inr x, w_db w')"
    by (rule call_db_cases)
  from indexed_store.replace_run[OF this \<open>chain_is I cs w\<close> assms]
  show "chain_is I (take (kept anc) cs @ map (witness_of (ix_crates I)) bs) w'" by simp
next
  fix w e w' assume "chain_is I cs w"
    and call: "call_db I (\<lambda>now uuid. replace_canonical_branch (ix_crates I) (ix_net I) now uuid old anc bs) w = (Inl e, w')"
  from call obtain now u where
    "db_run (ix_fault I (w_ticks w)) (replace_canonical_branch (ix_crates I) (ix_net I) now u old anc bs) (w_db w) = (Inl e, w_db w')"
    by (rule call_db_cases)
  from indexed_store.replace_run[OF this \<open>chain_is I cs w\<close> assms]
  show "chain_is I cs w' \<or> chain_is I (take (kept anc) cs @ map (witness_of (ix_crates I)) bs) w'" by simp
qed

section \<open>The common ancestor\<close>

lemma ancestor_probe_ok:
  assumes "ancestor_probe I h w = (Inr (Some x), w')" and "chain_is I cs w"
  shows "on_chain cs (Some (h, x))"
proof -
  from assms(1) obtain u where "query_db I (\<lambda>_. canonical_hash (ix_net I) h) w = (Inr (Some x), u)"
    by (auto simp: ancestor_probe_def io_bind_Inr split: if_splits)
  then have found: "canonical_hash (ix_net I) h (w_db w) = Inr (Some x)" by (auto dest: query_db_ok)
  then have "h < 2 ^ 63" by (auto simp: canonical_hash_def to_i64_def)
  then show ?thesis using indexed_store.found_on_chain[OF assms(2) _ found] by simp
qed

lemma ancestor_loop_ok:
  assumes "ancestor_loop I h e w = (Inr r, w')" and "chain_is I cs w"
  shows "\<exists>a x. r = Some (a, x) \<and> a \<le> h \<and> h - a + e \<le> ix_max_reorg_depth I \<and> on_chain cs (Some (a, x))"
  using assms
proof (induction h arbitrary: e w)
  case 0
  from 0 have e: "e \<le> ix_max_reorg_depth I" by (subst (asm) ancestor_loop.simps) (auto split: if_splits)
  with 0 obtain v u where pr: "ancestor_probe I 0 w = (Inr v, u)"
    and rest: "(case v of Some node \<Rightarrow> io_return (Some (0, node))
        | None \<Rightarrow> io_fail (Config ''stored and node genesis blocks differ'')) u = (Inr r, w')"
    by (subst (asm) ancestor_loop.simps) (auto simp: io_bind_Inr)
  show ?case using rest pr ancestor_probe_ok[of I 0 w _ u cs] 0(2) e by (cases v) auto
next
  case (Suc h)
  from Suc(2) have e: "e \<le> ix_max_reorg_depth I" by (subst (asm) ancestor_loop.simps) (auto split: if_splits)
  then have "ancestor_loop I (Suc h) e = io_bind (ancestor_probe I (Suc h)) (\<lambda>found.
      case found of Some node \<Rightarrow> io_return (Some (Suc h, node)) | None \<Rightarrow> ancestor_loop I h (Suc e))"
    by (simp add: ancestor_loop.simps[of I "Suc h" e])
  with Suc(2) obtain v u where pr: "ancestor_probe I (Suc h) w = (Inr v, u)"
    and rest: "(case v of Some node \<Rightarrow> io_return (Some (Suc h, node))
        | None \<Rightarrow> ancestor_loop I h (Suc e)) u = (Inr r, w')"
    by (auto simp: io_bind_Inr)
  show ?case
  proof (cases v)
    case None
    have "w_db u = w_db w" using keeps_dbD[OF keeps_ancestor_probe pr] .
    then show ?thesis using Suc.IH[of "Suc e" u] rest None Suc(3) by auto
  next
    case (Some x)
    then show ?thesis using rest pr ancestor_probe_ok[of I "Suc h" w x u cs] Suc(3) e by auto
  qed
qed


section \<open>Staging and extending\<close>

lemma stage_branch_proven:
  assumes "stage_branch I a n prev w = (Inr (p, bs), w')"
  shows "list_all proven bs \<and> length bs = Suc n - a"
proof -
  have "triple (\<lambda>_. list_all proven (snd (prev, [] :: indexed_block list)) \<and> length (snd (prev, [] :: indexed_block list)) = 0)
     (stage_branch I a n prev)
     (\<lambda>(p, bs) _. list_all proven bs \<and> length bs = length [a ..< Suc n]) (\<lambda>_. True)"
    unfolding stage_branch_def
  proof (rule triple_weaken[OF triple_fold[where
        I = "\<lambda>i (p, bs) _. list_all proven bs \<and> length bs = i" and E = "\<lambda>_. True"]])
    fix i and acc :: "string option \<times> indexed_block list" assume "i < length [a ..< Suc n]"
    obtain p bs where acc: "acc = (p, bs)" by (cases acc)
    show "triple (case acc of (p, bs) \<Rightarrow> \<lambda>_. list_all proven bs \<and> length bs = i)
       ((case acc of (expected_previous, replacement) \<Rightarrow> \<lambda>height.
           io_bind (fetch_indexed_block I height expected_previous) (\<lambda>b.
           io_return (Some (rb_hash (ib_block b)), replacement @ [b]))) ([a ..< Suc n] ! i))
       (\<lambda>(p, bs) _. list_all proven bs \<and> length bs = Suc i) (\<lambda>_. True)"
      by (rule tripleI) (auto simp: acc io_bind_Inr dest: fetch_indexed_block_ok)
  qed simp_all
  from tripleD_ok[OF this _ assms] have "list_all proven bs \<and> length bs = length [a ..< Suc n]" by simp
  then show ?thesis by (simp only: length_upt)
qed

text \<open>How a chain can evolve in one pass: a non-empty part from genesis stays, the rest is new.\<close>

definition evolves :: "chain \<Rightarrow> chain \<Rightarrow> bool" where
  "evolves cs cs' \<longleftrightarrow>
     (\<exists>k new. k \<le> length cs \<and> (cs = [] \<or> 0 < k) \<and> cs' = take k cs @ new)"

lemma evolves_append [simp]: "evolves cs (cs @ new)"
  unfolding evolves_def by (rule exI[of _ "length cs"]) auto

lemma evolves_refl [simp]: "evolves cs cs"
  using evolves_append[of cs "[]"] by simp

lemma evolves_hd: "evolves cs cs' \<Longrightarrow> cs \<noteq> [] \<Longrightarrow> cs' \<noteq> [] \<and> hd cs' = hd cs"
  by (auto simp: evolves_def hd_append)

lemma evolves_replaced:
  "cs \<noteq> [] \<Longrightarrow> on_chain cs (Some (a, x)) \<Longrightarrow> evolves cs (take (kept (Some (a, x))) cs @ new)"
  unfolding evolves_def
  by (rule exI[of _ "Suc a"]) (auto simp: on_chain_def kept_def)

text \<open>The state in which a pass may stop: some evolution of the initial chain.\<close>

definition evolved :: "('net, 'r, 'p, 't, 'v) indexer \<Rightarrow> chain \<Rightarrow> world \<Rightarrow> bool" where
  "evolved I cs w \<longleftrightarrow> (\<exists>cs'. chain_is I cs' w \<and> evolves cs cs')"

lemma evolvedI: "chain_is I cs' w \<Longrightarrow> evolves cs cs' \<Longrightarrow> evolved I cs w"
  by (auto simp: evolved_def)

definition tip_of_chain :: "chain \<Rightarrow> chain_tip option" where
  "tip_of_chain cs = (if cs = [] then None else Some \<lparr>ct_height = length cs - 1,
     ct_block_hash = fst (last cs), ct_witness_hash = snd (last cs)\<rparr>)"

text \<open>One step of the extension loop.\<close>

definition extension :: "('net, 'r, 'p, 't, 'v) indexer \<Rightarrow> chain \<Rightarrow> nat \<Rightarrow> string option \<times> nat \<Rightarrow> world \<Rightarrow> bool" where
  "extension I cs i acc w \<longleftrightarrow>
     (\<exists>new. length new = i \<and> chain_is I (cs @ new) w \<and> fst acc = map_option fst (last_opt (cs @ new)))"

text \<open>\<open>appendable\<close>: the fetched block may be committed on top of what the pass stored so far.\<close>

definition appendable ::
    "('net, 'r, 'p, 't, 'v) indexer \<Rightarrow> chain \<Rightarrow> nat \<Rightarrow> string option \<Rightarrow> indexed_block \<Rightarrow> world \<Rightarrow> bool" where
  "appendable I cs i prev b w \<longleftrightarrow> (\<exists>new. length new = i \<and> chain_is I (cs @ new) w \<and>
     prev = map_option fst (last_opt (cs @ new)) \<and> rb_height (ib_block b) = length (cs @ new) \<and> proven b \<and>
     (cs @ new = [] \<or> rb_previousblockhash (ib_block b) = Some (fst (last (cs @ new)))))"

lemma fetch_step:
  "triple (extension I cs i (prev, n)) (fetch_indexed_block I (length cs + i) prev)
     (appendable I cs i prev) (evolved I cs)"
proof (rule tripleI)
  fix w b w' assume ext: "extension I cs i (prev, n) w" and f: "fetch_indexed_block I (length cs + i) prev w = (Inr b, w')"
  have db: "w_db w' = w_db w" using keeps_dbD[OF keeps_fetch f] .
  from ext obtain new where new: "length new = i" "chain_is I (cs @ new) w"
    "prev = map_option fst (last_opt (cs @ new))" by (auto simp: extension_def)
  have "cs @ new = [] \<or> rb_previousblockhash (ib_block b) = Some (fst (last (cs @ new)))"
  proof (cases "cs @ new = []")
    case False
    then have "prev = Some (fst (last (cs @ new)))"
      using new(3) by (simp only: last_opt_def if_False option.map)
    moreover have "length cs + i \<noteq> 0" using False new(1) by auto
    ultimately show ?thesis
      using fetch_indexed_block_ok[OF f] unfolding previous_matches_def by presburger
  qed simp
  moreover have "rb_height (ib_block b) = length (cs @ new)" "proven b"
    using fetch_indexed_block_ok[OF f] new(1) by simp_all
  moreover have "chain_is I (cs @ new) w'" using new(2) db by simp
  ultimately show "appendable I cs i prev b w'" using new(1,3) unfolding appendable_def by blast
next
  fix w e w' assume "extension I cs i (prev, n) w" "fetch_indexed_block I (length cs + i) prev w = (Inl e, w')"
  then show "evolved I cs w'"
    using keeps_dbD[OF keeps_fetch] by (force simp: extension_def evolved_def)
qed

lemma append_step:
  "triple (appendable I cs i prev b)
     (io_bind (call_db I (\<lambda>now _. commit_block (ix_crates I) (ix_net I) now b)) (\<lambda>_.
      io_return (Some (rb_hash (ib_block b)), n)))
     (extension I cs (Suc i)) (evolved I cs)"
proof (rule tripleI)
  fix w x w' assume "appendable I cs i prev b w" and run: "io_bind (call_db I (\<lambda>now _. commit_block (ix_crates I) (ix_net I) now b)) (\<lambda>_.
     io_return (Some (rb_hash (ib_block b)), n)) w = (Inr x, w')"
  then obtain new where new: "length new = i" "chain_is I (cs @ new) w"
    and c: "rb_height (ib_block b) = length (cs @ new)" "proven b"
      "cs @ new = [] \<or> rb_previousblockhash (ib_block b) = Some (fst (last (cs @ new)))" unfolding appendable_def by blast
  from run obtain u where "call_db I (\<lambda>now _. commit_block (ix_crates I) (ix_net I) now b) w = (Inr u, w')"
    and x: "x = (Some (rb_hash (ib_block b)), n)" by (auto simp: io_bind_Inr)
  then have "chain_is I ((cs @ new) @ [witness_of (ix_crates I) b]) w'"
    using tripleD_ok[OF commit_triple[OF c(2,1,3)] new(2)] by simp
  then show "extension I cs (Suc i) x w'"
    unfolding extension_def using new(1)
    by (intro exI[of _ "new @ [witness_of (ix_crates I) b]"]) (simp add: x last_opt_def witness_of_def)
next
  fix w e w' assume "appendable I cs i prev b w" and run: "io_bind (call_db I (\<lambda>now _. commit_block (ix_crates I) (ix_net I) now b)) (\<lambda>_.
     io_return (Some (rb_hash (ib_block b)), n)) w = (Inl e, w')"
  then obtain new where new: "length new = i" "chain_is I (cs @ new) w"
    and c: "rb_height (ib_block b) = length (cs @ new)" "proven b"
      "cs @ new = [] \<or> rb_previousblockhash (ib_block b) = Some (fst (last (cs @ new)))" unfolding appendable_def by blast
  from run have "call_db I (\<lambda>now _. commit_block (ix_crates I) (ix_net I) now b) w = (Inl e, w')"
    by (auto simp: io_bind_def split: prod.splits sum.splits)
  from tripleD_err[OF commit_triple[OF c(2,1,3)] new(2) this]
  have "chain_is I (cs @ new) w' \<or> chain_is I (cs @ (new @ [witness_of (ix_crates I) b])) w'" by simp
  then show "evolved I cs w'" using evolvedI evolves_append by blast
qed

lemma extend_step:
  assumes "acc = (prev, n)"
  shows "triple (extension I cs i acc)
     (io_bind (fetch_indexed_block I (length cs + i) prev) (\<lambda>b.
      io_bind (call_db I (\<lambda>now _. commit_block (ix_crates I) (ix_net I) now b)) (\<lambda>_.
      io_return (Some (rb_hash (ib_block b)), u64_saturating_add n 1))))
     (extension I cs (Suc i)) (evolved I cs)"
  unfolding assms using fetch_step append_step by (rule triple_bind)


lemma extend_chain_triple:
  assumes "length cs \<le> Suc n"
  shows "triple (chain_is I cs) (extend_chain I (tip_of_chain cs) n)
     (\<lambda>_ w. \<exists>new. chain_is I (cs @ new) w \<and> length (cs @ new) = Suc n) (evolved I cs)"
proof (cases "length cs \<le> 2 ^ 63")
  case False
  then show ?thesis using indexed_store.bound by (intro tripleI) blast+
next
  case True
  define start where "start = (case tip_of_chain cs of None \<Rightarrow> 0 | Some t \<Rightarrow> u64_saturating_add (ct_height t) 1)"
  have start: "start = length cs"
    using True by (auto simp: start_def tip_of_chain_def u64_saturating_add_def)
  let ?body = "\<lambda>(prev, n) height.
         io_bind (fetch_indexed_block I height prev) (\<lambda>b.
         io_bind (call_db I (\<lambda>now _. commit_block (ix_crates I) (ix_net I) now b)) (\<lambda>_.
         io_return (Some (rb_hash (ib_block b)), u64_saturating_add n 1)))"
  let ?init = "(map_option ct_block_hash (tip_of_chain cs), 0)"
  have "triple (extension I cs 0 ?init) (io_fold ?body ?init [length cs ..< Suc n])
      (extension I cs (length [length cs ..< Suc n])) (evolved I cs)"
  proof (rule triple_fold)
    fix i and acc :: "string option \<times> nat" assume i: "i < length [length cs ..< Suc n]"
    obtain prev k where acc: "acc = (prev, k)" by (cases acc)
    have "[length cs ..< Suc n] ! i = length cs + i" using i by (simp del: upt_Suc)
    then show "triple (extension I cs i acc) (?body acc ([length cs ..< Suc n] ! i)) (extension I cs (Suc i)) (evolved I cs)"
      using extend_step[OF acc] acc by simp
  qed
  moreover have "chain_is I cs w \<Longrightarrow> extension I cs 0 ?init w" for w
    by (simp add: extension_def tip_of_chain_def last_opt_def)
  moreover have "extension I cs (length [length cs ..< Suc n]) acc w \<Longrightarrow>
      \<exists>new. chain_is I (cs @ new) w \<and> length (cs @ new) = Suc n" for acc w
    using assms by (auto simp: extension_def simp del: upt_Suc)
  ultimately have "triple (chain_is I cs) (io_fold ?body ?init [start ..< Suc n])
      (\<lambda>acc w. \<exists>new. chain_is I (cs @ new) w \<and> length (cs @ new) = Suc n) (evolved I cs)"
    unfolding start by (rule triple_weaken)
  then show ?thesis unfolding extend_chain_def start_def[symmetric]
    by (rule triple_bind) (auto simp: triple_def split: prod.splits)
qed

section \<open>A reorganization\<close>

lemma triple_pre: "(Q \<Longrightarrow> triple P m R E) \<Longrightarrow> triple (\<lambda>w. P w \<and> Q) m R E"
  by (cases Q) (simp_all add: triple_def)

lemma keeps_spec:
  assumes "keeps_db m" and "\<And>w r w'. chain_is I cs w \<Longrightarrow> m w = (Inr r, w') \<Longrightarrow> Q r"
  shows "triple (chain_is I cs) m (\<lambda>r w. chain_is I cs w \<and> Q r) (evolved I cs)"
proof (rule triple_weaken[OF keeps_triple[where P = "\<lambda>d. indexed (ix_net I) d cs" and Q = Q, OF assms(1)]])
  show "evolved I cs w" if "chain_is I cs w" for w using that by (rule evolvedI) simp
qed (use assms(2) in auto)

lemma keeps_then:
  assumes "keeps_db m" and "\<And>x. triple (chain_is I cs) (k x) R (evolved I cs)"
  shows "triple (chain_is I cs) (io_bind m k) R (evolved I cs)"
  by (rule triple_bind[OF keeps_spec[where Q = "\<lambda>_. True", OF assms(1)]])
    (use assms(2) in simp_all)

lemma keeps_recheck [keeps]: "keeps_db (recheck_snapshot I n h anc)"
  unfolding recheck_snapshot_def by (intro keeps)

lemma publish_triple:
  assumes "list_all proven bs" and "on_chain cs anc"
  shows "triple (chain_is I cs) (publish_branch I old anc bs)
     (\<lambda>_. chain_is I (take (kept anc) cs @ map (witness_of (ix_crates I)) bs))
     (\<lambda>w. chain_is I cs w \<or> chain_is I (take (kept anc) cs @ map (witness_of (ix_crates I)) bs) w)"
  unfolding publish_branch_def
proof (rule triple_bind[OF replace_triple[OF assms]])
  let ?new = "take (kept anc) cs @ map (witness_of (ix_crates I)) bs"
  have "w_db w' = w_db w" if "query_db I (\<lambda>_. canonical_tip (ix_net I)) w = (r, w')" for w r w'
    using keeps_dbD[OF keeps_query_db that] .
  then show "triple (chain_is I ?new) (query_db I (\<lambda>_. canonical_tip (ix_net I))) (\<lambda>_. chain_is I ?new)
      (\<lambda>w. chain_is I cs w \<or> chain_is I ?new w)"
    by (intro tripleI) simp_all
qed

text \<open>What follows the search, when it has found an ancestor on the chain.\<close>

lemma rewrite_triple:
  assumes "cs \<noteq> []" and "a \<le> n" and "on_chain cs (Some (a, x))"
  shows "triple (chain_is I cs)
     (io_bind (stage_branch I (Suc a) n (Some x)) (\<lambda>(_, bs).
      io_bind (recheck_snapshot I n h (Some (a, x))) (\<lambda>_.
      io_bind (publish_branch I old (Some (a, x)) bs) (\<lambda>_.
      io_return (depth, length bs)))))
     (\<lambda>_ w. \<exists>cs'. chain_is I cs' w \<and> evolves cs cs' \<and> length cs' = Suc n) (evolved I cs)"
proof (rule triple_bind[OF keeps_spec[OF keeps_stage,
        where Q = "\<lambda>(_, bs). list_all proven bs \<and> length bs = Suc n - Suc a"]], goal_cases)
  case (1 w r w')
  then show ?case by (auto dest: stage_branch_proven split: prod.splits)
next
  case (2 pbs)
  obtain p bs where pbs: "pbs = (p, bs)" by (cases pbs)
  let ?new = "take (kept (Some (a, x))) cs @ map (witness_of (ix_crates I)) bs"
  have ev: "evolves cs ?new" using assms(1,3) by (rule evolves_replaced)
  show ?case unfolding pbs prod.case
  proof (rule triple_pre, elim conjE, rule keeps_then[OF keeps_recheck], rule triple_bind)
    assume bs: "list_all proven bs" "length bs = Suc n - Suc a"
    show "triple (chain_is I cs) (publish_branch I old (Some (a, x)) bs) (\<lambda>_. chain_is I ?new) (evolved I cs)"
    proof (rule triple_weaken[OF publish_triple[OF bs(1) assms(3)]])
      show "evolved I cs w" if "chain_is I cs w \<or> chain_is I ?new w" for w
        using that ev evolves_refl by (auto intro: evolvedI)
    qed simp_all
    have "length ?new = Suc n" using bs(2) assms(2) on_chain_kept[OF assms(3)] by (simp add: kept_def)
    with ev show "triple (chain_is I ?new) (io_return (depth, length bs))
        (\<lambda>_ w. \<exists>cs'. chain_is I cs' w \<and> evolves cs cs' \<and> length cs' = Suc n) (evolved I cs)"
      by (intro triple_return) blast
  qed
qed

lemma reorganize_triple:
  assumes "cs \<noteq> []" and "ct_height t = length cs - 1"
  shows "triple (chain_is I cs) (reorganize I t n tip_hash)
     (\<lambda>_ w. \<exists>cs'. chain_is I cs' w \<and> evolves cs cs' \<and> length cs' = Suc n) (evolved I cs)"
  unfolding reorganize_def
proof (rule triple_bind[OF keeps_spec[OF keeps_find_common_ancestor,
        where Q = "\<lambda>anc. \<exists>a x. anc = Some (a, x) \<and> a \<le> n \<and> a < 2 ^ 63 \<and> on_chain cs (Some (a, x))"]], goal_cases)
  case (1 w anc w')
  from ancestor_loop_ok[OF 1(2)[unfolded find_common_ancestor_def] 1(1)] obtain a x
    where a: "anc = Some (a, x)" "a \<le> min (ct_height t) n" "on_chain cs (Some (a, x))" by blast
  moreover from this have "a < 2 ^ 63" using indexed_store.bound[OF 1(1)] by (simp add: on_chain_def)
  ultimately show ?case by auto
next
  case (2 anc)
  show ?case
  proof (rule triple_pre, elim exE conjE)
    fix a x assume anc: "anc = Some (a, x)" "a \<le> n" "a < 2 ^ 63" "on_chain cs (Some (a, x))"
    have start: "u64_saturating_add a 1 = Suc a" using anc(3) by (rule u64_saturating_add_id)
    show "triple (chain_is I cs)
      (let reorg_depth = ct_height t - (case anc of None \<Rightarrow> 0 | Some (height, _) \<Rightarrow> height);
           start = (case anc of None \<Rightarrow> 0 | Some (height, _) \<Rightarrow> u64_saturating_add height 1) in
       io_bind (stage_branch I start n (map_option snd anc)) (\<lambda>(_, replacement).
       io_bind (recheck_snapshot I n tip_hash anc) (\<lambda>_.
       io_bind (publish_branch I t anc replacement) (\<lambda>_.
       io_return (reorg_depth, length replacement)))))
      (\<lambda>_ w. \<exists>cs'. chain_is I cs' w \<and> evolves cs cs' \<and> length cs' = Suc n) (evolved I cs)"
      unfolding anc(1) option.case prod.case Let_def start option.map snd_conv
      using assms(1) anc(2,4) by (rule rewrite_triple)
  qed
qed

section \<open>The rest of a pass\<close>

lemma refresh_evidence_keeps:
  "triple (chain_is I cs) (refresh_evidence I) (\<lambda>_. chain_is I cs) (evolved I cs)"
proof -
  have refresh: "triple (chain_is I cs) (call_db I (\<lambda>_ _. refresh_block_evidence (ix_crates I) (ix_net I) b))
      (\<lambda>_. chain_is I cs) (evolved I cs)" for b
  proof (rule triple_weaken[OF call_db_keeps[where P = "\<lambda>d. indexed (ix_net I) d cs"]])
    show "evolved I cs w" if "chain_is I cs w" for w using that by (rule evolvedI) simp
  qed (auto intro: progress_ops_indexed(4))
  show ?thesis
    unfolding refresh_evidence_def
  proof (rule keeps_then[OF keeps_query_db], goal_cases)
    case (1 candidate)
    show ?case
    proof (cases candidate)
      case None
      then show ?thesis by (simp add: triple_return)
    next
      case (Some hx)
      then show ?thesis
        by (cases hx) (simp only: option.case prod.case, rule keeps_then, intro keeps,
            rule keeps_then[OF keeps_fetch refresh])
    qed
  qed
qed


text \<open>The progress row after a completed pass.\<close>

definition reported_ready :: "string \<Rightarrow> db \<Rightarrow> nat \<Rightarrow> bool" where
  "reported_ready net d n \<longleftrightarrow>
     (\<exists>s. t_find (db_chain_state d) net = Some s \<and> st_status s = ''ready'' \<and> st_last_error s = None \<and>
        st_node_height s = Some (int n) \<and> st_indexed_height s = Some (int n))"

lemma update_node_tip_ready:
  assumes "update_node_tip net now n h ''ready'' None d = Inr (u, d')" and "chain_ok net d cs"
    and "length cs = Suc n"
  shows "reported_ready net d' n"
  using assms
  by (auto simp: update_node_tip_def to_i64_def reported_ready_def t_find_update_chain_state
      chain_ok_def tip_named_def)

lemma finish_pass_triple:
  assumes "length cs = Suc n"
  shows "triple (chain_is I cs) (finish_pass I n h depth k)
     (\<lambda>out w. chain_is I cs w \<and> so_node_height out = n \<and> so_indexed_height out = n \<and>
        reported_ready (ix_net I) (w_db w) n) (evolved I cs)"
  unfolding finish_pass_def
proof (rule triple_bind[OF keeps_spec[OF keeps_query_db,
        where Q = "\<lambda>t. t = tip_of_chain cs"]], goal_cases)
  case (1 w t w')
  then show ?case by (auto dest!: query_db_ok simp: indexed_store.tip tip_of_chain_def)
next
  case (2 t)
  show ?case
  proof (rule triple_pre)
    assume "t = tip_of_chain cs"
    moreover have "cs \<noteq> []" using assms by auto
    ultimately have t: "(case t of None \<Rightarrow> 0 | Some t \<Rightarrow> ct_height t) = n"
      using assms by (simp add: tip_of_chain_def)
    let ?upd = "call_db I (\<lambda>now _. update_node_tip (ix_net I) now n h ''ready'' None)"
    have "triple (chain_is I cs) ?upd (\<lambda>_ w. chain_is I cs w \<and> reported_ready (ix_net I) (w_db w) n) (evolved I cs)"
    proof (rule tripleI)
      fix w x w' assume ok: "chain_is I cs w" and run: "?upd w = (Inr x, w')"
      from call_db_ok[OF run] show "chain_is I cs w' \<and> reported_ready (ix_net I) (w_db w') n"
        using progress_ops_indexed(2)[OF ok] update_node_tip_ready[OF _ indexed_chain[OF ok] assms] by blast
    next
      fix w e w' assume ok: "chain_is I cs w" and run: "?upd w = (Inl e, w')"
      have "chain_is I cs w'"
        by (rule tripleD_err[OF call_db_keeps[where P = "\<lambda>d. indexed (ix_net I) d cs"] ok run])
          (rule progress_ops_indexed(2))
      then show "evolved I cs w'" by (rule evolvedI) simp
    qed
    then show "triple (chain_is I cs)
       (let final_height = case t of None \<Rightarrow> 0 | Some t \<Rightarrow> ct_height t
        in io_bind (call_db I (\<lambda>now _. update_node_tip (ix_net I) now n h
             (if final_height = n then ''ready'' else ''syncing'') None)) (\<lambda>_.
           io_return \<lparr>so_indexed_blocks = k, so_indexed_height = final_height, so_node_height = n,
             so_reorg_depth = depth\<rparr>))
       (\<lambda>out w. chain_is I cs w \<and> so_node_height out = n \<and> so_indexed_height out = n \<and>
          reported_ready (ix_net I) (w_db w) n) (evolved I cs)"
      unfolding t Let_def if_True simp_thms by (rule triple_bind) (simp add: triple_return)
  qed
qed

section \<open>One whole pass\<close>

lemma evolves_trans: "evolves a b \<Longrightarrow> evolves b c \<Longrightarrow> evolves a c"
proof -
  assume "evolves a b" "evolves b c"
  then obtain k new k' new' where k: "k \<le> length a" "a = [] \<or> 0 < k" "b = take k a @ new"
    and k': "k' \<le> length b" "b = [] \<or> 0 < k'" "c = take k' b @ new'" by (auto simp: evolves_def)
  have "c = take (min k k') a @ (take (k' - k) new @ new')"
    using k k' by (simp add: take_append min.commute min_absorb1)
  moreover have "a = [] \<or> 0 < min k k'" using k k' by auto
  moreover have "min k k' \<le> length a" using k(1) by simp
  ultimately show "evolves a c" unfolding evolves_def by blast
qed

lemma evolved_trans: "evolves cs cs' \<Longrightarrow> evolved I cs' w \<Longrightarrow> evolved I cs w"
  unfolding evolved_def using evolves_trans by blast

lemma tip_matches_True: "tip_matches I t n w = (Inr True, w') \<Longrightarrow> ct_height t \<le> n"
  by (auto simp: tip_matches_def split: if_splits)

definition follow_node ::
    "('net, 'r, 'p, 't, 'v) indexer \<Rightarrow> chain_tip option \<Rightarrow> nat \<Rightarrow> string \<Rightarrow> (world, nat \<times> nat) io" where
  "follow_node I tip n h =
     io_bind (case tip of None \<Rightarrow> io_return True | Some stored_tip \<Rightarrow> tip_matches I stored_tip n) (\<lambda>canonical_matches.
     case tip of
       Some stored_tip \<Rightarrow>
         if canonical_matches then io_bind (extend_chain I tip n) (\<lambda>n. io_return (0, n))
         else reorganize I stored_tip n h
     | None \<Rightarrow> io_bind (extend_chain I tip n) (\<lambda>n. io_return (0, n)))"

lemma io_bind_return: "io_bind (io_return x) k = k x"
  by (rule ext) simp

lemma follow_node_triple:
  "triple (chain_is I cs) (follow_node I (tip_of_chain cs) n h)
     (\<lambda>_ w. \<exists>cs'. chain_is I cs' w \<and> evolves cs cs' \<and> length cs' = Suc n) (evolved I cs)"
proof -
  have extend: "triple (chain_is I cs) (io_bind (extend_chain I (tip_of_chain cs) n) (\<lambda>n. io_return (0 :: nat, n)))
     (\<lambda>_ w. \<exists>cs'. chain_is I cs' w \<and> evolves cs cs' \<and> length cs' = Suc n) (evolved I cs)"
    if "length cs \<le> Suc n"
    by (rule triple_bind[OF extend_chain_triple[OF that]]) (auto intro!: triple_return)
  show ?thesis
  proof (cases "cs = []")
    case True
    then show ?thesis using extend by (simp add: follow_node_def tip_of_chain_def io_bind_return)
  next
    case False
    define t where "t = the (tip_of_chain cs)"
    have t: "tip_of_chain cs = Some t" "ct_height t = length cs - 1"
      using False by (simp_all add: t_def tip_of_chain_def)
    show ?thesis
      unfolding follow_node_def t(1) option.case
    proof (rule triple_bind[OF keeps_spec[OF keeps_tip_matches, where Q = "\<lambda>m. m \<longrightarrow> length cs \<le> Suc n"]], goal_cases)
      case (1 w r w')
      then show ?case using tip_matches_True[of I t n w w'] t(2) by auto
    next
      case (2 m)
      show ?case
        using extend t(1) reorganize_triple[OF False t(2)] by (intro triple_pre triple_if) simp_all
    qed
  qed
qed

text \<open>The state in which a pass ends: of a chain of the node's height, reported ready.\<close>

definition synced :: "('net, 'r, 'p, 't, 'v) indexer \<Rightarrow> chain \<Rightarrow> sync_outcome \<Rightarrow> world \<Rightarrow> bool" where
  "synced I cs out w \<longleftrightarrow>
     (\<exists>cs'. chain_is I cs' w \<and> evolves cs cs' \<and> length cs' = Suc (so_node_height out)) \<and>
     so_indexed_height out = so_node_height out \<and> reported_ready (ix_net I) (w_db w) (so_node_height out)"

lemma finish_triple:
  assumes "evolves cs cs'" and "length cs' = Suc n"
  shows "triple (chain_is I cs') (io_bind (refresh_evidence I) (\<lambda>_. finish_pass I n h depth k))
     (synced I cs) (evolved I cs)"
proof (rule triple_weaken[OF triple_bind[OF refresh_evidence_keeps finish_pass_triple[OF assms(2)]]])
  show "evolved I cs w" if "evolved I cs' w" for w using assms(1) that by (rule evolved_trans)
qed (use assms in \<open>auto simp: synced_def\<close>)

lemma triple_exists: "(\<And>x. C x \<Longrightarrow> triple (P x) m Q E) \<Longrightarrow> triple (\<lambda>w. \<exists>x. P x w \<and> C x) m Q E"
  by (fastforce simp: triple_def)

lemma sync_once_triple: "triple (chain_is I cs) (sync_once I) (synced I cs) (evolved I cs)"
proof -
  have observe: "triple (chain_is I cs) (call_db I (\<lambda>now _. observe_node_tip (ix_net I) now n h))
      (\<lambda>_. chain_is I cs) (evolved I cs)" for n h
  proof (rule triple_weaken[OF call_db_keeps[where P = "\<lambda>d. indexed (ix_net I) d cs"]])
    show "evolved I cs w" if "chain_is I cs w" for w using that by (rule evolvedI) simp
  qed (auto intro: progress_ops_indexed(1))
  have follow: "triple (chain_is I cs) (io_bind (follow_node I (tip_of_chain cs) n h) (\<lambda>(depth, k).
      io_bind (refresh_evidence I) (\<lambda>_. finish_pass I n h depth k))) (synced I cs) (evolved I cs)" for n h
  proof (rule triple_bind[OF follow_node_triple])
    fix dk :: "nat \<times> nat"
    show "triple (\<lambda>w. \<exists>cs'. chain_is I cs' w \<and> evolves cs cs' \<and> length cs' = Suc n)
      (case dk of (depth, k) \<Rightarrow> io_bind (refresh_evidence I) (\<lambda>_. finish_pass I n h depth k))
      (synced I cs) (evolved I cs)"
      by (cases dk) (auto intro!: triple_exists finish_triple)
  qed
  have assoc: "sync_once I = io_bind (ask_node (blockchain_info (ix_wcash I) (ix_codec I))) (\<lambda>info.
     io_bind (node_hash_at I (bi_blocks info)) (\<lambda>h.
     io_bind (validate_identity I (bi_chain info)) (\<lambda>_.
     io_bind (query_db I (\<lambda>_. canonical_tip (ix_net I))) (\<lambda>tip.
     io_bind (call_db I (\<lambda>now _. observe_node_tip (ix_net I) now (bi_blocks info) h)) (\<lambda>_.
     io_bind (follow_node I tip (bi_blocks info) h) (\<lambda>(depth, k).
     io_bind (refresh_evidence I) (\<lambda>_. finish_pass I (bi_blocks info) h depth k)))))))"
    unfolding sync_once_def follow_node_def io_bind_assoc ..
  show ?thesis
    unfolding assoc
  proof (rule keeps_then[OF keeps_ask_node], rule keeps_then[OF keeps_node_hash_at],
      rule keeps_then[OF keeps_validate_identity],
      rule triple_bind[OF keeps_spec[OF keeps_query_db, where Q = "\<lambda>t. t = tip_of_chain cs"]], goal_cases)
    case (1 info h u w t w')
    then show ?case by (auto dest!: query_db_ok simp: indexed_store.tip tip_of_chain_def)
  next
    case (2 info h u tip)
    show ?case by (rule triple_pre) (simp only:, rule triple_bind[OF observe follow])
  qed
qed

end
