(* ===== verification/Sync_Example.thy ===== *)
theory Sync_Example imports Indexer_Facts Store_Props begin

text \<open>
  A small world for the witnesses: a node that serves a chain of one-transaction blocks (block
  \<open>c\<close> has the hash \<open>id64 c\<close>; above genesis it carries a five-byte proof), an instance of the
  consensus library that accepts these proofs, and a PostgreSQL that does not fail.
\<close>

section \<open>The node\<close>

definition sync_solution :: "nat \<Rightarrow> string" where
  "sync_solution h = (if h = 0 then [] else ''5743415a01'')"

text \<open>A raw block travels as two characters, which the instance of the \<open>hex\<close> crate expands.\<close>

definition sync_raw :: "nat \<Rightarrow> char \<Rightarrow> string" where
  "sync_raw h c = [if h = 0 then CHR ''g'' else CHR ''b'', c]"

definition sync_raw_bytes :: "nat \<Rightarrow> char \<Rightarrow> bytes" where
  "sync_raw_bytes h c =
     replicate 140 0 @ (if h = 0 then [0] else [5, 0x57, 0x43, 0x41, 0x5a, 1]) @ [word_of_nat (of_char c)]"

definition sync_crates :: crates where
  "sync_crates = tiny_crates\<lparr>hex_decode := (\<lambda>s.
     Inr (case s of
            [] \<Rightarrow> []
          | c # s' \<Rightarrow> if c = CHR ''g'' then sync_raw_bytes 0 (hd s')
                      else if c = CHR ''b'' then sync_raw_bytes 1 (hd s')
                      else [0x57, 0x43, 0x41, 0x5a, 1]))\<rparr>"

definition sync_block :: "nat \<Rightarrow> char \<Rightarrow> string option \<Rightarrow> rpc_block" where
  "sync_block h c prev = (ib_block (example_block c h prev))\<lparr>rb_solution := sync_solution h\<rparr>"

text \<open>A reply's body: the request's identifier in eight bytes, a tag and up to three numbers.\<close>

fun sync_answer :: "string \<Rightarrow> string \<Rightarrow> json \<Rightarrow> nat list option" where
  "sync_answer cs m (JArray []) = Some [0, length cs - 1]"
| "sync_answer cs m (JArray [JNumber (PosInt h)]) =
     (if h < length cs then Some [1, of_char (cs ! h)] else None)"
| "sync_answer cs m (JArray [JString x, JNumber (PosInt v)]) =
     (case filter (\<lambda>h. id64 (cs ! h) = x) [0 ..< length cs] of
        [] \<Rightarrow> None
      | h # _ \<Rightarrow> Some [if v = 0 then 2 else 3, h, of_char (cs ! h), if h = 0 then 0 else of_char (cs ! (h - 1))])"
| "sync_answer cs m (JArray [JString x, JString p]) = Some [4, 1]"
| "sync_answer cs m _ = None"

definition sync_config :: rpc_config where
  "sync_config = \<lparr>rc_label = ''wcash'',
     rc_url = \<lparr>url_str = [], url_scheme = ''http'', url_username = [], url_password = None\<rparr>, rc_auth = NoAuth\<rparr>"

definition sync_node :: "string \<Rightarrow> node" where
  "sync_node cs =
     \<lparr>nd_config = sync_config, nd_cookie = (\<lambda>_. Inl []),
      nd_http = (\<lambda>rq _. map_option (\<lambda>ns. \<lparr>hr_status = 200, hr_status_text = [], hr_content_length = None,
          hr_chunks = [Some (le_bytes 8 (rq_id rq) @ map word_of_nat ns)]\<rparr>)
        (sync_answer cs (rq_method rq) (rq_params rq))),
      nd_race = (\<lambda>_. True)\<rparr>"

definition sync_envelope :: "nat \<Rightarrow> 'a option \<Rightarrow> string + 'a rpc_response" where
  "sync_envelope i r = Inr \<lparr>rr_jsonrpc = ''2.0'', rr_id = i, rr_result = r, rr_error = None\<rparr>"

definition sync_char :: "nat \<Rightarrow> string" where
  "sync_char n = [char_of n]"

definition sync_codec :: codec where
  "sync_codec =
     \<lparr>cd_info = (\<lambda>bs. sync_envelope (le_value (take 8 bs)) (Some \<lparr>bi_chain = ''test'', bi_blocks = unat (bs ! 9),
        bi_headers = unat (bs ! 9), bi_bestblockhash = [], bi_estimatedheight = None,
        bi_verificationprogress = None, bi_chain_supply = None, bi_value_pools = []\<rparr>)),
      cd_string = (\<lambda>bs. sync_envelope (le_value (take 8 bs)) (Some
        (if bs ! 8 = 1 then id64 (char_of (unat (bs ! 9)))
         else sync_raw (unat (bs ! 9)) (char_of (unat (bs ! 10)))))),
      cd_value = (\<lambda>bs. sync_envelope (le_value (take 8 bs)) (Some (JArray [json_u64 (unat (bs ! 9)),
        JString (sync_char (unat (bs ! 10))), JString (sync_char (unat (bs ! 11)))]))),
      cd_aux_status = (\<lambda>bs. sync_envelope (le_value (take 8 bs)) (Some (BestChain 1))),
      cd_parent = (\<lambda>bs. Inl []),
      cd_block = (\<lambda>j. case j of
          JArray [JNumber (PosInt h), JString c, JString p] \<Rightarrow>
            Inr (sync_block h (hd c) (if h = 0 then None else Some (id64 (hd p))))
        | _ \<Rightarrow> Inl [])\<rparr>"

section \<open>The consensus library\<close>

definition sync_consensus :: "(unit, unit, bytes, bytes, bytes) consensus" where
  "sync_consensus =
     \<lparr>cs_mainnet = Inr (), cs_testnet = (), cs_testnet_params = (\<lambda>_. None), cs_is_wcash_mainnet = (\<lambda>_. False),
      cs_nu7_height = (\<lambda>_. None), cs_height_ok = (\<lambda>_. True), cs_rules_for = (\<lambda>_ _. ()),
      cs_proof_magic = string_bytes ''WCAZ'', cs_parent_header_bytes = 140,
      cs_decode = (\<lambda>bs. if length bs > 4 then Inr bs else Inl ''short''),
      cs_target = Inr, cs_target_met = (\<lambda>_ _. True), cs_validate = (\<lambda>p _ _ _. Inr p),
      cs_coinbase_txid = (\<lambda>p. replicate 32 7), cs_header = (\<lambda>p. replicate 140 0),
      cs_header_hash = (\<lambda>p. replicate 32 9), cs_header_n_bits = (\<lambda>p. 0x1d00ffff),
      cs_parent_branch_len = (\<lambda>_. 0), cs_parent_coinbase_index = (\<lambda>_. 0), cs_auth_branch_len = (\<lambda>_. 0),
      cs_auth_coinbase_index = (\<lambda>_. 0), cs_aux_branch_len = (\<lambda>_. 0), cs_aux_index = (\<lambda>_. 0)\<rparr>"

section \<open>The indexer\<close>

definition sync_indexer :: "string \<Rightarrow> (unit, unit, bytes, bytes, bytes) indexer" where
  "sync_indexer cs =
     \<lparr>ix_wcash = sync_node cs,
      ix_auxpow = \<lparr>av_wcash = sync_node cs, av_parents = [], av_network = ()\<rparr>,
      ix_network = example_network, ix_max_reorg_depth = 100, ix_evidence_refresh_depth = 10,
      ix_crates = sync_crates, ix_codec = sync_codec, ix_consensus = sync_consensus,
      ix_fault = (\<lambda>_. NoFault), ix_clock = int, ix_uuid = (\<lambda>_. ''e1'')\<rparr>"


abbreviation at_world :: "db \<Rightarrow> u64 \<Rightarrow> nat \<Rightarrow> world" where
  "at_world d i k \<equiv> \<lparr>w_db = d, w_next_id = i, w_parent_ids = [], w_ticks = k\<rparr>"

lemma sync_fields:
  "ix_wcash (sync_indexer cs) = sync_node cs" "ix_network (sync_indexer cs) = example_network"
  "ix_max_reorg_depth (sync_indexer cs) = 100" "ix_evidence_refresh_depth (sync_indexer cs) = 10"
  "ix_crates (sync_indexer cs) = sync_crates" "ix_codec (sync_indexer cs) = sync_codec"
  "ix_consensus (sync_indexer cs) = sync_consensus" "ix_fault (sync_indexer cs) k = NoFault"
  "ix_clock (sync_indexer cs) k = int k" "ix_uuid (sync_indexer cs) k = ''e1''"
  "ix_net (sync_indexer cs) = ''testnet''" "nc_genesis_hash example_network = id64 CHR ''1''"
  "ix_auxpow (sync_indexer cs) = \<lparr>av_wcash = sync_node cs, av_parents = [], av_network = ()\<rparr>"
  by (simp_all add: sync_indexer_def ix_net_def example_network_def)

lemma sync_exchange:
  assumes "sync_answer cs m p = Some ns" and "length ns \<le> 4"
  shows "exchange (sync_node cs) decode i m p =
     rbind (map_err (\<lambda>error. InvalidNodeResponse (''invalid JSON-RPC response: '' @ error))
       (decode (le_bytes 8 i @ map word_of_nat ns))) (open_envelope i)"
  using assms by (simp add: exchange_def with_auth_def sync_node_def sync_config_def read_body_def Let_def
      MAX_RPC_RESPONSE_BYTES_def guard_def)

lemma sync_envelope_opens [simp]: "open_envelope i \<lparr>rr_jsonrpc = ''2.0'', rr_id = i, rr_result = Some x, rr_error = None\<rparr> = Inr x"
  by (simp add: open_envelope_def ensure_json_rpc_version_def guard_def)

lemma sync_id: "le_value (le_bytes 8 (unat (i :: u64))) = unat i"
proof -
  have "unat i < 2 ^ LENGTH(64)" by (rule unsigned_less)
  then show ?thesis by (simp add: le_value_le_bytes)
qed

lemma sync_byte: "unat (word_of_nat (of_char c) :: u8) = of_char c" "n < 256 \<Longrightarrow> unat (word_of_nat n :: u8) = n"
  by (simp_all add: unat_of_nat)

lemma sync_calls:
  "sync_answer cs m p = Some [0, n] \<Longrightarrow> n < 256 \<Longrightarrow>
     call (sync_node cs) (cd_info sync_codec) m p i = (Inr \<lparr>bi_chain = ''test'', bi_blocks = n, bi_headers = n,
        bi_bestblockhash = [], bi_estimatedheight = None, bi_verificationprogress = None,
        bi_chain_supply = None, bi_value_pools = []\<rparr>, i + 1)"
  "sync_answer cs m p = Some [1, of_char c] \<Longrightarrow>
     call (sync_node cs) (cd_string sync_codec) m p i = (Inr (id64 c), i + 1)"
  "sync_answer cs m p = Some [2, h, of_char c, x] \<Longrightarrow> h < 256 \<Longrightarrow>
     call (sync_node cs) (cd_string sync_codec) m p i = (Inr (sync_raw h c), i + 1)"
  "sync_answer cs m p = Some [3, h, of_char c, x] \<Longrightarrow> h < 256 \<Longrightarrow> x < 256 \<Longrightarrow>
     call (sync_node cs) (cd_value sync_codec) m p i =
       (Inr (JArray [json_u64 h, JString [c], JString [char_of x]]), i + 1)"
  "sync_answer cs m p = Some [4, 1] \<Longrightarrow>
     call (sync_node cs) (cd_aux_status sync_codec) m p i = (Inr (BestChain 1), i + 1)"
  by (simp_all add: call_def sync_exchange sync_codec_def sync_envelope_def sync_id sync_byte nth_append sync_char_def)

lemma sync_hash_at:
  "h < length cs \<Longrightarrow>
   node_hash_at (sync_indexer cs) h (at_world d i k) = (Inr (id64 (cs ! h)), at_world d (i + 1) k)"
  by (simp add: node_hash_at_def ask_node_def io_zoom_def block_hash_def sync_fields json_u64_def sync_calls)

lemma sync_info:
  "ask_node (blockchain_info (sync_node ''12'') sync_codec) (at_world d i k) =
     (Inr \<lparr>bi_chain = ''test'', bi_blocks = 1, bi_headers = 1, bi_bestblockhash = [], bi_estimatedheight = None,
        bi_verificationprogress = None, bi_chain_supply = None, bi_value_pools = []\<rparr>, at_world d (i + 1) k)"
  by (simp add: ask_node_def io_zoom_def blockchain_info_def sync_calls)

text \<open>The two blocks as they are fetched.\<close>

definition sync_auxpow :: "char \<Rightarrow> verified_auxpow" where
  "sync_auxpow c =
     \<lparr>va_witness_hash = block_witness_hash sync_crates (sync_raw_bytes 1 c), va_proof_version = 1,
      va_proof_size = 5, va_parent_block_hash = id64 CHR ''9'',
      va_parent_header_bits = ''1d00ffff'', va_parent_hash_meets_claimed_target = True,
      va_parent_coinbase_txid = id64 CHR ''7'', va_parent_merkle_depth = 0,
      va_parent_coinbase_index = 0, va_auth_data_merkle_depth = 0, va_auth_data_coinbase_index = 0,
      va_auxiliary_merkle_depth = 0, va_auxiliary_index = 0, va_verification_state = ''auxpow_verified'',
      va_verifier_version = VERIFIER_VERSION, va_exact_witness_state = ''best_chain'',
      va_witness_confirmations = Some 1, va_parent_observations = [],
      va_parent_lookup_state = NotConfigured, va_parent_sources_agree = False\<rparr>"

definition sync_indexed0 :: "nat \<Rightarrow> indexed_block" where
  "sync_indexed0 k =
     \<lparr>ib_block = sync_block 0 CHR ''1'' None, ib_auxpow = None, ib_fetched_at = int k,
      ib_raw_block = sync_raw_bytes 0 CHR ''1'',
      ib_raw = JArray [json_u64 0, JString ''1'', JString [CHR 0x00]]\<rparr>"

definition sync_indexed1 :: "nat \<Rightarrow> indexed_block" where
  "sync_indexed1 k =
     \<lparr>ib_block = sync_block 1 CHR ''2'' (Some (id64 CHR ''1'')), ib_auxpow = Some (sync_auxpow CHR ''2''),
      ib_fetched_at = int k, ib_raw_block = sync_raw_bytes 1 CHR ''2'',
      ib_raw = JArray [json_u64 1, JString ''2'', JString ''1'']\<rparr>"

lemma sync_hash_texts:
  "validate_hash (id64 CHR ''1'') = Inr ()" "validate_hash (id64 CHR ''2'') = Inr ()"
  by code_simp+

lemma sync_decode:
  "decode_hex_bounded sync_crates l (sync_raw 0 c) (MAX_RPC_RESPONSE_BYTES div 2) = Inr (sync_raw_bytes 0 c)"
  "decode_hex_bounded sync_crates l (sync_raw (Suc 0) c) (MAX_RPC_RESPONSE_BYTES div 2) = Inr (sync_raw_bytes 1 c)"
  by (simp_all add: decode_hex_bounded_def sync_crates_def sync_raw_def MAX_RPC_RESPONSE_BYTES_def)

lemma sync_parse:
  "cd_block sync_codec (JArray [JNumber (PosInt h), JString c, JString p]) =
     Inr (sync_block h (hd c) (if h = 0 then None else Some (id64 (hd p))))"
  by (simp add: sync_codec_def)

lemma sync_answers:
  "sync_answer ''12'' m (JArray [JString (id64 CHR ''1''), JNumber (PosInt 0)]) = Some [2, 0, of_char CHR ''1'', 0]"
  "sync_answer ''12'' m (JArray [JString (id64 CHR ''2''), JNumber (PosInt 0)]) =
     Some [2, Suc 0, of_char CHR ''2'', of_char CHR ''1'']"
  "sync_answer ''12'' m (JArray [JString (id64 CHR ''1''), JNumber (PosInt 2)]) = Some [3, 0, of_char CHR ''1'', 0]"
  "sync_answer ''12'' m (JArray [JString (id64 CHR ''2''), JNumber (PosInt 2)]) =
     Some [3, Suc 0, of_char CHR ''2'', of_char CHR ''1'']"
  by (simp_all add: upt_rec)

lemmas sync_replies =
  sync_calls(3)[OF sync_answers(1), simplified] sync_calls(3)[OF sync_answers(2), simplified]
  sync_calls(4)[OF sync_answers(3), simplified] sync_calls(4)[OF sync_answers(4), simplified]

lemma sync_chars: "char_of (0 :: nat) = CHR 0x00" "char_of (49 :: nat) = CHR ''1''"
  by code_simp+

lemma sync_pairs:
  "fetch_pair (sync_indexer ''12'') (id64 CHR ''1'') (at_world d i k) =
     (Inr (sync_raw_bytes 0 CHR ''1'', sync_block 0 CHR ''1'' None,
        JArray [json_u64 0, JString ''1'', JString [CHR 0x00]]), at_world d (i + 2) k)"
  "fetch_pair (sync_indexer ''12'') (id64 CHR ''2'') (at_world d i k) =
     (Inr (sync_raw_bytes 1 CHR ''2'', sync_block 1 CHR ''2'' (Some (id64 CHR ''1'')),
        JArray [json_u64 1, JString ''2'', JString ''1'']), at_world d (i + 2) k)"
  by (simp_all add: fetch_pair_def ask_node_def io_zoom_def try_join2_def block_raw_def block_verbose_def
      io_bind_def sync_fields sync_hash_texts sync_replies sync_decode json_u64_def sync_chars
      sync_parse add.assoc)

lemma sync_local:
  "validate_locally sync_crates sync_consensus () (sync_block 0 CHR ''1'' None) (sync_raw_bytes 0 CHR ''1'') = Inr None"
  "validate_locally sync_crates sync_consensus () (sync_block 1 CHR ''2'' (Some (id64 CHR ''1'')))
     (sync_raw_bytes 1 CHR ''2'') = Inr (Some ([0x57, 0x43, 0x41, 0x5a, 1], [0x57, 0x43, 0x41, 0x5a, 1], [0x57, 0x43, 0x41, 0x5a, 1]))"
  by code_simp+

lemma sync_shown:
  "hex_fixed 8 0x1d00ffff = ''1d00ffff''" "is_ok (compact_target sync_consensus ''1d00ffff'')"
  "display_hash sync_crates (replicate 32 9) = id64 CHR ''9''"
  "display_hash sync_crates (replicate 32 7) = id64 CHR ''7''" "length (string_bytes ''WCAZ'') = 4"
  by code_simp+

lemma sync_aux: "aux_block_status (sync_node ''12'') sync_codec (id64 CHR ''2'') ''5743415a01'' i = (Inr (BestChain 1), i + 1)"
  by (simp add: aux_block_status_def io_bind_def sync_hash_texts guard_def sync_calls)

lemma sync_block_fields:
  "rb_hash (sync_block h c p) = id64 c" "rb_height (sync_block h c p) = h"
  "rb_previousblockhash (sync_block h c p) = p"
  by (simp_all add: sync_block_def example_block_def)

lemma sync_hashes:
  "node_hash_at (sync_indexer ''12'') 0 (at_world d i k) = (Inr (id64 CHR ''1''), at_world d (i + 1) k)"
  "node_hash_at (sync_indexer ''12'') (Suc 0) (at_world d i k) = (Inr (id64 CHR ''2''), at_world d (i + 1) k)"
  using sync_hash_at[of 0 "''12''"] sync_hash_at[of "Suc 0" "''12''"] by simp_all

lemma sync_verifies:
  "run_verify (sync_indexer ''12'') (sync_block 0 CHR ''1'' None) (sync_raw_bytes 0 CHR ''1'') (at_world d i k) =
     (Inr None, at_world d i k)"
  "run_verify (sync_indexer ''12'') (sync_block (Suc 0) CHR ''2'' (Some (id64 CHR ''1'')))
     (sync_raw_bytes (Suc 0) CHR ''2'') (at_world d i k) = (Inr (Some (sync_auxpow CHR ''2'')), at_world d (i + 1) k)"
proof -
  obtain t where t: "compact_target sync_consensus ''1d00ffff'' = Inr t" using sync_shown(2) by (auto simp: is_ok_iff)
  have s: "rb_solution (sync_block (Suc 0) c p) = ''5743415a01''" for c p
    by (simp add: sync_block_def sync_solution_def)
  show "run_verify (sync_indexer ''12'') (sync_block 0 CHR ''1'' None) (sync_raw_bytes 0 CHR ''1'') (at_world d i k) =
     (Inr None, at_world d i k)"
    by (simp add: run_verify_def io_zoom_def verify_def io_bind_def sync_fields sync_local)
  show "run_verify (sync_indexer ''12'') (sync_block (Suc 0) CHR ''2'' (Some (id64 CHR ''1'')))
     (sync_raw_bytes (Suc 0) CHR ''2'') (at_world d i k) = (Inr (Some (sync_auxpow CHR ''2'')), at_world d (i + 1) k)"
    using sync_local(2) t s sync_aux sync_shown
    by (simp add: run_verify_def io_zoom_def verify_def io_bind_def sync_fields Let_def sync_block_fields
        guard_def classify_observations_def sync_auxpow_def sync_consensus_def)
qed

lemma sync_fetches:
  "fetch_indexed_block (sync_indexer ''12'') 0 None (at_world d 3 k) =
     (Inr (sync_indexed0 k), at_world d 7 (Suc k))"
  "fetch_indexed_block (sync_indexer ''12'') 1 (Some (id64 CHR ''1'')) (at_world d 7 k) =
     (Inr (sync_indexed1 k), at_world d 12 (Suc k))"
  unfolding fetch_indexed_block_def
  by (simp_all add: io_bind_def sync_hashes sync_pairs sync_block_fields guard_def previous_matches_def
      sync_verifies utc_now_def sync_fields sync_indexed0_def sync_indexed1_def)

text \<open>The statements of a first pass over the empty database.\<close>

definition sync_statements :: "(db \<times> db \<times> db \<times> db \<times> db) result" where
  "sync_statements =
     rbind (initialize_network example_network 0 empty_db) (\<lambda>(_, d0).
     rbind (canonical_tip ''testnet'' d0) (\<lambda>t0.
     rbind (guard (t0 = None) NotFound) (\<lambda>_.
     rbind (observe_node_tip ''testnet'' 1 1 (id64 CHR ''2'') d0) (\<lambda>(_, d1).
     rbind (commit_block sync_crates ''testnet'' 3 (sync_indexed0 2) d1) (\<lambda>(_, d2).
     rbind (commit_block sync_crates ''testnet'' 5 (sync_indexed1 4) d2) (\<lambda>(_, d3).
     rbind (evidence_refresh_candidate ''testnet'' 10 6 d3) (\<lambda>candidate.
     rbind (guard (candidate = None) NotFound) (\<lambda>_.
     rbind (canonical_tip ''testnet'' d3) (\<lambda>t3.
     rbind (guard (map_option ct_height t3 = Some 1) NotFound) (\<lambda>_.
     rbind (update_node_tip ''testnet'' 8 1 (id64 CHR ''2'') ''ready'' None d3) (\<lambda>(_, d4).
     Inr (d0, d1, d2, d3, d4))))))))))))"

lemma sync_statements_ok: "is_ok sync_statements"
  by code_simp

lemma sync_call_db:
  "body (int k) ''e1'' d = Inr (x, d') \<Longrightarrow>
   call_db (sync_indexer cs) body (at_world d i k) = (Inr x, at_world d' i (Suc k))"
  by (simp add: call_db_def sync_fields db_run_def in_transaction_def)

lemma sync_query_db:
  "q (int k) d = Inr x \<Longrightarrow> query_db (sync_indexer cs) q (at_world d i k) = (Inr x, at_world d i (Suc k))"
  unfolding query_db_def by (rule sync_call_db) (simp add: db_query_def)

end
