(* ===== verification/Indexer_Props.thy ===== *)
theory Indexer_Props imports Sync_Example begin

text \<open>
  The properties of the indexer: what a pass guarantees, what it needs before it writes, and which
  ancestor a reorganization starts from; with a concrete first pass.
\<close>

section \<open>A first pass\<close>

text \<open>The first pass indexes both blocks and reports the network ready.\<close>

definition sync_first_outcome :: sync_outcome where
  "sync_first_outcome =
     \<lparr>so_indexed_blocks = 2, so_indexed_height = 1, so_node_height = 1, so_reorg_depth = 0\<rparr>"

lemma sync_first_pass:
  obtains d0 d4 where "initialize_network example_network 0 empty_db = Inr ((), d0)"
    "sync_once (sync_indexer ''12'') (at_world d0 0 0) = (Inr sync_first_outcome, at_world d4 12 9)"
proof -
  from sync_statements_ok obtain d0 d1 d2 d3 d4 t where
    st: "initialize_network example_network 0 empty_db = Inr ((), d0)" "canonical_tip ''testnet'' d0 = Inr None"
      "observe_node_tip ''testnet'' 1 1 (id64 CHR ''2'') d0 = Inr ((), d1)"
      "commit_block sync_crates ''testnet'' 3 (sync_indexed0 2) d1 = Inr ((), d2)"
      "commit_block sync_crates ''testnet'' 5 (sync_indexed1 4) d2 = Inr ((), d3)"
      "evidence_refresh_candidate ''testnet'' 10 6 d3 = Inr None"
      "canonical_tip ''testnet'' d3 = Inr (Some t)" "ct_height t = 1"
      "update_node_tip ''testnet'' 8 1 (id64 CHR ''2'') ''ready'' None d3 = Inr ((), d4)"
    by (auto simp: is_ok_iff sync_statements_def)
  let ?I = "sync_indexer ''12''"
  have ident: "validate_identity ?I ''test'' (at_world d i k) = (Inr (), at_world d (i + 1) k)" for d i k
    by (simp add: validate_identity_def io_bind_def sync_hashes sync_fields guard_def expected_chain_def)
  have extend: "extend_chain ?I None 1 (at_world d1 3 2) = (Inr 2, at_world d3 12 6)"
  proof -
    have "call_db ?I (\<lambda>now _. commit_block (ix_crates ?I) (ix_net ?I) now (sync_indexed0 2)) (at_world d1 7 3) =
        (Inr (), at_world d2 7 4)"
      "call_db ?I (\<lambda>now _. commit_block (ix_crates ?I) (ix_net ?I) now (sync_indexed1 4)) (at_world d2 12 5) =
        (Inr (), at_world d3 12 6)"
      by (subst sync_call_db; use st(4,5) in \<open>simp add: sync_fields\<close>)+
    moreover have "[0 ..< Suc 1] = [0, 1]" by (simp add: upt_rec)
    moreover have "rb_hash (ib_block (sync_indexed0 2)) = id64 CHR ''1''"
      by (simp add: sync_indexed0_def sync_block_fields)
    ultimately show ?thesis
      unfolding extend_chain_def option.case
      by (simp only: io_fold.simps) (simp add: io_bind_def sync_fetches[unfolded One_nat_def] u64_saturating_add_def)
  qed
  have refresh: "refresh_evidence ?I (at_world d3 12 6) = (Inr (), at_world d3 12 7)"
    by (simp add: refresh_evidence_def io_bind_def sync_query_db st(6) sync_fields)
  have finish: "finish_pass ?I 1 (id64 CHR ''2'') 0 2 (at_world d3 12 7) = (Inr sync_first_outcome, at_world d4 12 9)"
    using st(7-9) by (simp add: finish_pass_def io_bind_def sync_query_db sync_call_db sync_fields sync_first_outcome_def)
  have obs: "call_db ?I (\<lambda>now _. observe_node_tip (ix_net ?I) now 1 (id64 CHR ''2'')) (at_world d0 3 1) = (Inr (), at_world d1 3 2)"
    by (subst sync_call_db; use st(3) in \<open>simp add: sync_fields\<close>)+
  have "sync_once ?I (at_world d0 0 0) = (Inr sync_first_outcome, at_world d4 12 9)"
    unfolding sync_once_def
    by (simp add: io_bind_def sync_fields sync_info sync_hashes ident sync_query_db st(2) refresh
      obs[unfolded sync_fields One_nat_def] extend[unfolded One_nat_def] finish[unfolded One_nat_def])
  with st(1) that show thesis by blast
qed

section \<open>Passes\<close>

text \<open>C3. One synchronization pass, whatever the nodes answer and at whichever call PostgreSQL
  fails.  On a database that represents a chain whose blocks above genesis all carry a verified
  merge-mining link, a pass that reports success leaves such a chain again, of exactly the node's
  height and equal to the old one up to some block (genesis at least), and the progress row says
  \<open>ready\<close> at that height without an error; a pass that fails part-way leaves such an evolution
  of the old chain too, never a broken one.\<close>

theorem sync_once_safe:
  assumes "indexed (ix_net I) (w_db w) cs"
  shows "case sync_once I w of (Inr out, w') \<Rightarrow> synced I cs out w' | (Inl e, w') \<Rightarrow> evolved I cs w'"
  using sync_once_triple[of I cs] assms by (auto simp: triple_def split: prod.splits sum.splits)

theorem sync_once_safe_witness:
  "\<exists>d0 d4. sync_once (sync_indexer ''12'') (at_world d0 0 0) = (Inr sync_first_outcome, at_world d4 12 9) \<and>
     synced (sync_indexer ''12'') [] sync_first_outcome (at_world d4 12 9)"
proof (rule sync_first_pass)
  fix d0 d4
  assume d0: "initialize_network example_network 0 empty_db = Inr ((), d0)"
    and run: "sync_once (sync_indexer ''12'') (at_world d0 0 0) = (Inr sync_first_outcome, at_world d4 12 9)"
  have "indexed (ix_net (sync_indexer ''12'')) (w_db (at_world d0 0 0)) []"
    using example_fresh[OF d0] initialize_network_values[OF d0 empty_db_values]
    by (simp add: indexed_empty sync_fields)
  from sync_once_safe[OF this] run show ?thesis by auto
qed

lemma gated_bind:
  assumes "keeps_db m" and "\<And>x u. m w = (Inr x, u) \<Longrightarrow> w_db (snd (k x u)) = w_db u \<or> Q"
  shows "w_db (snd (io_bind m k w)) = w_db w \<or> Q"
proof (cases "m w")
  case (Pair r u)
  then have "w_db u = w_db w" using assms(1) by (auto dest: keeps_dbD)
  then show ?thesis using assms(2) Pair by (cases r) (auto simp: io_bind_def)
qed

lemma validate_identity_ok:
  assumes "validate_identity I c w = (Inr x, w')"
  shows "c = expected_chain (ix_net I) \<and> fst (node_hash_at I 0 w) = Inr (nc_genesis_hash (ix_network I))"
  using assms by (auto simp: validate_identity_def io_bind_Inr)

text \<open>Nothing is written for a foreign node.  A pass changes the database only if, before its
  first write, the node answered with the chain name that belongs to the configured network and
  with the configured genesis hash at height 0.\<close>

theorem sync_once_checks_identity:
  "w_db (snd (sync_once I w)) = w_db w \<or>
   (\<exists>info u. fst (ask_node (blockchain_info (ix_wcash I) (ix_codec I)) w) = Inr info \<and>
      bi_chain info = expected_chain (ix_net I) \<and>
      fst (node_hash_at I 0 u) = Inr (nc_genesis_hash (ix_network I)) \<and> w_db u = w_db w)"
  unfolding sync_once_def
proof (rule gated_bind[OF keeps_ask_node], rule gated_bind[OF keeps_node_hash_at],
    rule gated_bind[OF keeps_validate_identity], rule disjI2, goal_cases)
  case (1 info u h v x v')
  then show ?case
    using validate_identity_ok[OF 1(3)] keeps_dbD[OF keeps_ask_node 1(1)] keeps_dbD[OF keeps_node_hash_at 1(2)]
    by (intro exI[of _ info] exI[of _ v]) simp
qed

section \<open>Ancestors\<close>

text \<open>C27. The ancestor a reorganization starts from is always sound: the search either fails or
  answers with a block of the stored chain, not above either tip and at most \<open>MAX_REORG_DEPTH\<close>
  below the lower of both, and it never answers without an ancestor; the database is only read.\<close>

theorem find_common_ancestor_sound:
  assumes "indexed (ix_net I) (w_db w) cs"
  shows "case find_common_ancestor I t n w of
       (Inr ancestor, w') \<Rightarrow>
         (\<exists>a x. ancestor = Some (a, x) \<and> a \<le> ct_height t \<and> a \<le> n \<and>
            min (ct_height t) n - a \<le> ix_max_reorg_depth I \<and> on_chain cs (Some (a, x))) \<and> w_db w' = w_db w
     | (Inl e, w') \<Rightarrow> w_db w' = w_db w"
proof (cases "find_common_ancestor I t n w")
  case (Pair r w')
  have "w_db w' = w_db w" using keeps_dbD[OF keeps_find_common_ancestor Pair] .
  moreover have "\<exists>a x. anc = Some (a, x) \<and> a \<le> ct_height t \<and> a \<le> n \<and>
      min (ct_height t) n - a \<le> ix_max_reorg_depth I \<and> on_chain cs (Some (a, x))" if "r = Inr anc" for anc
    using ancestor_loop_ok[OF _ assms, of "min (ct_height t) n" 0 anc w'] Pair that
    by (auto simp: find_common_ancestor_def)
  ultimately show ?thesis using Pair by (simp split: sum.split)
qed

theorem find_common_ancestor_sound_witness:
  "\<exists>d cs. length cs = 2 \<and> chain_is (sync_indexer ''13'') cs (at_world d 12 9) \<and>
     (case find_common_ancestor (sync_indexer ''13'') example_tip 1 (at_world d 12 9) of
        (Inr ancestor, w') \<Rightarrow> (\<exists>a x. ancestor = Some (a, x) \<and> a \<le> 1 \<and> on_chain cs (Some (a, x))) \<and> w_db w' = d
      | (Inl e, w') \<Rightarrow> w_db w' = d)"
proof (rule sync_first_pass)
  fix d0 d4
  assume d0: "initialize_network example_network 0 empty_db = Inr ((), d0)"
    and run: "sync_once (sync_indexer ''12'') (at_world d0 0 0) = (Inr sync_first_outcome, at_world d4 12 9)"
  have "indexed (ix_net (sync_indexer ''12'')) (w_db (at_world d0 0 0)) []"
    using example_fresh[OF d0] initialize_network_values[OF d0 empty_db_values]
    by (simp add: indexed_empty sync_fields)
  from tripleD_ok[OF sync_once_triple this run] obtain cs where
    cs: "chain_is (sync_indexer ''13'') cs (at_world d4 12 9)" "length cs = 2"
    by (auto simp: synced_def sync_fields sync_first_outcome_def)
  from find_common_ancestor_sound[OF cs(1), of example_tip 1] cs show ?thesis
    by (intro exI[of _ d4] exI[of _ cs]) (fastforce simp: example_tip_def split: prod.splits sum.splits)
qed

text \<open>A node that does not change: it answers with \<open>f\<close> up to its height.\<close>

definition serves :: "('net, 'r, 'p, 't, 'v) indexer \<Rightarrow> nat \<Rightarrow> (nat \<Rightarrow> string) \<Rightarrow> bool" where
  "serves I n f \<longleftrightarrow> (\<forall>h \<le> n. \<forall>w. fst (node_hash_at I h w) = Inr (f h))"

lemma ancestor_probe_serves:
  assumes "serves I n f" and "\<And>k. ix_fault I k = NoFault" and "chain_ok (ix_net I) (w_db w) cs"
    and "h \<le> n" and "h < length cs"
  obtains w' where "ancestor_probe I h w = (Inr (if fst (cs ! h) = f h then Some (f h) else None), w')"
    "w_db w' = w_db w"
proof -
  have "h < 2 ^ 63" using assms(3,5) by (simp add: chain_ok_def)
  then have q: "canonical_hash (ix_net I) h (w_db w) = Inr (Some (fst (cs ! h)))"
    using store.hash_at[OF assms(3)] assms(5) by simp
  obtain u where u: "query_db I (\<lambda>_. canonical_hash (ix_net I) h) w = (Inr (Some (fst (cs ! h))), u)"
    using q by (simp add: query_db_def call_db_def assms(2) db_run_def in_transaction_def db_query_def)
  obtain v where v: "node_hash_at I h u = (Inr (f h), v)"
    using assms(1,4) by (metis serves_def prod.collapse)
  have run: "ancestor_probe I h w = (Inr (if fst (cs ! h) = f h then Some (f h) else None), v)"
    by (simp add: ancestor_probe_def io_bind_def u v)
  then show thesis using that keeps_dbD[OF keeps_ancestor_probe run] by blast
qed

lemma ancestor_loop_serves:
  assumes "serves I n f" and "\<And>k. ix_fault I k = NoFault" and "chain_ok (ix_net I) (w_db w) cs"
    and "h \<le> n" and "h < length cs" and "e \<le> Suc (ix_max_reorg_depth I)"
  shows "case ancestor_loop I h e w of
      (Inr r, _) \<Rightarrow> \<exists>a \<le> h. r = Some (a, f a) \<and> fst (cs ! a) = f a \<and> h - a + e \<le> ix_max_reorg_depth I \<and>
        (\<forall>b. a < b \<and> b \<le> h \<longrightarrow> fst (cs ! b) \<noteq> f b)
    | (Inl _, _) \<Rightarrow> (\<forall>b \<le> h. h - b + e \<le> ix_max_reorg_depth I \<longrightarrow> fst (cs ! b) \<noteq> f b)"
  using assms(3-6)
proof (induction h arbitrary: e w)
  case 0
  show ?case
  proof (cases "e > ix_max_reorg_depth I")
    case False
    obtain u where "ancestor_probe I 0 w = (Inr (if fst (cs ! 0) = f 0 then Some (f 0) else None), u)"
      using ancestor_probe_serves[OF assms(1,2) 0(1,2,3)] .
    then show ?thesis using False by (subst ancestor_loop.simps) (simp add: io_bind_def)
  qed (subst ancestor_loop.simps, simp)
next
  case (Suc h)
  show ?case
  proof (cases "e > ix_max_reorg_depth I")
    case True
    then show ?thesis by (subst ancestor_loop.simps) auto
  next
    case False
    obtain u where u: "ancestor_probe I (Suc h) w =
        (Inr (if fst (cs ! Suc h) = f (Suc h) then Some (f (Suc h)) else None), u)" "w_db u = w_db w"
      using ancestor_probe_serves[OF assms(1,2) Suc.prems(1-3)] .
    show ?thesis
    proof (cases "fst (cs ! Suc h) = f (Suc h)")
      case True
      then show ?thesis using u False by (subst ancestor_loop.simps) (auto simp: io_bind_def)
    next
      case neq: False
      have run: "ancestor_loop I (Suc h) e w = ancestor_loop I h (Suc e) u"
        using u neq False by (subst ancestor_loop.simps) (simp add: io_bind_def)
      have "chain_ok (ix_net I) (w_db u) cs" using u(2) Suc.prems(1) by simp
      from Suc.IH[OF this, of "Suc e"] Suc.prems False neq show ?thesis
        unfolding run by (fastforce simp: le_Suc_eq split: prod.splits sum.splits)
    qed
  qed
qed

text \<open>C28. The search is complete on a node that stands still.  If the node answers every height up to
  \<open>n\<close> with a fixed hash, PostgreSQL does not fail and the stored tip is the tip of the chain, then
  an answer is the highest block not above either tip on which both chains agree, and a failure
  means that they agree on none of the blocks within \<open>MAX_REORG_DEPTH\<close> of the lower tip.\<close>

theorem find_common_ancestor_complete:
  assumes "serves I n f" and "\<And>k. ix_fault I k = NoFault" and "chain_ok (ix_net I) (w_db w) cs"
    and "ct_height t < length cs"
  shows "case find_common_ancestor I t n w of
      (Inr r, _) \<Rightarrow> \<exists>a \<le> min (ct_height t) n. r = Some (a, f a) \<and> fst (cs ! a) = f a \<and>
        (\<forall>b. a < b \<and> b \<le> min (ct_height t) n \<longrightarrow> fst (cs ! b) \<noteq> f b)
    | (Inl _, _) \<Rightarrow> (\<forall>b \<le> min (ct_height t) n.
        min (ct_height t) n - b \<le> ix_max_reorg_depth I \<longrightarrow> fst (cs ! b) \<noteq> f b)"
  using ancestor_loop_serves[OF assms(1-3), of "min (ct_height t) n" 0] assms(4)
  by (fastforce simp: find_common_ancestor_def split: prod.splits sum.splits)

text \<open>A stored chain of two blocks against a node with another second block.\<close>

lemma sync_serves: "serves (sync_indexer cs) (length cs - 1) (\<lambda>h. id64 (cs ! h))" if "cs \<noteq> []"
  using that by (simp add: serves_def node_hash_at_def ask_node_def io_zoom_def block_hash_def sync_fields
      json_u64_def sync_calls Suc_le_lessD length_greater_0_conv le_less_trans less_Suc_eq_le)

theorem find_common_ancestor_complete_witness:
  "\<exists>d2. fst (find_common_ancestor (sync_indexer ''13'') example_tip 1 (at_world d2 0 0)) =
     Inr (Some (0, id64 CHR ''1''))"
proof (rule example_steps)
  fix d0 d1 d2
  assume a: "initialize_network example_network 0 empty_db = Inr ((), d0)"
    "commit_block tiny_crates ''testnet'' 1 genesis_block d0 = Inr ((), d1)"
    "commit_block tiny_crates ''testnet'' 2 first_block d1 = Inr ((), d2)"
  let ?I = "sync_indexer ''13''" and ?w = "at_world d2 0 0"
  have cs: "chain_ok (ix_net ?I) (w_db ?w) example_chain" using example_two[OF a] by (simp add: sync_fields)
  have tip: "ct_height example_tip = 1" by (simp add: example_tip_def)
  have differ: "fst (example_chain ! 0) = id64 (''13'' ! 0)" "fst (example_chain ! Suc 0) \<noteq> id64 (''13'' ! Suc 0)"
    by (simp_all add: witness_of_def example_blocks)
  have "serves ?I 1 (\<lambda>h. id64 (''13'' ! h))" using sync_serves[of "''13''"] by simp
  from find_common_ancestor_complete[OF this _ cs, of example_tip]
  have "case find_common_ancestor ?I example_tip 1 ?w of
      (Inr r, _) \<Rightarrow> \<exists>a \<le> 1. r = Some (a, id64 (''13'' ! a)) \<and> fst (example_chain ! a) = id64 (''13'' ! a)
    | (Inl _, _) \<Rightarrow> \<forall>b \<le> 1. fst (example_chain ! b) \<noteq> id64 (''13'' ! b)"
    by (fastforce simp: sync_fields tip split: prod.splits sum.splits)
  then have "fst (find_common_ancestor ?I example_tip 1 ?w) = Inr (Some (0, id64 CHR ''1''))"
    using differ by (auto simp: le_Suc_eq split: prod.splits sum.splits)
  then show ?thesis by blast
qed

end
