(* ===== verification/Amounts.thy ===== *)
theory Amounts imports Configuration begin

text \<open>
  Amounts and the emission schedule as the API shows them (\<open>amount\<close>,
  \<open>amount_from_zatoshi_text\<close> and \<open>next_halving_height\<close> in \<open>src/api.rs\<close>).  An
  amount is an exact number of zatoshi; its decimal text places the point \<open>decimals\<close> digits
  from the right.  \<open>i128\<close> holds \<open>10 ^ decimals\<close> for every configuration that loads, since
  \<open>validate_network\<close> bounds the decimals.
\<close>

section \<open>The two formatters\<close>

record amount_view =
  am_zatoshi :: string
  am_decimal :: string
  am_symbol :: string

definition amount :: "int \<Rightarrow> network_config \<Rightarrow> amount_view" where
  "amount zatoshi n =
     (let divisor = 10 ^ nc_decimals n;
          sign = (if zatoshi < 0 then ''-'' else []);
          absolute = nat \<bar>zatoshi\<bar>;
          whole = absolute div divisor;
          fractional = absolute mod divisor in
      \<lparr>am_zatoshi = show_int zatoshi,
       am_decimal = sign @ show_nat whole @ ''.'' @ pad_zeros (nc_decimals n) (show_nat fractional),
       am_symbol = nc_symbol n\<rparr>)"

definition invalid_amount :: explorer_error where
  "invalid_amount = InvalidNodeResponse ''database returned an invalid exact amount''"

definition split_sign :: "string \<Rightarrow> bool \<times> string" where
  "split_sign s = (case s of c # digits \<Rightarrow> if c = CHR ''-'' then (True, digits) else (False, s) | [] \<Rightarrow> (False, s))"

definition amount_from_zatoshi_text :: "string \<Rightarrow> network_config \<Rightarrow> amount_view result" where
  "amount_from_zatoshi_text zatoshi n =
     (let (negative, digits) = split_sign zatoshi in
      rbind (guard (\<not> (digits = [] \<or> \<not> list_all is_ascii_digit digits)) invalid_amount) (\<lambda>_.
      let trimmed = trim_zeros digits;
          digits = (if trimmed = [] then ''0'' else trimmed);
          decimals = nc_decimals n;
          (whole, fractional) =
            (if decimals = 0 then (digits, [])
             else if length digits \<le> decimals then (''0'', pad_zeros decimals digits)
             else let split = length digits - decimals in (take split digits, drop split digits));
          sign = (if negative \<and> digits \<noteq> ''0'' then ''-'' else []);
          decimal = (if decimals = 0 then sign @ whole else sign @ whole @ ''.'' @ fractional) in
      Inr \<lparr>am_zatoshi = sign @ digits, am_decimal = decimal, am_symbol = nc_symbol n\<rparr>))"

section \<open>Their agreement\<close>

text \<open>The number an exact-amount text stands for.\<close>

definition exact_value :: "string \<Rightarrow> int option" where
  "exact_value s =
     (case split_sign s of (negative, digits) \<Rightarrow>
        if digits \<noteq> [] \<and> list_all is_ascii_digit digits
        then Some (if negative then - int (digits_value digits) else int (digits_value digits))
        else None)"

lemma canonical_digits:
  assumes "list_all is_ascii_digit s"
  shows "(if trim_zeros s = [] then ''0'' else trim_zeros s) = show_nat (digits_value s)"
proof (cases "trim_zeros s = []")
  case True
  then have "digits_value s = 0" using digits_value_trim_zeros[of s] by simp
  moreover have "show_nat 0 = ''0''" by (subst show_nat.simps) (simp add: digit_char_def)
  ultimately show ?thesis using True by simp
next
  case False
  then show ?thesis
    using show_nat_digits_value[OF trim_zeros_digits[OF assms] False] trim_zeros_hd[OF False] by simp
qed

lemma show_nat_eq_zero: "show_nat n = ''0'' \<longleftrightarrow> n = 0"
  using show_nat_inj[of n 0] by (simp add: show_nat.simps[of 0] digit_char_def)

lemma div_mod_parts: "(b :: nat) < m \<Longrightarrow> (a * m + b) div m = a \<and> (a * m + b) mod m = b"
  by simp

text \<open>Cutting the digits of a number is dividing it.\<close>

lemma split_digits:
  assumes "0 < w"
  shows "(if length (show_nat n) \<le> w then (''0'', pad_zeros w (show_nat n))
          else (take (length (show_nat n) - w) (show_nat n), drop (length (show_nat n) - w) (show_nat n))) =
         (show_nat (n div 10 ^ w), pad_zeros w (show_nat (n mod 10 ^ w)))"
proof (cases "length (show_nat n) \<le> w")
  case True
  then have "n < 10 ^ w" using length_show_nat[OF assms] by simp
  then show ?thesis using True by (simp add: show_nat_eq_zero[of 0, simplified])
next
  case False
  let ?s = "show_nat n" and ?k = "length (show_nat n) - w"
  let ?a = "take ?k ?s" and ?b = "drop ?k ?s"
  have len: "length ?b = w" "?a \<noteq> []" using False by auto
  have digits: "list_all is_ascii_digit ?a" "list_all is_ascii_digit ?b"
    using show_nat_digits[of n] by (auto simp: list_all_iff dest: in_set_takeD in_set_dropD)
  have n: "n = digits_value ?a * 10 ^ w + digits_value ?b"
    using digits_value_append[of ?a ?b] len by simp
  have b: "digits_value ?b < 10 ^ w" using digits_value_bound[OF digits(2)] len by simp
  have "n div 10 ^ w = digits_value ?a \<and> n mod 10 ^ w = digits_value ?b"
    using div_mod_parts[OF b, of "digits_value ?a"] unfolding n[symmetric] .
  moreover have "show_nat (digits_value ?a) = ?a"
  proof (rule show_nat_digits_value[OF digits(1) len(2)])
    have "hd ?a = hd ?s" using len(2) by (cases ?s) (auto simp: hd_append take_Cons split: nat.splits)
    moreover have "n \<noteq> 0" using False length_show_nat[OF assms, of n] by (cases "n = 0") simp_all
    ultimately show "length ?a = 1 \<or> hd ?a \<noteq> CHR ''0''" using hd_show_nat[of n] by simp
  qed
  moreover have "pad_zeros w (show_nat (digits_value ?b)) = ?b"
  proof (rule fixed_width_unique)
    show "length (pad_zeros w (show_nat (digits_value ?b))) = length ?b"
      using length_show_nat[OF assms, of "digits_value ?b"] b len by simp
  qed (simp_all add: pad_zeros_digits show_nat_digits digits)
  ultimately show ?thesis using False by simp
qed

lemma amount_text_value:
  assumes "1 \<le> nc_decimals n"
  shows "amount_from_zatoshi_text s n =
    (case exact_value s of None \<Rightarrow> Inl invalid_amount | Some z \<Rightarrow> Inr (amount z n))"
proof -
  obtain negative digits where sp: "split_sign s = (negative, digits)" by fastforce
  show ?thesis
  proof (cases "digits \<noteq> [] \<and> list_all is_ascii_digit digits")
    case False
    then show ?thesis by (auto simp: amount_from_zatoshi_text_def exact_value_def sp guard_def)
  next
    case True
    let ?v = "digits_value digits"
    note c = canonical_digits[OF conjunct2[OF True]]
    have zero: "show_nat ?v \<noteq> ''0'' \<longleftrightarrow> ?v \<noteq> 0" by (simp add: show_nat_eq_zero)
    have w: "0 < nc_decimals n" "nc_decimals n \<noteq> 0" using assms by simp_all
    have "amount_from_zatoshi_text s n = Inr
        \<lparr>am_zatoshi = (if negative \<and> ?v \<noteq> 0 then ''-'' else []) @ show_nat ?v,
         am_decimal = (if negative \<and> ?v \<noteq> 0 then ''-'' else []) @ show_nat (?v div 10 ^ nc_decimals n) @ ''.'' @
           pad_zeros (nc_decimals n) (show_nat (?v mod 10 ^ nc_decimals n)),
         am_symbol = nc_symbol n\<rparr>"
      unfolding amount_from_zatoshi_text_def sp prod.case Let_def c zero if_not_P[OF w(2)] split_digits[OF w(1)]
      using True by simp
    then show ?thesis
      using True by (auto simp: exact_value_def sp Let_def amount_def show_int_def)
  qed
qed

text \<open>C29. The two formatters agree.  For every network with at least one decimal, formatting the
  text of an exact sum is formatting the number: it succeeds exactly on an optional minus sign
  followed by decimal digits, leading zeros and a negative zero included, and then shows precisely
  what \<open>amount\<close> shows for that number.\<close>

theorem amount_text_agrees:
  assumes "1 \<le> nc_decimals n"
  shows "amount_from_zatoshi_text s n =
    (case exact_value s of None \<Rightarrow> Inl invalid_amount | Some z \<Rightarrow> Inr (amount z n))"
  using assms by (rule amount_text_value)

lemma exact_value_show_int: "exact_value (show_int z) = Some z"
proof -
  have "show_nat k \<noteq> [] \<and> list_all is_ascii_digit (show_nat k) \<and> digits_value (show_nat k) = k" for k
    by (simp add: show_nat_digits)
  moreover have "split_sign (show_nat k) = (False, show_nat k)" for k
    using show_nat_digits[of k] by (cases "show_nat k") (auto simp: split_sign_def)
  ultimately show ?thesis by (simp add: show_int_def exact_value_def) (simp add: split_sign_def)
qed

text \<open>With no decimals at all they differ: one prints \<open>5.0\<close>, the other \<open>5\<close>.\<close>

lemma amount_text_differs_without_decimals:
  assumes "nc_decimals n = 0"
  shows "am_decimal (amount 5 n) = ''5.0''"
    and "map_sum id am_decimal (amount_from_zatoshi_text ''5'' n) = Inr ''5''"
proof -
  have "show_nat 5 = ''5''" "show_nat 0 = ''0''" by code_simp+
  then show "am_decimal (amount 5 n) = ''5.0''" using assms by (simp add: amount_def pad_zeros_def)
  have "split_sign ''5'' = (False, ''5'')" "list_all is_ascii_digit ''5''" "trim_zeros ''5'' = ''5''" by code_simp+
  then show "map_sum id am_decimal (amount_from_zatoshi_text ''5'' n) = Inr ''5''"
    using assms by (simp add: amount_from_zatoshi_text_def Let_def)
qed

lemma amount_digits:
  fixes z :: int and w :: nat
  defines "whole \<equiv> show_nat (nat \<bar>z\<bar> div 10 ^ w)"
    and "fraction \<equiv> pad_zeros w (show_nat (nat \<bar>z\<bar> mod 10 ^ w))"
  shows "list_all is_ascii_digit (whole @ fraction)" and "length fraction = max 1 w"
    and "digits_value (whole @ fraction) = nat \<bar>z\<bar> * (if w = 0 then 10 else 1)"
proof -
  show "list_all is_ascii_digit (whole @ fraction)"
    by (simp add: whole_def fraction_def pad_zeros_digits show_nat_digits)
  show len: "length fraction = max 1 w"
  proof (cases "w = 0")
    case True
    then show ?thesis by (simp add: fraction_def show_nat.simps[of 0])
  next
    case False
    then show ?thesis using length_show_nat[of w "nat \<bar>z\<bar> mod 10 ^ w"] by (simp add: fraction_def)
  qed
  show "digits_value (whole @ fraction) = nat \<bar>z\<bar> * (if w = 0 then 10 else 1)"
  proof (cases "w = 0")
    case False
    then show ?thesis using len unfolding digits_value_append len by (simp add: whole_def fraction_def max_def div_mult_mod_eq)
  qed (simp add: digits_value_append len, simp add: whole_def fraction_def show_nat.simps[of 0] digit_value_digit_char)
qed

text \<open>The sign and the digits can be read back from the text.\<close>

lemma amount_readable:
  "hd (am_decimal (amount z n)) = CHR ''-'' \<longleftrightarrow> z < 0"
  "digits_value (filter is_ascii_digit (am_decimal (amount z n))) =
     nat \<bar>z\<bar> * (if nc_decimals n = 0 then 10 else 1)"
proof -
  let ?whole = "show_nat (nat \<bar>z\<bar> div 10 ^ nc_decimals n)"
  let ?fraction = "pad_zeros (nc_decimals n) (show_nat (nat \<bar>z\<bar> mod 10 ^ nc_decimals n))"
  have shown: "am_decimal (amount z n) = (if z < 0 then ''-'' else []) @ ?whole @ ''.'' @ ?fraction"
    by (simp add: amount_def Let_def)
  have digits: "list_all is_ascii_digit ?whole" "list_all is_ascii_digit ?fraction"
    using amount_digits(1)[where z = z and w = "nc_decimals n"] by simp_all
  have "is_ascii_digit (hd ?whole)" using digits(1) by (cases ?whole) auto
  then have "hd ?whole \<noteq> CHR ''-''" by auto
  then show "hd (am_decimal (amount z n)) = CHR ''-'' \<longleftrightarrow> z < 0" by (auto simp: shown)
  have "\<not> is_ascii_digit CHR ''.''" by (simp add: is_ascii_digit_def)
  then have "filter is_ascii_digit (am_decimal (amount z n)) = ?whole @ ?fraction"
    using digits by (simp add: shown filter_id_conv list_all_iff)
  then show "digits_value (filter is_ascii_digit (am_decimal (amount z n))) =
      nat \<bar>z\<bar> * (if nc_decimals n = 0 then 10 else 1)"
    using amount_digits(3)[where z = z and w = "nc_decimals n"] by simp
qed

lemma amount_injective: "am_decimal (amount z n) = am_decimal (amount z' n) \<longleftrightarrow> z = z'"
proof
  assume eq: "am_decimal (amount z n) = am_decimal (amount z' n)"
  then have "nat \<bar>z\<bar> * (if nc_decimals n = 0 then 10 else 1) = nat \<bar>z'\<bar> * (if nc_decimals n = 0 then 10 else 1)"
    using amount_readable(2)[of z n] amount_readable(2)[of z' n] by argo
  then have "\<bar>z\<bar> = \<bar>z'\<bar>" by (cases "nc_decimals n = 0") auto
  moreover have "z < 0 \<longleftrightarrow> z' < 0" using eq amount_readable(1) by metis
  ultimately show "z = z'" by linarith
qed simp

text \<open>An amount loses nothing.  Its decimal text is a sign exactly for a negative number, the
  shortest notation of the whole part, a point and a fraction of exactly the network's number of
  digits (one, if it has none); the digits without the point spell the absolute number of zatoshi;
  and two numbers with the same text are equal.\<close>

theorem amount_exact:
  "(\<exists>whole fraction.
     am_decimal (amount z n) = (if z < 0 then ''-'' else []) @ whole @ ''.'' @ fraction \<and>
     whole = show_nat (nat \<bar>z\<bar> div 10 ^ nc_decimals n) \<and>
     list_all is_ascii_digit (whole @ fraction) \<and>
     length fraction = max 1 (nc_decimals n) \<and>
     int (digits_value (whole @ fraction)) = \<bar>z\<bar> * (if nc_decimals n = 0 then 10 else 1)) \<and>
   (am_decimal (amount z n) = am_decimal (amount z' n)) = (z = z')"
proof -
  let ?whole = "show_nat (nat \<bar>z\<bar> div 10 ^ nc_decimals n)"
  let ?fraction = "pad_zeros (nc_decimals n) (show_nat (nat \<bar>z\<bar> mod 10 ^ nc_decimals n))"
  have "am_decimal (amount z n) = (if z < 0 then ''-'' else []) @ ?whole @ ''.'' @ ?fraction"
    by (simp add: amount_def Let_def)
  moreover have "int (digits_value (?whole @ ?fraction)) = \<bar>z\<bar> * (if nc_decimals n = 0 then 10 else 1)"
    using amount_digits(3)[where z = z and w = "nc_decimals n"] by simp
  ultimately show ?thesis
    using amount_digits(1,2)[where z = z and w = "nc_decimals n"] amount_injective by blast
qed

section \<open>The emission schedule\<close>

text \<open>\<open>u64\<close> arithmetic wraps in a release build.  A zero interval would panic; it does not load.\<close>

definition next_halving_height :: "nat \<Rightarrow> network_config \<Rightarrow> nat" where
  "next_halving_height height n =
     (if height < nc_first_halving_height n then nc_first_halving_height n
      else let elapsed = height - nc_first_halving_height n in
        (nc_first_halving_height n +
         (elapsed div nc_halving_interval n + 1) * nc_halving_interval n mod 2 ^ 64) mod 2 ^ 64)"

definition example_schedule :: network_config where
  "example_schedule = \<lparr>nc_id = [], nc_display_name = [], nc_symbol = [], nc_decimals = 8,
      nc_coinbase_maturity = 100, nc_target_spacing_seconds = 75, nc_max_supply_zat = 1,
      nc_initial_subsidy_zat = 1, nc_halving_interval = 3, nc_first_halving_height = 4,
      nc_genesis_hash = [], nc_parent_explorer_block_url = [], nc_parent_explorer_tx_url = []\<rparr>"

text \<open>The halvings of a network.\<close>

definition is_halving :: "network_config \<Rightarrow> nat \<Rightarrow> bool" where
  "is_halving n h \<longleftrightarrow> (\<exists>k. h = nc_first_halving_height n + k * nc_halving_interval n)"

text \<open>The next halving is the first one after the height: for a positive interval and numbers
  that leave room in 64 bits, the answer is a halving height of the schedule above the given height,
  and no halving lies strictly between.\<close>

theorem next_halving_is_next:
  assumes "0 < nc_halving_interval n"
    and "height + nc_first_halving_height n + nc_halving_interval n < 2 ^ 64"
  shows "is_halving n (next_halving_height height n) \<and> height < next_halving_height height n \<and>
     (\<forall>h. is_halving n h \<and> height < h \<longrightarrow> next_halving_height height n \<le> h)"
proof (cases "height < nc_first_halving_height n")
  case True
  then show ?thesis by (auto simp: next_halving_height_def is_halving_def intro: exI[of _ 0])
next
  case False
  let ?f = "nc_first_halving_height n" and ?i = "nc_halving_interval n"
  define q where "q = (height - ?f) div ?i"
  have low: "q * ?i \<le> height - ?f" unfolding q_def by (rule div_times_less_eq_dividend)
  have high: "height - ?f < (q + 1) * ?i" unfolding q_def using assms(1)
    by (metis Suc_eq_plus1 dividend_less_div_times mult.commute mult_Suc)
  have "(q + 1) * ?i \<le> height + ?i" using low by (simp add: algebra_simps)
  then have r: "next_halving_height height n = ?f + (q + 1) * ?i"
    using False assms(2) low by (simp add: next_halving_height_def Let_def q_def[symmetric] algebra_simps)
  have "?f + (q + 1) * ?i \<le> ?f + k * ?i" if "height < ?f + k * ?i" for k
  proof -
    have "q * ?i < k * ?i" using low that False by linarith
    then have "q + 1 \<le> k" by simp
    then show ?thesis by (intro add_left_mono mult_le_mono1)
  qed
  moreover have "height < ?f + (q + 1) * ?i" using high False by linarith
  ultimately show ?thesis unfolding r is_halving_def by blast
qed

theorem next_halving_is_next_witness:
  "next_halving_height 7 example_schedule = 10 \<and> is_halving example_schedule 10"
proof -
  have "next_halving_height 7 example_schedule = 10"
    by (simp add: next_halving_height_def example_schedule_def)
  then show ?thesis using next_halving_is_next[of example_schedule 7] by (simp add: example_schedule_def)
qed

theorem amount_text_agrees_witness:
  "amount_from_zatoshi_text ''-007'' example_schedule = Inr (amount (-7) example_schedule)"
proof -
  have "exact_value ''-007'' = Some (-7)" by code_simp
  then show ?thesis using amount_text_agrees[of example_schedule "''-007''"] by (simp add: example_schedule_def)
qed

end
