(* ===== verification/Api_Base.thy ===== *)
theory Api_Base imports Db_Chain Amounts begin

text \<open>
  What every handler of the HTTP API shares (\<open>src/api.rs\<close>): its state, its reads of the
  database, the response envelope, page limits and cursors, and the checks of hashes and addresses.
  The base64 engine and the address codec of \<open>zebra_chain\<close> are parameters.
\<close>

section \<open>State and reads\<close>

definition DEFAULT_PAGE_SIZE :: nat where "DEFAULT_PAGE_SIZE = 20"
definition MAX_PAGE_SIZE :: nat where "MAX_PAGE_SIZE = 100"
definition READY_MAX_AGE_SECONDS :: int where "READY_MAX_AGE_SECONDS = 30"

record app_state =
  as_network :: network_config
  as_require_parent_quorum :: bool
  as_started_at :: datetime

text \<open>One request: the database it sees at its \<open>k\<close>-th query (the indexer may commit in
  between), the failure of that query if the database refuses it, and the clock.\<close>

record request =
  rq_db :: "nat \<Rightarrow> db"
  rq_fault :: "nat \<Rightarrow> sqlx_error option"
  rq_clock :: "nat \<Rightarrow> datetime"

definition read :: "request \<Rightarrow> nat \<Rightarrow> (db \<Rightarrow> 'a result) \<Rightarrow> 'a result" where
  "read R k q = (case rq_fault R k of Some e \<Rightarrow> Inl (Database e) | None \<Rightarrow> q (rq_db R k))"

text \<open>\<open>(now - t).num_seconds().max(0)\<close>: truncation and floor differ only below zero.\<close>

definition seconds_since :: "datetime \<Rightarrow> datetime \<Rightarrow> int" where
  "seconds_since now t = max 0 ((now - t) div 1000000)"

definition load_chain_state :: "string \<Rightarrow> db \<Rightarrow> chain_state_row result" where
  "load_chain_state net d = ok_or (t_find (db_chain_state d) net) (Database RowNotFound)"

definition chain_state :: "app_state \<Rightarrow> request \<Rightarrow> chain_state_row result" where
  "chain_state S R = read R 0 (load_chain_state (nc_id (as_network S)))"

section \<open>The envelope\<close>

record page_meta =
  pm_next_cursor :: "string option"
  pm_indexed_height :: "nat option"
  pm_node_height :: "nat option"
  pm_freshness_seconds :: "int option"
  pm_network :: string

record 'a api_envelope =
  ae_data :: 'a
  ae_meta :: page_meta

definition envelope :: "app_state \<Rightarrow> datetime \<Rightarrow> 'a \<Rightarrow> string option \<Rightarrow> chain_state_row \<Rightarrow> 'a api_envelope" where
  "envelope S now data next_cursor chain =
     \<lparr>ae_data = data,
      ae_meta = \<lparr>pm_next_cursor = next_cursor,
        pm_indexed_height = Option.bind (st_indexed_height chain) u64_try_from,
        pm_node_height = Option.bind (st_node_height chain) u64_try_from,
        pm_freshness_seconds = Some (seconds_since now (st_updated_at chain)),
        pm_network = nc_id (as_network S)\<rparr>\<rparr>"

section \<open>Limits, conversions and checks\<close>

text \<open>\<open>Option<u16>::unwrap_or(default).clamp(low, high)\<close>.\<close>

definition bounded_limit :: "nat option \<Rightarrow> nat" where
  "bounded_limit lim =
     max 1 (min MAX_PAGE_SIZE (case lim of None \<Rightarrow> DEFAULT_PAGE_SIZE | Some n \<Rightarrow> n))"

definition to_u64 :: "int \<Rightarrow> string \<Rightarrow> nat result" where
  "to_u64 v label = ok_or (u64_try_from v) (InvalidNodeResponse (''negative '' @ label @ '' in index''))"

definition optional_u64 :: "int option \<Rightarrow> string \<Rightarrow> nat option result" where
  "optional_u64 v label = transpose_opt (map_option (\<lambda>i. to_u64 i label) v)"

definition api_to_i64 :: "nat \<Rightarrow> string \<Rightarrow> int result" where
  "api_to_i64 v label = ok_or (i64_try_from v) (InvalidRequest (label @ '' exceeds the supported range''))"

definition is_hash :: "string \<Rightarrow> bool" where
  "is_hash v \<longleftrightarrow> length v = 64 \<and> list_all is_ascii_hexdigit v"

definition ensure_hash :: "string \<Rightarrow> string \<Rightarrow> unit result" where
  "ensure_hash label v =
     guard (is_hash v) (InvalidRequest (label @ '' must be exactly 32 bytes of hexadecimal''))"

section \<open>Foreign codecs\<close>

text \<open>\<open>b64_*\<close>: the \<open>URL_SAFE_NO_PAD\<close> engine.  \<open>ad_*\<close>: the Wcash networks (Mainnet's
  profile may be unavailable) and the transparent address codec.\<close>

record ('net, 'addr) api_crates =
  b64_encode :: "bytes \<Rightarrow> string"
  b64_decode :: "string \<Rightarrow> bytes option"
  ad_testnet :: 'net
  ad_regtest :: 'net
  ad_mainnet :: "string + 'net"
  ad_parse :: "string \<Rightarrow> 'net \<Rightarrow> 'addr option"
  ad_encode :: "'addr \<Rightarrow> 'net \<Rightarrow> string option"

text \<open>What the cursors rely on: decoding what the engine encoded gives it back.\<close>

definition base64_ok :: "('net, 'addr) api_crates \<Rightarrow> bool" where
  "base64_ok A \<longleftrightarrow> (\<forall>bs. b64_decode A (b64_encode A bs) = Some bs)"

definition validate_address :: "('net, 'addr) api_crates \<Rightarrow> string \<Rightarrow> network_config \<Rightarrow> string result" where
  "validate_address A v n =
     rbind (if nc_id n = ''testnet'' then Inr (ad_testnet A)
            else if nc_id n = ''regtest'' then Inr (ad_regtest A)
            else if nc_id n = ''mainnet''
            then map_err (\<lambda>error. Config (''Wcash Mainnet profile is unavailable: '' @ error)) (ad_mainnet A)
            else Inl (Config (''unsupported Wcash address network '' @ nc_id n))) (\<lambda>network.
     rbind (ok_or (ad_parse A v network)
              (InvalidRequest (''address is not a valid Wcash '' @ nc_id n @ '' transparent address''))) (\<lambda>address.
     ok_or (ad_encode A address network) (InvalidRequest ''address has an invalid Wcash encoding'')))"

section \<open>Cursors\<close>

definition invalid_cursor :: explorer_error where
  "invalid_cursor = InvalidRequest ''invalid pagination cursor''"

definition encode_cursor :: "('net, 'addr) api_crates \<Rightarrow> nat \<Rightarrow> string" where
  "encode_cursor A height = b64_encode A (be_bytes 8 height)"

definition decode_cursor :: "('net, 'addr) api_crates \<Rightarrow> string \<Rightarrow> int result" where
  "decode_cursor A v =
     rbind (ok_or (b64_decode A v) invalid_cursor) (\<lambda>bs.
     rbind (guard (length bs = 8) invalid_cursor) (\<lambda>_.
     api_to_i64 (be_value bs) ''cursor''))"

text \<open>\<open>i32\<close> in big-endian two's complement.\<close>

definition be_i32 :: "bytes \<Rightarrow> int" where
  "be_i32 bs = (let v = int (be_value bs) in if v < 2 ^ 31 then v else v - 2 ^ 32)"

definition encode_tx_cursor :: "('net, 'addr) api_crates \<Rightarrow> nat \<Rightarrow> int \<Rightarrow> string" where
  "encode_tx_cursor A height position =
     b64_encode A (be_bytes 8 height @ be_bytes 4 (nat (position mod 2 ^ 32)))"

definition decode_tx_cursor :: "('net, 'addr) api_crates \<Rightarrow> string \<Rightarrow> (nat \<times> int) result" where
  "decode_tx_cursor A v =
     rbind (ok_or (b64_decode A v) invalid_cursor) (\<lambda>bs.
     rbind (guard (\<not> length bs \<noteq> 12) invalid_cursor) (\<lambda>_.
     let height = be_value (take 8 bs); position = be_i32 (drop 8 bs) in
     rbind (guard (\<not> position < 0) invalid_cursor) (\<lambda>_.
     Inr (height, position))))"

lemma be_value_be_bytes: "be_value (be_bytes k n) = n mod 256 ^ k"
  by (simp add: be_value_def be_bytes_def le_value_le_bytes)

lemma be_i32_be_bytes:
  assumes "- (2 ^ 31) \<le> p" and "p < 2 ^ 31"
  shows "be_i32 (be_bytes 4 (nat (p mod 2 ^ 32))) = p"
proof -
  have "p mod 2 ^ 32 = (if p < 0 then p + 2 ^ 32 else p)"
  proof (cases "p < 0")
    case True
    then have "(p + 2 ^ 32) mod 2 ^ 32 = p + 2 ^ 32" using assms by (intro mod_pos_pos_trivial) simp_all
    with True show ?thesis by simp
  qed (use assms in \<open>simp add: mod_pos_pos_trivial\<close>)
  moreover have "nat (p mod 2 ^ 32) < 256 ^ 4" by (simp add: nat_less_iff)
  then have "be_value (be_bytes 4 (nat (p mod 2 ^ 32))) = nat (p mod 2 ^ 32)" by (simp add: be_value_be_bytes)
  ultimately show ?thesis using assms by (simp add: be_i32_def Let_def)
qed

lemma be_bytes_be_value: "be_bytes (length bs) (be_value bs) = bs"
  using le_bytes_le_value[of "rev bs"] by (simp add: be_bytes_def be_value_def)

lemma decode_cursor_Inr:
  assumes "decode_cursor A v = Inr i"
  shows "\<exists>bs. b64_decode A v = Some bs \<and> length bs = 8 \<and> 0 \<le> i \<and> be_bytes 8 (nat i) = bs"
proof -
  from assms obtain bs where bs: "b64_decode A v = Some bs" "length bs = 8" "i = int (be_value bs)"
    by (auto simp: decode_cursor_def api_to_i64_def)
  moreover from this be_bytes_be_value[of bs] have "be_bytes 8 (nat i) = bs" by simp
  ultimately show ?thesis by simp
qed

lemma decode_tx_cursor_Inr:
  assumes "decode_tx_cursor A v = Inr (k, q)"
  shows "\<exists>bs. b64_decode A v = Some bs \<and> length bs = 12 \<and> 0 \<le> q \<and> be_bytes 8 k @ be_bytes 4 (nat q) = bs"
proof -
  from assms obtain bs where bs: "b64_decode A v = Some bs" "length bs = 12" "k = be_value (take 8 bs)"
    "q = be_i32 (drop 8 bs)" "0 \<le> q" by (auto simp: decode_tx_cursor_def Let_def)
  have "be_value (drop 8 bs) < 256 ^ 4"
    using le_value_bound[of "rev (drop 8 bs)"] bs(2) by (simp add: be_value_def)
  then have "nat q = be_value (drop 8 bs)" using bs(4,5) by (simp add: be_i32_def Let_def split: if_splits)
  then have "be_bytes 8 k @ be_bytes 4 (nat q) = bs"
    using be_bytes_be_value[of "take 8 bs"] be_bytes_be_value[of "drop 8 bs"] bs(2,3) by simp
  with bs show ?thesis by simp
qed

lemma cursor_inverse:
  "base64_ok A \<Longrightarrow> h < 2 ^ 64 \<Longrightarrow> decode_cursor A (encode_cursor A h) = api_to_i64 h ''cursor''"
  by (simp add: base64_ok_def decode_cursor_def encode_cursor_def be_value_be_bytes guard_def)

lemma tx_cursor_inverse:
  assumes "base64_ok A" and "h < 2 ^ 64" and "- (2 ^ 31) \<le> p" and "p < 2 ^ 31"
  shows "decode_tx_cursor A (encode_tx_cursor A h p) = (if p < 0 then Inl invalid_cursor else Inr (h, p))"
  using assms(1,2) be_i32_be_bytes[OF assms(3,4)]
  by (simp add: base64_ok_def decode_tx_cursor_def encode_tx_cursor_def be_value_be_bytes guard_def Let_def)

text \<open>C30. A cursor stands for exactly one place.  Decoding an issued cursor gives back its height, or
  height and position, for all values of their types; a transaction cursor with a negative position
  and a height cursor beyond \<open>i64\<close> are refused; and every accepted string decodes to exactly 8, or
  12, bytes.\<close>

theorem cursor_roundtrip:
  assumes "base64_ok A" and "h < 2 ^ 64" and "- (2 ^ 31) \<le> p" and "p < 2 ^ 31"
  shows "decode_cursor A (encode_cursor A h) = api_to_i64 h ''cursor'' \<and>
     decode_tx_cursor A (encode_tx_cursor A h p) = (if p < 0 then Inl invalid_cursor else Inr (h, p)) \<and>
     (\<forall>v i. decode_cursor A v = Inr i \<longrightarrow>
        (\<exists>bs. b64_decode A v = Some bs \<and> length bs = 8 \<and> 0 \<le> i \<and> be_bytes 8 (nat i) = bs)) \<and>
     (\<forall>v k q. decode_tx_cursor A v = Inr (k, q) \<longrightarrow>
        (\<exists>bs. b64_decode A v = Some bs \<and> length bs = 12 \<and> 0 \<le> q \<and> be_bytes 8 k @ be_bytes 4 (nat q) = bs))"
  using cursor_inverse[OF assms(1,2)] tx_cursor_inverse[OF assms] decode_cursor_Inr[of A] decode_tx_cursor_Inr[of A]
  by blast

definition example_api :: "(unit, string) api_crates" where
  "example_api =
     \<lparr>b64_encode = map (\<lambda>b. char_of (unat b)), b64_decode = (\<lambda>s. Some (map (\<lambda>c. word_of_nat (of_char c)) s)),
      ad_testnet = (), ad_regtest = (), ad_mainnet = Inr (), ad_parse = (\<lambda>s _. Some s), ad_encode = (\<lambda>s _. Some s)\<rparr>"

lemma example_base64_ok: "base64_ok example_api"
proof -
  have "word_of_nat (of_char (char_of (unat b))) = b" for b :: u8 using unat_u8_bound[of b] by simp
  then show ?thesis by (simp add: base64_ok_def example_api_def comp_def)
qed

theorem cursor_roundtrip_witness:
  "decode_cursor example_api (encode_cursor example_api 300) = Inr 300 \<and>
   decode_tx_cursor example_api (encode_tx_cursor example_api 300 2) = Inr (300, 2) \<and>
   decode_tx_cursor example_api (encode_tx_cursor example_api 300 (-2)) = Inl invalid_cursor"
  using cursor_roundtrip[OF example_base64_ok, of 300 2] cursor_roundtrip[OF example_base64_ok, of 300 "-2"]
  by (simp add: api_to_i64_def i64_try_from_def)

end
