(* ===== verification/Paging.thy ===== *)
theory Paging imports Api_Base begin

text \<open>
  Keyset pagination, as the block and the transaction lists share it: a page holds the rows below
  the cursor's key, one row more than the limit is fetched to see whether there are others, and the
  next cursor names the last row shown.  Following the cursors from the first page lists every row
  exactly once, in order.
\<close>

section \<open>Following the cursors\<close>

inductive crawl :: "(string option \<Rightarrow> ('v list \<times> string option) result) \<Rightarrow> string option \<Rightarrow> 'v list \<Rightarrow> bool" for page where
  final: "page c = Inr (vs, None) \<Longrightarrow> crawl page c vs"
| more: "page c = Inr (vs, Some c') \<Longrightarrow> crawl page (Some c') ws \<Longrightarrow> crawl page c (vs @ ws)"

inductive_simps crawl_iff: "crawl page c vs"

lemma crawl_deterministic: "crawl page c vs \<Longrightarrow> crawl page c ws \<Longrightarrow> vs = ws"
proof (induction arbitrary: ws rule: crawl.induct)
  case (final c vs)
  then show ?case by (auto elim: crawl.cases)
next
  case (more c vs c' us)
  from more.prems more.hyps(1) obtain us' where "ws = vs @ us'" "crawl page (Some c') us'"
    by (auto elim: crawl.cases)
  with more.IH show ?case by simp
qed

text \<open>The rows below a bound.\<close>

definition below :: "('r \<Rightarrow> 'k :: linorder) \<Rightarrow> 'k option \<Rightarrow> 'r list \<Rightarrow> 'r list" where
  "below key before rows = filter (\<lambda>r. case before of None \<Rightarrow> True | Some k \<Rightarrow> key r < k) rows"

text \<open>The part of a handler between its cursor and its envelope: \<open>row\<close> computes a row's columns,
  \<open>view\<close> its public form.\<close>

definition keyset_page ::
    "('r \<Rightarrow> 'k :: linorder) \<Rightarrow> ('r \<Rightarrow> 'w result) \<Rightarrow> ('w \<Rightarrow> 'v result) \<Rightarrow> ('v \<Rightarrow> string) \<Rightarrow> (string \<Rightarrow> 'k result) \<Rightarrow>
     'r list \<Rightarrow> nat \<Rightarrow> string option \<Rightarrow> ('v list \<times> string option) result" where
  "keyset_page key row view enc dec rows lim cursor =
     rbind (transpose_opt (map_option dec cursor)) (\<lambda>before.
     rbind (collect_res (map row (take (Suc lim) (below key before rows)))) (\<lambda>ws.
     rbind (collect_res (map view (take lim ws))) (\<lambda>vs.
     Inr (vs, if length ws > lim then map_option enc (last_opt vs) else None))))"

section \<open>The contract\<close>

locale paged_list =
  fixes key :: "'r \<Rightarrow> 'k :: linorder"
    and row :: "'r \<Rightarrow> 'w result"
    and view :: "'w \<Rightarrow> 'v result"
    and enc :: "'v \<Rightarrow> string"
    and dec :: "string \<Rightarrow> 'k result"
    and ok :: "'r \<Rightarrow> bool"
  assumes cursor_names_row: "ok r \<Longrightarrow> row r = Inr w \<Longrightarrow> view w = Inr v \<Longrightarrow> dec (enc v) = Inr (key r)"
begin

definition item :: "'r \<Rightarrow> 'v result" where
  "item r = rbind (row r) view"

lemma items_split:
  assumes "map item rs = map Inr vs"
  shows "\<exists>ws. map row rs = map Inr ws \<and> map view ws = map Inr vs"
  using assms
proof (induction rs arbitrary: vs)
  case (Cons r rs)
  then obtain v vs' where vs: "vs = v # vs'" "item r = Inr v" "map item rs = map Inr vs'" by (cases vs) auto
  from Cons.IH[OF vs(3)] obtain ws where "map row rs = map Inr ws" "map view ws = map Inr vs'" by blast
  moreover from vs(2) obtain w where "row r = Inr w" "view w = Inr v" by (auto simp: item_def)
  ultimately show ?case using vs(1) by (intro exI[of _ "w # ws"]) simp
qed simp

text \<open>One page.\<close>

lemma page_ok:
  assumes "transpose_opt (map_option dec cursor) = Inr before"
    and "map item (below key before rows) = map Inr vs"
  shows "keyset_page key row view enc dec rows lim cursor =
     Inr (take lim vs, if length vs > lim then map_option enc (last_opt (take lim vs)) else None)"
proof -
  let ?rs = "below key before rows"
  have len: "length ?rs = length vs" using assms(2) by (metis length_map)
  have "map item (take (Suc lim) ?rs) = map Inr (take (Suc lim) vs)" using assms(2) by (metis take_map)
  from items_split[OF this] obtain ws where ws: "map row (take (Suc lim) ?rs) = map Inr ws"
    "map view ws = map Inr (take (Suc lim) vs)" by blast
  have "map view (take lim ws) = map Inr (take lim vs)"
    using arg_cong[OF ws(2), of "take lim"] by (simp add: take_map min_absorb1)
  moreover have "length ws = min (length vs) (Suc lim)" using arg_cong[OF ws(2), of length] by simp
  ultimately show ?thesis using ws(1) assms(1)
    by (auto simp: keyset_page_def collect_res_Inr[THEN iffD2])
qed

lemma below_next:
  assumes "sorted_wrt (\<lambda>a b. key b < key a) rs" and "n < length rs"
  shows "below key (Some (key (rs ! n))) rs = drop (Suc n) rs"
proof -
  have "rs = take (Suc n) rs @ drop (Suc n) rs" by simp
  moreover have "filter (\<lambda>r. key r < key (rs ! n)) (take (Suc n) rs) = []"
    using assms by (auto simp: filter_empty_conv in_set_conv_nth sorted_wrt_iff_nth_less not_less less_Suc_eq)
      (blast intro: less_imp_le)
  moreover have "filter (\<lambda>r. key r < key (rs ! n)) (drop (Suc n) rs) = drop (Suc n) rs"
    using assms by (auto simp: filter_id_conv in_set_conv_nth sorted_wrt_iff_nth_less)
  ultimately show ?thesis unfolding below_def option.case by (metis append_Nil filter_append)
qed

lemma below_below:
  assumes "sorted_wrt (\<lambda>a b. key b < key a) rows" and "rs = below key before rows" and "n < length rs"
  shows "below key (Some (key (rs ! n))) rows = drop (Suc n) rs"
proof -
  have sorted: "sorted_wrt (\<lambda>a b. key b < key a) rs"
    using assms(1) unfolding assms(2) below_def by (rule sorted_wrt_filter)
  have "key (rs ! n) < k" if "before = Some k" for k
    using assms(3) nth_mem[OF assms(3)] that by (auto simp: assms(2) below_def)
  then have "below key (Some (key (rs ! n))) rows = below key (Some (key (rs ! n))) rs"
    by (cases before) (auto simp: assms(2) below_def intro!: filter_cong)
  then show ?thesis using below_next[OF sorted assms(3)] by simp
qed

text \<open>Every page from a cursor on, concatenated: the rows below it, exactly once, in order.\<close>

lemma crawl_complete:
  assumes "sorted_wrt (\<lambda>a b. key b < key a) rows" and "\<forall>r \<in> set rows. ok r" and "0 < lim"
    and "transpose_opt (map_option dec cursor) = Inr before"
    and "map item (below key before rows) = map Inr vs"
  shows "crawl (keyset_page key row view enc dec rows lim) cursor vs"
  using assms(4,5)
proof (induction "length vs" arbitrary: cursor before vs rule: less_induct)
  case less
  let ?page = "keyset_page key row view enc dec rows lim"
  note page = page_ok[OF less.prems, of lim]
  show ?case
  proof (cases "length vs > lim")
    case False
    then show ?thesis using page by (intro crawl.final) simp
  next
    case True
    define rs where "rs = below key before rows"
    have len: "length rs = length vs" using less.prems(2) unfolding rs_def by (metis length_map)
    define n where "n = lim - 1"
    have n: "n < length rs" "Suc n = lim" "n < length vs" using assms(3) True len by (simp_all add: n_def)
    have "item (rs ! n) = Inr (vs ! n)"
      using arg_cong[OF less.prems(2), of "\<lambda>xs. xs ! n"] n len by (simp add: rs_def)
    then obtain w where w: "row (rs ! n) = Inr w" "view w = Inr (vs ! n)" by (auto simp: item_def)
    have "rs ! n \<in> set rows" using nth_mem[OF n(1)] by (auto simp: rs_def below_def)
    then have dec: "dec (enc (vs ! n)) = Inr (key (rs ! n))" using assms(2) cursor_names_row[OF _ w] by simp
    have lst: "last_opt (take lim vs) = Some (vs ! n)"
      using n True by (auto simp: last_opt_def last_conv_nth)
    have "map item (below key (Some (key (rs ! n))) rows) = map Inr (drop lim vs)"
      using below_below[OF assms(1) rs_def n(1)] n(2) less.prems(2) by (metis drop_map rs_def)
    then have "crawl ?page (Some (enc (vs ! n))) (drop lim vs)"
      using less.hyps[of "drop lim vs" "Some (enc (vs ! n))" "Some (key (rs ! n))"] True assms(3) dec by simp
    then have "crawl ?page cursor (take lim vs @ drop lim vs)"
      using page True lst by (intro crawl.more) simp_all
    then show ?thesis by simp
  qed
qed

lemma crawl_exact:
  assumes "sorted_wrt (\<lambda>a b. key b < key a) rows" and "\<forall>r \<in> set rows. ok r" and "0 < lim"
    and "transpose_opt (map_option dec cursor) = Inr before"
    and "map item (below key before rows) = map Inr vs"
  shows "crawl (keyset_page key row view enc dec rows lim) cursor ws \<longleftrightarrow> ws = vs"
  using crawl_complete[OF assms] crawl_deterministic by blast

end

end
