(* ===== verification/Api_Transactions.thy ===== *)
theory Api_Transactions imports Paging begin

text \<open>
  Transactions of the canonical chain: the three queries over \<open>transaction_instances\<close>, the public
  form of a row, and the handlers of the list and of one transaction (\<open>src/api.rs\<close>).  A query
  yields its rows in the order of its \<open>ORDER BY\<close>; a value that leaves \<open>BIGINT\<close> is the
  database error PostgreSQL raises.
\<close>

section \<open>SQL values\<close>

definition numeric_out_of_range :: explorer_error where
  "numeric_out_of_range = Database (DatabaseError (Some ''22003''))"

definition bigint :: "int \<Rightarrow> int result" where
  "bigint i = rbind (guard (- (2 ^ 63) \<le> i \<and> i < 2 ^ 63) numeric_out_of_range) (\<lambda>_. Inr i)"

section \<open>Places of transactions\<close>

text \<open>A place in the chain: block height and position in the block, in the order of the lists.\<close>

datatype tx_place = Tx_Place (place_height: int) (place_position: int)

instantiation tx_place :: linorder
begin

definition less_eq_tx_place :: "tx_place \<Rightarrow> tx_place \<Rightarrow> bool" where
  "p \<le> q \<longleftrightarrow> place_height p < place_height q \<or>
     place_height p = place_height q \<and> place_position p \<le> place_position q"

definition less_tx_place :: "tx_place \<Rightarrow> tx_place \<Rightarrow> bool" where
  "p < q \<longleftrightarrow> place_height p < place_height q \<or>
     place_height p = place_height q \<and> place_position p < place_position q"

instance
  by standard (auto simp: less_eq_tx_place_def less_tx_place_def tx_place.expand)

end

section \<open>Rows\<close>

record tx_row =
  tw_transaction_instance_id :: int
  tw_txid :: string
  tw_instance_digest :: string
  tw_auth_digest :: "string option"
  tw_version :: int
  tw_size_bytes :: int
  tw_is_coinbase :: bool
  tw_fee_zat :: "int option"
  tw_value_balance_zat :: "int option"
  tw_sapling_spend_count :: int
  tw_sapling_output_count :: int
  tw_orchard_action_count :: int
  tw_ironwood_action_count :: int
  tw_block_height :: int
  tw_block_hash :: string
  tw_block_time :: datetime
  tw_tx_position :: int
  tw_transparent_input_count :: int
  tw_transparent_output_count :: int
  tw_public_output_zat :: int

text \<open>A joined row before its columns are computed: height, block hash, block row, position,
  instance number and instance.\<close>

type_synonym tx_join = "int \<times> string \<times> block_row \<times> int \<times> int \<times> instance_row"

definition tx_columns :: "db \<Rightarrow> tx_join \<Rightarrow> tx_row result" where
  "tx_columns d = (\<lambda>(height, hash, b, position, i, t).
     rbind (bigint (sum_list (map (\<lambda>(_, ro). or_value_zat ro) (rows_of i (db_outputs d))))) (\<lambda>public.
     Inr \<lparr>tw_transaction_instance_id = i, tw_txid = tr_txid t, tw_instance_digest = tr_instance_digest t,
       tw_auth_digest = tr_auth_digest t, tw_version = tr_version t, tw_size_bytes = tr_size_bytes t,
       tw_is_coinbase = tr_is_coinbase t, tw_fee_zat = tr_fee_zat t,
       tw_value_balance_zat = tr_value_balance_zat t, tw_sapling_spend_count = tr_sapling_spend_count t,
       tw_sapling_output_count = tr_sapling_output_count t,
       tw_orchard_action_count = tr_orchard_action_count t,
       tw_ironwood_action_count = tr_ironwood_action_count t, tw_block_height = height,
       tw_block_hash = hash, tw_block_time = br_block_time b, tw_tx_position = position,
       tw_transparent_input_count = int (length (rows_of i (db_inputs d))),
       tw_transparent_output_count = int (length (rows_of i (db_outputs d))),
       tw_public_output_zat = public\<rparr>))"

text \<open>The transactions of one stored block, by position.\<close>

definition block_joins :: "db \<Rightarrow> int \<Rightarrow> string \<Rightarrow> string \<Rightarrow> block_row \<Rightarrow> tx_join list" where
  "block_joins d height hash witness b =
     List.map_filter (\<lambda>(position, i). map_option (\<lambda>t. (height, hash, b, position, i, t)) (t_find (db_instances d) i))
       (rows_of (hash, witness) (db_block_transactions d))"

text \<open>\<open>canonical_chain JOIN blocks JOIN block_transactions JOIN transaction_instances\<close>, latest
  first.\<close>

definition canonical_txs :: "string \<Rightarrow> db \<Rightarrow> tx_join list" where
  "canonical_txs net d =
     concat (map (\<lambda>(height, c).
         case t_find (db_blocks d) (cr_block_hash c) of
           None \<Rightarrow> []
         | Some b \<Rightarrow> rev (block_joins d height (cr_block_hash c) (cr_witness_hash c) b))
       (rev (rows_of net (db_canonical d))))"

definition join_place :: "tx_join \<Rightarrow> tx_place" where
  "join_place = (\<lambda>(height, _, _, position, _, _). Tx_Place height position)"

definition TRANSACTION_SUMMARY_QUERY :: "string \<Rightarrow> tx_place option \<Rightarrow> nat \<Rightarrow> db \<Rightarrow> tx_row list result" where
  "TRANSACTION_SUMMARY_QUERY net before lim d =
     collect_res (map (tx_columns d) (take lim (below join_place before (canonical_txs net d))))"

definition TRANSACTION_DETAIL_QUERY :: "string \<Rightarrow> string \<Rightarrow> string option \<Rightarrow> db \<Rightarrow> tx_row option result" where
  "TRANSACTION_DETAIL_QUERY net txid block d =
     transpose_opt (map_option (tx_columns d)
       (List.find (\<lambda>(_, hash, _, _, _, t). tr_txid t = txid \<and> (case block of None \<Rightarrow> True | Some h \<Rightarrow> hash = h))
          (canonical_txs net d)))"

definition TRANSACTIONS_FOR_BLOCK_QUERY :: "string \<Rightarrow> string \<Rightarrow> db \<Rightarrow> tx_row list result" where
  "TRANSACTIONS_FOR_BLOCK_QUERY hash witness d =
     (case t_find (db_blocks d) hash of
        None \<Rightarrow> Inr []
      | Some b \<Rightarrow> collect_res (map (tx_columns d) (block_joins d (br_height b) hash witness b)))"

section \<open>The public form\<close>

record tx_summary =
  ts_txid :: string
  ts_instance_digest :: string
  ts_instance_digest_kind :: string
  ts_auth_digest :: "string option"
  ts_version :: int
  ts_size_bytes :: int
  ts_is_coinbase :: bool
  ts_kind :: string
  ts_fee :: "amount_view option"
  ts_public_output_value :: amount_view
  ts_value_balance :: "amount_view option"
  ts_transparent_input_count :: int
  ts_transparent_output_count :: int
  ts_sapling_spend_count :: int
  ts_sapling_output_count :: int
  ts_orchard_action_count :: int
  ts_ironwood_action_count :: int
  ts_block_height :: nat
  ts_block_hash :: string
  ts_block_time :: datetime
  ts_position :: int

definition tx_kind :: "tx_row \<Rightarrow> string" where
  "tx_kind r =
     (let has_transparent = (tw_transparent_input_count r > 0 \<or> tw_transparent_output_count r > 0);
          has_shielded = (tw_sapling_spend_count r > 0 \<or> tw_sapling_output_count r > 0 \<or>
            tw_orchard_action_count r > 0 \<or> tw_ironwood_action_count r > 0) in
      if tw_is_coinbase r then ''coinbase''
      else if has_transparent \<and> has_shielded then ''mixed''
      else if has_shielded then ''shielded''
      else ''transparent'')"

definition tx_from_row :: "network_config \<Rightarrow> tx_row \<Rightarrow> tx_summary result" where
  "tx_from_row n r =
     rbind (to_u64 (tw_block_height r) ''block height'') (\<lambda>height.
     Inr \<lparr>ts_txid = tw_txid r, ts_instance_digest = tw_instance_digest r,
       ts_instance_digest_kind = (if tw_version r \<ge> 5 then ''consensus-auth-digest'' else ''explorer-raw-hash''),
       ts_auth_digest = tw_auth_digest r, ts_version = tw_version r, ts_size_bytes = tw_size_bytes r,
       ts_is_coinbase = tw_is_coinbase r, ts_kind = tx_kind r,
       ts_fee = map_option (\<lambda>v. amount v n) (tw_fee_zat r),
       ts_public_output_value = amount (tw_public_output_zat r) n,
       ts_value_balance = map_option (\<lambda>v. amount v n) (tw_value_balance_zat r),
       ts_transparent_input_count = tw_transparent_input_count r,
       ts_transparent_output_count = tw_transparent_output_count r,
       ts_sapling_spend_count = tw_sapling_spend_count r,
       ts_sapling_output_count = tw_sapling_output_count r,
       ts_orchard_action_count = tw_orchard_action_count r,
       ts_ironwood_action_count = tw_ironwood_action_count r, ts_block_height = height,
       ts_block_hash = tw_block_hash r, ts_block_time = tw_block_time r, ts_position = tw_tx_position r\<rparr>)"

section \<open>The handlers\<close>

record page_query =
  pq_cursor :: "string option"
  pq_limit :: "nat option"

definition I32_MAX :: int where "I32_MAX = 2 ^ 31 - 1"

text \<open>The bounds the list query is called with.\<close>

definition tx_before :: "(nat \<times> int) option \<Rightarrow> tx_place option result" where
  "tx_before before =
     rbind (transpose_opt (map_option (\<lambda>(h, _). api_to_i64 h ''transaction cursor height'') before)) (\<lambda>height.
     Inr (map_option (\<lambda>h. Tx_Place h (case before of None \<Rightarrow> I32_MAX | Some (_, p) \<Rightarrow> p)) height))"

definition transactions ::
    "('net, 'addr) api_crates \<Rightarrow> app_state \<Rightarrow> request \<Rightarrow> page_query \<Rightarrow> tx_summary list api_envelope result" where
  "transactions A S R q =
     rbind (chain_state S R) (\<lambda>chain.
     rbind (transpose_opt (map_option (decode_tx_cursor A) (pq_cursor q))) (\<lambda>before.
     let lim = bounded_limit (pq_limit q) in
     rbind (tx_before before) (\<lambda>bounds.
     rbind (read R 1 (TRANSACTION_SUMMARY_QUERY (nc_id (as_network S)) bounds (lim + 1))) (\<lambda>rows.
     let has_more = length rows > lim in
     rbind (collect_res (map (tx_from_row (as_network S)) (take lim rows))) (\<lambda>data.
     let next_cursor = (if has_more
           then map_option (\<lambda>tx. encode_tx_cursor A (ts_block_height tx) (ts_position tx)) (last_opt data)
           else None) in
     Inr (envelope S (rq_clock R 0) data next_cursor chain))))))"

record input_view =
  iv_input_index :: int
  iv_row :: input_row

record output_view =
  ov_index :: int
  ov_value :: amount_view
  ov_address :: "string option"
  ov_script_type :: "string option"
  ov_script_hex :: "string option"

record tx_detail =
  td_summary :: tx_summary
  td_inputs :: "input_view list"
  td_outputs :: "output_view list"
  td_raw_rpc :: json

definition input_views :: "int \<Rightarrow> db \<Rightarrow> input_view list" where
  "input_views i d = map (\<lambda>(k, r). \<lparr>iv_input_index = k, iv_row = r\<rparr>) (rows_of i (db_inputs d))"

definition output_views :: "network_config \<Rightarrow> int \<Rightarrow> db \<Rightarrow> output_view list" where
  "output_views n i d =
     map (\<lambda>(k, r). \<lparr>ov_index = k, ov_value = amount (or_value_zat r) n, ov_address = or_address r,
        ov_script_type = or_script_type r, ov_script_hex = or_script_hex r\<rparr>) (rows_of i (db_outputs d))"

definition transaction ::
    "app_state \<Rightarrow> request \<Rightarrow> string \<Rightarrow> string option \<Rightarrow> tx_detail api_envelope result" where
  "transaction S R txid block =
     rbind (ensure_hash ''transaction ID'' txid) (\<lambda>_.
     rbind (transpose_opt (map_option (ensure_hash ''block hash'') block)) (\<lambda>_.
     rbind (chain_state S R) (\<lambda>chain.
     rbind (read R 1 (TRANSACTION_DETAIL_QUERY (nc_id (as_network S)) txid block)) (\<lambda>found.
     rbind (ok_or found NotFound) (\<lambda>row.
     let instance_id = tw_transaction_instance_id row in
     rbind (tx_from_row (as_network S) row) (\<lambda>summary.
     rbind (read R 2 (\<lambda>d. Inr (input_views instance_id d))) (\<lambda>inputs.
     rbind (read R 3 (\<lambda>d. Inr (output_views (as_network S) instance_id d))) (\<lambda>outputs.
     rbind (read R 4 (\<lambda>d. ok_or (map_option tr_raw_rpc (t_find (db_instances d) instance_id)) (Database RowNotFound))) (\<lambda>raw_rpc.
     Inr (envelope S (rq_clock R 0)
       \<lparr>td_summary = summary, td_inputs = inputs, td_outputs = outputs, td_raw_rpc = raw_rpc\<rparr> None chain))))))))))"

end
