(* ===== verification/Api_Blocks.thy ===== *)
theory Api_Blocks imports Api_Transactions "HOL-Library.List_Lexorder" "HOL-Library.Char_ord" begin

text \<open>
  Blocks of the canonical chain: the summary and detail queries, the public form of a row, looking
  a block up by height or hash, its AuxPoW evidence, and the handlers of the list, of one block, of
  its bytes and of its evidence (\<open>src/api.rs\<close>).  Text columns are ordered bytewise.
\<close>

section \<open>Rows\<close>

record block_summary_row =
  bw_height :: int
  bw_hash :: string
  bw_witness_hash :: string
  bw_block_time :: datetime
  bw_size_bytes :: int
  bw_transaction_count :: int
  bw_bits :: string
  bw_difficulty_text :: string
  bw_reward_zat :: int
  bw_exact_witness_state :: string
  bw_witness_confirmations :: "int option"
  bw_local_validation_state :: string
  bw_parent_block_hash :: "string option"
  bw_parent_lookup_state :: "string option"
  bw_parent_sources_agree :: "bool option"
  bw_parent_height :: "int option"
  bw_parent_confirmations :: "int option"

text \<open>\<open>MAX\<close> over a column that may be null; \<open>SUM\<close> over no rows is null.\<close>

definition sql_max :: "int option list \<Rightarrow> int option" where
  "sql_max vs = (case List.map_filter id vs of [] \<Rightarrow> None | x # xs \<Rightarrow> Some (fold max xs x))"

definition sql_sum :: "int list \<Rightarrow> int option" where
  "sql_sum vs = (if vs = [] then None else Some (sum_list vs))"

text \<open>A selection joined with its block and its witness.\<close>

type_synonym block_join = "int \<times> canonical_row \<times> block_row \<times> witness_row"

definition canonical_blocks :: "string \<Rightarrow> db \<Rightarrow> block_join list" where
  "canonical_blocks net d =
     List.map_filter (\<lambda>(height, c).
       case (t_find (db_blocks d) (cr_block_hash c), t_find (db_witnesses d) (cr_block_hash c, cr_witness_hash c)) of
         (Some b, Some w) \<Rightarrow> Some (height, c, b, w)
       | _ \<Rightarrow> None) (rev (rows_of net (db_canonical d)))"

definition join_height :: "block_join \<Rightarrow> int" where
  "join_height = (\<lambda>(height, _, _, _). height)"

text \<open>The supply reported for the block selected below.\<close>

definition previous_supply :: "string \<Rightarrow> db \<Rightarrow> int \<Rightarrow> int option" where
  "previous_supply net d height =
     Option.bind (t_find (db_canonical d) (net, height - 1)) (\<lambda>c.
     Option.bind (t_find (db_blocks d) (cr_block_hash c)) br_chain_supply_zat)"

definition coinbase_outputs :: "string \<Rightarrow> string \<Rightarrow> db \<Rightarrow> int list" where
  "coinbase_outputs hash witness d =
     concat (map (\<lambda>(_, i). case t_find (db_instances d) i of
         None \<Rightarrow> []
       | Some t \<Rightarrow> if tr_is_coinbase t then map (\<lambda>(_, ro). or_value_zat ro) (rows_of i (db_outputs d)) else [])
       (rows_of (hash, witness) (db_block_transactions d)))"

definition reward_zat :: "string \<Rightarrow> db \<Rightarrow> block_join \<Rightarrow> int result" where
  "reward_zat net d = (\<lambda>(height, c, b, w).
     (case br_chain_supply_zat b of
        Some supply \<Rightarrow> bigint (supply - (case previous_supply net d height of None \<Rightarrow> 0 | Some p \<Rightarrow> p))
      | None \<Rightarrow>
          (case sql_sum (coinbase_outputs (cr_block_hash c) (cr_witness_hash c) d) of
             None \<Rightarrow> Inr 0 | Some v \<Rightarrow> bigint v)))"

definition canonical_height :: "string \<Rightarrow> db \<Rightarrow> int option" where
  "canonical_height net d = sql_max (map (\<lambda>(h, _). Some h) (rows_of net (db_canonical d)))"

definition observations_of :: "string \<Rightarrow> string \<Rightarrow> db \<Rightarrow> (string \<times> observation_row) list" where
  "observations_of hash witness d =
     sort_key fst (map (\<lambda>((_, source), ob). (source, ob))
       (filter (\<lambda>((w, _), _). w = (hash, witness)) (db_observations d)))"

definition canonical_observations :: "string \<Rightarrow> string \<Rightarrow> db \<Rightarrow> observation_row list" where
  "canonical_observations hash witness d =
     filter (\<lambda>ob. ow_observation_state ob = ''canonical'') (map snd (observations_of hash witness d))"

definition block_columns :: "string \<Rightarrow> db \<Rightarrow> block_join \<Rightarrow> block_summary_row result" where
  "block_columns net d = (\<lambda>(height, c, b, w).
     rbind (reward_zat net d (height, c, b, w)) (\<lambda>reward.
     let hash = cr_block_hash c; witness = cr_witness_hash c; link = t_find (db_links d) (hash, witness) in
     Inr \<lparr>bw_height = height, bw_hash = hash, bw_witness_hash = witness, bw_block_time = br_block_time b,
       bw_size_bytes = br_size_bytes b, bw_transaction_count = br_transaction_count b, bw_bits = br_bits b,
       bw_difficulty_text = br_difficulty_text b, bw_reward_zat = reward,
       bw_exact_witness_state = wr_exact_witness_state w,
       bw_witness_confirmations = map_option (\<lambda>tip. tip - height + 1) (canonical_height net d),
       bw_local_validation_state = wr_local_validation_state w,
       bw_parent_block_hash = map_option lk_parent_block_hash link,
       bw_parent_lookup_state = map_option lk_parent_lookup_state link,
       bw_parent_sources_agree = map_option lk_parent_sources_agree link,
       bw_parent_height = sql_max (map ow_parent_height (canonical_observations hash witness d)),
       bw_parent_confirmations = sql_max (map ow_parent_confirmations (canonical_observations hash witness d))\<rparr>))"

definition BLOCK_SUMMARY_QUERY :: "string \<Rightarrow> int option \<Rightarrow> nat \<Rightarrow> db \<Rightarrow> block_summary_row list result" where
  "BLOCK_SUMMARY_QUERY net before lim d =
     collect_res (map (block_columns net d) (take lim (below join_height before (canonical_blocks net d))))"

record block_detail_row =
  bd_summary :: block_summary_row
  bd_previous_block_hash :: "string option"
  bd_next_block_hash :: "string option"
  bd_merkle_root :: string
  bd_block_commitments :: "string option"
  bd_nonce :: string

definition BLOCK_DETAIL_QUERY :: "string \<Rightarrow> int option \<Rightarrow> string option \<Rightarrow> db \<Rightarrow> block_detail_row option result" where
  "BLOCK_DETAIL_QUERY net height hash d =
     transpose_opt (map_option (\<lambda>(h, c, b, w).
         rbind (block_columns net d (h, c, b, w)) (\<lambda>summary.
         Inr \<lparr>bd_summary = summary, bd_previous_block_hash = br_previous_block_hash b,
           bd_next_block_hash = map_option cr_block_hash (t_find (db_canonical d) (net, h + 1)),
           bd_merkle_root = br_merkle_root b, bd_block_commitments = br_block_commitments b,
           bd_nonce = br_nonce b\<rparr>))
       (List.find (\<lambda>(h, c, _, _). height = Some h \<or> hash = Some (cr_block_hash c)) (canonical_blocks net d)))"

section \<open>The public form\<close>

record merge_mining_summary =
  mm_exact_witness_state :: string
  mm_local_validation_state :: string
  mm_parent_block_hash :: "string option"
  mm_parent_lookup_state :: string
  mm_parent_sources_agree :: bool
  mm_parent_height :: "nat option"
  mm_parent_confirmations :: "nat option"

record block_summary =
  bs_height :: nat
  bs_hash :: string
  bs_witness_hash :: string
  bs_time :: datetime
  bs_size_bytes :: int
  bs_transaction_count :: int
  bs_bits :: string
  bs_difficulty :: string
  bs_reward :: amount_view
  bs_confirmations :: nat
  bs_merge_mining :: merge_mining_summary

definition block_from_row :: "network_config \<Rightarrow> block_summary_row \<Rightarrow> block_summary result" where
  "block_from_row n r =
     rbind (to_u64 (bw_height r) ''block height'') (\<lambda>height.
     Inr \<lparr>bs_height = height, bs_hash = bw_hash r, bs_witness_hash = bw_witness_hash r,
       bs_time = bw_block_time r, bs_size_bytes = bw_size_bytes r,
       bs_transaction_count = bw_transaction_count r, bs_bits = bw_bits r,
       bs_difficulty = bw_difficulty_text r, bs_reward = amount (bw_reward_zat r) n,
       bs_confirmations = nat (case bw_witness_confirmations r of None \<Rightarrow> 0 | Some k \<Rightarrow> k),
       bs_merge_mining =
         \<lparr>mm_exact_witness_state = bw_exact_witness_state r,
          mm_local_validation_state = bw_local_validation_state r,
          mm_parent_block_hash = bw_parent_block_hash r,
          mm_parent_lookup_state = (case bw_parent_lookup_state r of None \<Rightarrow> ''genesis'' | Some s \<Rightarrow> s),
          mm_parent_sources_agree = (bw_parent_sources_agree r = Some True),
          mm_parent_height = Option.bind (bw_parent_height r) u64_try_from,
          mm_parent_confirmations = Option.bind (bw_parent_confirmations r) u64_try_from\<rparr>\<rparr>)"

section \<open>Finding a block\<close>

text \<open>\<open>find_block\<close>, whose query is the request's \<open>k\<close>-th.\<close>

definition find_block :: "app_state \<Rightarrow> request \<Rightarrow> nat \<Rightarrow> string \<Rightarrow> block_detail_row result" where
  "find_block S R k i =
     (let height = parse_u64 i in
      rbind (if height = None then rbind (ensure_hash ''block hash'' i) (\<lambda>_. Inr (Some i)) else Inr None) (\<lambda>hash.
      rbind (transpose_opt (map_option (\<lambda>v. api_to_i64 v ''block height'') height)) (\<lambda>h.
      rbind (read R k (BLOCK_DETAIL_QUERY (nc_id (as_network S)) h hash)) (\<lambda>found.
      ok_or found NotFound))))"

section \<open>AuxPoW evidence\<close>

record auxpow_row =
  xw_link :: link_row
  xw_exact_witness_state :: string
  xw_witness_confirmations :: "int option"
  xw_local_validation_state :: string
  xw_verifier_version :: "string option"

definition AUXPOW_QUERY :: "string \<Rightarrow> string \<Rightarrow> string \<Rightarrow> db \<Rightarrow> auxpow_row option result" where
  "AUXPOW_QUERY hash witness net d =
     Inr (Option.bind (t_find (db_links d) (hash, witness)) (\<lambda>a.
          Option.bind (t_find (db_witnesses d) (hash, witness)) (\<lambda>w.
          map_option (\<lambda>(h, _).
             \<lparr>xw_link = a, xw_exact_witness_state = wr_exact_witness_state w,
              xw_witness_confirmations = map_option (\<lambda>tip. tip - h + 1) (canonical_height net d),
              xw_local_validation_state = wr_local_validation_state w,
              xw_verifier_version = wr_verifier_version w\<rparr>)
            (List.find (\<lambda>(_, c). cr_block_hash c = hash \<and> cr_witness_hash c = witness)
               (rows_of net (db_canonical d))))))"

definition external_evidence_url :: "string \<Rightarrow> string \<Rightarrow> string \<Rightarrow> string option" where
  "external_evidence_url template marker v =
     (if template \<noteq> [] then Some (str_replace template marker v) else None)"

record auxpow_view =
  xv_witness_hash :: string
  xv_row :: auxpow_row
  xv_parent_block_url :: "string option"
  xv_parent_coinbase_tx_url :: "string option"
  xv_observations :: "(string \<times> observation_row) list"

definition load_auxpow ::
    "app_state \<Rightarrow> request \<Rightarrow> nat \<Rightarrow> string \<Rightarrow> string \<Rightarrow> auxpow_view option result" where
  "load_auxpow S R k hash witness =
     rbind (read R k (AUXPOW_QUERY hash witness (nc_id (as_network S)))) (\<lambda>row.
     (case row of
        None \<Rightarrow> Inr None
      | Some row \<Rightarrow>
          rbind (read R (k + 1) (\<lambda>d. Inr (observations_of hash witness d))) (\<lambda>observations.
          Inr (Some \<lparr>xv_witness_hash = witness, xv_row = row,
            xv_parent_block_url = external_evidence_url (nc_parent_explorer_block_url (as_network S))
              ''{hash}'' (lk_parent_block_hash (xw_link row)),
            xv_parent_coinbase_tx_url = external_evidence_url (nc_parent_explorer_tx_url (as_network S))
              ''{txid}'' (lk_parent_coinbase_txid (xw_link row)),
            xv_observations = observations\<rparr>))))"

section \<open>The handlers\<close>

definition blocks ::
    "('net, 'addr) api_crates \<Rightarrow> app_state \<Rightarrow> request \<Rightarrow> page_query \<Rightarrow> block_summary list api_envelope result" where
  "blocks A S R q =
     rbind (chain_state S R) (\<lambda>chain.
     rbind (transpose_opt (map_option (decode_cursor A) (pq_cursor q))) (\<lambda>before.
     let lim = bounded_limit (pq_limit q) in
     rbind (read R 1 (BLOCK_SUMMARY_QUERY (nc_id (as_network S)) before (lim + 1))) (\<lambda>rows.
     let has_more = length rows > lim in
     rbind (collect_res (map (block_from_row (as_network S)) (take lim rows))) (\<lambda>data.
     let next_cursor = (if has_more then map_option (\<lambda>b. encode_cursor A (bs_height b)) (last_opt data) else None) in
     Inr (envelope S (rq_clock R 0) data next_cursor chain)))))"

record value_pool_view =
  vv_id :: string
  vv_chain_value :: "amount_view option"
  vv_value_delta :: "amount_view option"
  vv_reported :: bool
  vv_monitored :: "bool option"

definition value_pool_views :: "network_config \<Rightarrow> string \<Rightarrow> string \<Rightarrow> db \<Rightarrow> value_pool_view list" where
  "value_pool_views n hash witness d =
     map (\<lambda>(i, r). \<lparr>vv_id = i, vv_chain_value = map_option (\<lambda>v. amount v n) (pl_chain_value_zat r),
         vv_value_delta = map_option (\<lambda>v. amount v n) (pl_value_delta_zat r),
         vv_reported = (pl_chain_value_zat r \<noteq> None), vv_monitored = pl_monitored r\<rparr>)
       (sort_key fst (map (\<lambda>((_, i), r). (i, r)) (filter (\<lambda>((w, _), _). w = (hash, witness)) (db_pools d))))"

record block_detail =
  dt_summary :: block_summary
  dt_row :: block_detail_row
  dt_value_pools :: "value_pool_view list"
  dt_transactions :: "tx_summary list"
  dt_auxpow :: "auxpow_view option"

definition transaction_rows_for_block ::
    "app_state \<Rightarrow> request \<Rightarrow> nat \<Rightarrow> string \<Rightarrow> string \<Rightarrow> tx_summary list result" where
  "transaction_rows_for_block S R k hash witness =
     rbind (read R k (TRANSACTIONS_FOR_BLOCK_QUERY hash witness)) (\<lambda>rows.
     collect_res (map (tx_from_row (as_network S)) rows))"

definition block :: "app_state \<Rightarrow> request \<Rightarrow> string \<Rightarrow> block_detail api_envelope result" where
  "block S R i =
     rbind (chain_state S R) (\<lambda>chain.
     rbind (find_block S R 1 i) (\<lambda>row.
     rbind (block_from_row (as_network S) (bd_summary row)) (\<lambda>summary.
     rbind (read R 2 (\<lambda>d. Inr (value_pool_views (as_network S) (bs_hash summary) (bs_witness_hash summary) d))) (\<lambda>pools.
     rbind (transaction_rows_for_block S R 3 (bs_hash summary) (bs_witness_hash summary)) (\<lambda>txs.
     rbind (load_auxpow S R 4 (bs_hash summary) (bs_witness_hash summary)) (\<lambda>auxpow.
     Inr (envelope S (rq_clock R 0)
       \<lparr>dt_summary = summary, dt_row = row, dt_value_pools = pools, dt_transactions = txs, dt_auxpow = auxpow\<rparr>
       None chain)))))))"

record raw_block_view =
  rv_block_hash :: string
  rv_witness_hash :: string
  rv_encoding :: string
  rv_data :: string

definition raw_block :: "crates \<Rightarrow> app_state \<Rightarrow> request \<Rightarrow> string \<Rightarrow> raw_block_view api_envelope result" where
  "raw_block X S R i =
     rbind (chain_state S R) (\<lambda>chain.
     rbind (find_block S R 1 i) (\<lambda>row.
     rbind (read R 2 (\<lambda>d. ok_or (map_option wr_raw_block
              (t_find (db_witnesses d) (bw_hash (bd_summary row), bw_witness_hash (bd_summary row))))
              (Database RowNotFound))) (\<lambda>raw_block_bytes.
     Inr (envelope S (rq_clock R 0)
       \<lparr>rv_block_hash = bw_hash (bd_summary row), rv_witness_hash = bw_witness_hash (bd_summary row),
        rv_encoding = ''hex'', rv_data = hex_encode X raw_block_bytes\<rparr> None chain))))"

definition block_auxpow :: "app_state \<Rightarrow> request \<Rightarrow> string \<Rightarrow> auxpow_view option api_envelope result" where
  "block_auxpow S R i =
     rbind (chain_state S R) (\<lambda>chain.
     rbind (find_block S R 1 i) (\<lambda>row.
     rbind (load_auxpow S R 2 (bw_hash (bd_summary row)) (bw_witness_hash (bd_summary row))) (\<lambda>data.
     Inr (envelope S (rq_clock R 0) data None chain))))"

end
