(* ===== verification/Api_Example.thy ===== *)
theory Api_Example imports Api_Blocks Chain_Facts Examples begin

text \<open>
  A small explicit database for the witnesses of the API: two blocks with one coinbase transaction
  each, the second with verified evidence that two parent nodes confirm.
\<close>

definition api_block :: "int \<Rightarrow> string option \<Rightarrow> block_row" where
  "api_block h prev =
     \<lparr>br_network_id = ''testnet'', br_height = h, br_previous_block_hash = prev, br_merkle_root = id64 CHR ''0'',
      br_block_commitments = None, br_block_time = 75000000 * h, br_size_bytes = 200, br_transaction_count = 1,
      br_bits = ''1d00ffff'', br_difficulty_text = ''1'', br_nonce = id64 CHR ''0'',
      br_chain_supply_zat = Some (625000000 * (h + 1)), br_first_seen_at = 0, br_raw_rpc = JNull\<rparr>"

definition api_witness :: witness_row where
  "api_witness = \<lparr>wr_raw_block = [1], wr_auxpow_bytes = None, wr_exact_witness_state = ''best_chain'',
     wr_witness_confirmations = Some 1, wr_local_validation_state = ''auxpow_verified'',
     wr_verifier_version = None, wr_indexed_at = 0\<rparr>"

definition api_instance :: "char \<Rightarrow> instance_row" where
  "api_instance c =
     \<lparr>tr_txid = id64 c, tr_instance_digest = id64 c, tr_auth_digest = Some (id64 c), tr_raw_hash = id64 c,
      tr_raw_transaction = None, tr_version = 5, tr_size_bytes = 100, tr_lock_time = 0, tr_expiry_height = 0,
      tr_is_coinbase = True, tr_fee_zat = None, tr_value_balance_zat = None, tr_sapling_spend_count = 0,
      tr_sapling_output_count = 0, tr_orchard_action_count = 0, tr_ironwood_action_count = 0, tr_raw_rpc = JNull\<rparr>"

definition api_output :: output_row where
  "api_output = \<lparr>or_value_zat = 625000000, or_address = Some ''tm1'', or_script_type = None, or_script_hex = None\<rparr>"

definition api_input :: input_row where
  "api_input = \<lparr>ir_previous_txid = None, ir_previous_output_index = None, ir_coinbase_data = Some [], ir_sequence = None\<rparr>"

definition api_link :: link_row where
  "api_link =
     \<lparr>lk_proof_version = 1, lk_proof_size = 5, lk_parent_block_hash = id64 CHR ''9'',
      lk_parent_header_bits = ''1d00ffff'', lk_parent_hash_meets_claimed_target = True,
      lk_parent_coinbase_txid = id64 CHR ''8'', lk_parent_merkle_depth = 0, lk_parent_coinbase_index = 0,
      lk_auth_data_merkle_depth = 0, lk_auth_data_coinbase_index = 0, lk_auxiliary_merkle_depth = 0,
      lk_auxiliary_index = 0, lk_parent_lookup_state = ''canonical'', lk_parent_sources_agree = True,
      lk_verified_at = 90000000\<rparr>"

definition api_observation :: observation_row where
  "api_observation =
     \<lparr>ow_observation_state = ''canonical'', ow_parent_height = Some 7, ow_parent_confirmations = Some 3,
      ow_parent_time = None, ow_parent_bits = Some ''1d00ffff'', ow_parent_difficulty_text = None,
      ow_embedded_header_matches = Some True, ow_checked_at = 90000000\<rparr>"

definition api_chain :: chain where
  "api_chain = [(id64 CHR ''1'', id64 CHR ''a''), (id64 CHR ''2'', id64 CHR ''b'')]"

definition api_selection :: "char \<Rightarrow> char \<Rightarrow> canonical_row" where
  "api_selection c w = \<lparr>cr_block_hash = id64 c, cr_witness_hash = id64 w, cr_selected_at = 0\<rparr>"

definition api_db :: db where
  "api_db = empty_db\<lparr>
     db_blocks := [(id64 CHR ''1'', api_block 0 None), (id64 CHR ''2'', api_block 1 (Some (id64 CHR ''1'')))],
     db_witnesses := map (\<lambda>c. (c, api_witness)) api_chain,
     db_canonical := [((''testnet'', 0), api_selection CHR ''1'' CHR ''a''),
                      ((''testnet'', 1), api_selection CHR ''2'' CHR ''b'')],
     db_instances := [(1, api_instance CHR ''c''), (2, api_instance CHR ''d'')],
     db_next_instance := 3,
     db_block_transactions := [((api_chain ! 0, 0), 1), ((api_chain ! 1, 0), 2)],
     db_outputs := [((1, 0), api_output), ((2, 0), api_output)],
     db_inputs := [((1, 0), api_input), ((2, 0), api_input)],
     db_links := [(api_chain ! 1, api_link)],
     db_observations := [((api_chain ! 1, ''p''), api_observation), ((api_chain ! 1, ''q''), api_observation)],
     db_chain_state := [(''testnet'',
       \<lparr>st_indexed_height = Some 1, st_indexed_hash = Some (id64 CHR ''2''),
        st_indexed_witness_hash = Some (id64 CHR ''b''), st_node_height = Some 1,
        st_node_hash = Some (id64 CHR ''2''), st_status = ''ready'', st_last_error = None,
        st_updated_at = 95000000\<rparr>)]\<rparr>"

lemmas api_db_simps = api_db_def empty_db_def api_chain_def api_selection_def api_block_def t_find_def

lemma api_db_wf: "db_wf api_db"
  by (auto simp: db_wf_def t_wf_def api_db_simps split: if_splits)

lemma api_selected: "selected n api_db h = (if n = ''testnet'' then chain_at api_chain h else None)"
proof -
  have "0 \<le> h \<and> h < 2 \<longleftrightarrow> h = 0 \<or> h = 1" by arith
  then show ?thesis by (auto simp: selected_def chain_at_def api_db_simps nth_Cons')
qed

lemma api_db_chain: "chain_ok ''testnet'' api_db api_chain"
proof -
  have "block_linked ''testnet'' api_db api_chain i" if "i < length api_chain" for i
  proof -
    have "i = 0 \<or> i = Suc 0" using that by (auto simp: api_chain_def)
    then show ?thesis by (auto simp: block_linked_def api_db_simps)
  qed
  moreover have "tip_named ''testnet'' api_db api_chain"
    by (simp add: tip_named_def api_db_simps last_opt_def)
  ultimately show ?thesis using api_db_wf
    by (simp add: chain_ok_def fun_eq_iff api_selected) (simp add: api_chain_def)
qed

definition api_network :: network_config where
  "api_network = example_schedule\<lparr>nc_id := ''testnet''\<rparr>"

definition api_state :: app_state where
  "api_state = \<lparr>as_network = api_network, as_require_parent_quorum = True, as_started_at = 0\<rparr>"

lemma api_net [simp]: "nc_id (as_network api_state) = ''testnet''"
  by (simp add: api_state_def api_network_def)

definition columns_fit :: "string \<Rightarrow> db \<Rightarrow> bool" where
  "columns_fit net d \<longleftrightarrow>
     list_all (\<lambda>j. is_ok (block_columns net d j)) (canonical_blocks net d) \<and>
     list_all (\<lambda>j. is_ok (tx_columns d j)) (canonical_txs net d)"

lemma api_columns_fit: "columns_fit ''testnet'' api_db"
  by code_simp

end
