(* ===== verification/Api_Pages.thy ===== *)
theory Api_Pages imports Api_Example Chain_Store begin

text \<open>
  What the block and transaction endpoints serve of a database that represents a chain: the pages of
  the lists, followed from the first, hold the whole chain; a block is found exactly by its height
  or its hash.
\<close>

section \<open>Joins over the represented chain\<close>

lemma map_filter_total:
  "(\<And>x. x \<in> set xs \<Longrightarrow> \<exists>y. f x = Some y \<and> g y = h x) \<Longrightarrow> map g (List.map_filter f xs) = map h xs"
proof (induction xs)
  case (Cons x xs)
  then obtain y where "f x = Some y" "g y = h x" by force
  with Cons show ?case by simp
qed simp

definition block_key :: "block_join \<Rightarrow> int \<times> string \<times> string" where
  "block_key = (\<lambda>(h, c, _, _). (h, cr_block_hash c, cr_witness_hash c))"

lemma canonical_row_joins:
  assumes "chain_ok net d cs" and "(h, c) \<in> set (rows_of net (db_canonical d))"
  obtains b w where "t_find (db_blocks d) (cr_block_hash c) = Some b" "br_network_id b = net" "br_height b = h"
    "t_find (db_witnesses d) (cr_block_hash c, cr_witness_hash c) = Some w"
    "0 \<le> h" "nat h < length cs" "(cr_block_hash c, cr_witness_hash c) = cs ! nat h"
    "h = 0 \<or> br_previous_block_hash b = Some (fst (cs ! (nat h - 1)))"
proof -
  have "t_find (db_canonical d) (net, h) = Some c"
    using assms by (simp add: rows_of_find chain_ok_def db_wf_def)
  then have "selected net d h = Some (cr_block_hash c, cr_witness_hash c)" by (simp add: selected_def)
  then have "chain_at cs h = Some (cr_block_hash c, cr_witness_hash c)" using assms(1) by (simp add: chain_ok_def)
  then have h: "0 \<le> h" "nat h < length cs" "(cr_block_hash c, cr_witness_hash c) = cs ! nat h"
    by (auto simp: chain_at_def split: if_splits)
  then have "block_linked net d cs (nat h)" using assms(1) by (simp add: chain_ok_def)
  then obtain b w where "t_find (db_blocks d) (fst (cs ! nat h)) = Some b" "br_network_id b = net"
    "br_height b = int (nat h)" "nat h = 0 \<or> br_previous_block_hash b = Some (fst (cs ! (nat h - 1)))"
    "t_find (db_witnesses d) (cs ! nat h) = Some w" unfolding block_linked_def by blast
  moreover have "fst (cs ! nat h) = cr_block_hash c" "cs ! nat h = (cr_block_hash c, cr_witness_hash c)"
    using h(3) by (metis fst_conv, simp)
  moreover have "int (nat h) = h" "nat h = 0 \<longleftrightarrow> h = 0" using h(1) by auto
  ultimately show thesis using that[of b w] h by metis
qed

lemma canonical_blocks_chain:
  assumes "chain_ok net d cs"
  shows "map block_key (canonical_blocks net d) = rev (map (\<lambda>i. (int i, cs ! i)) [0..<length cs])"
proof -
  have "map block_key (canonical_blocks net d) =
      map (\<lambda>(h, c). (h, cr_block_hash c, cr_witness_hash c)) (rev (rows_of net (db_canonical d)))"
    unfolding canonical_blocks_def
  proof (rule map_filter_total)
    fix x assume "x \<in> set (rev (rows_of net (db_canonical d)))"
    moreover obtain h c where x: "x = (h, c)" by fastforce
    ultimately obtain b w where "t_find (db_blocks d) (cr_block_hash c) = Some b"
      "t_find (db_witnesses d) (cr_block_hash c, cr_witness_hash c) = Some w"
      using canonical_row_joins[OF assms, of h c] by (metis set_rev)
    then show "\<exists>y. (case x of (height, c) \<Rightarrow>
        case (t_find (db_blocks d) (cr_block_hash c), t_find (db_witnesses d) (cr_block_hash c, cr_witness_hash c)) of
          (Some b, Some w) \<Rightarrow> Some (height, c, b, w) | _ \<Rightarrow> None) = Some y \<and>
        block_key y = (case x of (h, c) \<Rightarrow> (h, cr_block_hash c, cr_witness_hash c))"
      by (simp add: x block_key_def)
  qed
  also have "\<dots> = rev (map (\<lambda>i. (int i, cs ! i)) [0..<length cs])"
    using rows_of_chain[of d net cs] assms by (simp add: rev_map[symmetric] chain_ok_def db_wf_def)
  finally show ?thesis .
qed

lemma canonical_blocks_heights:
  assumes "chain_ok net d cs"
  shows "map join_height (canonical_blocks net d) = rev (map int [0..<length cs])"
proof -
  have "map join_height (canonical_blocks net d) = map fst (map block_key (canonical_blocks net d))"
    by (auto simp: join_height_def block_key_def)
  then show ?thesis unfolding canonical_blocks_chain[OF assms] by (simp add: rev_map)
qed

lemma canonical_blocks_sorted:
  assumes "chain_ok net d cs"
  shows "sorted_wrt (\<lambda>a b. join_height b < join_height a) (canonical_blocks net d)"
proof -
  have "sorted_wrt (>) (rev (map int [0..<length cs]))"
    by (simp add: sorted_wrt_rev sorted_wrt_map)
  then have "sorted_wrt (>) (map join_height (canonical_blocks net d))" using canonical_blocks_heights[OF assms] by simp
  then show ?thesis by (simp add: sorted_wrt_map)
qed

section \<open>The block list\<close>

text \<open>A handler's answer as a page.\<close>

definition as_page :: "'v list api_envelope result \<Rightarrow> ('v list \<times> string option) result" where
  "as_page r = rbind r (\<lambda>e. Inr (ae_data e, pm_next_cursor (ae_meta e)))"

text \<open>A request whose queries all see the same database and are served.\<close>

definition steady :: "request \<Rightarrow> db \<Rightarrow> bool" where
  "steady R d \<longleftrightarrow> (\<forall>k. rq_db R k = d \<and> rq_fault R k = None)"

lemma read_steady: "steady R d \<Longrightarrow> read R k q = q d"
  by (simp add: read_def steady_def)

lemma bounded_limit_bounds: "0 < bounded_limit l \<and> bounded_limit l \<le> 100"
  by (auto simp: bounded_limit_def MAX_PAGE_SIZE_def DEFAULT_PAGE_SIZE_def)

interpretation block_list: paged_list join_height "block_columns net d" "block_from_row n"
    "\<lambda>b. encode_cursor A (bs_height b)" "decode_cursor A" "\<lambda>j. base64_ok A \<and> join_height j < 2 ^ 63"
  for net d n A
proof
  fix r :: block_join and w v
  assume ok: "base64_ok A \<and> join_height r < 2 ^ 63" and w: "block_columns net d r = Inr w" and v: "block_from_row n w = Inr v"
  have "bw_height w = join_height r"
    using w by (cases r) (auto simp: block_columns_def join_height_def Let_def)
  then have "join_height r = int (bs_height v)" using v by (auto simp: block_from_row_def to_u64_def)
  then show "decode_cursor A (encode_cursor A (bs_height v)) = Inr (join_height r)"
    using cursor_inverse[of A "bs_height v"] ok by (simp add: api_to_i64_def i64_try_from_def)
qed

lemma blocks_page:
  assumes "steady R d" and "t_find (db_chain_state d) (nc_id (as_network S)) \<noteq> None"
  shows "as_page (blocks A S R \<lparr>pq_cursor = c, pq_limit = l\<rparr>) =
     keyset_page join_height (block_columns (nc_id (as_network S)) d) (block_from_row (as_network S))
       (\<lambda>b. encode_cursor A (bs_height b)) (decode_cursor A) (canonical_blocks (nc_id (as_network S)) d)
       (bounded_limit l) c"
proof -
  obtain s where "t_find (db_chain_state d) (nc_id (as_network S)) = Some s" using assms(2) by blast
  then have "chain_state S R = Inr s" using assms(1) by (simp add: chain_state_def read_steady load_chain_state_def)
  then show ?thesis
    by (simp add: blocks_def as_page_def keyset_page_def BLOCK_SUMMARY_QUERY_def read_steady[OF assms(1)] Let_def
        envelope_def rbind_def split: sum.splits)
qed

lemma block_item:
  assumes "block_list.item net d n j = Inr v"
  shows "block_key j = (int (bs_height v), bs_hash v, bs_witness_hash v)"
proof -
  from assms obtain w where w: "block_columns net d j = Inr w" and v: "block_from_row n w = Inr v"
    by (auto simp: block_list.item_def)
  have "block_key j = (bw_height w, bw_hash w, bw_witness_hash w)"
    using w by (cases j) (auto simp: block_columns_def block_key_def Let_def)
  then show ?thesis using v by (auto simp: block_from_row_def to_u64_def)
qed

text \<open>C12. The block list is complete.  On a database that represents a chain and does not change,
  with no sum beyond \<open>BIGINT\<close>, following the next-cursors of \<open>/blocks\<close> from the first page, with
  any requested limit, ends, and the pages together hold every block of the chain exactly once, from
  the tip down, each with its height, hash and selected witness.\<close>

theorem block_pages_complete:
  assumes "base64_ok A" and "steady R d" and "chain_ok (nc_id (as_network S)) d cs"
    and "\<forall>j \<in> set (canonical_blocks (nc_id (as_network S)) d). is_ok (block_columns (nc_id (as_network S)) d j)"
  shows "\<exists>vs. (\<forall>ws. crawl (\<lambda>c. as_page (blocks A S R \<lparr>pq_cursor = c, pq_limit = l\<rparr>)) None ws \<longleftrightarrow> ws = vs) \<and>
     map (\<lambda>v. (bs_height v, bs_hash v, bs_witness_hash v)) vs = rev (map (\<lambda>i. (i, cs ! i)) [0..<length cs])"
proof -
  let ?net = "nc_id (as_network S)" and ?js = "canonical_blocks (nc_id (as_network S)) d"
  have heights: "0 \<le> join_height j \<and> join_height j < 2 ^ 63" if "j \<in> set ?js" for j
  proof -
    have "join_height j \<in> set (map join_height ?js)" using that by simp
    then have "join_height j \<in> int ` {0..<length cs}" unfolding canonical_blocks_heights[OF assms(3)] by simp
    moreover have "length cs \<le> 2 ^ 63" using assms(3) by (simp add: chain_ok_def)
    ultimately show ?thesis by auto
  qed
  have "\<exists>v. block_list.item ?net d (as_network S) j = Inr v" if j: "j \<in> set ?js" for j
  proof -
    from assms(4) j obtain w where w: "block_columns ?net d j = Inr w" by (auto simp: is_ok_iff)
    then have "bw_height w = join_height j"
      by (cases j) (auto simp: block_columns_def join_height_def Let_def)
    then show ?thesis using heights[OF j] w
      by (simp add: block_list.item_def block_from_row_def to_u64_def u64_try_from_def)
  qed
  then obtain f where f: "\<forall>j \<in> set ?js. block_list.item ?net d (as_network S) j = Inr (f j)" by metis
  define vs where "vs = map f ?js"
  have items: "map (block_list.item ?net d (as_network S)) (below join_height None ?js) = map Inr vs"
    using f by (simp add: vs_def below_def)
  have st: "t_find (db_chain_state d) ?net \<noteq> None" using assms(3) by (auto simp: chain_ok_def tip_named_def)
  have "crawl (\<lambda>c. as_page (blocks A S R \<lparr>pq_cursor = c, pq_limit = l\<rparr>)) None ws \<longleftrightarrow> ws = vs" for ws
    unfolding blocks_page[OF assms(2) st]
    using heights assms(1) bounded_limit_bounds[of l] items
    by (intro block_list.crawl_exact[OF canonical_blocks_sorted[OF assms(3)]]) auto
  moreover have "map (\<lambda>v. (int (bs_height v), bs_hash v, bs_witness_hash v)) vs = map block_key ?js"
    using f block_item by (auto simp: vs_def)
  then have "map (\<lambda>v. (int (bs_height v), bs_hash v, bs_witness_hash v)) vs = rev (map (\<lambda>i. (int i, cs ! i)) [0..<length cs])"
    unfolding canonical_blocks_chain[OF assms(3)] .
  then have "map (\<lambda>(h, x). (nat h, x)) (map (\<lambda>v. (int (bs_height v), bs_hash v, bs_witness_hash v)) vs) =
      map (\<lambda>(h, x). (nat h, x)) (rev (map (\<lambda>i. (int i, cs ! i)) [0..<length cs]))" by (rule arg_cong)
  then have "map (\<lambda>v. (bs_height v, bs_hash v, bs_witness_hash v)) vs = rev (map (\<lambda>i. (i, cs ! i)) [0..<length cs])"
    by (simp add: rev_map comp_def)
  ultimately show ?thesis by blast
qed

definition still :: "db \<Rightarrow> request" where
  "still d = \<lparr>rq_db = (\<lambda>_. d), rq_fault = (\<lambda>_. None), rq_clock = (\<lambda>_. 100000000)\<rparr>"

lemma steady_still [simp]: "steady (still d) d"
  by (simp add: steady_def still_def)

theorem block_pages_complete_witness:
  "\<exists>vs. crawl (\<lambda>c. as_page (blocks example_api api_state (still api_db) \<lparr>pq_cursor = c, pq_limit = Some 1\<rparr>)) None vs \<and>
     map (\<lambda>v. (bs_height v, bs_hash v, bs_witness_hash v)) vs =
       [(1, id64 CHR ''2'', id64 CHR ''b''), (0, id64 CHR ''1'', id64 CHR ''a'')]"
proof -
  have "\<forall>j \<in> set (canonical_blocks ''testnet'' api_db). is_ok (block_columns ''testnet'' api_db j)"
    using api_columns_fit by (simp add: columns_fit_def list_all_iff)
  then obtain vs where vs: "(\<forall>ws. crawl (\<lambda>c. as_page (blocks example_api api_state (still api_db) \<lparr>pq_cursor = c, pq_limit = Some 1\<rparr>))
        None ws \<longleftrightarrow> ws = vs) \<and>
      map (\<lambda>v. (bs_height v, bs_hash v, bs_witness_hash v)) vs = rev (map (\<lambda>i. (i, api_chain ! i)) [0..<length api_chain])"
    using block_pages_complete[OF example_base64_ok steady_still, of api_state api_db api_chain "Some 1"]
    by (simp add: api_db_chain) blast
  moreover have "rev (map (\<lambda>i. (i, api_chain ! i)) [0..<length api_chain]) =
      [(1, id64 CHR ''2'', id64 CHR ''b''), (0, id64 CHR ''1'', id64 CHR ''a'')]"
    by (simp add: api_chain_def upt_rec)
  ultimately show ?thesis by (intro exI[of _ vs]) simp
qed

section \<open>One block\<close>

lemma find_unique:
  assumes "x \<in> set xs" and "P x" and "\<And>y. y \<in> set xs \<Longrightarrow> P y \<Longrightarrow> y = x"
  shows "List.find P xs = Some x"
  using assms
proof (induction xs)
  case (Cons z xs)
  show ?case
  proof (cases "P z")
    case True
    then show ?thesis using Cons.prems(3)[of z] by simp
  next
    case False
    then have "x \<in> set xs" using Cons.prems(1,2) by auto
    then show ?thesis using Cons.IH[OF _ assms(2)] Cons.prems(3) False by simp
  qed
qed simp

lemma canonical_blocks_mem:
  assumes "chain_ok net d cs"
  shows "i < length cs \<Longrightarrow> \<exists>j \<in> set (canonical_blocks net d). block_key j = (int i, cs ! i)"
    and "j \<in> set (canonical_blocks net d) \<Longrightarrow> \<exists>i < length cs. block_key j = (int i, cs ! i)"
proof -
  have keys: "block_key ` set (canonical_blocks net d) = (\<lambda>i. (int i, cs ! i)) ` {0..<length cs}"
    using arg_cong[OF canonical_blocks_chain[OF assms], of set] by simp
  show "\<exists>j \<in> set (canonical_blocks net d). block_key j = (int i, cs ! i)" if "i < length cs"
  proof -
    have "(int i, cs ! i) \<in> block_key ` set (canonical_blocks net d)" unfolding keys using that by auto
    then show ?thesis by (metis imageE)
  qed
  show "\<exists>i < length cs. block_key j = (int i, cs ! i)" if "j \<in> set (canonical_blocks net d)"
  proof -
    have "block_key j \<in> (\<lambda>i. (int i, cs ! i)) ` {0..<length cs}" using that unfolding keys[symmetric] by blast
    then show ?thesis by auto
  qed
qed

lemma canonical_blocks_row:
  assumes "chain_ok net d cs" and "(h, c, b, w) \<in> set (canonical_blocks net d)"
  shows "t_find (db_canonical d) (net, h) = Some c" "t_find (db_blocks d) (cr_block_hash c) = Some b"
    "t_find (db_witnesses d) (cr_block_hash c, cr_witness_hash c) = Some w"
proof -
  have "t_wf (db_canonical d)" using assms(1) by (simp add: chain_ok_def db_wf_def)
  moreover have "(h, c) \<in> set (rows_of net (db_canonical d)) \<and> t_find (db_blocks d) (cr_block_hash c) = Some b \<and>
      t_find (db_witnesses d) (cr_block_hash c, cr_witness_hash c) = Some w"
    using assms(2) by (force simp: canonical_blocks_def List.map_filter_def split: option.splits prod.splits)
  ultimately show "t_find (db_canonical d) (net, h) = Some c" "t_find (db_blocks d) (cr_block_hash c) = Some b"
    "t_find (db_witnesses d) (cr_block_hash c, cr_witness_hash c) = Some w" by (simp_all add: rows_of_find)
qed

text \<open>The heights and the hashes of the joined rows are unique.\<close>

lemma canonical_blocks_inj:
  assumes "chain_ok net d cs" and "(h, c, b, w) \<in> set (canonical_blocks net d)" "(h', c', b', w') \<in> set (canonical_blocks net d)"
    and "h = h' \<or> cr_block_hash c = cr_block_hash c'"
  shows "(h', c', b', w') = (h, c, b, w)"
proof -
  from canonical_blocks_mem(2)[OF assms(1,2)] canonical_blocks_mem(2)[OF assms(1,3)] obtain i i' where
    i: "i < length cs" "h = int i" "cr_block_hash c = fst (cs ! i)"
      "i' < length cs" "h' = int i'" "cr_block_hash c' = fst (cs ! i')"
    unfolding block_key_def prod.case by (metis prod.inject fst_conv)
  then have "i = i'" using assms(4) nth_eq_iff_index_eq[OF chain_distinct[OF assms(1)], of i i'] by auto
  then have "h' = h" using i by simp
  then show ?thesis using canonical_blocks_row[OF assms(1,2)] canonical_blocks_row[OF assms(1,3)] by auto
qed

lemma find_canonical:
  assumes "chain_ok net d cs" and "i < length cs"
    and "\<And>h c b w. P (h, c, b, w) \<longleftrightarrow> (h :: int) = int i \<or> cr_block_hash c = fst (cs ! i)"
    and "\<And>h c b w. P' (h, c, b, w) \<Longrightarrow> P (h, c, b, w)"
    and "\<And>h c b w. h = int i \<Longrightarrow> cr_block_hash c = fst (cs ! i) \<Longrightarrow> P' (h, c, b, w)"
  shows "\<exists>c b w. (int i, c, b, w) \<in> set (canonical_blocks net d) \<and> (cr_block_hash c, cr_witness_hash c) = cs ! i \<and>
     List.find P' (canonical_blocks net d) = Some (int i, c, b, w)"
proof -
  from canonical_blocks_mem(1)[OF assms(1,2)] obtain c b w where
    j: "(int i, c, b, w) \<in> set (canonical_blocks net d)" "(cr_block_hash c, cr_witness_hash c) = cs ! i"
    by (auto simp: block_key_def)
  have hash: "cr_block_hash c = fst (cs ! i)" using j(2) by (metis fst_conv)
  have "List.find P' (canonical_blocks net d) = Some (int i, c, b, w)"
  proof (rule find_unique[OF j(1)])
    show "P' (int i, c, b, w)" using assms(5) hash by blast
    fix y assume y: "y \<in> set (canonical_blocks net d)" "P' y"
    obtain h' c' b' w' where y': "y = (h', c', b', w')" by (cases y)
    then have "h' = int i \<or> cr_block_hash c' = cr_block_hash c" using assms(3,4) y(2) hash by metis
    then show "y = (int i, c, b, w)"
      using canonical_blocks_inj[OF assms(1) j(1), of h' c' b' w'] y(1) y' by metis
  qed
  with j show ?thesis by blast
qed

text \<open>The two forms of the lookup.\<close>

lemma detail_by_height:
  assumes "chain_ok net d cs"
  shows "i < length cs \<Longrightarrow> \<exists>c b w. (int i, c, b, w) \<in> set (canonical_blocks net d) \<and>
      (cr_block_hash c, cr_witness_hash c) = cs ! i \<and>
      List.find (\<lambda>(h, c, _, _). Some (int i) = Some h \<or> None = Some (cr_block_hash c)) (canonical_blocks net d) =
        Some (int i, c, b, w)"
    and "length cs \<le> i \<Longrightarrow>
      List.find (\<lambda>(h, c, _, _). Some (int i) = Some h \<or> None = Some (cr_block_hash c)) (canonical_blocks net d) = None"
  subgoal by (rule find_canonical[where P = "\<lambda>(h, c, _, _). h = int i \<or> cr_block_hash c = fst (cs ! i)"]) (use assms in auto)
  subgoal using canonical_blocks_mem(2)[OF assms] by (fastforce simp: find_None_iff block_key_def)
  done

lemma detail_by_hash:
  assumes "chain_ok net d cs"
  shows "i < length cs \<Longrightarrow> \<exists>c b w. (int i, c, b, w) \<in> set (canonical_blocks net d) \<and>
      (cr_block_hash c, cr_witness_hash c) = cs ! i \<and>
      List.find (\<lambda>(h, c, _, _). None = Some h \<or> Some (fst (cs ! i)) = Some (cr_block_hash c)) (canonical_blocks net d) =
        Some (int i, c, b, w)"
    and "x \<notin> set (map fst cs) \<Longrightarrow>
      List.find (\<lambda>(h, c, _, _). None = Some h \<or> Some x = Some (cr_block_hash c)) (canonical_blocks net d) = None"
  subgoal by (rule find_canonical[where P = "\<lambda>(h, c, _, _). h = int i \<or> cr_block_hash c = fst (cs ! i)"]) (use assms in auto)
  subgoal
    using canonical_blocks_mem(2)[OF assms] by (auto simp: find_None_iff block_key_def) (metis fst_conv image_eqI nth_mem)
  done

text \<open>The row of a found block.\<close>

definition found_at :: "chain \<Rightarrow> nat \<Rightarrow> block_detail_row \<Rightarrow> bool" where
  "found_at cs i row \<longleftrightarrow>
     i < length cs \<and> bw_height (bd_summary row) = int i \<and>
     (bw_hash (bd_summary row), bw_witness_hash (bd_summary row)) = cs ! i \<and>
     (0 < i \<longrightarrow> bd_previous_block_hash row = Some (fst (cs ! (i - 1)))) \<and>
     bd_next_block_hash row = (if Suc i < length cs then Some (fst (cs ! Suc i)) else None)"

lemma detail_found:
  assumes "chain_ok net d cs" and "i < length cs"
    and "(int i, c, b, w) \<in> set (canonical_blocks net d)" and "(cr_block_hash c, cr_witness_hash c) = cs ! i"
    and "List.find (\<lambda>(h, c, _, _). height = Some h \<or> hash = Some (cr_block_hash c)) (canonical_blocks net d) = Some (int i, c, b, w)"
  shows "case BLOCK_DETAIL_QUERY net height hash d of
      Inr row \<Rightarrow> \<exists>r. row = Some r \<and> found_at cs i r | Inl e \<Rightarrow> e = numeric_out_of_range"
proof (cases "block_columns net d (int i, c, b, w)")
  case (Inl e)
  then have "e = numeric_out_of_range"
    by (auto simp: block_columns_def reward_zat_def bigint_def guard_def rbind_Inl Let_def split: option.splits if_splits)
  then show ?thesis using assms(5) Inl by (simp add: BLOCK_DETAIL_QUERY_def)
next
  case (Inr s)
  then have s: "bw_height s = int i" "(bw_hash s, bw_witness_hash s) = cs ! i"
    using assms(4) by (auto simp: block_columns_def Let_def)
  have row: "t_find (db_canonical d) (net, int i) = Some c" "t_find (db_blocks d) (cr_block_hash c) = Some b"
    using canonical_blocks_row[OF assms(1,3)] by simp_all
  have "map_option cr_block_hash (t_find (db_canonical d) (net, int (Suc i))) = map_option fst (selected net d (int (Suc i)))"
    by (simp add: selected_def option.map_comp comp_def)
  also have "selected net d (int (Suc i)) = chain_at cs (int (Suc i))" using assms(1) by (simp add: chain_ok_def)
  finally have nxt: "map_option cr_block_hash (t_find (db_canonical d) (net, int i + 1)) =
      (if Suc i < length cs then Some (fst (cs ! Suc i)) else None)" by (simp add: chain_at_def nat_add_distrib add.commute)
  have "block_linked net d cs i" using assms(1,2) by (simp add: chain_ok_def)
  then have "0 < i \<longrightarrow> br_previous_block_hash b = Some (fst (cs ! (i - 1)))"
    using row(2) assms(4) unfolding block_linked_def by (metis fst_conv option.inject not_gr0)
  then show ?thesis using assms(2,5) Inr s nxt
    by (simp add: BLOCK_DETAIL_QUERY_def found_at_def)
qed

lemma detail_hash_outcome:
  assumes "chain_ok net d cs"
  shows "case BLOCK_DETAIL_QUERY net None (Some q) d of
      Inr (Some row) \<Rightarrow> \<exists>i. q = fst (cs ! i) \<and> found_at cs i row
    | Inr None \<Rightarrow> q \<notin> set (map fst cs) | Inl e \<Rightarrow> e = numeric_out_of_range"
proof (cases "q \<in> set (map fst cs)")
  case False
  then show ?thesis using detail_by_hash(2)[OF assms False] by (simp add: BLOCK_DETAIL_QUERY_def)
next
  case True
  then obtain i where i: "i < length cs" "q = fst (cs ! i)" by (auto simp: in_set_conv_nth)
  from detail_by_hash(1)[OF assms i(1)] obtain c b w where
    "(int i, c, b, w) \<in> set (canonical_blocks net d)" "(cr_block_hash c, cr_witness_hash c) = cs ! i"
    "List.find (\<lambda>(h, c, _, _). None = Some h \<or> Some q = Some (cr_block_hash c)) (canonical_blocks net d) = Some (int i, c, b, w)"
    unfolding i(2) by blast
  from detail_found[OF assms i(1) this] show ?thesis
    using i(2) by (cases "BLOCK_DETAIL_QUERY net None (Some q) d") auto
qed

lemma detail_height_outcome:
  assumes "chain_ok net d cs"
  shows "case BLOCK_DETAIL_QUERY net (Some (int h)) None d of
      Inr (Some row) \<Rightarrow> found_at cs h row | Inr None \<Rightarrow> length cs \<le> h | Inl e \<Rightarrow> e = numeric_out_of_range"
proof (cases "h < length cs")
  case False
  then show ?thesis using detail_by_height(2)[OF assms, of h] by (simp add: BLOCK_DETAIL_QUERY_def)
next
  case True
  from detail_by_height(1)[OF assms True] obtain c b w where
    "(int h, c, b, w) \<in> set (canonical_blocks net d)" "(cr_block_hash c, cr_witness_hash c) = cs ! h"
    "List.find (\<lambda>(h', c, _, _). Some (int h) = Some h' \<or> None = Some (cr_block_hash c)) (canonical_blocks net d) = Some (int h, c, b, w)"
    by blast
  from detail_found[OF assms True this] show ?thesis
    by (cases "BLOCK_DETAIL_QUERY net (Some (int h)) None d") auto
qed

text \<open>C14. A block is found exactly by its height or by its hash.  On a database that represents a
  chain, whatever \<open>find_block\<close> answers is the block at that place of the chain, with its own
  witness, its predecessor and its successor.  It fails only so: not found, for a height above the
  tip or a well-formed hash that is not on the chain; an invalid request, for any text that is
  neither a number nor a hash, or a number beyond the column; or PostgreSQL's range error for a
  reward.\<close>

theorem find_block_exact:
  assumes "steady R d" and "chain_ok (nc_id (as_network S)) d cs"
  shows "case find_block S R k q of
      Inr row \<Rightarrow> (\<exists>i. (case parse_u64 q of Some h \<Rightarrow> i = h | None \<Rightarrow> q = fst (cs ! i)) \<and> found_at cs i row)
    | Inl e \<Rightarrow>
        e = NotFound \<and> (case parse_u64 q of Some h \<Rightarrow> length cs \<le> h | None \<Rightarrow> is_hash q \<and> q \<notin> set (map fst cs)) \<or>
        e = InvalidRequest ''block hash must be exactly 32 bytes of hexadecimal'' \<and> parse_u64 q = None \<and> \<not> is_hash q \<or>
        e = InvalidRequest ''block height exceeds the supported range'' \<and> (\<exists>h. parse_u64 q = Some h \<and> 2 ^ 63 \<le> h) \<or>
        e = numeric_out_of_range"
proof (cases "parse_u64 q")
  case None
  show ?thesis
  proof (cases "is_hash q")
    case False
    then show ?thesis using None by (simp add: find_block_def ensure_hash_def guard_def)
  next
    case True
    then show ?thesis using None assms(1) detail_hash_outcome[OF assms(2), of q]
      by (auto simp: find_block_def ensure_hash_def guard_def read_steady split: sum.splits option.splits)
  qed
next
  case (Some h)
  show ?thesis
  proof (cases "h < 2 ^ 63")
    case False
    then show ?thesis using Some by (simp add: find_block_def api_to_i64_def i64_try_from_def)
  next
    case True
    then show ?thesis using Some assms(1) detail_height_outcome[OF assms(2), of h]
      by (auto simp: find_block_def api_to_i64_def i64_try_from_def read_steady split: sum.splits option.splits)
  qed
qed

theorem find_block_exact_witness:
  "\<exists>row. find_block api_state (still api_db) 0 ''1'' = Inr row \<and> found_at api_chain 1 row"
proof -
  have parse: "parse_u64 ''1'' = Some 1" by code_simp
  have "is_ok (find_block api_state (still api_db) 0 ''1'')" by code_simp
  then obtain row where "find_block api_state (still api_db) 0 ''1'' = Inr row" by (auto simp: is_ok_iff)
  then show ?thesis
    using find_block_exact[OF steady_still[of api_db], where S = api_state and cs = api_chain and q = "''1''" and k = 0] parse
    by (simp add: api_db_chain)
qed

end
