(* ===== verification/Api_Search.thy ===== *)
theory Api_Search imports Api_Pages begin

text \<open>
  Search (\<open>src/api.rs\<close>): one snapshot of the database answers whether a height, a hash or a
  transparent address is on the canonical chain.
\<close>

section \<open>Snapshots\<close>

text \<open>A \<open>REPEATABLE READ READ ONLY\<close> transaction: the first query fixes the snapshot all later ones
  see.  The settings before it and the final commit may fail, as any query.\<close>

definition read_snapshot :: "request \<Rightarrow> nat \<Rightarrow> unit result" where
  "read_snapshot R k = read R k (\<lambda>_. Inr ())"

definition snap :: "request \<Rightarrow> nat \<Rightarrow> (db \<Rightarrow> 'a result) \<Rightarrow> 'a result" where
  "snap R k q = (case rq_fault R k of Some e \<Rightarrow> Inl (Database e) | None \<Rightarrow> q (rq_db R 1))"

definition snapshot_chain_state :: "request \<Rightarrow> string \<Rightarrow> chain_state_row result" where
  "snapshot_chain_state R net = snap R 1 (load_chain_state net)"

section \<open>The handler\<close>

record search_result =
  sr_kind :: string
  sr_id :: string
  sr_route :: string

definition new_search_result :: "string \<Rightarrow> string \<Rightarrow> string \<Rightarrow> search_result" where
  "new_search_result kind i route = \<lparr>sr_kind = kind, sr_id = i, sr_route = route\<rparr>"

definition height_exists :: "string \<Rightarrow> int \<Rightarrow> db \<Rightarrow> bool" where
  "height_exists net height d \<longleftrightarrow> t_find (db_canonical d) (net, height) \<noteq> None"

definition block_exists :: "string \<Rightarrow> string \<Rightarrow> db \<Rightarrow> bool" where
  "block_exists net hash d \<longleftrightarrow> list_ex (\<lambda>(_, c). cr_block_hash c = hash) (rows_of net (db_canonical d))"

text \<open>The instances at the positions of the selected witnesses.\<close>

definition canonical_instances :: "string \<Rightarrow> db \<Rightarrow> int list" where
  "canonical_instances net d =
     concat (map (\<lambda>(_, c). map snd (rows_of (cr_block_hash c, cr_witness_hash c) (db_block_transactions d)))
       (rows_of net (db_canonical d)))"

definition tx_exists :: "string \<Rightarrow> string \<Rightarrow> db \<Rightarrow> bool" where
  "tx_exists net txid d \<longleftrightarrow>
     list_ex (\<lambda>i. case t_find (db_instances d) i of None \<Rightarrow> False | Some t \<Rightarrow> tr_txid t = txid) (canonical_instances net d)"

definition address_exists :: "string \<Rightarrow> string \<Rightarrow> db \<Rightarrow> bool" where
  "address_exists net a d \<longleftrightarrow>
     list_ex (\<lambda>i. list_ex (\<lambda>(_, ro). or_address ro = Some a) (rows_of i (db_outputs d))) (canonical_instances net d)"

definition lookup ::
    "('net, 'addr) api_crates \<Rightarrow> app_state \<Rightarrow> request \<Rightarrow> string \<Rightarrow> search_result option result" where
  "lookup A S R needle =
     (let net = nc_id (as_network S) in
      case parse_u64 needle of
        Some height \<Rightarrow>
          rbind (api_to_i64 height ''height'') (\<lambda>h.
          rbind (snap R 2 (\<lambda>d. Inr (height_exists net h d))) (\<lambda>exists.
          Inr (if exists then Some (new_search_result ''block'' needle (''/block/'' @ needle)) else None)))
      | None \<Rightarrow>
          if is_hash needle
          then rbind (snap R 2 (\<lambda>d. Inr (block_exists net needle d))) (\<lambda>block_found.
            if block_found then Inr (Some (new_search_result ''block'' needle (''/block/'' @ needle)))
            else rbind (snap R 3 (\<lambda>d. Inr (tx_exists net needle d))) (\<lambda>tx_found.
              Inr (if tx_found then Some (new_search_result ''transaction'' needle (''/tx/'' @ needle)) else None)))
          else rbind (validate_address A needle (as_network S)) (\<lambda>a.
            rbind (snap R 2 (\<lambda>d. Inr (address_exists net a d))) (\<lambda>exists.
            Inr (if exists then Some (new_search_result ''address'' a (''/address/'' @ a)) else None))))"

definition search ::
    "('net, 'addr) api_crates \<Rightarrow> app_state \<Rightarrow> request \<Rightarrow> string \<Rightarrow> search_result api_envelope result" where
  "search A S R q =
     (let needle = str_trim q in
      rbind (guard (\<not> (needle = [] \<or> length needle > 256))
               (InvalidRequest ''search query must contain between 1 and 256 characters'')) (\<lambda>_.
      rbind (read_snapshot R 0) (\<lambda>_.
      rbind (snapshot_chain_state R (nc_id (as_network S))) (\<lambda>chain.
      rbind (lookup A S R needle) (\<lambda>found.
      rbind (ok_or found NotFound) (\<lambda>result.
      rbind (read_snapshot R 4) (\<lambda>_.
      Inr (envelope S (rq_clock R 0) result None chain))))))))"

section \<open>What is on the chain\<close>

text \<open>The transactions at the places of the chain, and the addresses their outputs pay.\<close>

definition placed_on :: "db \<Rightarrow> chain \<Rightarrow> int \<Rightarrow> bool" where
  "placed_on d cs i \<longleftrightarrow> (\<exists>c \<in> set cs. \<exists>p. t_find (db_block_transactions d) (c, p) = Some i)"

definition chain_txid :: "db \<Rightarrow> chain \<Rightarrow> string \<Rightarrow> bool" where
  "chain_txid d cs x \<longleftrightarrow> (\<exists>i t. placed_on d cs i \<and> t_find (db_instances d) i = Some t \<and> tr_txid t = x)"

definition chain_address :: "db \<Rightarrow> chain \<Rightarrow> string \<Rightarrow> bool" where
  "chain_address d cs a \<longleftrightarrow> (\<exists>i k ro. placed_on d cs i \<and> t_find (db_outputs d) (i, k) = Some ro \<and> or_address ro = Some a)"

lemma chain_selections:
  assumes "chain_ok net d cs"
  shows "(\<exists>h c. (h, c) \<in> set (rows_of net (db_canonical d)) \<and> Q (cr_block_hash c, cr_witness_hash c)) \<longleftrightarrow> (\<exists>x \<in> set cs. Q x)"
proof -
  have wf: "t_wf (db_canonical d)" using assms by (simp add: chain_ok_def db_wf_def)
  have "(\<exists>h c. (h, c) \<in> set (rows_of net (db_canonical d)) \<and> Q (cr_block_hash c, cr_witness_hash c)) \<longleftrightarrow>
      (\<exists>h x. selected net d h = Some x \<and> Q x)" by (auto simp: rows_of_find[OF wf] selected_def)
  also have "\<dots> \<longleftrightarrow> (\<exists>h x. chain_at cs h = Some x \<and> Q x)" using assms by (simp add: chain_ok_def)
  also have "\<dots> \<longleftrightarrow> (\<exists>x \<in> set cs. Q x)"
  proof
    assume "\<exists>h x. chain_at cs h = Some x \<and> Q x"
    then obtain h where "nat h < length cs" "Q (cs ! nat h)" unfolding chain_at_def by (auto split: if_splits) (metis nat_less_iff)
    then show "\<exists>x \<in> set cs. Q x" by (metis nth_mem)
  next
    assume "\<exists>x \<in> set cs. Q x"
    then obtain k where "k < length cs" "Q (cs ! k)" by (auto simp: in_set_conv_nth)
    then show "\<exists>h x. chain_at cs h = Some x \<and> Q x" using chain_at_nth by blast
  qed
  finally show ?thesis .
qed

lemma canonical_instances_chain:
  assumes "chain_ok net d cs"
  shows "i \<in> set (canonical_instances net d) \<longleftrightarrow> placed_on d cs i"
proof -
  have wf: "t_wf (db_block_transactions d)" using assms by (simp add: chain_ok_def db_wf_def)
  have "i \<in> set (canonical_instances net d) \<longleftrightarrow>
      (\<exists>h c. (h, c) \<in> set (rows_of net (db_canonical d)) \<and>
         (\<exists>p. t_find (db_block_transactions d) ((cr_block_hash c, cr_witness_hash c), p) = Some i))"
    by (force simp: canonical_instances_def simp flip: rows_of_find[OF wf])
  also have "\<dots> \<longleftrightarrow> placed_on d cs i"
    unfolding placed_on_def by (rule chain_selections[OF assms, where Q = "\<lambda>x. \<exists>p. t_find (db_block_transactions d) (x, p) = Some i"])
  finally show ?thesis .
qed

lemma exists_chain:
  assumes "chain_ok net d cs"
  shows "height_exists net (int k) d \<longleftrightarrow> k < length cs"
    and "block_exists net x d \<longleftrightarrow> x \<in> set (map fst cs)"
    and "tx_exists net x d \<longleftrightarrow> chain_txid d cs x"
    and "address_exists net x d \<longleftrightarrow> chain_address d cs x"
proof -
  have wf: "t_wf (db_outputs d)" using assms by (simp add: chain_ok_def db_wf_def)
  have "height_exists net (int k) d \<longleftrightarrow> selected net d (int k) \<noteq> None" by (simp add: height_exists_def selected_def)
  also have "\<dots> \<longleftrightarrow> k < length cs" using assms by (simp add: chain_ok_def chain_at_def)
  finally show "height_exists net (int k) d \<longleftrightarrow> k < length cs" .
  have "block_exists net x d \<longleftrightarrow> (\<exists>h c. (h, c) \<in> set (rows_of net (db_canonical d)) \<and> fst (cr_block_hash c, cr_witness_hash c) = x)"
    by (auto simp: block_exists_def list_ex_iff)
  then show "block_exists net x d \<longleftrightarrow> x \<in> set (map fst cs)"
    unfolding chain_selections[OF assms, of "\<lambda>y. fst y = x"] by auto
  show "tx_exists net x d \<longleftrightarrow> chain_txid d cs x"
    by (auto simp: tx_exists_def chain_txid_def list_ex_iff canonical_instances_chain[OF assms] split: option.splits)
  have "list_ex (\<lambda>(_, ro). or_address ro = Some x) (rows_of i (db_outputs d)) \<longleftrightarrow>
      (\<exists>k ro. t_find (db_outputs d) (i, k) = Some ro \<and> or_address ro = Some x)" for i
    by (force simp: list_ex_iff rows_of_find[OF wf] simp flip: rows_of_find[OF wf])
  then show "address_exists net x d \<longleftrightarrow> chain_address d cs x"
    unfolding address_exists_def chain_address_def list_ex_iff[of _ "canonical_instances net d"]
    using canonical_instances_chain[OF assms] by metis
qed

section \<open>Search against the chain\<close>

text \<open>What a search means: where the needle is on the chain.\<close>

definition find_on_chain :: "db \<Rightarrow> chain \<Rightarrow> string \<Rightarrow> string result \<Rightarrow> search_result option result" where
  "find_on_chain d cs needle addr =
     (case parse_u64 needle of
        Some h \<Rightarrow>
          if 2 ^ 63 \<le> h then Inl (InvalidRequest ''height exceeds the supported range'')
          else Inr (if h < length cs then Some (new_search_result ''block'' needle (''/block/'' @ needle)) else None)
      | None \<Rightarrow>
          if is_hash needle
          then Inr (if needle \<in> set (map fst cs) then Some (new_search_result ''block'' needle (''/block/'' @ needle))
                    else if chain_txid d cs needle then Some (new_search_result ''transaction'' needle (''/tx/'' @ needle))
                    else None)
          else (case addr of
                  Inl e \<Rightarrow> Inl e
                | Inr a \<Rightarrow> Inr (if chain_address d cs a then Some (new_search_result ''address'' a (''/address/'' @ a)) else None)))"

lemma snap_steady: "steady R d \<Longrightarrow> snap R k q = q d"
  by (simp add: snap_def steady_def)

lemma lookup_chain:
  assumes "steady R d" and "chain_ok (nc_id (as_network S)) d cs"
  shows "lookup A S R needle = find_on_chain d cs needle (validate_address A needle (as_network S))"
  using exists_chain[OF assms(2)]
  by (auto simp: lookup_def find_on_chain_def snap_steady[OF assms(1)] api_to_i64_def i64_try_from_def Let_def rbind_def
      split: option.split sum.split)

text \<open>C21. Search implements its meaning.  On a database that represents a chain and answers every
  query, searching for a text finds exactly what the trimmed text denotes: the block at a height of
  the chain, the block with that hash, otherwise a transaction with that identifier at a place of
  the chain, or a transparent address, in its canonical encoding, that an output of such a
  transaction pays.  Anything else is not found or an invalid request; blocks take precedence over
  transactions, and numbers over everything.\<close>

theorem search_refines_chain:
  assumes "steady R d" and "chain_ok (nc_id (as_network S)) d cs"
  shows "rbind (search A S R q) (\<lambda>e. Inr (ae_data e)) =
     (if str_trim q = [] \<or> 256 < length (str_trim q)
      then Inl (InvalidRequest ''search query must contain between 1 and 256 characters'')
      else rbind (find_on_chain d cs (str_trim q) (validate_address A (str_trim q) (as_network S)))
             (\<lambda>found. ok_or found NotFound))"
proof -
  obtain s where "t_find (db_chain_state d) (nc_id (as_network S)) = Some s"
    using assms(2) by (auto simp: chain_ok_def tip_named_def)
  then have "snapshot_chain_state R (nc_id (as_network S)) = Inr s"
    by (simp add: snapshot_chain_state_def snap_steady[OF assms(1)] load_chain_state_def)
  then show ?thesis
    by (simp add: search_def read_snapshot_def read_steady[OF assms(1)] lookup_chain[OF assms] Let_def guard_def envelope_def
        rbind_def split: sum.split)
qed

theorem search_refines_chain_witness:
  "rbind (search example_api api_state (still api_db) '' 1 '') (\<lambda>e. Inr (ae_data e)) =
     Inr (new_search_result ''block'' ''1'' ''/block/1'') \<and>
   rbind (search example_api api_state (still api_db) ''tm1'') (\<lambda>e. Inr (ae_data e)) =
     Inr (new_search_result ''address'' ''tm1'' ''/address/tm1'')"
proof -
  note spec = search_refines_chain[OF steady_still[of api_db], of api_state api_chain example_api]
  have "str_trim '' 1 '' = ''1''" "parse_u64 ''1'' = Some 1" by code_simp+
  moreover have "str_trim ''tm1'' = ''tm1''" "parse_u64 ''tm1'' = None" "validate_address example_api ''tm1'' api_network = Inr ''tm1''"
    by code_simp+
  moreover have "placed_on api_db api_chain 1" unfolding placed_on_def
    by (rule bexI[of _ "api_chain ! 0"], rule exI[of _ 0]) (simp_all add: api_db_def t_find_def api_chain_def)
  then have "chain_address api_db api_chain ''tm1''" unfolding chain_address_def
    by (intro exI[of _ 1] exI[of _ 0] exI[of _ api_output]) (simp add: api_db_def t_find_def api_output_def)
  ultimately show ?thesis
    using spec[of "'' 1 ''"] spec[of "''tm1''"] api_db_chain
    by (simp add: find_on_chain_def is_hash_def) (simp add: api_chain_def api_state_def)
qed

end
