(* ===== verification/Api_Tx_Pages.thy ===== *)
theory Api_Tx_Pages imports Api_Pages begin

text \<open>
  The transaction list serves every transaction of the canonical chain exactly once, latest first.
\<close>

section \<open>Order and membership of the joined rows\<close>

lemma sorted_wrt_concat:
  assumes "sorted_wrt Q xs" and "\<And>x. x \<in> set xs \<Longrightarrow> sorted_wrt P (f x)"
    and "\<And>x y u v. x \<in> set xs \<Longrightarrow> y \<in> set xs \<Longrightarrow> Q x y \<Longrightarrow> u \<in> set (f x) \<Longrightarrow> v \<in> set (f y) \<Longrightarrow> P u v"
  shows "sorted_wrt P (concat (map f xs))"
  using assms
proof (induction xs)
  case (Cons x xs)
  have "sorted_wrt P (concat (map f xs))"
  proof (rule Cons.IH)
    show "sorted_wrt Q xs" using Cons.prems(1) by simp
    show "sorted_wrt P (f y)" if "y \<in> set xs" for y using Cons.prems(2) that by simp
    show "P u v" if "y \<in> set xs" "z \<in> set xs" "Q y z" "u \<in> set (f y)" "v \<in> set (f z)" for y z u v
      by (rule Cons.prems(3)[of y z]) (use that in auto)
  qed
  moreover have "P u v" if "u \<in> set (f x)" "v \<in> set (concat (map f xs))" for u v
    using that Cons.prems(1) Cons.prems(3)[of x] by auto
  ultimately show ?case using Cons.prems(2) by (simp add: sorted_wrt_append)
qed simp

lemma sorted_wrt_map_filter:
  assumes "sorted_wrt P xs" and "\<And>x y u v. P x y \<Longrightarrow> f x = Some u \<Longrightarrow> f y = Some v \<Longrightarrow> Q u v"
  shows "sorted_wrt Q (List.map_filter f xs)"
  using assms(1)
proof (induction xs)
  case (Cons x xs)
  have "Q u v" if "f x = Some u" "v \<in> set (List.map_filter f xs)" for u v
    using that Cons.prems assms(2) by (force simp: List.map_filter_def)
  with Cons show ?case by (simp split: option.split)
qed simp

lemma rows_of_increasing: "t_wf t \<Longrightarrow> sorted_wrt (\<lambda>x y. fst x < fst y) (rows_of owner t)"
proof -
  assume "t_wf t"
  then have "sorted_wrt (<) (map fst (rows_of owner t))"
    using rows_of_keys[of t owner] unfolding strict_sorted_iff by simp
  then show ?thesis by (simp add: sorted_wrt_map)
qed

lemma block_joins_mem:
  assumes "t_wf (db_block_transactions d)"
  shows "(h, x, b, p, i, t) \<in> set (block_joins d h' x' w b') \<longleftrightarrow>
     h = h' \<and> x = x' \<and> b = b' \<and> t_find (db_block_transactions d) ((x, w), p) = Some i \<and> t_find (db_instances d) i = Some t"
  by (force simp: block_joins_def List.map_filter_def rows_of_find[OF assms] split: prod.splits)

lemma block_joins_increasing:
  assumes "t_wf (db_block_transactions d)"
  shows "sorted_wrt (\<lambda>j j'. join_place j < join_place j') (block_joins d h x w b)"
  unfolding block_joins_def
  by (rule sorted_wrt_map_filter[OF rows_of_increasing[OF assms]])
    (auto simp: join_place_def less_tx_place_def)

lemma canonical_txs_sorted:
  assumes "db_wf d"
  shows "sorted_wrt (\<lambda>j j'. join_place j' < join_place j) (canonical_txs net d)"
  unfolding canonical_txs_def
proof (rule sorted_wrt_concat[where Q = "\<lambda>x y. fst y < fst x"])
  have wf: "t_wf (db_canonical d)" "t_wf (db_block_transactions d)" using assms by (simp_all add: db_wf_def)
  show "sorted_wrt (\<lambda>x y. fst y < fst x) (rev (rows_of net (db_canonical d)))"
    using rows_of_increasing[OF wf(1)] by (simp add: sorted_wrt_rev)
  fix x assume "x \<in> set (rev (rows_of net (db_canonical d)))"
  show "sorted_wrt (\<lambda>j j'. join_place j' < join_place j) (case x of (height, c) \<Rightarrow>
      case t_find (db_blocks d) (cr_block_hash c) of None \<Rightarrow> []
      | Some b \<Rightarrow> rev (block_joins d height (cr_block_hash c) (cr_witness_hash c) b))"
    using block_joins_increasing[OF wf(2)] by (auto simp: sorted_wrt_rev split: prod.splits option.splits)
next
  have wf: "t_wf (db_block_transactions d)" using assms by (simp add: db_wf_def)
  fix x y u v
  assume "fst (y :: int \<times> canonical_row) < fst x"
    and "u \<in> set (case x of (height, c) \<Rightarrow> case t_find (db_blocks d) (cr_block_hash c) of None \<Rightarrow> []
      | Some b \<Rightarrow> rev (block_joins d height (cr_block_hash c) (cr_witness_hash c) b))"
    and "v \<in> set (case y of (height, c) \<Rightarrow> case t_find (db_blocks d) (cr_block_hash c) of None \<Rightarrow> []
      | Some b \<Rightarrow> rev (block_joins d height (cr_block_hash c) (cr_witness_hash c) b))"
  then show "join_place v < join_place u"
    using block_joins_mem[OF wf]
    by (cases u; cases v) (fastforce simp: join_place_def less_tx_place_def split: prod.splits option.splits)
qed

lemma canonical_txs_rows:
  assumes "t_wf (db_block_transactions d)"
  shows "(\<exists>b. (h, x, b, p, i, t) \<in> set (canonical_txs net d)) \<longleftrightarrow>
      (\<exists>c b. (h, c) \<in> set (rows_of net (db_canonical d)) \<and> t_find (db_blocks d) (cr_block_hash c) = Some b \<and>
         x = cr_block_hash c \<and> t_find (db_block_transactions d) ((x, cr_witness_hash c), p) = Some i \<and>
         t_find (db_instances d) i = Some t)"
    (is "?L \<longleftrightarrow> ?R")
proof
  assume ?L
  then obtain b c where "(h, c) \<in> set (rows_of net (db_canonical d))"
    and "(h, x, b, p, i, t) \<in> set (case t_find (db_blocks d) (cr_block_hash c) of None \<Rightarrow> []
       | Some b \<Rightarrow> rev (block_joins d h (cr_block_hash c) (cr_witness_hash c) b))"
    by (fastforce simp: canonical_txs_def block_joins_mem[OF assms] split: option.splits)
  then show ?R by (cases "t_find (db_blocks d) (cr_block_hash c)") (auto simp: block_joins_mem[OF assms])
next
  assume ?R
  then obtain c b where "(h, c) \<in> set (rows_of net (db_canonical d))" "t_find (db_blocks d) (cr_block_hash c) = Some b"
    "(h, x, b, p, i, t) \<in> set (rev (block_joins d h (cr_block_hash c) (cr_witness_hash c) b))"
    by (auto simp: block_joins_mem[OF assms])
  then show ?L unfolding canonical_txs_def by (intro exI[of _ b]) force
qed

lemma canonical_rows_chain:
  assumes "chain_ok net d cs"
  shows "(\<exists>c b. (h, c) \<in> set (rows_of net (db_canonical d)) \<and> t_find (db_blocks d) (cr_block_hash c) = Some b \<and>
            (cr_block_hash c, cr_witness_hash c) = (x, w)) \<longleftrightarrow>
     (\<exists>k. h = int k \<and> k < length cs \<and> cs ! k = (x, w))"
    (is "?L \<longleftrightarrow> ?R")
proof
  assume ?L
  then obtain c where c: "(h, c) \<in> set (rows_of net (db_canonical d))" "cr_block_hash c = x" "cr_witness_hash c = w" by blast
  from canonical_row_joins[OF assms c(1)] have "0 \<le> h" "nat h < length cs" "cs ! nat h = (x, w)"
    unfolding c(2,3) by metis+
  then show ?R by (metis int_nat_eq)
next
  assume ?R
  then obtain k where k: "h = int k" "k < length cs" "cs ! k = (x, w)" by blast
  have "selected net d h = Some (x, w)" using assms k by (simp add: chain_ok_def chain_at_def)
  then obtain c where "t_find (db_canonical d) (net, h) = Some c" "cr_block_hash c = x" "cr_witness_hash c = w"
    by (auto simp: selected_def)
  moreover have "t_wf (db_canonical d)" using assms by (simp add: chain_ok_def db_wf_def)
  moreover have "\<exists>b. t_find (db_blocks d) x = Some b"
    using assms k(2,3) unfolding chain_ok_def block_linked_def by (metis fst_conv)
  ultimately show ?L using rows_of_find[of "db_canonical d"] by (metis (no_types))
qed

lemma canonical_txs_mem:
  assumes "chain_ok net d cs"
  shows "(\<exists>b. (h, x, b, p, i, t) \<in> set (canonical_txs net d)) \<longleftrightarrow>
     (\<exists>k w. h = int k \<and> k < length cs \<and> cs ! k = (x, w) \<and>
        t_find (db_block_transactions d) ((x, w), p) = Some i \<and> t_find (db_instances d) i = Some t)"
proof -
  have "t_wf (db_block_transactions d)" using assms by (simp add: chain_ok_def db_wf_def)
  then have "(\<exists>b. (h, x, b, p, i, t) \<in> set (canonical_txs net d)) \<longleftrightarrow>
      (\<exists>w. (\<exists>c b. (h, c) \<in> set (rows_of net (db_canonical d)) \<and> t_find (db_blocks d) (cr_block_hash c) = Some b \<and>
              (cr_block_hash c, cr_witness_hash c) = (x, w)) \<and>
           t_find (db_block_transactions d) ((x, w), p) = Some i \<and> t_find (db_instances d) i = Some t)"
    by (subst canonical_txs_rows) auto
  then show ?thesis unfolding canonical_rows_chain[OF assms] by blast
qed

section \<open>The transaction list\<close>

text \<open>The place a decoded cursor stands for.\<close>

definition tx_bound :: "('net, 'addr) api_crates \<Rightarrow> string \<Rightarrow> tx_place result" where
  "tx_bound A c =
     rbind (decode_tx_cursor A c) (\<lambda>(h, p).
     rbind (api_to_i64 h ''transaction cursor height'') (\<lambda>i. Inr (Tx_Place i p)))"

lemma tx_columns_place:
  "tx_columns d j = Inr w \<Longrightarrow> Tx_Place (tw_block_height w) (tw_tx_position w) = join_place j"
  by (cases j) (auto simp: tx_columns_def join_place_def)

lemma tx_from_row_place:
  "tx_from_row n w = Inr v \<Longrightarrow> int (ts_block_height v) = tw_block_height w \<and> ts_position v = tw_tx_position w"
  by (auto simp: tx_from_row_def to_u64_def)

text \<open>A place the columns and the cursors can hold.\<close>

definition place_ok :: "tx_place \<Rightarrow> bool" where
  "place_ok p \<longleftrightarrow> 0 \<le> place_height p \<and> place_height p < 2 ^ 63 \<and> 0 \<le> place_position p \<and> place_position p < 2 ^ 31"

interpretation tx_list: paged_list join_place "tx_columns d" "tx_from_row n"
    "\<lambda>tx. encode_tx_cursor A (ts_block_height tx) (ts_position tx)" "tx_bound A"
    "\<lambda>j. base64_ok A \<and> place_ok (join_place j)"
  for d n A
proof
  fix r :: tx_join and w v
  assume ok: "base64_ok A \<and> place_ok (join_place r)" and w: "tx_columns d r = Inr w" and v: "tx_from_row n w = Inr v"
  have place: "join_place r = Tx_Place (int (ts_block_height v)) (ts_position v)"
    using tx_columns_place[OF w] tx_from_row_place[OF v] by simp
  then have "decode_tx_cursor A (encode_tx_cursor A (ts_block_height v) (ts_position v)) = Inr (ts_block_height v, ts_position v)"
    using tx_cursor_inverse[of A "ts_block_height v" "ts_position v"] ok by (simp add: place_ok_def)
  then show "tx_bound A (encode_tx_cursor A (ts_block_height v) (ts_position v)) = Inr (join_place r)"
    using ok place by (simp add: tx_bound_def api_to_i64_def i64_try_from_def place_ok_def)
qed

lemma transactions_page:
  assumes "steady R d" and "t_find (db_chain_state d) (nc_id (as_network S)) \<noteq> None"
  shows "as_page (transactions A S R \<lparr>pq_cursor = c, pq_limit = l\<rparr>) =
     keyset_page join_place (tx_columns d) (tx_from_row (as_network S))
       (\<lambda>tx. encode_tx_cursor A (ts_block_height tx) (ts_position tx)) (tx_bound A)
       (canonical_txs (nc_id (as_network S)) d) (bounded_limit l) c"
proof -
  obtain s where "t_find (db_chain_state d) (nc_id (as_network S)) = Some s" using assms(2) by blast
  then have st: "chain_state S R = Inr s" using assms(1) by (simp add: chain_state_def read_steady load_chain_state_def)
  have bounds: "rbind (transpose_opt (map_option (decode_tx_cursor A) c)) tx_before = transpose_opt (map_option (tx_bound A) c)"
    by (cases c) (auto simp: tx_before_def tx_bound_def rbind_def split: sum.splits prod.splits)
  show ?thesis
    unfolding keyset_page_def bounds[symmetric]
    by (simp add: transactions_def as_page_def TRANSACTION_SUMMARY_QUERY_def read_steady[OF assms(1)] Let_def
        envelope_def rbind_def st split: sum.splits)
qed

text \<open>The transactions of a chain, by place and identity.\<close>

definition tx_key :: "tx_summary \<Rightarrow> int \<times> string \<times> int \<times> string \<times> string" where
  "tx_key v = (int (ts_block_height v), ts_block_hash v, ts_position v, ts_txid v, ts_instance_digest v)"

definition stored_txs :: "db \<Rightarrow> chain \<Rightarrow> (int \<times> string \<times> int \<times> string \<times> string) set" where
  "stored_txs d cs = {(int k, fst (cs ! k), p, tr_txid t, tr_instance_digest t) | k p i t.
     k < length cs \<and> t_find (db_block_transactions d) (cs ! k, p) = Some i \<and> t_find (db_instances d) i = Some t}"

lemma tx_item:
  assumes "tx_list.item d n (h, x, b, p, i, t) = Inr v"
  shows "tx_key v = (h, x, p, tr_txid t, tr_instance_digest t)"
proof -
  from assms obtain w where "tx_columns d (h, x, b, p, i, t) = Inr w" "tx_from_row n w = Inr v"
    by (auto simp: tx_list.item_def)
  then show ?thesis by (auto simp: tx_columns_def tx_from_row_def tx_key_def to_u64_def)
qed

lemma canonical_txs_place:
  assumes "chain_ok net d cs" and "\<forall>((w, p), i) \<in> set (db_block_transactions d). 0 \<le> p \<and> p < 2 ^ 31"
    and "j \<in> set (canonical_txs net d)"
  shows "place_ok (join_place j)"
proof -
  obtain h x b p i t where j: "j = (h, x, b, p, i, t)" by (cases j)
  with assms(3) canonical_txs_mem[OF assms(1), of h x p i t] obtain k w where
    k: "h = int k" "k < length cs" "t_find (db_block_transactions d) ((x, w), p) = Some i" by blast
  have "t_wf (db_block_transactions d)" using assms(1) by (simp add: chain_ok_def db_wf_def)
  then have "(((x, w), p), i) \<in> set (db_block_transactions d)" using k(3) by (simp add: t_find_set)
  then have "0 \<le> p \<and> p < 2 ^ 31" using assms(2) by blast
  moreover have "length cs \<le> 2 ^ 63" using assms(1) by (simp add: chain_ok_def)
  ultimately show ?thesis using j k(1,2) by (simp add: join_place_def place_ok_def)
qed

lemma txs_stored:
  assumes "chain_ok net d cs" and "\<And>j. j \<in> set (canonical_txs net d) \<Longrightarrow> tx_list.item d n j = Inr (f j)"
  shows "tx_key ` f ` set (canonical_txs net d) = stored_txs d cs"
proof (rule set_eqI)
  fix key :: "int \<times> string \<times> int \<times> string \<times> string"
  obtain h x p txid digest where key: "key = (h, x, p, txid, digest)" by (cases key)
  have "key \<in> tx_key ` f ` set (canonical_txs net d) \<longleftrightarrow>
      (\<exists>i t. (\<exists>b. (h, x, b, p, i, t) \<in> set (canonical_txs net d)) \<and> txid = tr_txid t \<and> digest = tr_instance_digest t)"
    (is "?L \<longleftrightarrow> ?R")
  proof
    assume ?L
    then obtain j where j: "j \<in> set (canonical_txs net d)" "tx_key (f j) = key" by auto
    obtain h' x' b p' i t where j': "j = (h', x', b, p', i, t)" by (cases j)
    with tx_item[OF assms(2)[OF j(1), unfolded j']] j key show ?R by auto
  next
    assume ?R
    then obtain i t b where j: "(h, x, b, p, i, t) \<in> set (canonical_txs net d)" "txid = tr_txid t" "digest = tr_instance_digest t"
      by blast
    then have "tx_key (f (h, x, b, p, i, t)) = key" using tx_item[OF assms(2)[OF j(1)]] key by simp
    then show ?L using j(1) by (metis imageI)
  qed
  also have "\<dots> \<longleftrightarrow> key \<in> stored_txs d cs"
    unfolding canonical_txs_mem[OF assms(1)] key stored_txs_def by (auto; metis fst_conv prod.collapse)
  finally show "key \<in> tx_key ` f ` set (canonical_txs net d) \<longleftrightarrow> key \<in> stored_txs d cs" .
qed

text \<open>C13. The transaction list is complete.  On a database that represents a chain and does not
  change, with positions in the range of their column and no sum beyond \<open>BIGINT\<close>, following the
  next-cursors of \<open>/transactions\<close> from the first page ends, with any requested limit.  The pages
  together hold exactly the transactions stored for the selected witnesses of the chain, strictly
  descending by height and position, so none is skipped or repeated at a page boundary.\<close>

theorem tx_pages_complete:
  assumes "base64_ok A" and "steady R d" and "chain_ok (nc_id (as_network S)) d cs"
    and "\<forall>((w, p), i) \<in> set (db_block_transactions d). 0 \<le> p \<and> p < 2 ^ 31"
    and "\<forall>j \<in> set (canonical_txs (nc_id (as_network S)) d). is_ok (tx_columns d j)"
  shows "\<exists>vs. (\<forall>ws. crawl (\<lambda>c. as_page (transactions A S R \<lparr>pq_cursor = c, pq_limit = l\<rparr>)) None ws \<longleftrightarrow> ws = vs) \<and>
     tx_key ` set vs = stored_txs d cs \<and>
     sorted_wrt (\<lambda>v v'. Tx_Place (int (ts_block_height v')) (ts_position v') < Tx_Place (int (ts_block_height v)) (ts_position v)) vs"
proof -
  let ?net = "nc_id (as_network S)" and ?js = "canonical_txs (nc_id (as_network S)) d"
  have wf: "db_wf d" and st: "t_find (db_chain_state d) ?net \<noteq> None"
    using assms(3) by (auto simp: chain_ok_def tip_named_def)
  note sorted = canonical_txs_sorted[OF wf, of ?net] and places = canonical_txs_place[OF assms(3,4)]
  have "\<exists>v. tx_list.item d (as_network S) j = Inr v" if j: "j \<in> set ?js" for j
  proof -
    from assms(5) j obtain w where w: "tx_columns d j = Inr w" by (auto simp: is_ok_iff)
    then have "0 \<le> tw_block_height w \<and> tw_block_height w < 2 ^ 63"
      using tx_columns_place[OF w] places[OF j] unfolding place_ok_def by (metis tx_place.sel(1))
    then show ?thesis using w by (simp add: tx_list.item_def tx_from_row_def to_u64_def u64_try_from_def)
  qed
  then obtain f where f: "\<And>j. j \<in> set ?js \<Longrightarrow> tx_list.item d (as_network S) j = Inr (f j)" by metis
  have items: "map (tx_list.item d (as_network S)) (below join_place None ?js) = map Inr (map f ?js)"
    using f by (simp add: below_def)
  have "crawl (\<lambda>c. as_page (transactions A S R \<lparr>pq_cursor = c, pq_limit = l\<rparr>)) None ws \<longleftrightarrow> ws = map f ?js" for ws
    unfolding transactions_page[OF assms(2) st]
    using places assms(1) bounded_limit_bounds[of l] items
    by (intro tx_list.crawl_exact[OF sorted]) auto
  moreover have "Tx_Place (int (ts_block_height (f j))) (ts_position (f j)) = join_place j" if "j \<in> set ?js" for j
    using f[OF that] tx_columns_place[of d j] tx_from_row_place by (auto simp: tx_list.item_def)
  then have "sorted_wrt (\<lambda>v v'. Tx_Place (int (ts_block_height v')) (ts_position v') < Tx_Place (int (ts_block_height v)) (ts_position v)) (map f ?js)"
    using sorted by (auto simp: sorted_wrt_map intro: sorted_wrt_mono_rel[rotated])
  ultimately show ?thesis using txs_stored[OF assms(3) f] by (intro exI[of _ "map f ?js"]) simp
qed

theorem tx_pages_complete_witness:
  "\<exists>vs. crawl (\<lambda>c. as_page (transactions example_api api_state (still api_db) \<lparr>pq_cursor = c, pq_limit = Some 1\<rparr>)) None vs \<and>
     tx_key ` set vs = stored_txs api_db api_chain \<and>
     (0, id64 CHR ''1'', 0, id64 CHR ''c'', id64 CHR ''c'') \<in> stored_txs api_db api_chain"
proof -
  have positions: "\<forall>((w, p), i) \<in> set (db_block_transactions api_db). 0 \<le> p \<and> p < 2 ^ 31"
    by (simp add: api_db_def)
  have columns: "\<forall>j \<in> set (canonical_txs ''testnet'' api_db). is_ok (tx_columns api_db j)"
    using api_columns_fit by (simp add: columns_fit_def list_all_iff)
  have "t_find (db_block_transactions api_db) (api_chain ! 0, 0) = Some 1" "t_find (db_instances api_db) 1 = Some (api_instance CHR ''c'')"
    by (simp_all add: api_db_def t_find_def)
  then have "(0, id64 CHR ''1'', 0, id64 CHR ''c'', id64 CHR ''c'') \<in> stored_txs api_db api_chain"
    unfolding stored_txs_def
    by (auto simp: api_chain_def api_instance_def intro!: exI[of _ 0] exI[of _ 1] exI[of _ "api_instance CHR ''c''"])
  then show ?thesis
    using tx_pages_complete[OF example_base64_ok steady_still, of api_state api_db api_chain "Some 1"]
      api_db_chain positions columns by auto
qed

end
