(* ===== verification/Api_Status.thy ===== *)
theory Api_Status imports Api_Pages begin

text \<open>
  Health and status (\<open>src/api.rs\<close>): readiness with the parent evidence it demands, the status
  view, and the list of reorganizations.  What readiness means on a represented chain is stated
  against a specification over the stored rows.
\<close>

section \<open>Parent evidence\<close>

record parent_evidence_readiness =
  er_exact_witness_state :: "string option"
  er_local_validation_state :: "string option"
  er_parent_lookup_state :: "string option"
  er_parent_sources_agree :: "bool option"
  er_parent_hash_meets_claimed_target :: "bool option"
  er_verified_at :: "datetime option"
  er_source_count :: int
  er_canonical_matching_source_count :: int
  er_oldest_observation_at :: "datetime option"
  er_exempt :: bool

definition evidence_default :: parent_evidence_readiness where
  "evidence_default =
     \<lparr>er_exact_witness_state = None, er_local_validation_state = None, er_parent_lookup_state = None,
      er_parent_sources_agree = None, er_parent_hash_meets_claimed_target = None, er_verified_at = None,
      er_source_count = 0, er_canonical_matching_source_count = 0, er_oldest_observation_at = None,
      er_exempt = False\<rparr>"

definition evidence_genesis :: parent_evidence_readiness where
  "evidence_genesis = evidence_default\<lparr>er_exempt := True\<rparr>"

definition evidence_not_required :: parent_evidence_readiness where
  "evidence_not_required = evidence_default\<lparr>er_exempt := True\<rparr>"

definition evidence_is_ready :: "datetime \<Rightarrow> parent_evidence_readiness \<Rightarrow> bool" where
  "evidence_is_ready now e =
     (if er_exempt e then True
      else let evidence_age = map_option (seconds_since now) (er_verified_at e);
               oldest_observation_age = map_option (seconds_since now) (er_oldest_observation_at e) in
        er_exact_witness_state e = Some ''best_chain'' \<and>
        er_local_validation_state e = Some ''auxpow_verified'' \<and>
        er_parent_lookup_state e = Some ''canonical'' \<and>
        er_parent_sources_agree e = Some True \<and>
        er_parent_hash_meets_claimed_target e = Some True \<and>
        er_source_count e \<ge> 2 \<and>
        er_canonical_matching_source_count e = er_source_count e \<and>
        (case evidence_age of None \<Rightarrow> False | Some age \<Rightarrow> age \<le> PARENT_EVIDENCE_MAX_AGE_SECONDS) \<and>
        (case oldest_observation_age of None \<Rightarrow> False | Some age \<Rightarrow> age \<le> PARENT_EVIDENCE_MAX_AGE_SECONDS))"

definition evidence_status :: "datetime \<Rightarrow> parent_evidence_readiness \<Rightarrow> string" where
  "evidence_status now e =
     (if er_exempt e then ''not required''
      else if evidence_is_ready now e then ''fresh canonical quorum''
      else ''missing, stale, or inconsistent'')"

text \<open>The \<open>FILTER\<close> of the second count; a comparison with null is not true.\<close>

definition canonical_matching :: "link_row \<Rightarrow> observation_row \<Rightarrow> bool" where
  "canonical_matching a ob \<longleftrightarrow>
     ow_observation_state ob = ''canonical'' \<and> ow_embedded_header_matches ob = Some True \<and>
     ow_parent_height ob \<noteq> None \<and>
     (case ow_parent_confirmations ob of None \<Rightarrow> False | Some k \<Rightarrow> k \<ge> 0) \<and>
     ow_parent_bits ob = Some (lk_parent_header_bits a)"

definition sql_min :: "int list \<Rightarrow> int option" where
  "sql_min vs = (case vs of [] \<Rightarrow> None | x # xs \<Rightarrow> Some (fold min xs x))"

definition PARENT_EVIDENCE_QUERY :: "string \<Rightarrow> int \<Rightarrow> string \<Rightarrow> db \<Rightarrow> parent_evidence_readiness option" where
  "PARENT_EVIDENCE_QUERY net height hash d =
     Option.bind (t_find (db_canonical d) (net, height)) (\<lambda>c.
     if cr_block_hash c \<noteq> hash then None
     else
       Option.bind (t_find (db_witnesses d) (hash, cr_witness_hash c)) (\<lambda>w.
       map_option (\<lambda>a.
         let obs = observations_of hash (cr_witness_hash c) d in
         \<lparr>er_exact_witness_state = Some (wr_exact_witness_state w),
          er_local_validation_state = Some (wr_local_validation_state w),
          er_parent_lookup_state = Some (lk_parent_lookup_state a),
          er_parent_sources_agree = Some (lk_parent_sources_agree a),
          er_parent_hash_meets_claimed_target = Some (lk_parent_hash_meets_claimed_target a),
          er_verified_at = Some (lk_verified_at a),
          er_source_count = int (card (fst ` set obs)),
          er_canonical_matching_source_count = int (card (fst ` set (filter (canonical_matching a \<circ> snd) obs))),
          er_oldest_observation_at = sql_min (map (ow_checked_at \<circ> snd) obs),
          er_exempt = False\<rparr>) (t_find (db_links d) (hash, cr_witness_hash c))))"

section \<open>Readiness\<close>

record ready_view =
  ry_network :: string
  ry_indexed_height :: "int option"
  ry_node_height :: "int option"
  ry_updated_at :: datetime

definition lag_blocks :: "chain_state_row \<Rightarrow> int option" where
  "lag_blocks row =
     (case (st_node_height row, st_indexed_height row) of
        (Some node, Some indexed) \<Rightarrow> Some (i64_saturating_sub node indexed) | _ \<Rightarrow> None)"

definition tip_exists :: "string \<Rightarrow> int \<Rightarrow> string \<Rightarrow> db \<Rightarrow> bool" where
  "tip_exists net height hash d =
     (case t_find (db_canonical d) (net, height) of None \<Rightarrow> False | Some c \<Rightarrow> cr_block_hash c = hash)"

text \<open>The evidence readiness looks at: its query is the request's third.\<close>

definition parent_evidence :: "app_state \<Rightarrow> request \<Rightarrow> chain_state_row \<Rightarrow> parent_evidence_readiness result" where
  "parent_evidence S R row =
     (if as_require_parent_quorum S
      then (case (st_indexed_height row, st_indexed_hash row) of
              (Some height, Some hash) \<Rightarrow>
                if height = 0 then Inr evidence_genesis
                else rbind (read R 2 (\<lambda>d. Inr (PARENT_EVIDENCE_QUERY (nc_id (as_network S)) height hash d))) (\<lambda>found.
                     Inr (case found of None \<Rightarrow> evidence_default | Some e \<Rightarrow> e))
            | _ \<Rightarrow> Inr evidence_default)
      else Inr evidence_not_required)"

definition not_ready :: "chain_state_row \<Rightarrow> int \<Rightarrow> bool \<Rightarrow> string \<Rightarrow> explorer_error" where
  "not_ready row age tip_valid evidence =
     NotReady (''indexer status is '' @ st_status row @ '', lag is '' @
       (case lag_blocks row of None \<Rightarrow> ''unknown'' | Some k \<Rightarrow> show_int k) @
       '' block(s), heartbeat age is '' @ show_int age @ ''s, canonical tip integrity is '' @
       (if tip_valid then ''valid'' else ''invalid'') @ '', and parent evidence is '' @ evidence)"

definition ready :: "app_state \<Rightarrow> request \<Rightarrow> ready_view result" where
  "ready S R =
     (let now = rq_clock R 0 in
      rbind (chain_state S R) (\<lambda>row.
      let lag = lag_blocks row;
          age = seconds_since now (st_updated_at row);
          tips_present = (st_indexed_height row \<noteq> None \<and> st_indexed_hash row \<noteq> None \<and>
            st_node_height row \<noteq> None \<and> st_node_hash row \<noteq> None);
          same_height_hash_matches = (st_indexed_height row \<noteq> st_node_height row \<or>
            st_indexed_hash row = st_node_hash row) in
      rbind (case (st_indexed_height row, st_indexed_hash row) of
               (Some height, Some hash) \<Rightarrow>
                 read R 1 (\<lambda>d. Inr (tip_exists (nc_id (as_network S)) height hash d))
             | _ \<Rightarrow> Inr False) (\<lambda>canonical_tip_exists.
      rbind (parent_evidence S R row) (\<lambda>evidence.
      let parent_evidence_ready = evidence_is_ready now evidence in
      if st_status row \<noteq> ''ready'' \<or> (case lag of None \<Rightarrow> True | Some k \<Rightarrow> k > 1) \<or>
         age > READY_MAX_AGE_SECONDS \<or> \<not> tips_present \<or> \<not> same_height_hash_matches \<or>
         \<not> canonical_tip_exists \<or> \<not> parent_evidence_ready
      then Inl (not_ready row age (canonical_tip_exists \<and> same_height_hash_matches) (evidence_status now evidence))
      else Inr \<lparr>ry_network = nc_id (as_network S), ry_indexed_height = st_indexed_height row,
             ry_node_height = st_node_height row, ry_updated_at = st_updated_at row\<rparr>))))"

section \<open>Status\<close>

text \<open>The observed spacing is given as the exact quotient PostgreSQL rounds to a double: microseconds
  over blocks.\<close>

record latest_chain_row =
  lc_difficulty_text :: string
  lc_chain_supply_zat :: "int option"
  lc_block_time :: datetime
  lc_observed_spacing :: "(int \<times> int) option"

definition canonical_headers :: "string \<Rightarrow> db \<Rightarrow> (int \<times> block_row) list" where
  "canonical_headers net d =
     List.map_filter (\<lambda>(height, c). map_option (Pair height) (t_find (db_blocks d) (cr_block_hash c)))
       (rev (rows_of net (db_canonical d)))"

definition observed_spacing :: "(int \<times> block_row) list \<Rightarrow> (int \<times> int) option" where
  "observed_spacing recent =
     (case recent of [] \<Rightarrow> None
      | (h, b) # rest \<Rightarrow>
          let times = map (br_block_time \<circ> snd) rest; heights = map fst rest;
              span = fold max heights h - fold min heights h in
          if span = 0 then None
          else Some (fold max times (br_block_time b) - fold min times (br_block_time b), span))"

definition LATEST_CHAIN_QUERY :: "string \<Rightarrow> db \<Rightarrow> latest_chain_row option" where
  "LATEST_CHAIN_QUERY net d =
     (case canonical_headers net d of [] \<Rightarrow> None
      | (_, b) # _ \<Rightarrow>
          Some \<lparr>lc_difficulty_text = br_difficulty_text b, lc_chain_supply_zat = br_chain_supply_zat b,
            lc_block_time = br_block_time b,
            lc_observed_spacing = observed_spacing (take 101 (canonical_headers net d))\<rparr>)"

record status_view =
  sv_network :: string
  sv_network_name :: string
  sv_symbol :: string
  sv_status :: string
  sv_indexed_height :: "nat option"
  sv_indexed_hash :: "string option"
  sv_node_height :: "nat option"
  sv_node_hash :: "string option"
  sv_lag_blocks :: "int option"
  sv_updated_at :: datetime
  sv_uptime_seconds :: int
  sv_difficulty :: "string option"
  sv_observed_spacing :: "(int \<times> int) option"
  sv_target_spacing_seconds :: nat
  sv_total_issued :: amount_view
  sv_max_supply :: amount_view
  sv_initial_subsidy :: amount_view
  sv_halving_interval :: nat
  sv_next_halving_height :: nat
  sv_coinbase_maturity :: nat
  sv_latest_block_time :: "datetime option"

definition status :: "app_state \<Rightarrow> request \<Rightarrow> status_view api_envelope result" where
  "status S R =
     rbind (chain_state S R) (\<lambda>chain.
     rbind (read R 1 (\<lambda>d. Inr (LATEST_CHAIN_QUERY (nc_id (as_network S)) d))) (\<lambda>latest.
     rbind (optional_u64 (st_indexed_height chain) ''indexed height'') (\<lambda>indexed_height.
     rbind (optional_u64 (st_node_height chain) ''node height'') (\<lambda>node_height.
     let n = as_network S in
     Inr (envelope S (rq_clock R 1)
       \<lparr>sv_network = nc_id n, sv_network_name = nc_display_name n, sv_symbol = nc_symbol n,
        sv_status = st_status chain, sv_indexed_height = indexed_height,
        sv_indexed_hash = st_indexed_hash chain, sv_node_height = node_height,
        sv_node_hash = st_node_hash chain, sv_lag_blocks = lag_blocks chain,
        sv_updated_at = st_updated_at chain,
        sv_uptime_seconds = seconds_since (rq_clock R 0) (as_started_at S),
        sv_difficulty = map_option lc_difficulty_text latest,
        sv_observed_spacing = Option.bind latest lc_observed_spacing,
        sv_target_spacing_seconds = nc_target_spacing_seconds n,
        sv_total_issued = amount (case Option.bind latest lc_chain_supply_zat of None \<Rightarrow> 0 | Some v \<Rightarrow> v) n,
        sv_max_supply = amount (nc_max_supply_zat n) n,
        sv_initial_subsidy = amount (nc_initial_subsidy_zat n) n,
        sv_halving_interval = nc_halving_interval n,
        sv_next_halving_height = next_halving_height (case indexed_height of None \<Rightarrow> 0 | Some h \<Rightarrow> h) n,
        sv_coinbase_maturity = nc_coinbase_maturity n,
        sv_latest_block_time = map_option lc_block_time latest\<rparr> None chain)))))"

section \<open>Reorganizations\<close>

record reorg_view =
  rg_event_id :: string
  rg_row :: reorg_row

text \<open>\<open>ORDER BY detected_at DESC LIMIT 100\<close>; events of one instant keep their insertion order,
  which SQL leaves open.\<close>

definition reorg_views :: "string \<Rightarrow> db \<Rightarrow> reorg_view list" where
  "reorg_views net d =
     take 100 (sort_key (\<lambda>v. - re_detected_at (rg_row v))
       (map (\<lambda>(i, r). \<lparr>rg_event_id = i, rg_row = r\<rparr>) (filter (\<lambda>(_, r). re_network_id r = net) (db_reorgs d))))"

definition reorgs :: "app_state \<Rightarrow> request \<Rightarrow> reorg_view list api_envelope result" where
  "reorgs S R =
     rbind (chain_state S R) (\<lambda>chain.
     rbind (read R 1 (\<lambda>d. Inr (reorg_views (nc_id (as_network S)) d))) (\<lambda>rows.
     Inr (envelope S (rq_clock R 0) rows None chain)))"

end
