(* ===== verification/Api_Health.thy ===== *)
theory Api_Health imports Api_Status begin

text \<open>
  What readiness means: on a database that represents a chain, \<open>/health/ready\<close> succeeds exactly when
  the indexer is current with its node and the tip's parent evidence is a fresh quorum.
\<close>

section \<open>The specification\<close>

definition fresh :: "datetime \<Rightarrow> datetime \<Rightarrow> bool" where
  "fresh now t \<longleftrightarrow> seconds_since now t \<le> PARENT_EVIDENCE_MAX_AGE_SECONDS"

text \<open>At least two parent nodes were asked about the witness, and every one of them confirmed the
  parent block it commits to, recently.\<close>

definition parent_quorum :: "db \<Rightarrow> datetime \<Rightarrow> string \<times> string \<Rightarrow> bool" where
  "parent_quorum d now c \<longleftrightarrow>
     (\<exists>w a. t_find (db_witnesses d) c = Some w \<and> t_find (db_links d) c = Some a \<and>
        wr_exact_witness_state w = ''best_chain'' \<and> wr_local_validation_state w = ''auxpow_verified'' \<and>
        lk_parent_lookup_state a = ''canonical'' \<and> lk_parent_sources_agree a \<and>
        lk_parent_hash_meets_claimed_target a \<and> fresh now (lk_verified_at a) \<and>
        (\<exists>p q. p \<noteq> q \<and> t_find (db_observations d) (c, p) \<noteq> None \<and> t_find (db_observations d) (c, q) \<noteq> None) \<and>
        (\<forall>p ob. t_find (db_observations d) (c, p) = Some ob \<longrightarrow>
           canonical_matching a ob \<and> fresh now (ow_checked_at ob)))"

section \<open>Its relation to the counts of the query\<close>

lemma observations_of_set:
  "t_wf (db_observations d) \<Longrightarrow>
     (p, ob) \<in> set (observations_of h w d) \<longleftrightarrow> t_find (db_observations d) ((h, w), p) = Some ob"
  by (force simp: observations_of_def simp flip: t_find_set)

lemma observations_of_keys:
  "t_wf (db_observations d) \<Longrightarrow> inj_on fst (set (observations_of h w d))"
  by (rule inj_onI) (auto simp: observations_of_set)

lemma two_members: "finite A \<Longrightarrow> 2 \<le> card A \<longleftrightarrow> (\<exists>p q. p \<noteq> q \<and> p \<in> A \<and> q \<in> A)"
proof
  assume "2 \<le> card A"
  then obtain p B where "A = insert p B" "p \<notin> B" "1 \<le> card B" by (auto simp: numeral_2_eq_2 card_le_Suc_iff)
  moreover from this obtain q where "q \<in> B" by (metis card.empty not_one_le_zero all_not_in_conv)
  ultimately show "\<exists>p q. p \<noteq> q \<and> p \<in> A \<and> q \<in> A" by (intro exI[of _ p] exI[of _ q]) auto
next
  assume "finite A" "\<exists>p q. p \<noteq> q \<and> p \<in> A \<and> q \<in> A"
  then obtain p q where "{p, q} \<subseteq> A" "p \<noteq> q" by auto
  with \<open>finite A\<close> card_mono[of A "{p, q}"] show "2 \<le> card A" by simp
qed

lemma card_filter_all:
  assumes "inj_on f (set xs)"
  shows "card (f ` set (filter P xs)) = card (f ` set xs) \<longleftrightarrow> (\<forall>x \<in> set xs. P x)"
proof
  assume "card (f ` set (filter P xs)) = card (f ` set xs)"
  moreover have "inj_on f (set (filter P xs))" using assms by (rule inj_on_subset) auto
  ultimately have "card (set (filter P xs)) = card (set xs)" using assms by (simp add: card_image)
  then have "set (filter P xs) = set xs" by (intro card_subset_eq) auto
  then show "\<forall>x \<in> set xs. P x" by auto
next
  assume "\<forall>x \<in> set xs. P x"
  then show "card (f ` set (filter P xs)) = card (f ` set xs)" by (simp add: filter_True)
qed

lemma fold_min_le: "fold min xs (m :: int) \<le> k \<longleftrightarrow> m \<le> k \<or> (\<exists>x \<in> set xs. x \<le> k)"
  by (induction xs arbitrary: m) auto

lemma sql_min_least:
  "sql_min xs = None \<longleftrightarrow> xs = []"
  "sql_min xs = Some m \<Longrightarrow> m \<in> set xs \<and> (\<forall>x \<in> set xs. m \<le> x)"
proof -
  show "sql_min xs = None \<longleftrightarrow> xs = []" by (cases xs) (simp_all add: sql_min_def)
  assume "sql_min xs = Some m"
  then obtain y ys where xs: "xs = y # ys" "m = fold min ys y" by (cases xs) (auto simp: sql_min_def)
  have "fold min ys y \<le> m" using xs(2) by simp
  then obtain x where "x \<in> set xs" "x \<le> m" unfolding fold_min_le xs(1) by auto
  moreover have "m \<le> x" if "x \<in> set xs" for x using that fold_min_le[of ys y x] xs by auto
  ultimately show "m \<in> set xs \<and> (\<forall>x \<in> set xs. m \<le> x)" by (metis order_antisym)
qed

lemma seconds_since_antimono: "t \<le> t' \<Longrightarrow> seconds_since now t' \<le> seconds_since now t"
  by (auto simp: seconds_since_def intro!: max.mono zdiv_mono1)

lemma oldest_fresh:
  "(case map_option (seconds_since now) (sql_min ts) of None \<Rightarrow> False | Some age \<Rightarrow> age \<le> PARENT_EVIDENCE_MAX_AGE_SECONDS) \<longleftrightarrow>
     ts \<noteq> [] \<and> (\<forall>t \<in> set ts. fresh now t)"
proof (cases "sql_min ts")
  case None
  then show ?thesis using sql_min_least(1)[of ts] by simp
next
  case (Some m)
  from sql_min_least(2)[OF this] have m: "m \<in> set ts" "\<forall>t \<in> set ts. m \<le> t" by blast+
  then have "(\<forall>t \<in> set ts. fresh now t) \<longleftrightarrow> fresh now m"
    unfolding fresh_def using seconds_since_antimono[of m _ now] by (meson order_trans)
  then show ?thesis using Some m(1) by (auto simp: fresh_def)
qed

lemma evidence_query_quorum:
  assumes "t_wf (db_observations d)" and "t_find (db_canonical d) (net, height) = Some c"
  shows "evidence_is_ready now (case PARENT_EVIDENCE_QUERY net height (cr_block_hash c) d of
      None \<Rightarrow> evidence_default | Some e \<Rightarrow> e) \<longleftrightarrow> parent_quorum d now (cr_block_hash c, cr_witness_hash c)"
proof (cases "t_find (db_witnesses d) (cr_block_hash c, cr_witness_hash c)")
  case None
  then show ?thesis using assms(2)
    by (simp add: PARENT_EVIDENCE_QUERY_def parent_quorum_def evidence_is_ready_def evidence_default_def)
next
  case (Some w)
  show ?thesis
  proof (cases "t_find (db_links d) (cr_block_hash c, cr_witness_hash c)")
    case None
    then show ?thesis using assms(2) Some
      by (simp add: PARENT_EVIDENCE_QUERY_def parent_quorum_def evidence_is_ready_def evidence_default_def)
  next
    case link: (Some a)
    let ?obs = "observations_of (cr_block_hash c) (cr_witness_hash c) d"
    note obs = observations_of_set[OF assms(1), of _ _ "cr_block_hash c" "cr_witness_hash c"]
    have count: "2 \<le> card (fst ` set ?obs) \<longleftrightarrow>
        (\<exists>p q. p \<noteq> q \<and> t_find (db_observations d) ((cr_block_hash c, cr_witness_hash c), p) \<noteq> None \<and>
           t_find (db_observations d) ((cr_block_hash c, cr_witness_hash c), q) \<noteq> None)"
      by (simp add: two_members image_iff Bex_def obs)
    have matching: "card (fst ` set (filter (canonical_matching a \<circ> snd) ?obs)) = card (fst ` set ?obs) \<longleftrightarrow>
        (\<forall>p ob. t_find (db_observations d) ((cr_block_hash c, cr_witness_hash c), p) = Some ob \<longrightarrow> canonical_matching a ob)"
      unfolding card_filter_all[OF observations_of_keys[OF assms(1)]] Ball_def split_paired_All obs comp_def snd_conv ..
    have oldest: "(\<forall>t \<in> set (map (ow_checked_at \<circ> snd) ?obs). fresh now t) \<longleftrightarrow>
        (\<forall>p ob. t_find (db_observations d) ((cr_block_hash c, cr_witness_hash c), p) = Some ob \<longrightarrow> fresh now (ow_checked_at ob))"
    proof -
      have "(\<forall>t \<in> set (map (ow_checked_at \<circ> snd) ?obs). fresh now t) \<longleftrightarrow> (\<forall>x \<in> set ?obs. fresh now (ow_checked_at (snd x)))"
        by simp
      then show ?thesis unfolding Ball_def[of "set ?obs"] split_paired_All obs snd_conv .
    qed
    have "evidence_is_ready now (case PARENT_EVIDENCE_QUERY net height (cr_block_hash c) d of
          None \<Rightarrow> evidence_default | Some e \<Rightarrow> e) \<longleftrightarrow>
        wr_exact_witness_state w = ''best_chain'' \<and> wr_local_validation_state w = ''auxpow_verified'' \<and>
        lk_parent_lookup_state a = ''canonical'' \<and> lk_parent_sources_agree a \<and>
        lk_parent_hash_meets_claimed_target a \<and> 2 \<le> card (fst ` set ?obs) \<and>
        card (fst ` set (filter (canonical_matching a \<circ> snd) ?obs)) = card (fst ` set ?obs) \<and>
        fresh now (lk_verified_at a) \<and>
        ?obs \<noteq> [] \<and> (\<forall>t \<in> set (map (ow_checked_at \<circ> snd) ?obs). fresh now t)"
      using assms(2) Some link
      by (simp add: PARENT_EVIDENCE_QUERY_def evidence_is_ready_def Let_def oldest_fresh[unfolded case_map_option] fresh_def[of now "lk_verified_at a"]
          del: set_map set_filter)
    moreover have "?obs \<noteq> []" if "2 \<le> card (fst ` set ?obs)" using that by auto
    ultimately show ?thesis unfolding parent_quorum_def count[symmetric]
      using Some link matching oldest by auto
  qed
qed

section \<open>Readiness on a represented chain\<close>

text \<open>The indexer reports \<open>ready\<close>, was heard of in the last 30 seconds, and holds at most one block
  less than its node; at the same height both name the same block.\<close>

definition current :: "chain_state_row \<Rightarrow> chain \<Rightarrow> datetime \<Rightarrow> bool" where
  "current s cs now \<longleftrightarrow>
     st_status s = ''ready'' \<and> seconds_since now (st_updated_at s) \<le> 30 \<and> cs \<noteq> [] \<and>
     (\<exists>n h. st_node_height s = Some n \<and> st_node_hash s = Some h \<and> n \<le> int (length cs) \<and>
        (n = int (length cs) - 1 \<longrightarrow> h = fst (last cs)))"

lemma lag_bound: "i64_saturating_sub a b > 1 \<longleftrightarrow> a - b > 1"
  by (auto simp: i64_saturating_sub_def)

lemma tip_exists_chain:
  assumes "chain_ok net d cs" and "cs \<noteq> []"
  shows "\<exists>c. t_find (db_canonical d) (net, int (length cs) - 1) = Some c \<and>
     (cr_block_hash c, cr_witness_hash c) = last cs"
proof -
  have "selected net d (int (length cs) - 1) = Some (last cs)"
    using assms chain_at_nth[of "length cs - 1" cs] by (simp add: chain_ok_def last_conv_nth of_nat_diff Suc_leI)
  then show ?thesis by (auto simp: selected_def)
qed

lemma parent_evidence_chain:
  assumes "steady R d" and "chain_ok (nc_id (as_network S)) d cs" and "t_wf (db_observations d)" and "cs \<noteq> []"
    and "st_indexed_height s = Some (int (length cs) - 1)" and "st_indexed_hash s = Some (fst (last cs))"
  shows "\<exists>e. parent_evidence S R s = Inr e \<and>
     (evidence_is_ready now e \<longleftrightarrow> (as_require_parent_quorum S \<and> 1 < length cs \<longrightarrow> parent_quorum d now (last cs)))"
proof -
  from tip_exists_chain[OF assms(2,4)] obtain c where c: "t_find (db_canonical d) (nc_id (as_network S), int (length cs) - 1) = Some c"
    "last cs = (cr_block_hash c, cr_witness_hash c)" by metis
  have exempt: "evidence_is_ready now evidence_genesis" "evidence_is_ready now evidence_not_required"
    by (simp_all add: evidence_is_ready_def evidence_genesis_def evidence_not_required_def)
  have one: "length cs = 1 \<longleftrightarrow> \<not> 1 < length cs" using assms(4) by (cases cs) auto
  show ?thesis
    using evidence_query_quorum[OF assms(3) c(1), of now] exempt assms(5,6) one
    by (cases "as_require_parent_quorum S"; cases "length cs = 1")
      (simp_all add: parent_evidence_def read_steady[OF assms(1)] c(2))
qed

lemma ready_reads:
  assumes "steady R d" and "t_find (db_chain_state d) (nc_id (as_network S)) = Some s" and "parent_evidence S R s = Inr e"
    and "C \<longleftrightarrow> st_status s = ''ready'' \<and> seconds_since (rq_clock R 0) (st_updated_at s) \<le> 30 \<and>
      (\<exists>i h n hn. st_indexed_height s = Some i \<and> st_indexed_hash s = Some h \<and> st_node_height s = Some n \<and>
         st_node_hash s = Some hn \<and> n - i \<le> 1 \<and> (n = i \<longrightarrow> hn = h) \<and> tip_exists (nc_id (as_network S)) i h d) \<and>
      evidence_is_ready (rq_clock R 0) e"
  shows "\<exists>m. ready S R =
     (if C then Inr \<lparr>ry_network = nc_id (as_network S), ry_indexed_height = st_indexed_height s,
                 ry_node_height = st_node_height s, ry_updated_at = st_updated_at s\<rparr>
      else Inl (NotReady m))"
proof -
  have "chain_state S R = Inr s" using assms(1,2) by (simp add: chain_state_def read_steady load_chain_state_def)
  then show ?thesis using assms(3,4)
    by (cases "st_node_height s"; cases "st_node_hash s"; cases "st_indexed_height s"; cases "st_indexed_hash s")
      (simp_all add: ready_def read_steady[OF assms(1)] Let_def lag_blocks_def lag_bound READY_MAX_AGE_SECONDS_def
        not_less not_ready_def, auto)
qed

text \<open>C15. Readiness is exact.  On a database that represents a chain and answers every query,
  \<open>/health/ready\<close> succeeds if and only if the indexer is current with its node and, where a parent
  quorum is required and the tip is not the genesis block, the tip's witness is verified on the best
  chain and at least two parent nodes were asked, each of which recently confirmed the very header
  the proof commits to.  Otherwise it answers not ready, never another error.\<close>

theorem ready_exactly:
  assumes "steady R d" and "chain_ok (nc_id (as_network S)) d cs" and "t_wf (db_observations d)"
  shows "\<exists>s. t_find (db_chain_state d) (nc_id (as_network S)) = Some s \<and>
     (case ready S R of
        Inr v \<Rightarrow> ry_indexed_height v = Some (int (length cs) - 1) \<and> current s cs (rq_clock R 0) \<and>
          (as_require_parent_quorum S \<and> 1 < length cs \<longrightarrow> parent_quorum d (rq_clock R 0) (last cs))
      | Inl e \<Rightarrow> (\<exists>m. e = NotReady m) \<and>
          \<not> (current s cs (rq_clock R 0) \<and>
             (as_require_parent_quorum S \<and> 1 < length cs \<longrightarrow> parent_quorum d (rq_clock R 0) (last cs))))"
proof -
  let ?net = "nc_id (as_network S)" and ?now = "rq_clock R 0"
  from assms(2) obtain s where s: "t_find (db_chain_state d) ?net = Some s"
    "st_indexed_height s = (if cs = [] then None else Some (int (length cs) - 1))"
    "st_indexed_hash s = map_option fst (last_opt cs)" by (auto simp: chain_ok_def tip_named_def)
  show ?thesis
  proof (cases "cs = []")
    case True
    then have none: "st_indexed_height s = None" using s(2) by simp
    then obtain e where e: "parent_evidence S R s = Inr e"
      by (cases "as_require_parent_quorum S") (simp_all add: parent_evidence_def)
    obtain m where "ready S R = Inl (NotReady m)"
      using ready_reads[OF assms(1) s(1) e refl] none by auto
    then show ?thesis using s(1) True by (simp add: current_def)
  next
    case False
    then have tip: "st_indexed_height s = Some (int (length cs) - 1)" "st_indexed_hash s = Some (fst (last cs))"
      using s(2,3) by (simp_all add: last_opt_def)
    from parent_evidence_chain[OF assms(1,2,3) False tip, of ?now] obtain e where
      e: "parent_evidence S R s = Inr e"
        "evidence_is_ready ?now e \<longleftrightarrow> (as_require_parent_quorum S \<and> 1 < length cs \<longrightarrow> parent_quorum d ?now (last cs))" by blast
    have "tip_exists ?net (int (length cs) - 1) (fst (last cs)) d"
      using tip_exists_chain[OF assms(2) False] by (auto simp: tip_exists_def) (metis fst_conv)
    then have C: "current s cs ?now \<and> (as_require_parent_quorum S \<and> 1 < length cs \<longrightarrow> parent_quorum d ?now (last cs)) \<longleftrightarrow>
        st_status s = ''ready'' \<and> seconds_since ?now (st_updated_at s) \<le> 30 \<and>
        (\<exists>i h n hn. st_indexed_height s = Some i \<and> st_indexed_hash s = Some h \<and> st_node_height s = Some n \<and>
           st_node_hash s = Some hn \<and> n - i \<le> 1 \<and> (n = i \<longrightarrow> hn = h) \<and> tip_exists ?net i h d) \<and>
        evidence_is_ready ?now e"
      using False tip e(2) by (auto simp: current_def)
    obtain m where "ready S R =
        (if current s cs ?now \<and> (as_require_parent_quorum S \<and> 1 < length cs \<longrightarrow> parent_quorum d ?now (last cs))
         then Inr \<lparr>ry_network = ?net, ry_indexed_height = st_indexed_height s,
                 ry_node_height = st_node_height s, ry_updated_at = st_updated_at s\<rparr>
         else Inl (NotReady m))" using ready_reads[OF assms(1) s(1) e(1) C] by blast
    then show ?thesis using s(1) tip(1) by (auto split: if_splits)
  qed
qed

theorem ready_exactly_witness:
  "\<exists>v. ready api_state (still api_db) = Inr v \<and> parent_quorum api_db 100000000 (id64 CHR ''2'', id64 CHR ''b'')"
proof -
  have "is_ok (ready api_state (still api_db))" by code_simp
  then obtain v where v: "ready api_state (still api_db) = Inr v" by (auto simp: is_ok_iff)
  moreover have "t_wf (db_observations api_db)" by (simp add: api_db_def t_wf_def)
  then have "parent_quorum api_db 100000000 (last api_chain)"
    using ready_exactly[OF steady_still[of api_db], of api_state api_chain] api_db_chain v
    by (auto simp: still_def api_chain_def) (simp add: api_state_def)
  ultimately show ?thesis by (simp add: api_chain_def)
qed

end
