(* ===== verification/Api_Address.thy ===== *)
theory Api_Address imports Api_Search begin

text \<open>
  The transparent address view (\<open>address\<close> in \<open>src/api.rs\<close>): the balance query and the
  activity query, over one snapshot.  Both start from the outputs an address owns on the canonical
  chain and the canonical inputs that spend them; a sum that leaves \<open>BIGINT\<close> is an error.
\<close>

section \<open>Canonical transactions\<close>

text \<open>The group key of one transaction at its place.\<close>

record activity_key =
  ak_height :: int
  ak_block_hash :: string
  ak_witness_hash :: string
  ak_block_time :: datetime
  ak_position :: int
  ak_txid :: string
  ak_instance_digest :: string
  ak_auth_digest :: "string option"

record tx_event =
  ev_key :: activity_key
  ev_is_coinbase :: bool
  ev_instance :: int

text \<open>A place: height, block hash, witness hash, position and instance number.\<close>

type_synonym place = "int \<times> string \<times> string \<times> int \<times> int"

definition canonical_places :: "string \<Rightarrow> db \<Rightarrow> place list" where
  "canonical_places net d =
     concat (map (\<lambda>(height, c).
         map (\<lambda>(position, i). (height, cr_block_hash c, cr_witness_hash c, position, i))
           (rows_of (cr_block_hash c, cr_witness_hash c) (db_block_transactions d)))
       (rows_of net (db_canonical d)))"

definition place_event :: "db \<Rightarrow> place \<Rightarrow> tx_event option" where
  "place_event d = (\<lambda>(height, hash, witness, position, i).
     (case (t_find (db_blocks d) hash, t_find (db_instances d) i) of
        (Some b, Some t) \<Rightarrow>
          Some \<lparr>ev_key = \<lparr>ak_height = height, ak_block_hash = hash, ak_witness_hash = witness,
                  ak_block_time = br_block_time b, ak_position = position, ak_txid = tr_txid t,
                  ak_instance_digest = tr_instance_digest t, ak_auth_digest = tr_auth_digest t\<rparr>,
                ev_is_coinbase = tr_is_coinbase t, ev_instance = i\<rparr>
      | _ \<Rightarrow> None))"

definition canonical_events :: "string \<Rightarrow> db \<Rightarrow> tx_event list" where
  "canonical_events net d = List.map_filter (place_event d) (canonical_places net d)"

section \<open>Owned outputs and their spends\<close>

record owned_output =
  oo_event :: tx_event
  oo_index :: int
  oo_value :: int

definition owned_outputs :: "string \<Rightarrow> string \<Rightarrow> db \<Rightarrow> owned_output list" where
  "owned_outputs net a d =
     concat (map (\<lambda>e.
         map (\<lambda>(k, ro). \<lparr>oo_event = e, oo_index = k, oo_value = or_value_zat ro\<rparr>)
           (filter (\<lambda>(_, ro). or_address ro = Some a) (rows_of (ev_instance e) (db_outputs d))))
       (canonical_events net d))"

definition outpoint :: "owned_output \<Rightarrow> string \<times> int" where
  "outpoint u = (ak_txid (ev_key (oo_event u)), oo_index u)"

text \<open>The inputs of an instance that name an outpoint.\<close>

definition spending_inputs :: "db \<Rightarrow> string \<times> int \<Rightarrow> int \<Rightarrow> nat" where
  "spending_inputs d p i =
     length (filter (\<lambda>(_, r). ir_previous_txid r = Some (fst p) \<and> ir_previous_output_index r = Some (snd p))
       (rows_of i (db_inputs d)))"

text \<open>One element for each canonical input that spends the outpoint.\<close>

definition spending_places :: "string \<Rightarrow> db \<Rightarrow> string \<times> int \<Rightarrow> place list" where
  "spending_places net d p =
     concat (map (\<lambda>(h, x, w, q, i). replicate (spending_inputs d p i) (h, x, w, q, i)) (canonical_places net d))"

definition spending_events :: "string \<Rightarrow> db \<Rightarrow> string \<times> int \<Rightarrow> tx_event list" where
  "spending_events net d p =
     concat (map (\<lambda>e. replicate (spending_inputs d p (ev_instance e)) e) (canonical_events net d))"

text \<open>\<open>canonical_spends\<close>, grouped by outpoint over all owned outputs.\<close>

definition spend_count :: "string \<Rightarrow> db \<Rightarrow> owned_output list \<Rightarrow> owned_output \<Rightarrow> nat" where
  "spend_count net d owned u =
     length (concat (map (\<lambda>u'. spending_places net d (outpoint u')) (filter (\<lambda>u'. outpoint u' = outpoint u) owned)))"

section \<open>The balance query\<close>

text \<open>\<open>event_keys\<close>: block hash, witness hash, position, height and time.\<close>

type_synonym event_key = "string \<times> string \<times> int \<times> int \<times> datetime"

definition key_of_event :: "tx_event \<Rightarrow> event_key" where
  "key_of_event e =
     (ak_block_hash (ev_key e), ak_witness_hash (ev_key e), ak_position (ev_key e), ak_height (ev_key e),
      ak_block_time (ev_key e))"

definition key_of_place :: "db \<Rightarrow> place \<Rightarrow> event_key option" where
  "key_of_place d = (\<lambda>(h, x, w, q, _). map_option (\<lambda>b. (x, w, q, h, br_block_time b)) (t_find (db_blocks d) x))"

definition event_keys :: "string \<Rightarrow> db \<Rightarrow> owned_output list \<Rightarrow> event_key list" where
  "event_keys net d owned =
     remdups (map (key_of_event \<circ> oo_event) owned @
       List.map_filter (key_of_place d) (concat (map (spending_places net d \<circ> outpoint) owned)))"

text \<open>\<open>ORDER BY height, tx_position, block_hash\<close>.\<close>

definition key_order :: "event_key \<Rightarrow> int list \<times> string" where
  "key_order = (\<lambda>(x, w, q, h, _). ([h, q], x))"

definition key_before :: "event_key \<Rightarrow> event_key \<Rightarrow> bool" where
  "key_before e e' =
     (case (key_order e, key_order e') of ((hq, x), (hq', x')) \<Rightarrow> hq < hq' \<or> hq = hq' \<and> x < x')"

definition first_key :: "event_key list \<Rightarrow> event_key option" where
  "first_key ks = (case ks of [] \<Rightarrow> None | k # ks \<Rightarrow> Some (foldl (\<lambda>m k. if key_before k m then k else m) k ks))"

definition last_key :: "event_key list \<Rightarrow> event_key option" where
  "last_key ks = (case ks of [] \<Rightarrow> None | k # ks \<Rightarrow> Some (foldl (\<lambda>m k. if key_before m k then k else m) k ks))"

record address_balance_row =
  ab_address_exists :: bool
  ab_total_received_zat :: string
  ab_total_spent_zat :: string
  ab_balance_zat :: int
  ab_immature_coinbase_zat :: int
  ab_mature_coinbase_zat :: int
  ab_non_coinbase_unspent_zat :: int
  ab_utxo_count :: int
  ab_mined_output_count :: int
  ab_mined_transaction_count :: int
  ab_transaction_count :: int
  ab_first_seen_height :: "int option"
  ab_last_seen_height :: "int option"
  ab_first_seen_at :: "datetime option"
  ab_last_seen_at :: "datetime option"
  ab_canonical_double_spend_anomalies :: int

text \<open>\<open>SUM(value_zat) FILTER (WHERE ...)\<close>.\<close>

definition sum_where :: "(owned_output \<Rightarrow> bool) \<Rightarrow> owned_output list \<Rightarrow> int" where
  "sum_where P owned = sum_list (map oo_value (filter P owned))"

definition mature :: "int \<Rightarrow> int \<Rightarrow> owned_output \<Rightarrow> bool" where
  "mature tip maturity u \<longleftrightarrow> tip - ak_height (ev_key (oo_event u)) + 1 \<ge> maturity"

definition anomalies :: "nat list \<Rightarrow> int" where
  "anomalies counts = sum_list (map (\<lambda>n. max (int n - 1) 0) counts)"

definition ADDRESS_BALANCE_QUERY :: "string \<Rightarrow> string \<Rightarrow> int \<Rightarrow> int \<Rightarrow> db \<Rightarrow> address_balance_row result" where
  "ADDRESS_BALANCE_QUERY net a tip maturity d =
     (let owned = owned_outputs net a d;
          spent = (\<lambda>u. spend_count net d owned u > 0);
          coinbase = (\<lambda>u. ev_is_coinbase (oo_event u));
          keys = event_keys net d owned in
      rbind (bigint (sum_where (\<lambda>u. \<not> spent u) owned)) (\<lambda>balance.
      rbind (bigint (sum_where (\<lambda>u. \<not> spent u \<and> coinbase u \<and> \<not> mature tip maturity u) owned)) (\<lambda>immature.
      rbind (bigint (sum_where (\<lambda>u. \<not> spent u \<and> coinbase u \<and> mature tip maturity u) owned)) (\<lambda>matured.
      rbind (bigint (sum_where (\<lambda>u. \<not> spent u \<and> \<not> coinbase u) owned)) (\<lambda>non_coinbase.
      rbind (bigint (anomalies (map (spend_count net d owned) owned))) (\<lambda>double_spends.
      Inr \<lparr>ab_address_exists = (length owned > 0),
        ab_total_received_zat = show_int (sum_where (\<lambda>_. True) owned),
        ab_total_spent_zat = show_int (sum_where spent owned),
        ab_balance_zat = balance, ab_immature_coinbase_zat = immature, ab_mature_coinbase_zat = matured,
        ab_non_coinbase_unspent_zat = non_coinbase,
        ab_utxo_count = int (length (filter (\<lambda>u. \<not> spent u) owned)),
        ab_mined_output_count = int (length (filter coinbase owned)),
        ab_mined_transaction_count =
          int (card ((\<lambda>u. let k = ev_key (oo_event u) in (ak_block_hash k, ak_witness_hash k, ak_position k)) `
            set (filter coinbase owned))),
        ab_transaction_count = int (length keys),
        ab_first_seen_height = map_option (\<lambda>(_, _, _, h, _). h) (first_key keys),
        ab_last_seen_height = map_option (\<lambda>(_, _, _, h, _). h) (last_key keys),
        ab_first_seen_at = map_option (\<lambda>(_, _, _, _, t). t) (first_key keys),
        ab_last_seen_at = map_option (\<lambda>(_, _, _, _, t). t) (last_key keys),
        ab_canonical_double_spend_anomalies = double_spends\<rparr>))))))"

section \<open>The activity query\<close>

text \<open>\<open>SUM(...)::BIGINT ... GROUP BY\<close>: one row for each key, with its sum.\<close>

definition group_sums :: "('k \<times> int) list \<Rightarrow> ('k \<times> int) list result" where
  "group_sums kvs =
     collect_res (map (\<lambda>k. rbind (bigint (sum_list (map snd (filter (\<lambda>(k', _). k' = k) kvs)))) (\<lambda>s. Inr (k, s)))
       (remdups (map fst kvs)))"

text \<open>\<open>deltas\<close>: the received and the spent sums, by key and coinbase flag.\<close>

definition received_deltas :: "owned_output list \<Rightarrow> ((activity_key \<times> bool) \<times> int) list" where
  "received_deltas owned = map (\<lambda>u. ((ev_key (oo_event u), ev_is_coinbase (oo_event u)), oo_value u)) owned"

definition spent_deltas :: "string \<Rightarrow> db \<Rightarrow> owned_output list \<Rightarrow> ((activity_key \<times> bool) \<times> int) list" where
  "spent_deltas net d owned =
     concat (map (\<lambda>u. map (\<lambda>e. ((ev_key e, ev_is_coinbase e), oo_value u)) (spending_events net d (outpoint u))) owned)"

record address_activity_row =
  aw_key :: activity_key
  aw_is_coinbase :: bool
  aw_received_zat :: int
  aw_spent_zat :: int
  aw_net_zat :: int
  aw_balance_after_zat :: int

text \<open>The window's order: height, position, transaction id, digest.\<close>

definition window_key :: "activity_key \<Rightarrow> int list \<times> string list" where
  "window_key k = ([ak_height k, ak_position k], [ak_txid k, ak_instance_digest k])"

definition window_le :: "activity_key \<Rightarrow> activity_key \<Rightarrow> bool" where
  "window_le k k' = (case (window_key k, window_key k') of ((n, s), (n', s')) \<Rightarrow> n < n' \<or> n = n' \<and> s \<le> s')"

definition key_sum :: "activity_key \<Rightarrow> ((activity_key \<times> bool) \<times> int) list \<Rightarrow> int" where
  "key_sum k rows = sum_list (map snd (filter (\<lambda>((k', _), _). k' = k) rows))"

definition activity_rows ::
    "((activity_key \<times> bool) \<times> int) list \<Rightarrow> ((activity_key \<times> bool) \<times> int) list \<Rightarrow> address_activity_row list result" where
  "activity_rows received spent =
     (let keys = remdups (map (fst \<circ> fst) (received @ spent));
          net = (\<lambda>k. key_sum k received - key_sum k spent) in
      collect_res (map (\<lambda>k.
        rbind (bigint (key_sum k received)) (\<lambda>r.
        rbind (bigint (key_sum k spent)) (\<lambda>s.
        rbind (bigint (net k)) (\<lambda>n.
        rbind (bigint (sum_list (map net (filter (\<lambda>k'. window_le k' k) keys)))) (\<lambda>after.
        Inr \<lparr>aw_key = k, aw_is_coinbase = list_ex (\<lambda>((k', c), _). k' = k \<and> c) (received @ spent),
          aw_received_zat = r, aw_spent_zat = s, aw_net_zat = n, aw_balance_after_zat = after\<rparr>))))) keys))"

text \<open>\<open>ORDER BY height DESC, tx_position DESC LIMIT 100\<close>.\<close>

definition newest_first :: "address_activity_row list \<Rightarrow> address_activity_row list" where
  "newest_first rows = take 100 (sort_key (\<lambda>r. [- ak_height (aw_key r), - ak_position (aw_key r)]) rows)"

definition ADDRESS_ACTIVITY_QUERY :: "string \<Rightarrow> string \<Rightarrow> db \<Rightarrow> address_activity_row list result" where
  "ADDRESS_ACTIVITY_QUERY net a d =
     (let owned = owned_outputs net a d in
      rbind (group_sums (received_deltas owned)) (\<lambda>received.
      rbind (group_sums (spent_deltas net d owned)) (\<lambda>spent.
      rbind (activity_rows received spent) (\<lambda>rows.
      Inr (newest_first rows)))))"

section \<open>The handler\<close>

record address_activity =
  aa_txid :: string
  aa_instance_digest :: string
  aa_auth_digest :: "string option"
  aa_block_height :: nat
  aa_block_hash :: string
  aa_block_time :: datetime
  aa_position :: int
  aa_is_coinbase :: bool
  aa_direction :: string
  aa_received :: amount_view
  aa_sent :: amount_view
  aa_net :: amount_view
  aa_balance_after :: amount_view

definition direction :: "int \<Rightarrow> int \<Rightarrow> string" where
  "direction received spent =
     (case (received > 0, spent > 0) of
        (True, True) \<Rightarrow> ''self'' | (True, False) \<Rightarrow> ''in'' | (False, True) \<Rightarrow> ''out'' | (False, False) \<Rightarrow> ''neutral'')"

definition activity_view :: "network_config \<Rightarrow> address_activity_row \<Rightarrow> address_activity" where
  "activity_view n row =
     (let k = aw_key row in
      \<lparr>aa_txid = ak_txid k, aa_instance_digest = ak_instance_digest k, aa_auth_digest = ak_auth_digest k,
       aa_block_height = (case u64_try_from (ak_height k) of None \<Rightarrow> 0 | Some h \<Rightarrow> h),
       aa_block_hash = ak_block_hash k, aa_block_time = ak_block_time k, aa_position = ak_position k,
       aa_is_coinbase = aw_is_coinbase row, aa_direction = direction (aw_received_zat row) (aw_spent_zat row),
       aa_received = amount (aw_received_zat row) n, aa_sent = amount (aw_spent_zat row) n,
       aa_net = amount (aw_net_zat row) n, aa_balance_after = amount (aw_balance_after_zat row) n\<rparr>)"

record address_view =
  av_address :: string
  av_address_type :: string
  av_total_received :: amount_view
  av_total_sent :: amount_view
  av_unspent :: amount_view
  av_immature_coinbase :: amount_view
  av_mature_coinbase_must_shield :: amount_view
  av_non_coinbase_unspent :: amount_view
  av_utxo_count :: int
  av_mined_output_count :: int
  av_mined_transaction_count :: int
  av_transaction_count :: int
  av_first_seen_height :: "nat option"
  av_last_seen_height :: "nat option"
  av_first_seen_at :: "datetime option"
  av_last_seen_at :: "datetime option"
  av_coinbase_maturity :: nat
  av_canonical_double_spend_anomalies :: int
  av_activity :: "address_activity list"

definition address_view_of ::
    "network_config \<Rightarrow> string \<Rightarrow> address_balance_row \<Rightarrow> address_activity list \<Rightarrow> address_view result" where
  "address_view_of n a b activity =
     rbind (amount_from_zatoshi_text (ab_total_received_zat b) n) (\<lambda>received.
     rbind (amount_from_zatoshi_text (ab_total_spent_zat b) n) (\<lambda>sent.
     rbind (optional_u64 (ab_first_seen_height b) ''first seen height'') (\<lambda>first_seen.
     rbind (optional_u64 (ab_last_seen_height b) ''last seen height'') (\<lambda>last_seen.
     Inr \<lparr>av_address = a, av_address_type = ''transparent'', av_total_received = received, av_total_sent = sent,
       av_unspent = amount (ab_balance_zat b) n,
       av_immature_coinbase = amount (ab_immature_coinbase_zat b) n,
       av_mature_coinbase_must_shield = amount (ab_mature_coinbase_zat b) n,
       av_non_coinbase_unspent = amount (ab_non_coinbase_unspent_zat b) n,
       av_utxo_count = ab_utxo_count b, av_mined_output_count = ab_mined_output_count b,
       av_mined_transaction_count = ab_mined_transaction_count b, av_transaction_count = ab_transaction_count b,
       av_first_seen_height = first_seen, av_last_seen_height = last_seen,
       av_first_seen_at = ab_first_seen_at b, av_last_seen_at = ab_last_seen_at b,
       av_coinbase_maturity = nc_coinbase_maturity n,
       av_canonical_double_spend_anomalies = ab_canonical_double_spend_anomalies b,
       av_activity = activity\<rparr>))))"

definition address ::
    "('net, 'addr) api_crates \<Rightarrow> app_state \<Rightarrow> request \<Rightarrow> string \<Rightarrow> address_view api_envelope result" where
  "address A S R text =
     (let n = as_network S; net = nc_id n in
      rbind (validate_address A text n) (\<lambda>a.
      rbind (read_snapshot R 0) (\<lambda>_.
      rbind (snapshot_chain_state R net) (\<lambda>chain.
      let tip = (case st_indexed_height chain of None \<Rightarrow> 0 | Some h \<Rightarrow> h) in
      rbind (snap R 2 (ADDRESS_BALANCE_QUERY net a tip (int (nc_coinbase_maturity n)))) (\<lambda>balances.
      rbind (guard (ab_address_exists balances) NotFound) (\<lambda>_.
      rbind (snap R 3 (ADDRESS_ACTIVITY_QUERY net a)) (\<lambda>rows.
      rbind (read_snapshot R 4) (\<lambda>_.
      rbind (address_view_of n a balances (map (activity_view n) rows)) (\<lambda>data.
      Inr (envelope S (rq_clock R 0) data None chain))))))))))"

end
