(* ===== verification/Api_Address_Props.thy ===== *)
theory Api_Address_Props imports Api_Address begin

text \<open>
  The address view adds up: its totals, its balance and its parts, and the running balance of the
  activity list, which a second query computes in another way.
\<close>

section \<open>Sums by key\<close>

lemma sum_by_key:
  fixes kvs :: "('k \<times> int) list"
  assumes "finite K"
  shows "(\<Sum>k\<in>K. sum_list (map snd (filter (\<lambda>(k', _). f k' = k) kvs))) = sum_list (map snd (filter (\<lambda>(k', _). f k' \<in> K) kvs))"
proof (induction kvs)
  case (Cons kv kvs)
  have "(\<Sum>k\<in>K. sum_list (map snd (filter (\<lambda>(k', _). f k' = k) (kv # kvs)))) =
      (\<Sum>k\<in>K. (if f (fst kv) = k then snd kv else 0) + sum_list (map snd (filter (\<lambda>(k', _). f k' = k) kvs)))"
    by (intro sum.cong) (auto split: prod.splits)
  also have "\<dots> = (if f (fst kv) \<in> K then snd kv else 0) + sum_list (map snd (filter (\<lambda>(k', _). f k' \<in> K) kvs))"
    using assms Cons by (simp add: sum.distrib)
  finally show ?case by (auto split: prod.splits)
qed simp

lemma bigint_Inr: "bigint i = Inr j \<longleftrightarrow> j = i \<and> - (2 ^ 63) \<le> i \<and> i < 2 ^ 63"
  by (auto simp: bigint_def)

lemma map_bigint_Inr:
  "map (\<lambda>k. rbind (bigint (g k)) (\<lambda>s. Inr (k, s))) ks = map Inr rows \<Longrightarrow> rows = map (\<lambda>k. (k, g k)) ks"
proof (induction ks arbitrary: rows)
  case (Cons k ks)
  then show ?case by (cases rows) (auto simp: bigint_Inr)
qed simp

lemma group_sums_Inr:
  assumes "group_sums kvs = Inr rows"
  shows "set (map fst rows) = set (map fst kvs)"
    and "sum_list (map snd (filter (\<lambda>(k, _). P k) rows)) = sum_list (map snd (filter (\<lambda>(k, _). P k) kvs))"
proof -
  let ?s = "\<lambda>k. sum_list (map snd (filter (\<lambda>(k', _). k' = k) kvs))"
  from assms have "map (\<lambda>k. rbind (bigint (?s k)) (\<lambda>s. Inr (k, s))) (remdups (map fst kvs)) = map Inr rows"
    by (simp add: group_sums_def collect_res_Inr)
  then have rows: "rows = map (\<lambda>k. (k, ?s k)) (remdups (map fst kvs))" by (rule map_bigint_Inr)
  show "set (map fst rows) = set (map fst kvs)" unfolding rows by (simp add: comp_def image_image)
  have "sum_list (map snd (filter (\<lambda>(k, _). P k) rows)) = sum_list (map ?s (filter P (remdups (map fst kvs))))"
    unfolding rows by (simp add: filter_map comp_def)
  also have "\<dots> = (\<Sum>k\<in>{k \<in> fst ` set kvs. P k}. ?s k)"
    by (subst sum_list_distinct_conv_sum_set) (auto intro: sum.cong)
  also have "\<dots> = sum_list (map snd (filter (\<lambda>(k, _). k \<in> {k \<in> fst ` set kvs. P k}) kvs))"
    by (rule sum_by_key[where f = "\<lambda>k. k"]) simp
  also have "filter (\<lambda>(k, _). k \<in> {k \<in> fst ` set kvs. P k}) kvs = filter (\<lambda>(k, _). P k) kvs"
    by (rule filter_cong) (force split: prod.splits)+
  finally show "sum_list (map snd (filter (\<lambda>(k, _). P k) rows)) = sum_list (map snd (filter (\<lambda>(k, _). P k) kvs))" .
qed

lemma key_sum_groups: "group_sums kvs = Inr rows \<Longrightarrow> key_sum k rows = key_sum k kvs"
  using group_sums_Inr(2)[of kvs rows "\<lambda>kc. fst kc = k"] by (simp add: key_sum_def case_prod_unfold)

lemma key_sums_total:
  assumes "fst ` fst ` set kvs \<subseteq> set ks" and "distinct ks"
  shows "sum_list (map (\<lambda>k. key_sum k kvs) ks) = sum_list (map snd kvs)"
proof -
  have "sum_list (map (\<lambda>k. key_sum k kvs) ks) = (\<Sum>k\<in>set ks. sum_list (map snd (filter (\<lambda>(k', _). fst k' = k) kvs)))"
    using assms(2) by (simp add: sum_list_distinct_conv_sum_set key_sum_def case_prod_unfold)
  also have "\<dots> = sum_list (map snd (filter (\<lambda>(k', _). fst k' \<in> set ks) kvs))" by (rule sum_by_key) simp
  also have "filter (\<lambda>(k', _). fst k' \<in> set ks) kvs = kvs" using assms(1) by (force simp: filter_id_conv)
  finally show ?thesis .
qed

section \<open>The balance and its parts\<close>

lemma sum_where_split: "sum_where P us = sum_where (\<lambda>u. P u \<and> Q u) us + sum_where (\<lambda>u. P u \<and> \<not> Q u) us"
  by (induction us) (auto simp: sum_where_def)

lemma balance_query_parts:
  assumes "ADDRESS_BALANCE_QUERY net a tip maturity d = Inr b"
  defines "owned \<equiv> owned_outputs net a d"
  defines "spent \<equiv> \<lambda>u. spend_count net d owned u > 0"
  shows "ab_total_received_zat b = show_int (sum_where (\<lambda>_. True) owned)"
    and "ab_total_spent_zat b = show_int (sum_where spent owned)"
    and "ab_balance_zat b = sum_where (\<lambda>u. \<not> spent u) owned"
    and "ab_balance_zat b = ab_immature_coinbase_zat b + ab_mature_coinbase_zat b + ab_non_coinbase_unspent_zat b"
    and "ab_canonical_double_spend_anomalies b = anomalies (map (spend_count net d owned) owned)"
    and "ab_address_exists b \<longleftrightarrow> owned \<noteq> []"
proof -
  note q = assms(1)[unfolded ADDRESS_BALANCE_QUERY_def Let_def, folded owned_def]
  from q show "ab_total_received_zat b = show_int (sum_where (\<lambda>_. True) owned)"
    "ab_total_spent_zat b = show_int (sum_where spent owned)"
    "ab_balance_zat b = sum_where (\<lambda>u. \<not> spent u) owned"
    "ab_canonical_double_spend_anomalies b = anomalies (map (spend_count net d owned) owned)"
    "ab_address_exists b \<longleftrightarrow> owned \<noteq> []"
    by (auto simp: bigint_Inr spent_def)
  let ?c = "\<lambda>u. ev_is_coinbase (oo_event u)"
  have "sum_where (\<lambda>u. \<not> spent u) owned =
      sum_where (\<lambda>u. (\<not> spent u \<and> ?c u) \<and> mature tip maturity u) owned +
      sum_where (\<lambda>u. (\<not> spent u \<and> ?c u) \<and> \<not> mature tip maturity u) owned +
      sum_where (\<lambda>u. \<not> spent u \<and> \<not> ?c u) owned"
    unfolding sum_where_split[of "\<lambda>u. \<not> spent u" owned ?c] sum_where_split[of "\<lambda>u. \<not> spent u \<and> ?c u" owned "mature tip maturity"] ..
  then show "ab_balance_zat b = ab_immature_coinbase_zat b + ab_mature_coinbase_zat b + ab_non_coinbase_unspent_zat b"
    using q by (auto simp: bigint_Inr spent_def conj_assoc)
qed

lemma address_view_of_Inr:
  assumes "1 \<le> nc_decimals n" and "address_view_of n a b activity = Inr v"
    and "ab_total_received_zat b = show_int r" and "ab_total_spent_zat b = show_int s"
  shows "av_total_received v = amount r n" "av_total_sent v = amount s n" "av_unspent v = amount (ab_balance_zat b) n"
    "av_immature_coinbase v = amount (ab_immature_coinbase_zat b) n"
    "av_mature_coinbase_must_shield v = amount (ab_mature_coinbase_zat b) n"
    "av_non_coinbase_unspent v = amount (ab_non_coinbase_unspent_zat b) n"
  using assms(2-4) by (auto simp: address_view_of_def amount_text_value[OF assms(1)] exact_value_show_int)

lemma address_view_of_fields:
  assumes "address_view_of n a b activity = Inr v"
  shows "av_canonical_double_spend_anomalies v = ab_canonical_double_spend_anomalies b" "av_activity v = activity"
    "av_unspent v = amount (ab_balance_zat b) n"
  using assms by (auto simp: address_view_of_def)

text \<open>C17. The address totals add up.  Whenever the address view answers, for any snapshot, there are
  exact amounts received and sent such that the view shows them as totals, shows their difference as
  unspent, and shows immature coinbase, mature coinbase and other outputs that sum to the unspent
  amount.\<close>

theorem address_totals_add_up:
  assumes "1 \<le> nc_decimals (as_network S)"
  shows "case address A S R text of
      Inl _ \<Rightarrow> True
    | Inr e \<Rightarrow> \<exists>received sent immature matured other.
        av_total_received (ae_data e) = amount received (as_network S) \<and>
        av_total_sent (ae_data e) = amount sent (as_network S) \<and>
        av_unspent (ae_data e) = amount (received - sent) (as_network S) \<and>
        av_immature_coinbase (ae_data e) = amount immature (as_network S) \<and>
        av_mature_coinbase_must_shield (ae_data e) = amount matured (as_network S) \<and>
        av_non_coinbase_unspent (ae_data e) = amount other (as_network S) \<and>
        received - sent = immature + matured + other"
proof (cases "address A S R text")
  case (Inr e)
  then obtain a tip b activity where b: "ADDRESS_BALANCE_QUERY (nc_id (as_network S)) a tip (int (nc_coinbase_maturity (as_network S))) (rq_db R 1) = Inr b"
    and v: "address_view_of (as_network S) a b activity = Inr (ae_data e)"
    by (auto simp: address_def Let_def snap_def envelope_def split: option.splits)
  note parts = balance_query_parts[OF b]
  let ?owned = "owned_outputs (nc_id (as_network S)) a (rq_db R 1)"
  let ?spent = "\<lambda>u. spend_count (nc_id (as_network S)) (rq_db R 1) ?owned u > 0"
  have "sum_where (\<lambda>_. True) ?owned - sum_where ?spent ?owned = ab_balance_zat b"
    using sum_where_split[of "\<lambda>_. True" ?owned ?spent] parts(3) by simp
  then show ?thesis
    unfolding Inr sum.case address_view_of_Inr[OF assms v parts(1,2)] parts(4)[symmetric]
    using parts(4) by metis
qed simp

lemma api_balance_ok:
  "case ADDRESS_BALANCE_QUERY ''testnet'' ''tm1'' 1 100 api_db of
     Inl _ \<Rightarrow> False
   | Inr b \<Rightarrow> ab_address_exists b \<and> is_ok (optional_u64 (ab_first_seen_height b) ''first seen height'') \<and>
       is_ok (optional_u64 (ab_last_seen_height b) ''last seen height'') \<and> ab_canonical_double_spend_anomalies b = 0"
  by code_simp

lemma api_activity_ok:
  "case ADDRESS_ACTIVITY_QUERY ''testnet'' ''tm1'' api_db of Inl _ \<Rightarrow> False | Inr rows \<Rightarrow> length rows = 2"
  by code_simp

lemma api_address_ok:
  "\<exists>e. address example_api api_state (still api_db) ''tm1'' = Inr e \<and>
     av_canonical_double_spend_anomalies (ae_data e) = 0"
proof -
  obtain b where b: "ADDRESS_BALANCE_QUERY ''testnet'' ''tm1'' 1 100 api_db = Inr b" "ab_address_exists b"
    "is_ok (optional_u64 (ab_first_seen_height b) ''first seen height'')"
    "is_ok (optional_u64 (ab_last_seen_height b) ''last seen height'')" "ab_canonical_double_spend_anomalies b = 0"
    using api_balance_ok by (auto split: sum.splits)
  obtain rows where rows: "ADDRESS_ACTIVITY_QUERY ''testnet'' ''tm1'' api_db = Inr rows" "length rows = 2"
    using api_activity_ok by (auto split: sum.splits)
  have n: "1 \<le> nc_decimals api_network" "nc_coinbase_maturity api_network = 100" "as_network api_state = api_network"
    "nc_id api_network = ''testnet''" by (simp_all add: api_network_def example_schedule_def api_state_def)
  obtain chain where chain: "t_find (db_chain_state api_db) ''testnet'' = Some chain" "st_indexed_height chain = Some 1"
    by (simp add: api_db_def t_find_def)
  have "is_ok (address_view_of api_network ''tm1'' b activity)" for activity
    using b(3,4) by (auto simp: address_view_of_def amount_text_value[OF n(1)] balance_query_parts(1,2)[OF b(1)]
        exact_value_show_int is_ok_iff)
  then obtain v where v: "address_view_of api_network ''tm1'' b (map (activity_view api_network) rows) = Inr v"
    by (auto simp: is_ok_iff)
  have "validate_address example_api ''tm1'' api_network = Inr ''tm1''" by code_simp
  then have "\<exists>m. address example_api api_state (still api_db) ''tm1'' = Inr \<lparr>ae_data = v, ae_meta = m\<rparr>"
    using b(1,2) rows(1) v chain
    by (simp add: envelope_def address_def n read_snapshot_def read_steady[OF steady_still] snapshot_chain_state_def snap_steady[OF steady_still]
        load_chain_state_def Let_def)
  moreover have "av_canonical_double_spend_anomalies v = 0" using v b(5) by (auto simp: address_view_of_def)
  ultimately show ?thesis by fastforce
qed

theorem address_totals_add_up_witness:
  "\<exists>e received sent. address example_api api_state (still api_db) ''tm1'' = Inr e \<and>
     av_total_received (ae_data e) = amount received (as_network api_state) \<and>
     av_total_sent (ae_data e) = amount sent (as_network api_state) \<and>
     av_unspent (ae_data e) = amount (received - sent) (as_network api_state)"
proof -
  obtain e where "address example_api api_state (still api_db) ''tm1'' = Inr e" using api_address_ok by blast
  moreover have "1 \<le> nc_decimals (as_network api_state)" by (simp add: api_network_def example_schedule_def api_state_def)
  ultimately show ?thesis
    using address_totals_add_up[of api_state example_api "still api_db" "''tm1''"] by (simp; blast)
qed

section \<open>Places and events\<close>

text \<open>Every position of a block holds a stored transaction (a foreign key of the schema).\<close>

definition positions_stored :: "db \<Rightarrow> bool" where
  "positions_stored d \<longleftrightarrow> list_all (\<lambda>(_, i). t_find (db_instances d) i \<noteq> None) (db_block_transactions d)"

lemma canonical_places_mem:
  assumes "db_wf d"
  shows "(h, x, w, q, i) \<in> set (canonical_places net d) \<longleftrightarrow>
     (\<exists>c. t_find (db_canonical d) (net, h) = Some c \<and> cr_block_hash c = x \<and> cr_witness_hash c = w) \<and>
     t_find (db_block_transactions d) ((x, w), q) = Some i"
proof -
  have wf: "t_wf (db_canonical d)" "t_wf (db_block_transactions d)" using assms by (simp_all add: db_wf_def)
  show ?thesis
    by (force simp: canonical_places_def rows_of_find[OF wf(2)] simp flip: rows_of_find[OF wf(1)])
qed

lemma place_event_stored:
  assumes "chain_ok net d cs" and "positions_stored d" and "pl \<in> set (canonical_places net d)"
  shows "\<exists>e. place_event d pl = Some e"
proof -
  obtain h x w q i where pl: "pl = (h, x, w, q, i)" by (cases pl)
  have wf: "db_wf d" using assms(1) by (simp add: chain_ok_def)
  from assms(3) obtain c where c: "t_find (db_canonical d) (net, h) = Some c" "cr_block_hash c = x"
    "t_find (db_block_transactions d) ((x, w), q) = Some i" unfolding pl canonical_places_mem[OF wf] by blast
  have "t_find (db_instances d) i \<noteq> None"
    using assms(2) t_find_in_set[OF c(3)] by (auto simp: positions_stored_def list_all_iff)
  moreover have "chain_at cs h = Some (x, cr_witness_hash c)"
    using c(1,2) assms(1) by (simp add: chain_ok_def selected_def fun_eq_iff flip: c(2))
      (metis option.simps(9))
  then have "t_find (db_blocks d) x \<noteq> None"
    using assms(1) unfolding chain_ok_def block_linked_def chain_at_def
    by (metis fst_conv nat_less_iff option.distinct(1) option.inject)
  ultimately show ?thesis by (auto simp: pl place_event_def)
qed

lemma place_event_key:
  "place_event d (h, x, w, q, i) = Some e \<Longrightarrow> ak_height (ev_key e) = h \<and> ak_position (ev_key e) = q \<and> ev_instance e = i"
  by (auto simp: place_event_def split: option.splits)

lemma canonical_events_unique:
  assumes "db_wf d" and "e \<in> set (canonical_events net d)" and "e' \<in> set (canonical_events net d)"
    and "ak_height (ev_key e) = ak_height (ev_key e')" and "ak_position (ev_key e) = ak_position (ev_key e')"
  shows "e = e'"
proof -
  have "\<exists>x w i. (ak_height (ev_key e), x, w, ak_position (ev_key e), i) \<in> set (canonical_places net d) \<and>
      place_event d (ak_height (ev_key e), x, w, ak_position (ev_key e), i) = Some e"
    if "e \<in> set (canonical_events net d)" for e
    using that place_event_key[of d _ _ _ _ _ e] by (force simp: canonical_events_def List.map_filter_def)
  from this[OF assms(2)] this[OF assms(3)] show ?thesis
    unfolding canonical_places_mem[OF assms(1)] assms(4,5) by auto
qed

lemma spending_lengths:
  assumes "chain_ok net d cs" and "positions_stored d"
  shows "length (spending_events net d p) = length (spending_places net d p)"
proof -
  have "length (concat (map (\<lambda>e. replicate (spending_inputs d p (ev_instance e)) e) (List.map_filter (place_event d) pls))) =
      length (concat (map (\<lambda>(h, x, w, q, i). replicate (spending_inputs d p i) (h, x, w, q, i)) pls))"
    if "set pls \<subseteq> set (canonical_places net d)" for pls
    using that
  proof (induction pls)
    case (Cons pl pls)
    obtain h x w q i where pl: "pl = (h, x, w, q, i)" by (cases pl)
    obtain e where e: "place_event d pl = Some e" using place_event_stored[OF assms] Cons.prems by (metis list.set_intros(1) subset_iff)
    then have "ev_instance e = i" using place_event_key unfolding pl by blast
    then show ?case using Cons e by (simp add: pl)
  qed simp
  then show ?thesis by (simp add: spending_events_def spending_places_def canonical_events_def)
qed

lemma owned_output_event:
  assumes "u \<in> set (owned_outputs net a d)"
  shows "oo_event u \<in> set (canonical_events net d)"
  using assms by (auto simp: owned_outputs_def)

lemma spending_event:
  assumes "e \<in> set (spending_events net d p)"
  shows "e \<in> set (canonical_events net d)"
  using assms by (auto simp: spending_events_def)

section \<open>The running balance\<close>

lemma anomalies_zero:
  assumes "anomalies counts = 0" and "n \<in> set counts"
  shows "n \<le> 1"
proof -
  have "0 \<le> x" if "x \<in> set (map (\<lambda>n. max (int n - 1) 0) counts)" for x using that by auto
  then have "max (int n - 1) 0 = 0"
    using assms sum_list_nonneg_eq_0_iff[of "map (\<lambda>n. max (int n - 1) 0) counts"] by (auto simp: anomalies_def)
  then show ?thesis by (simp add: max_def split: if_splits)
qed

lemma mult_at_most_one: "1 \<le> (a :: nat) \<Longrightarrow> a * n \<le> 1 \<Longrightarrow> n = a * n"
  by (cases a; cases n) auto

lemma spend_count_places:
  assumes "u \<in> set owned" and "spend_count net d owned u \<le> 1"
  shows "length (spending_places net d (outpoint u)) = spend_count net d owned u"
proof -
  let ?us = "filter (\<lambda>u'. outpoint u' = outpoint u) owned" and ?n = "length (spending_places net d (outpoint u))"
  have "map (\<lambda>u'. length (spending_places net d (outpoint u'))) ?us = map (\<lambda>_. ?n) ?us" by (rule map_cong) auto
  then have count: "spend_count net d owned u = length ?us * ?n"
    by (simp add: spend_count_def length_concat comp_def sum_list_triv del: map_eq_conv)
  have "?us \<noteq> []" using assms(1) by (auto simp: filter_empty_conv)
  then have "1 \<le> length ?us" by (cases ?us) simp_all
  then have "?n = length ?us * ?n" using assms(2) unfolding count by (rule mult_at_most_one)
  then show ?thesis unfolding count .
qed

lemma spent_total:
  "sum_list (map snd (spent_deltas net d us)) = sum_list (map (\<lambda>u. int (length (spending_events net d (outpoint u))) * oo_value u) us)"
  by (induction us) (simp_all add: spent_deltas_def comp_def sum_list_triv)

lemma spent_total_no_anomaly:
  assumes "chain_ok net d cs" and "positions_stored d" and "anomalies (map (spend_count net d owned) owned) = 0"
  shows "sum_list (map snd (spent_deltas net d owned)) = sum_where (\<lambda>u. spend_count net d owned u > 0) owned"
proof -
  have "int (length (spending_events net d (outpoint u))) * oo_value u = (if spend_count net d owned u > 0 then oo_value u else 0)"
    if "u \<in> set owned" for u
  proof -
    have "spend_count net d owned u \<le> 1" using anomalies_zero[OF assms(3)] that by simp
    then show ?thesis using spend_count_places[OF that] unfolding spending_lengths[OF assms(1,2)] by (cases "spend_count net d owned u") auto
  qed
  then have "map (\<lambda>u. int (length (spending_events net d (outpoint u))) * oo_value u) owned =
      map (\<lambda>u. if spend_count net d owned u > 0 then oo_value u else 0) owned" by (intro map_cong) auto
  from this show ?thesis unfolding spent_total sum_where_def sum_list_map_filter' by (rule arg_cong)
qed

lemma newest_first_mem: "set (newest_first rows) \<subseteq> set rows"
  by (auto simp: newest_first_def dest: in_set_takeD)

lemma newest_first_hd:
  assumes "newest_first rows = r # rest" and "r' \<in> set rows"
  shows "[ak_height (aw_key r'), ak_position (aw_key r')] \<le> [ak_height (aw_key r), ak_position (aw_key r)]"
proof -
  let ?f = "\<lambda>r. [- ak_height (aw_key r), - ak_position (aw_key r)]"
  obtain more where s: "sort_key ?f rows = r # more" using assms(1) by (cases "sort_key ?f rows") (auto simp: newest_first_def)
  have "set (r # more) = set rows" unfolding s[symmetric] by simp
  moreover have "sorted (map ?f (r # more))" unfolding s[symmetric] by simp
  ultimately have "?f r \<le> ?f r'" using assms(2) by auto
  then show "[ak_height (aw_key r'), ak_position (aw_key r')] \<le> [ak_height (aw_key r), ak_position (aw_key r)]" by auto
qed

lemma activity_rows_Inr:
  assumes "activity_rows received spent = Inr rows" and "r \<in> set rows"
  defines "keys \<equiv> remdups (map (fst \<circ> fst) (received @ spent))"
  shows "aw_balance_after_zat r =
      sum_list (map (\<lambda>k. key_sum k received - key_sum k spent) (filter (\<lambda>k'. window_le k' (aw_key r)) keys))"
    and "aw_net_zat r = key_sum (aw_key r) received - key_sum (aw_key r) spent"
    and "aw_key ` set rows = set keys"
proof -
  let ?net = "\<lambda>k. key_sum k received - key_sum k spent"
  define f where "f = (\<lambda>k. rbind (bigint (key_sum k received)) (\<lambda>r. rbind (bigint (key_sum k spent)) (\<lambda>s.
        rbind (bigint (?net k)) (\<lambda>n. rbind (bigint (sum_list (map ?net (filter (\<lambda>k'. window_le k' k) keys)))) (\<lambda>after.
        Inr \<lparr>aw_key = k, aw_is_coinbase = list_ex (\<lambda>((k', c), _). k' = k \<and> c) (received @ spent),
          aw_received_zat = r, aw_spent_zat = s, aw_net_zat = n, aw_balance_after_zat = after\<rparr>)))))"
  have rows: "map f keys = map Inr rows"
    using assms(1) by (simp add: activity_rows_def Let_def collect_res_Inr keys_def f_def)
  have f: "f k = Inr r' \<Longrightarrow> aw_key r' = k \<and> aw_net_zat r' = ?net k \<and>
      aw_balance_after_zat r' = sum_list (map ?net (filter (\<lambda>k'. window_le k' k) keys))" for k r'
    by (auto simp: f_def bigint_Inr)
  have "Inr r \<in> f ` set keys" using arg_cong[OF rows, of set] assms(2) by auto
  then obtain k where "f k = Inr r" by auto
  from f[OF this] show "aw_net_zat r = ?net (aw_key r)"
    "aw_balance_after_zat r = sum_list (map ?net (filter (\<lambda>k'. window_le k' (aw_key r)) keys))" by auto
  have "map aw_key rows = keys"
    using rows f by (auto simp: list_eq_iff_nth_eq) 
  then show "aw_key ` set rows = set keys" by (metis set_map)
qed

lemma activity_query_parts:
  assumes "ADDRESS_ACTIVITY_QUERY net a d = Inr shown"
  defines "owned \<equiv> owned_outputs net a d"
  obtains received spent rows where "group_sums (received_deltas owned) = Inr received"
    "group_sums (spent_deltas net d owned) = Inr spent" "activity_rows received spent = Inr rows" "shown = newest_first rows"
  using assms by (auto simp: ADDRESS_ACTIVITY_QUERY_def Let_def)

lemma deltas_keys:
  "fst ` fst ` set (received_deltas owned) = (ev_key \<circ> oo_event) ` set owned"
  "fst ` fst ` set (spent_deltas net d owned) = ev_key ` (\<Union>u\<in>set owned. set (spending_events net d (outpoint u)))"
  by (force simp: received_deltas_def spent_deltas_def image_UN image_image)+

lemma activity_keys_are_events:
  assumes "group_sums (received_deltas (owned_outputs net a d)) = Inr received"
    and "group_sums (spent_deltas net d (owned_outputs net a d)) = Inr spent"
    and "k \<in> fst ` fst ` set (received @ spent)"
  shows "k \<in> fst ` fst ` set (received_deltas (owned_outputs net a d)) \<union> fst ` fst ` set (spent_deltas net d (owned_outputs net a d))"
    and "\<exists>e \<in> set (canonical_events net d). ev_key e = k"
proof -
  let ?owned = "owned_outputs net a d"
  have "fst ` fst ` set (received @ spent) = fst ` set (map fst received) \<union> fst ` set (map fst spent)"
    by (simp add: image_image image_Un)
  then show k: "k \<in> fst ` fst ` set (received_deltas ?owned) \<union> fst ` fst ` set (spent_deltas net d ?owned)"
    using assms(3) unfolding group_sums_Inr(1)[OF assms(1)] group_sums_Inr(1)[OF assms(2)] by simp
  then obtain e where "e \<in> oo_event ` set ?owned \<union> (\<Union>u\<in>set ?owned. set (spending_events net d (outpoint u)))" "k = ev_key e"
    unfolding deltas_keys image_comp[symmetric] image_Un[symmetric] by blast
  moreover have "oo_event ` set ?owned \<union> (\<Union>u\<in>set ?owned. set (spending_events net d (outpoint u))) \<subseteq> set (canonical_events net d)"
    using owned_output_event spending_event by blast
  ultimately show "\<exists>e \<in> set (canonical_events net d). ev_key e = k" by blast
qed

lemma newest_row_sums_all:
  assumes "db_wf d" and sums: "group_sums (received_deltas (owned_outputs net a d)) = Inr received"
      "group_sums (spent_deltas net d (owned_outputs net a d)) = Inr spent"
    and rows: "activity_rows received spent = Inr rows" and first: "newest_first rows = r # rest"
  shows "aw_balance_after_zat r =
    sum_list (map (\<lambda>k. key_sum k received - key_sum k spent) (remdups (map (fst \<circ> fst) (received @ spent))))"
proof -
  define keys where "keys = remdups (map (fst \<circ> fst) (received @ spent))"
  have r: "r \<in> set rows" using newest_first_mem[of rows] first by auto
  note all = activity_rows_Inr(3)[OF rows r]
  have event: "\<exists>e \<in> set (canonical_events net d). ev_key e = k" if "k \<in> set keys" for k
    using activity_keys_are_events(2)[OF sums, of k] that by (simp add: keys_def image_image image_Un)
  have "window_le k (aw_key r)" if k: "k \<in> set keys" for k
  proof -
    have rk: "aw_key r \<in> set keys" using all r by (auto simp: keys_def)
    obtain r' where r': "r' \<in> set rows" "aw_key r' = k" using all k by (force simp: keys_def)
    have le: "[ak_height k, ak_position k] \<le> [ak_height (aw_key r), ak_position (aw_key r)]"
      using newest_first_hd[OF first r'(1)] r'(2) by simp
    show ?thesis
    proof (cases "[ak_height k, ak_position k] = [ak_height (aw_key r), ak_position (aw_key r)]")
      case True
      then have "k = aw_key r" using event[OF k] event[OF rk] canonical_events_unique[OF assms(1)] by (metis list.inject)
      then show ?thesis by (simp add: window_le_def window_key_def)
    next
      case False
      then show ?thesis using le by (simp add: window_le_def window_key_def less_le)
    qed
  qed
  then have "filter (\<lambda>k. window_le k (aw_key r)) keys = keys" by (simp add: filter_id_conv)
  then show ?thesis using activity_rows_Inr(1)[OF rows r] by (simp add: keys_def)
qed

lemma activity_balance:
  assumes "chain_ok net d cs" and "positions_stored d"
    and "ADDRESS_ACTIVITY_QUERY net a d = Inr (r # rest)"
    and "anomalies (map (spend_count net d (owned_outputs net a d)) (owned_outputs net a d)) = 0"
  shows "aw_balance_after_zat r =
    sum_where (\<lambda>u. \<not> spend_count net d (owned_outputs net a d) u > 0) (owned_outputs net a d)"
proof -
  let ?owned = "owned_outputs net a d"
  let ?spent = "\<lambda>u. spend_count net d ?owned u > 0"
  have wf: "db_wf d" using assms(1) by (simp add: chain_ok_def)
  obtain received spent rows where q: "group_sums (received_deltas ?owned) = Inr received"
    "group_sums (spent_deltas net d ?owned) = Inr spent" "activity_rows received spent = Inr rows" "newest_first rows = r # rest"
    using activity_query_parts[OF assms(3)] by metis
  let ?keys = "remdups (map (fst \<circ> fst) (received @ spent))"
  have "set ?keys = fst ` set (map fst received) \<union> fst ` set (map fst spent)"
    by (simp add: image_image image_Un)
  then have covers: "fst ` fst ` set (received_deltas ?owned) \<subseteq> set ?keys" "fst ` fst ` set (spent_deltas net d ?owned) \<subseteq> set ?keys"
    unfolding group_sums_Inr(1)[OF q(1)] group_sums_Inr(1)[OF q(2)] by simp_all
  have "aw_balance_after_zat r = sum_list (map (\<lambda>k. key_sum k received - key_sum k spent) ?keys)"
    using newest_row_sums_all[OF wf q] .
  also have "\<dots> = sum_list (map (\<lambda>k. key_sum k (received_deltas ?owned)) ?keys) - sum_list (map (\<lambda>k. key_sum k (spent_deltas net d ?owned)) ?keys)"
    by (simp add: key_sum_groups[OF q(1)] key_sum_groups[OF q(2)] sum_list_subtractf)
  also have "\<dots> = sum_list (map snd (received_deltas ?owned)) - sum_list (map snd (spent_deltas net d ?owned))"
    using key_sums_total[OF covers(1)] key_sums_total[OF covers(2)] by simp
  also have "\<dots> = sum_where (\<lambda>_. True) ?owned - sum_where ?spent ?owned"
    unfolding spent_total_no_anomaly[OF assms(1,2,4)] by (simp add: received_deltas_def sum_where_def comp_def)
  finally show ?thesis using sum_where_split[of "\<lambda>_. True" ?owned ?spent] by simp
qed

lemma activity_not_empty:
  assumes "ADDRESS_ACTIVITY_QUERY net a d = Inr rows" and "owned_outputs net a d \<noteq> []"
  shows "rows \<noteq> []"
proof -
  obtain received spent all where q: "group_sums (received_deltas (owned_outputs net a d)) = Inr received"
    "activity_rows received spent = Inr all" "rows = newest_first all"
    using activity_query_parts[OF assms(1)] by metis
  have "set (map fst received) \<noteq> {}" using group_sums_Inr(1)[OF q(1)] assms(2) by (simp add: received_deltas_def)
  then have "all \<noteq> []"
    using q(2) by (auto simp: activity_rows_def Let_def collect_res_Inr simp del: remdups.simps)
  then show ?thesis unfolding q(3) newest_first_def by (metis length_0_conv length_sort take_eq_Nil zero_neq_numeral)
qed

text \<open>C16. The two queries of the address view agree.  On a snapshot that represents a chain, whenever
  the view answers and reports no double-spend anomaly, its activity list is not empty, and the
  running balance after the newest activity, which the window sum computes from every receipt and
  every spend, is exactly the unspent amount, which the balance query computes from the outputs no
  canonical input names.\<close>

theorem activity_ends_at_balance:
  assumes "chain_ok (nc_id (as_network S)) (rq_db R 1) cs" and "positions_stored (rq_db R 1)"
  shows "case address A S R text of
      Inl _ \<Rightarrow> True
    | Inr e \<Rightarrow> av_canonical_double_spend_anomalies (ae_data e) = 0 \<longrightarrow>
        (case av_activity (ae_data e) of
           [] \<Rightarrow> False
         | newest # _ \<Rightarrow> aa_balance_after newest = av_unspent (ae_data e))"
proof (cases "address A S R text")
  case (Inr e)
  let ?net = "nc_id (as_network S)" and ?d = "rq_db R 1"
  from Inr obtain a tip b rows where b: "ADDRESS_BALANCE_QUERY ?net a tip (int (nc_coinbase_maturity (as_network S))) ?d = Inr b"
    "ab_address_exists b" and rows: "ADDRESS_ACTIVITY_QUERY ?net a ?d = Inr rows"
    and v: "address_view_of (as_network S) a b (map (activity_view (as_network S)) rows) = Inr (ae_data e)"
    by (auto simp: address_def Let_def snap_def envelope_def split: option.splits)
  note parts = balance_query_parts[OF b(1)]
  note fields = address_view_of_fields[OF v]
  have "rows \<noteq> []" using activity_not_empty[OF rows] parts(6) b(2) by simp
  then obtain r rest where r: "rows = r # rest" by (cases rows) auto
  have "aw_balance_after_zat r = ab_balance_zat b" if "ab_canonical_double_spend_anomalies b = 0"
    using activity_balance[OF assms rows[unfolded r]] that parts(3,5) by simp
  then show ?thesis unfolding Inr sum.case fields r by (simp add: activity_view_def Let_def)
qed simp

theorem activity_ends_at_balance_witness:
  "\<exists>e newest rest. address example_api api_state (still api_db) ''tm1'' = Inr e \<and>
     av_activity (ae_data e) = newest # rest \<and> aa_balance_after newest = av_unspent (ae_data e)"
proof -
  obtain e where e: "address example_api api_state (still api_db) ''tm1'' = Inr e"
    "av_canonical_double_spend_anomalies (ae_data e) = 0" using api_address_ok by blast
  moreover have "positions_stored api_db" by code_simp
  ultimately show ?thesis
    using activity_ends_at_balance[of api_state "still api_db" api_chain example_api "''tm1''"] api_db_chain
    by (auto simp: still_def split: list.splits)
qed

end
