(* ===== verification/Analytics.thy ===== *)
theory Analytics imports Api_Address begin

text \<open>
  Chain analytics (\<open>src/analytics.rs\<close>): network history, value pools, merge mining, and the
  exact helpers the views share.  Every handler reads one snapshot.
\<close>

section \<open>Limits and helpers\<close>

definition DEFAULT_HISTORY_LIMIT :: nat where "DEFAULT_HISTORY_LIMIT = 240"
definition MAX_HISTORY_LIMIT :: nat where "MAX_HISTORY_LIMIT = 2048"
definition DEFAULT_RICH_LIST_LIMIT :: nat where "DEFAULT_RICH_LIST_LIMIT = 50"
definition MAX_RICH_LIST_LIMIT :: nat where "MAX_RICH_LIST_LIMIT = 100"

record history_query =
  hq_before :: "nat option"
  hq_limit :: "nat option"

definition history_limit :: "nat option \<Rightarrow> nat" where
  "history_limit lim =
     max 2 (min MAX_HISTORY_LIMIT (case lim of None \<Rightarrow> DEFAULT_HISTORY_LIMIT | Some n \<Rightarrow> n))"

definition as_height :: "int \<Rightarrow> nat result" where
  "as_height v = ok_or (u64_try_from v) (InvalidNodeResponse ''negative canonical height in explorer index'')"

definition optional_height :: "int option \<Rightarrow> nat option result" where
  "optional_height v = transpose_opt (map_option as_height v)"

definition height_error :: explorer_error where
  "height_error = InvalidRequest ''height exceeds the supported range''"

text \<open>The bound a history request asks for.\<close>

definition history_before :: "history_query \<Rightarrow> int option result" where
  "history_before q = transpose_opt (map_option (\<lambda>v. ok_or (i64_try_from v) height_error) (hq_before q))"

text \<open>Rust division and remainder truncate towards zero; \<open>{:08}\<close> of a negative number pads after its
  sign.  The products saturate at \<open>i128\<close>, which no \<open>i64\<close> times \<open>10 ^ 10\<close> reaches.\<close>

definition trunc_div :: "int \<Rightarrow> int \<Rightarrow> int" where
  "trunc_div a b = sgn a * sgn b * (\<bar>a\<bar> div \<bar>b\<bar>)"

definition trunc_rem :: "int \<Rightarrow> int \<Rightarrow> int" where
  "trunc_rem a b = a - b * trunc_div a b"

definition pad_int :: "nat \<Rightarrow> int \<Rightarrow> string" where
  "pad_int w i =
     (if i < 0 then ''-'' @ pad_zeros (w - 1) (show_nat (nat (- i))) else pad_zeros w (show_nat (nat i)))"

definition exact_percent :: "int \<Rightarrow> int \<Rightarrow> string" where
  "exact_percent numerator denominator =
     (if denominator \<le> 0 then ''0.00000000''
      else let scaled = trunc_div (numerator * 100 * 100000000) denominator in
        show_int (trunc_div scaled 100000000) @ ''.'' @ pad_int 8 (trunc_rem scaled 100000000))"

definition unassigned_transparent_balance :: "int option \<Rightarrow> int \<Rightarrow> int option result" where
  "unassigned_transparent_balance transparent_pool_zat addressed_balance_zat =
     (case transparent_pool_zat of
        None \<Rightarrow> Inr None
      | Some pool \<Rightarrow>
          let v = pool - addressed_balance_zat in
          if - (2 ^ 63) \<le> v \<and> v < 2 ^ 63 \<and> v \<ge> 0 then Inr (Some v)
          else Inl (InvalidNodeResponse
            ''decoded transparent balances exceed the monitored transparent value pool''))"

section \<open>Network history\<close>

record network_history_row =
  nh_height :: int
  nh_hash :: string
  nh_block_time :: datetime
  nh_difficulty_text :: string
  nh_spacing_seconds :: "int option"
  nh_size_bytes :: int
  nh_transaction_count :: int
  nh_chain_supply_zat :: "int option"

text \<open>\<open>EXTRACT(EPOCH FROM interval)::BIGINT\<close>: microseconds rounded to seconds, halves away from
  zero.\<close>

definition epoch_bigint :: "int \<Rightarrow> int" where
  "epoch_bigint micros = sgn micros * ((2 * \<bar>micros\<bar> + 1000000) div 2000000)"

text \<open>The selections below a height, latest first, at most so many.\<close>

definition selectors :: "string \<Rightarrow> int option \<Rightarrow> nat \<Rightarrow> db \<Rightarrow> (int \<times> canonical_row) list" where
  "selectors net before lim d = take lim (below fst before (rev (rows_of net (db_canonical d))))"

definition with_lag :: "(int \<times> string \<times> block_row) list \<Rightarrow> network_history_row list" where
  "with_lag rows =
     map (\<lambda>(previous, (height, hash, b)).
         \<lparr>nh_height = height, nh_hash = hash, nh_block_time = br_block_time b,
          nh_difficulty_text = br_difficulty_text b,
          nh_spacing_seconds = map_option (\<lambda>t. epoch_bigint (br_block_time b - t)) previous,
          nh_size_bytes = br_size_bytes b, nh_transaction_count = br_transaction_count b,
          nh_chain_supply_zat = br_chain_supply_zat b\<rparr>)
       (zip (None # map (\<lambda>(_, _, b). Some (br_block_time b)) rows) rows)"

definition NETWORK_HISTORY_QUERY :: "string \<Rightarrow> int option \<Rightarrow> nat \<Rightarrow> db \<Rightarrow> network_history_row list" where
  "NETWORK_HISTORY_QUERY net before lim d =
     (let selected = List.map_filter (\<lambda>(height, c).
            map_option (\<lambda>b. (height, cr_block_hash c, b)) (t_find (db_blocks d) (cr_block_hash c)))
            (selectors net before (lim + 1) d) in
      rev (take lim (rev (with_lag (rev selected)))))"

record network_history_point =
  np_height :: nat
  np_row :: network_history_row
  np_total_issued :: "amount_view option"

record network_history_view =
  nv_as_of_height :: "nat option"
  nv_as_of_hash :: "string option"
  nv_target_spacing_seconds :: nat
  nv_points :: "network_history_point list"

definition network_history_point_of :: "network_config \<Rightarrow> network_history_row \<Rightarrow> network_history_point result" where
  "network_history_point_of n row =
     rbind (as_height (nh_height row)) (\<lambda>height.
     Inr \<lparr>np_height = height, np_row = row,
       np_total_issued = map_option (\<lambda>v. amount v n) (nh_chain_supply_zat row)\<rparr>)"

definition network_history :: "app_state \<Rightarrow> request \<Rightarrow> history_query \<Rightarrow> network_history_view api_envelope result" where
  "network_history S R q =
     (let n = as_network S; net = nc_id n; lim = history_limit (hq_limit q) in
      rbind (history_before q) (\<lambda>before.
      rbind (read_snapshot R 0) (\<lambda>_.
      rbind (snapshot_chain_state R net) (\<lambda>chain.
      rbind (snap R 2 (\<lambda>d. Inr (NETWORK_HISTORY_QUERY net before lim d))) (\<lambda>rows.
      rbind (read_snapshot R 3) (\<lambda>_.
      rbind (collect_res (map (network_history_point_of n) rows)) (\<lambda>points.
      rbind (optional_height (st_indexed_height chain)) (\<lambda>as_of.
      Inr (envelope S (rq_clock R 0)
        \<lparr>nv_as_of_height = as_of, nv_as_of_hash = st_indexed_hash chain,
         nv_target_spacing_seconds = nc_target_spacing_seconds n, nv_points = points\<rparr> None chain)))))))))"

section \<open>Value pools\<close>

record pool_snapshot_view =
  ps_id :: string
  ps_chain_value :: "amount_view option"
  ps_value_delta :: "amount_view option"
  ps_reported :: bool
  ps_monitored :: "bool option"

definition pool_snapshot ::
    "string \<Rightarrow> int option \<Rightarrow> int option \<Rightarrow> bool option \<Rightarrow> app_state \<Rightarrow> pool_snapshot_view" where
  "pool_snapshot i chain_value_zat value_delta_zat monitored S =
     \<lparr>ps_id = i, ps_chain_value = map_option (\<lambda>v. amount v (as_network S)) chain_value_zat,
      ps_value_delta = map_option (\<lambda>v. amount v (as_network S)) value_delta_zat,
      ps_reported = (chain_value_zat \<noteq> None), ps_monitored = monitored\<rparr>"

record value_pool_history_row =
  vh_height :: int
  vh_hash :: string
  vh_block_time :: datetime
  vh_chain_supply_zat :: "int option"
  vh_transparent :: "pool_row option"
  vh_ironwood :: "pool_row option"

text \<open>A pool has at most one row for a witness, so \<open>MAX(...) FILTER\<close> and \<open>BOOL_OR\<close> read its
  columns.\<close>

definition VALUE_POOL_HISTORY_QUERY :: "string \<Rightarrow> int option \<Rightarrow> nat \<Rightarrow> db \<Rightarrow> value_pool_history_row list" where
  "VALUE_POOL_HISTORY_QUERY net before lim d =
     rev (List.map_filter (\<lambda>(height, c).
       map_option (\<lambda>b.
         let pool = (\<lambda>i. t_find (db_pools d) ((cr_block_hash c, cr_witness_hash c), i)) in
         \<lparr>vh_height = height, vh_hash = cr_block_hash c, vh_block_time = br_block_time b,
          vh_chain_supply_zat = br_chain_supply_zat b, vh_transparent = pool ''transparent'',
          vh_ironwood = pool ''ironwood''\<rparr>) (t_find (db_blocks d) (cr_block_hash c)))
       (selectors net before lim d))"

definition unexpected_pool :: "string \<Rightarrow> pool_row \<Rightarrow> bool" where
  "unexpected_pool i p \<longleftrightarrow>
     i \<noteq> ''transparent'' \<and> i \<noteq> ''ironwood'' \<and>
     (pl_monitored p = Some True \<or>
      (case pl_chain_value_zat p of None \<Rightarrow> 0 | Some v \<Rightarrow> v) \<noteq> 0 \<or>
      (case pl_value_delta_zat p of None \<Rightarrow> 0 | Some v \<Rightarrow> v) \<noteq> 0)"

definition unexpected_pool_samples :: "string \<Rightarrow> db \<Rightarrow> int" where
  "unexpected_pool_samples net d =
     int (length (concat (map (\<lambda>(_, c).
       filter (\<lambda>((w, i), p). w = (cr_block_hash c, cr_witness_hash c) \<and> unexpected_pool i p) (db_pools d))
       (rows_of net (db_canonical d)))))"

record value_pool_history_point =
  vp_height :: nat
  vp_hash :: string
  vp_time :: datetime
  vp_total_issued :: "amount_view option"
  vp_transparent :: pool_snapshot_view
  vp_ironwood :: pool_snapshot_view

record value_pool_history_view =
  vpv_as_of_height :: "nat option"
  vpv_as_of_hash :: "string option"
  vpv_unexpected_pool_samples :: int
  vpv_points :: "value_pool_history_point list"

definition snapshot_of :: "string \<Rightarrow> pool_row option \<Rightarrow> app_state \<Rightarrow> pool_snapshot_view" where
  "snapshot_of i p S =
     pool_snapshot i (Option.bind p pl_chain_value_zat) (Option.bind p pl_value_delta_zat) (Option.bind p pl_monitored) S"

definition value_pool_point_of :: "app_state \<Rightarrow> value_pool_history_row \<Rightarrow> value_pool_history_point result" where
  "value_pool_point_of S row =
     rbind (as_height (vh_height row)) (\<lambda>height.
     Inr \<lparr>vp_height = height, vp_hash = vh_hash row, vp_time = vh_block_time row,
       vp_total_issued = map_option (\<lambda>v. amount v (as_network S)) (vh_chain_supply_zat row),
       vp_transparent = snapshot_of ''transparent'' (vh_transparent row) S,
       vp_ironwood = snapshot_of ''ironwood'' (vh_ironwood row) S\<rparr>)"

definition value_pool_history :: "app_state \<Rightarrow> request \<Rightarrow> history_query \<Rightarrow> value_pool_history_view api_envelope result" where
  "value_pool_history S R q =
     (let net = nc_id (as_network S); lim = history_limit (hq_limit q) in
      rbind (history_before q) (\<lambda>before.
      rbind (read_snapshot R 0) (\<lambda>_.
      rbind (snapshot_chain_state R net) (\<lambda>chain.
      rbind (snap R 2 (\<lambda>d. Inr (VALUE_POOL_HISTORY_QUERY net before lim d))) (\<lambda>rows.
      rbind (collect_res (map (value_pool_point_of S) rows)) (\<lambda>points.
      rbind (snap R 3 (\<lambda>d. Inr (unexpected_pool_samples net d))) (\<lambda>samples.
      rbind (read_snapshot R 4) (\<lambda>_.
      rbind (optional_height (st_indexed_height chain)) (\<lambda>as_of.
      Inr (envelope S (rq_clock R 0)
        \<lparr>vpv_as_of_height = as_of, vpv_as_of_hash = st_indexed_hash chain,
         vpv_unexpected_pool_samples = samples, vpv_points = points\<rparr> None chain))))))))))"

section \<open>Merge mining\<close>

record merge_evidence =
  me_height :: int
  me_exact_witness_state :: string
  me_local_validation_state :: string
  me_link :: "link_row option"
  me_has_canonical_parent :: bool
  me_source_count :: nat

definition merge_evidence_rows :: "string \<Rightarrow> db \<Rightarrow> merge_evidence list" where
  "merge_evidence_rows net d =
     List.map_filter (\<lambda>(height, c).
       let key = (cr_block_hash c, cr_witness_hash c); obs = observations_of (fst key) (snd key) d in
       map_option (\<lambda>w.
         \<lparr>me_height = height, me_exact_witness_state = wr_exact_witness_state w,
          me_local_validation_state = wr_local_validation_state w, me_link = t_find (db_links d) key,
          me_has_canonical_parent = list_ex (\<lambda>(_, ob). ow_observation_state ob = ''canonical'' \<and>
            ow_embedded_header_matches ob = Some True) obs,
          me_source_count = card (fst ` set obs)\<rparr>) (t_find (db_witnesses d) key))
       (rows_of net (db_canonical d))"

text \<open>A comparison with a column of a missing link is null, which no filter accepts.\<close>

definition link_state :: "merge_evidence \<Rightarrow> string \<Rightarrow> bool" where
  "link_state e st = (case me_link e of None \<Rightarrow> False | Some a \<Rightarrow> lk_parent_lookup_state a = st)"

definition link_flag :: "(link_row \<Rightarrow> bool) \<Rightarrow> merge_evidence \<Rightarrow> bool" where
  "link_flag f e = (case me_link e of None \<Rightarrow> False | Some a \<Rightarrow> f a)"

definition locally_proven :: "merge_evidence \<Rightarrow> bool" where
  "locally_proven e \<longleftrightarrow>
     me_link e \<noteq> None \<and> me_exact_witness_state e = ''best_chain'' \<and> me_local_validation_state e = ''auxpow_verified''"

definition fully_verified :: "merge_evidence \<Rightarrow> bool" where
  "fully_verified e \<longleftrightarrow>
     locally_proven e \<and> link_flag lk_parent_hash_meets_claimed_target e \<and> link_flag lk_parent_sources_agree e \<and>
     me_has_canonical_parent e"

definition without_parent_observation :: "merge_evidence \<Rightarrow> bool" where
  "without_parent_observation e \<longleftrightarrow> locally_proven e \<and> link_state e ''not_configured''"

definition parent_disagreement :: "merge_evidence \<Rightarrow> bool" where
  "parent_disagreement e \<longleftrightarrow>
     (case me_link e of None \<Rightarrow> False
      | Some a \<Rightarrow> lk_parent_lookup_state a \<noteq> ''not_configured'' \<and>
          (lk_parent_lookup_state a = ''disagreement'' \<or> \<not> lk_parent_sources_agree a))"

record merge_mining_stats_row =
  ms_eligible_child_blocks :: int
  ms_auxpow_blocks :: int
  ms_locally_verified_blocks :: int
  ms_parent_target_verified_blocks :: int
  ms_canonical_parent_blocks :: int
  ms_orphaned_parent_blocks :: int
  ms_not_found_parent_blocks :: int
  ms_unavailable_parent_blocks :: int
  ms_disagreement_parent_blocks :: int
  ms_parent_quorum_agreement_blocks :: int
  ms_best_chain_witness_blocks :: int
  ms_fully_verified_blocks :: int
  ms_locally_verified_without_parent_observation_blocks :: int
  ms_anomaly_blocks :: int
  ms_observation_source_count :: int
  ms_last_verified_at :: "datetime option"

definition MERGE_MINING_STATS_QUERY :: "string \<Rightarrow> db \<Rightarrow> merge_mining_stats_row" where
  "MERGE_MINING_STATS_QUERY net d =
     (let rows = merge_evidence_rows net d;
          count = (\<lambda>P. int (length (filter (\<lambda>e. me_height e > 0 \<and> P e) rows))) in
      \<lparr>ms_eligible_child_blocks = count (\<lambda>_. True),
       ms_auxpow_blocks = count (\<lambda>e. me_link e \<noteq> None),
       ms_locally_verified_blocks = count (\<lambda>e. me_local_validation_state e = ''auxpow_verified''),
       ms_parent_target_verified_blocks = count (link_flag lk_parent_hash_meets_claimed_target),
       ms_canonical_parent_blocks = count me_has_canonical_parent,
       ms_orphaned_parent_blocks = count (\<lambda>e. link_state e ''orphaned''),
       ms_not_found_parent_blocks = count (\<lambda>e. link_state e ''not_found''),
       ms_unavailable_parent_blocks = count (\<lambda>e. link_state e ''unavailable'' \<or> link_state e ''unknown''),
       ms_disagreement_parent_blocks = count parent_disagreement,
       ms_parent_quorum_agreement_blocks = count (link_flag lk_parent_sources_agree),
       ms_best_chain_witness_blocks = count (\<lambda>e. me_exact_witness_state e = ''best_chain''),
       ms_fully_verified_blocks = count fully_verified,
       ms_locally_verified_without_parent_observation_blocks = count without_parent_observation,
       ms_anomaly_blocks = count (\<lambda>e. \<not> (fully_verified e \<or> without_parent_observation e)),
       ms_observation_source_count = int (fold max (map me_source_count rows) 0),
       ms_last_verified_at = sql_max (map (\<lambda>e. map_option lk_verified_at (me_link e)) (filter (\<lambda>e. me_height e > 0) rows))\<rparr>)"

record merge_mining_stats_view =
  mv_as_of_height :: "nat option"
  mv_as_of_hash :: "string option"
  mv_row :: merge_mining_stats_row

definition merge_mining_stats :: "app_state \<Rightarrow> request \<Rightarrow> merge_mining_stats_view api_envelope result" where
  "merge_mining_stats S R =
     (let net = nc_id (as_network S) in
      rbind (read_snapshot R 0) (\<lambda>_.
      rbind (snapshot_chain_state R net) (\<lambda>chain.
      rbind (snap R 2 (\<lambda>d. Inr (MERGE_MINING_STATS_QUERY net d))) (\<lambda>row.
      rbind (read_snapshot R 3) (\<lambda>_.
      rbind (optional_height (st_indexed_height chain)) (\<lambda>as_of.
      Inr (envelope S (rq_clock R 0)
        \<lparr>mv_as_of_height = as_of, mv_as_of_hash = st_indexed_hash chain, mv_row = row\<rparr> None chain)))))))"

end
