(* ===== verification/Analytics_Addresses.thy ===== *)
theory Analytics_Addresses imports Analytics Api_Status begin

text \<open>
  Address analytics (\<open>src/analytics.rs\<close>): the rich list and the address statistics.  The rich
  list computes balances for all addresses at once, from the set of spent outpoints; the address
  view computes one balance from counted spends.
\<close>

section \<open>Outputs of all addresses\<close>

text \<open>\<open>canonical_tx\<close> joined with the outputs that name an address.\<close>

definition addressed_outputs :: "string \<Rightarrow> db \<Rightarrow> (string \<times> owned_output) list" where
  "addressed_outputs net d =
     concat (map (\<lambda>e.
         List.map_filter (\<lambda>(k, ro). map_option (\<lambda>a. (a, \<lparr>oo_event = e, oo_index = k, oo_value = or_value_zat ro\<rparr>)) (or_address ro))
           (rows_of (ev_instance e) (db_outputs d)))
       (canonical_events net d))"

text \<open>\<open>spent_prevouts\<close>.\<close>

definition spent_prevout :: "string \<Rightarrow> db \<Rightarrow> string \<times> int \<Rightarrow> bool" where
  "spent_prevout net d p \<longleftrightarrow> list_ex (\<lambda>e. 0 < spending_inputs d p (ev_instance e)) (canonical_events net d)"

definition outputs_of :: "string \<Rightarrow> (string \<times> owned_output) list \<Rightarrow> owned_output list" where
  "outputs_of a outs = map snd (filter (\<lambda>(a', _). a' = a) outs)"

text \<open>The groups of \<open>utxos\<close> that its \<open>HAVING\<close> keeps, with balance and count.\<close>

definition utxo_groups :: "string \<Rightarrow> db \<Rightarrow> (string \<times> int \<times> int) list result" where
  "utxo_groups net d =
     (let outs = addressed_outputs net d;
          unspent = (\<lambda>a. filter (\<lambda>u. \<not> spent_prevout net d (outpoint u)) (outputs_of a outs));
          funded = filter (\<lambda>a. sum_list (map oo_value (unspent a)) > 0) (remdups (map fst outs)) in
      collect_res (map (\<lambda>a. rbind (bigint (sum_list (map oo_value (unspent a)))) (\<lambda>v.
        Inr (a, v, int (length (unspent a))))) funded))"

section \<open>Activity\<close>

text \<open>\<open>activity_events\<close>: address, height, time, position and instance, without duplicates.  A
  spending transaction counts for the address of every canonical output its inputs name.\<close>

type_synonym address_event = "string \<times> int \<times> datetime \<times> int \<times> int"

definition event_of :: "string \<Rightarrow> tx_event \<Rightarrow> address_event" where
  "event_of a e = (a, ak_height (ev_key e), ak_block_time (ev_key e), ak_position (ev_key e), ev_instance e)"

definition address_events :: "string \<Rightarrow> db \<Rightarrow> address_event list" where
  "address_events net d =
     (let outs = addressed_outputs net d in
      remdups (map (\<lambda>(a, u). event_of a (oo_event u)) outs @
        concat (map (\<lambda>(a, u). map (event_of a) (spending_events net d (outpoint u))) outs)))"

definition newest_event :: "address_event list \<Rightarrow> address_event option" where
  "newest_event es =
     (case es of [] \<Rightarrow> None
      | e # es \<Rightarrow> Some (foldl (\<lambda>m e. case (m, e) of ((_, h, _, q, i), (_, h', _, q', i')) \<Rightarrow>
            if [h, q, i] < [h', q', i'] then e else m) e es))"

record rich_list_row =
  rl_rank :: int
  rl_address :: string
  rl_balance_zat :: int
  rl_total_received_zat :: string
  rl_total_sent_zat :: string
  rl_utxo_count :: int
  rl_transaction_count :: int
  rl_first_seen_height :: "int option"
  rl_last_seen_height :: "int option"
  rl_last_seen_at :: "datetime option"
  rl_funded_address_count :: int
  rl_addressed_balance_zat :: int
  rl_top_1_zat :: int
  rl_top_10_zat :: int
  rl_top_100_zat :: int

text \<open>\<open>ORDER BY balance_zat DESC, address\<close>.\<close>

definition ranked :: "(string \<times> int \<times> int) list \<Rightarrow> (string \<times> int \<times> int) list" where
  "ranked groups = sort_key (\<lambda>(_, balance, _). - balance) (sort_key fst groups)"

definition top_sum :: "nat \<Rightarrow> (string \<times> int \<times> int) list \<Rightarrow> int" where
  "top_sum k groups = sum_list (map (\<lambda>(_, balance, _). balance) (take k groups))"

definition rich_row ::
    "string \<Rightarrow> db \<Rightarrow> (int \<times> int \<times> int \<times> int \<times> int) \<Rightarrow> nat \<times> string \<times> int \<times> int \<Rightarrow> rich_list_row" where
  "rich_row net d = (\<lambda>(funded, addressed, top1, top10, top100) (i, a, balance, utxos).
     let outs = outputs_of a (addressed_outputs net d);
         es = filter (\<lambda>(a', _). a' = a) (address_events net d) in
     \<lparr>rl_rank = int i + 1, rl_address = a, rl_balance_zat = balance,
      rl_total_received_zat = show_int (sum_list (map oo_value outs)),
      rl_total_sent_zat = show_int (sum_list (map oo_value (filter (\<lambda>u. spent_prevout net d (outpoint u)) outs))),
      rl_utxo_count = utxos, rl_transaction_count = int (length es),
      rl_first_seen_height = sql_min (map (\<lambda>(_, h, _). h) es),
      rl_last_seen_height = sql_max (map (\<lambda>(_, h, _). Some h) es),
      rl_last_seen_at = map_option (\<lambda>(_, _, t, _). t) (newest_event es),
      rl_funded_address_count = funded, rl_addressed_balance_zat = addressed, rl_top_1_zat = top1,
      rl_top_10_zat = top10, rl_top_100_zat = top100\<rparr>)"

definition RICH_LIST_QUERY :: "string \<Rightarrow> nat \<Rightarrow> db \<Rightarrow> rich_list_row list result" where
  "RICH_LIST_QUERY net lim d =
     rbind (utxo_groups net d) (\<lambda>groups.
     let ranking = ranked groups in
     rbind (bigint (top_sum (length ranking) ranking)) (\<lambda>addressed.
     rbind (bigint (top_sum 1 ranking)) (\<lambda>top1.
     rbind (bigint (top_sum 10 ranking)) (\<lambda>top10.
     rbind (bigint (top_sum 100 ranking)) (\<lambda>top100.
     Inr (map (rich_row net d (int (length ranking), addressed, top1, top10, top100)) (take lim (enumerate 0 ranking))))))))"

text \<open>The transparent pool of the indexed tip, when that tip is selected.\<close>

definition LATEST_TRANSPARENT_POOL_QUERY :: "string \<Rightarrow> db \<Rightarrow> (int option \<times> bool option) option" where
  "LATEST_TRANSPARENT_POOL_QUERY net d =
     map_option (\<lambda>s.
       let pool = Option.bind (st_indexed_height s) (\<lambda>h. Option.bind (st_indexed_hash s) (\<lambda>x.
             Option.bind (t_find (db_canonical d) (net, h)) (\<lambda>c.
             if cr_block_hash c = x then t_find (db_pools d) ((x, cr_witness_hash c), ''transparent'') else None))) in
       (Option.bind pool pl_chain_value_zat, Option.bind pool pl_monitored))
       (t_find (db_chain_state d) net)"

record rich_list_entry =
  rn_rank :: nat
  rn_address :: string
  rn_balance :: amount_view
  rn_total_received :: amount_view
  rn_total_sent :: amount_view
  rn_transparent_pool_share_percent :: "string option"
  rn_utxo_count :: int
  rn_transaction_count :: int
  rn_first_seen_height :: "nat option"
  rn_last_seen_height :: "nat option"
  rn_last_seen_at :: "datetime option"

definition rich_entry :: "network_config \<Rightarrow> int option \<Rightarrow> rich_list_row \<Rightarrow> rich_list_entry result" where
  "rich_entry n pool row =
     rbind (amount_from_zatoshi_text (rl_total_received_zat row) n) (\<lambda>received.
     rbind (amount_from_zatoshi_text (rl_total_sent_zat row) n) (\<lambda>sent.
     Inr \<lparr>rn_rank = (case u64_try_from (rl_rank row) of None \<Rightarrow> 0 | Some r \<Rightarrow> r), rn_address = rl_address row,
       rn_balance = amount (rl_balance_zat row) n, rn_total_received = received, rn_total_sent = sent,
       rn_transparent_pool_share_percent =
         (case pool of None \<Rightarrow> None
          | Some denominator \<Rightarrow> if denominator > 0 then Some (exact_percent (rl_balance_zat row) denominator) else None),
       rn_utxo_count = rl_utxo_count row, rn_transaction_count = rl_transaction_count row,
       rn_first_seen_height = Option.bind (rl_first_seen_height row) u64_try_from,
       rn_last_seen_height = Option.bind (rl_last_seen_height row) u64_try_from,
       rn_last_seen_at = rl_last_seen_at row\<rparr>))"

record rich_list_view =
  rw_as_of_height :: "nat option"
  rw_as_of_hash :: "string option"
  rw_transparent_pool :: "amount_view option"
  rw_transparent_pool_reported :: bool
  rw_transparent_pool_monitored :: "bool option"
  rw_funded_address_count :: int
  rw_addressed_balance :: amount_view
  rw_addressless_or_undecoded_balance :: "amount_view option"
  rw_top_1_balance :: amount_view
  rw_top_10_balance :: amount_view
  rw_top_100_balance :: amount_view
  rw_addresses :: "rich_list_entry list"

record rich_list_totals =
  rt_funded_address_count :: int
  rt_addressed_balance_zat :: int
  rt_top_1_zat :: int
  rt_top_10_zat :: int
  rt_top_100_zat :: int

definition rich_list_totals_of :: "rich_list_row list \<Rightarrow> rich_list_totals" where
  "rich_list_totals_of rows =
     (case rows of
        [] \<Rightarrow> \<lparr>rt_funded_address_count = 0, rt_addressed_balance_zat = 0, rt_top_1_zat = 0, rt_top_10_zat = 0, rt_top_100_zat = 0\<rparr>
      | row # _ \<Rightarrow> \<lparr>rt_funded_address_count = rl_funded_address_count row,
          rt_addressed_balance_zat = rl_addressed_balance_zat row, rt_top_1_zat = rl_top_1_zat row,
          rt_top_10_zat = rl_top_10_zat row, rt_top_100_zat = rl_top_100_zat row\<rparr>)"

definition rich_list :: "app_state \<Rightarrow> request \<Rightarrow> nat option \<Rightarrow> rich_list_view api_envelope result" where
  "rich_list S R requested =
     (let n = as_network S; net = nc_id n;
          lim = max 1 (min MAX_RICH_LIST_LIMIT (case requested of None \<Rightarrow> DEFAULT_RICH_LIST_LIMIT | Some k \<Rightarrow> k)) in
      rbind (read_snapshot R 0) (\<lambda>_.
      rbind (snapshot_chain_state R net) (\<lambda>chain.
      rbind (snap R 2 (RICH_LIST_QUERY net lim)) (\<lambda>rows.
      rbind (snap R 3 (\<lambda>d. Inr (LATEST_TRANSPARENT_POOL_QUERY net d))) (\<lambda>latest.
      rbind (read_snapshot R 4) (\<lambda>_.
      let pool = Option.bind latest fst; totals = rich_list_totals_of rows in
      rbind (collect_res (map (rich_entry n pool) rows)) (\<lambda>addresses.
      rbind (unassigned_transparent_balance pool (rt_addressed_balance_zat totals)) (\<lambda>unassigned.
      rbind (optional_height (st_indexed_height chain)) (\<lambda>as_of.
      Inr (envelope S (rq_clock R 0)
        \<lparr>rw_as_of_height = as_of, rw_as_of_hash = st_indexed_hash chain,
         rw_transparent_pool = map_option (\<lambda>v. amount v n) pool, rw_transparent_pool_reported = (pool \<noteq> None),
         rw_transparent_pool_monitored = Option.bind latest snd,
         rw_funded_address_count = rt_funded_address_count totals,
         rw_addressed_balance = amount (rt_addressed_balance_zat totals) n,
         rw_addressless_or_undecoded_balance = map_option (\<lambda>v. amount v n) unassigned,
         rw_top_1_balance = amount (rt_top_1_zat totals) n, rw_top_10_balance = amount (rt_top_10_zat totals) n,
         rw_top_100_balance = amount (rt_top_100_zat totals) n, rw_addresses = addresses\<rparr> None chain))))))))))"

section \<open>Address statistics\<close>

record address_stats_row =
  as_height_at :: int
  as_block_time :: datetime
  as_active_addresses :: int
  as_new_addresses :: int
  as_total_seen_addresses :: int

text \<open>\<open>events\<close>: addresses and heights; \<open>UNION\<close> removes duplicates.\<close>

definition height_events :: "string \<Rightarrow> db \<Rightarrow> (string \<times> int) list" where
  "height_events net d = remdups (map (\<lambda>(a, h, _). (a, h)) (address_events net d))"

definition first_seen :: "(string \<times> int) list \<Rightarrow> (string \<times> int) list" where
  "first_seen es =
     map (\<lambda>a. (a, fold min (map snd (filter (\<lambda>(a', _). a' = a) es)) (hd (map snd (filter (\<lambda>(a', _). a' = a) es)))))
       (remdups (map fst es))"

definition stats_rows :: "string \<Rightarrow> db \<Rightarrow> address_stats_row list" where
  "stats_rows net d =
     (let es = height_events net d;
          seen = first_seen es;
          new_at = (\<lambda>h. int (length (filter (\<lambda>(_, h'). h' = h) seen)));
          heights = canonical_headers net d in
      map (\<lambda>(h, b).
        \<lparr>as_height_at = h, as_block_time = br_block_time b,
         as_active_addresses = int (card (fst ` set (filter (\<lambda>(_, h'). h' = h) es))),
         as_new_addresses = new_at h,
         as_total_seen_addresses = sum_list (map (\<lambda>(h', _). if h' \<le> h then new_at h' else 0) heights)\<rparr>) heights)"

definition ADDRESS_STATS_QUERY :: "string \<Rightarrow> int option \<Rightarrow> nat \<Rightarrow> db \<Rightarrow> address_stats_row list" where
  "ADDRESS_STATS_QUERY net before lim d = rev (take lim (below as_height_at before (stats_rows net d)))"

text \<open>The current totals read the instances of the selections without their block rows.\<close>

definition current_transactions :: "string \<Rightarrow> db \<Rightarrow> (int \<times> string) list" where
  "current_transactions net d =
     List.map_filter (\<lambda>(_, _, _, _, i). map_option (\<lambda>t. (i, tr_txid t)) (t_find (db_instances d) i)) (canonical_places net d)"

definition current_outputs :: "string \<Rightarrow> db \<Rightarrow> (string \<times> (string \<times> int) \<times> int) list" where
  "current_outputs net d =
     concat (map (\<lambda>(i, txid).
         List.map_filter (\<lambda>(k, ro). map_option (\<lambda>a. (a, (txid, k), or_value_zat ro)) (or_address ro)) (rows_of i (db_outputs d)))
       (current_transactions net d))"

record current_address_stats_row =
  ca_funded_address_count :: int
  ca_seen_address_count :: int
  ca_addressed_balance_zat :: int

definition CURRENT_ADDRESS_STATS_QUERY :: "string \<Rightarrow> db \<Rightarrow> current_address_stats_row result" where
  "CURRENT_ADDRESS_STATS_QUERY net d =
     (let outs = current_outputs net d;
          spent = (\<lambda>p. list_ex (\<lambda>(i, _). 0 < spending_inputs d p i) (current_transactions net d));
          balance = (\<lambda>a. sum_list (map (snd \<circ> snd) (filter (\<lambda>(a', p, _). a' = a \<and> \<not> spent p) outs)));
          seen = remdups (map fst outs) in
      rbind (collect_res (map (\<lambda>a. bigint (balance a)) (filter (\<lambda>a. balance a > 0) seen))) (\<lambda>balances.
      rbind (bigint (sum_list balances)) (\<lambda>addressed.
      Inr \<lparr>ca_funded_address_count = int (length balances), ca_seen_address_count = int (length seen),
        ca_addressed_balance_zat = addressed\<rparr>)))"

record address_stats_point =
  ap_height :: nat
  ap_row :: address_stats_row

record address_stats_view =
  sw_as_of_height :: "nat option"
  sw_as_of_hash :: "string option"
  sw_funded_address_count :: int
  sw_seen_address_count :: int
  sw_addressed_balance :: amount_view
  sw_transparent_pool :: "amount_view option"
  sw_transparent_pool_reported :: bool
  sw_transparent_pool_monitored :: "bool option"
  sw_addressless_or_undecoded_balance :: "amount_view option"
  sw_points :: "address_stats_point list"

definition address_stats :: "app_state \<Rightarrow> request \<Rightarrow> history_query \<Rightarrow> address_stats_view api_envelope result" where
  "address_stats S R q =
     (let n = as_network S; net = nc_id n; lim = history_limit (hq_limit q) in
      rbind (history_before q) (\<lambda>before.
      rbind (read_snapshot R 0) (\<lambda>_.
      rbind (snapshot_chain_state R net) (\<lambda>chain.
      rbind (snap R 2 (\<lambda>d. Inr (ADDRESS_STATS_QUERY net before lim d))) (\<lambda>rows.
      rbind (snap R 3 (CURRENT_ADDRESS_STATS_QUERY net)) (\<lambda>current.
      rbind (snap R 4 (\<lambda>d. Inr (LATEST_TRANSPARENT_POOL_QUERY net d))) (\<lambda>latest.
      rbind (read_snapshot R 5) (\<lambda>_.
      let pool = Option.bind latest fst in
      rbind (optional_height (st_indexed_height chain)) (\<lambda>as_of.
      rbind (unassigned_transparent_balance pool (ca_addressed_balance_zat current)) (\<lambda>unassigned.
      rbind (collect_res (map (\<lambda>row. rbind (as_height (as_height_at row)) (\<lambda>h. Inr \<lparr>ap_height = h, ap_row = row\<rparr>)) rows)) (\<lambda>points.
      Inr (envelope S (rq_clock R 0)
        \<lparr>sw_as_of_height = as_of, sw_as_of_hash = st_indexed_hash chain,
         sw_funded_address_count = ca_funded_address_count current,
         sw_seen_address_count = ca_seen_address_count current,
         sw_addressed_balance = amount (ca_addressed_balance_zat current) n,
         sw_transparent_pool = map_option (\<lambda>v. amount v n) pool, sw_transparent_pool_reported = (pool \<noteq> None),
         sw_transparent_pool_monitored = Option.bind latest snd,
         sw_addressless_or_undecoded_balance = map_option (\<lambda>v. amount v n) unassigned,
         sw_points = points\<rparr> None chain))))))))))))"

end
