(* ===== verification/Analytics_Props.thy ===== *)
theory Analytics_Props imports Analytics_Addresses Api_Address_Props Api_Tx_Pages Api_Health begin

text \<open>
  The analytics agree with the address view and with the chain: the rich list's balances, the
  counts of new addresses, and the verdicts of merge mining.
\<close>

section \<open>The rich list and the address view\<close>

lemma outputs_of_append: "outputs_of a (xs @ ys) = outputs_of a xs @ outputs_of a ys"
  by (simp add: outputs_of_def)

lemma outputs_of_concat: "outputs_of a (concat (map F es)) = concat (map (\<lambda>e. outputs_of a (F e)) es)"
  by (induction es) (simp_all add: outputs_of_append, simp add: outputs_of_def)

lemma outputs_of_addressed: "outputs_of a (addressed_outputs net d) = owned_outputs net a d"
proof -
  have one: "outputs_of a (List.map_filter (\<lambda>(k, ro). map_option (\<lambda>a. (a, \<lparr>oo_event = e, oo_index = k, oo_value = or_value_zat ro\<rparr>)) (or_address ro)) rows) =
      map (\<lambda>(k, ro). \<lparr>oo_event = e, oo_index = k, oo_value = or_value_zat ro\<rparr>) (filter (\<lambda>(_, ro). or_address ro = Some a) rows)" for e rows
    by (induction rows) (auto simp: outputs_of_def split: option.splits)
  show ?thesis unfolding addressed_outputs_def owned_outputs_def outputs_of_concat one ..
qed

lemma length_concat_replicate: "0 < length (concat (map (\<lambda>e. replicate (f e) e) es)) \<longleftrightarrow> list_ex (\<lambda>e. 0 < f e) es"
  by (induction es) auto

text \<open>An owned output is spent for the one query exactly when it is for the other.\<close>

lemma spent_prevout_count:
  assumes "chain_ok net d cs" and "positions_stored d" and "u \<in> set owned"
  shows "spent_prevout net d (outpoint u) \<longleftrightarrow> 0 < spend_count net d owned u"
proof -
  have "spent_prevout net d (outpoint u) \<longleftrightarrow> 0 < length (spending_events net d (outpoint u))"
    unfolding spent_prevout_def spending_events_def length_concat_replicate ..
  also have "\<dots> \<longleftrightarrow> spending_places net d (outpoint u) \<noteq> []" by (simp add: spending_lengths[OF assms(1,2)])
  also have "\<dots> \<longleftrightarrow> 0 < spend_count net d owned u"
    using assms(3) by (auto simp: spend_count_def)
  finally show ?thesis .
qed

lemma rich_rows:
  assumes "RICH_LIST_QUERY net lim d = Inr rows" and "r \<in> set rows"
  shows "\<exists>groups. utxo_groups net d = Inr groups \<and>
     (rl_address r, rl_balance_zat r, rl_utxo_count r) \<in> set groups \<and>
     rl_total_received_zat r = show_int (sum_list (map oo_value (outputs_of (rl_address r) (addressed_outputs net d)))) \<and>
     rl_total_sent_zat r = show_int (sum_list (map oo_value
       (filter (\<lambda>u. spent_prevout net d (outpoint u)) (outputs_of (rl_address r) (addressed_outputs net d)))))"
proof -
  from assms(1) obtain groups ts where g: "utxo_groups net d = Inr groups"
    and rows: "rows = map (rich_row net d ts) (take lim (enumerate 0 (ranked groups)))"
    by (fastforce simp: RICH_LIST_QUERY_def Let_def simp del: map_eq_conv split_paired_Ex)
  from assms(2) obtain i a v k where r: "(i, a, v, k) \<in> set (enumerate 0 (ranked groups))" "r = rich_row net d ts (i, a, v, k)"
    unfolding rows by (auto dest!: in_set_takeD)
  have "(a, v, k) \<in> set (ranked groups)" using r(1) by (auto simp: in_set_enumerate_eq) (metis nth_mem)
  then have "(a, v, k) \<in> set groups" by (simp add: ranked_def)
  then show ?thesis using g r(2) by (cases ts) (auto simp: rich_row_def Let_def)
qed

lemma utxo_groups_mem:
  assumes "utxo_groups net d = Inr groups" and "(a, v, k) \<in> set groups"
  shows "let unspent = filter (\<lambda>u. \<not> spent_prevout net d (outpoint u)) (outputs_of a (addressed_outputs net d)) in
     v = sum_list (map oo_value unspent) \<and> k = int (length unspent) \<and> 0 < v"
proof -
  define f where "f = (\<lambda>a. let unspent = filter (\<lambda>u. \<not> spent_prevout net d (outpoint u)) (outputs_of a (addressed_outputs net d)) in
      rbind (bigint (sum_list (map oo_value unspent))) (\<lambda>v. Inr (a, v, int (length unspent))))"
  define as where "as = filter (\<lambda>a. sum_list (map oo_value (filter (\<lambda>u. \<not> spent_prevout net d (outpoint u))
      (outputs_of a (addressed_outputs net d)))) > 0) (remdups (map fst (addressed_outputs net d)))"
  have "map f as = map Inr groups"
    using assms(1) by (simp add: utxo_groups_def Let_def collect_res_Inr f_def as_def)
  then have "Inr (a, v, k) \<in> f ` set as" using assms(2) by (metis image_eqI image_set)
  then obtain a' where "f a' = Inr (a, v, k)" "a' \<in> set as" by (metis imageE)
  then show ?thesis by (auto simp: f_def as_def Let_def bigint_Inr)
qed

text \<open>C18. The rich list agrees with the address view.  On a snapshot that represents a chain, each row
  of the rich list shows for its address the same balance, the same totals received and sent and the
  same number of unspent outputs as the balance query of the address view, although it derives spent
  outputs from the set of all spent outpoints and not from counted spends; and every listed balance
  is positive.\<close>

theorem rich_list_agrees:
  assumes "chain_ok net d cs" and "positions_stored d"
    and "RICH_LIST_QUERY net lim d = Inr rows" and "r \<in> set rows"
    and "ADDRESS_BALANCE_QUERY net (rl_address r) tip maturity d = Inr b"
  shows "rl_balance_zat r = ab_balance_zat b \<and> rl_total_received_zat r = ab_total_received_zat b \<and>
     rl_total_sent_zat r = ab_total_spent_zat b \<and> rl_utxo_count r = ab_utxo_count b \<and>
     0 < rl_balance_zat r \<and> ab_address_exists b"
proof -
  let ?owned = "owned_outputs net (rl_address r) d"
  from rich_rows[OF assms(3,4)] obtain groups where g: "utxo_groups net d = Inr groups"
    "(rl_address r, rl_balance_zat r, rl_utxo_count r) \<in> set groups"
    and totals: "rl_total_received_zat r = show_int (sum_list (map oo_value ?owned))"
      "rl_total_sent_zat r = show_int (sum_list (map oo_value (filter (\<lambda>u. spent_prevout net d (outpoint u)) ?owned)))"
    unfolding outputs_of_addressed by blast
  have same: "filter (\<lambda>u. spent_prevout net d (outpoint u)) ?owned = filter (\<lambda>u. 0 < spend_count net d ?owned u) ?owned"
    "filter (\<lambda>u. \<not> spent_prevout net d (outpoint u)) ?owned = filter (\<lambda>u. \<not> 0 < spend_count net d ?owned u) ?owned"
    by (rule filter_cong; use spent_prevout_count[OF assms(1,2)] in simp)+
  from utxo_groups_mem[OF g] have unspent: "rl_balance_zat r = sum_where (\<lambda>u. \<not> 0 < spend_count net d ?owned u) ?owned"
    "rl_utxo_count r = int (length (filter (\<lambda>u. \<not> 0 < spend_count net d ?owned u) ?owned))" "0 < rl_balance_zat r"
    unfolding outputs_of_addressed Let_def same sum_where_def by blast+
  have count: "ab_utxo_count b = int (length (filter (\<lambda>u. \<not> 0 < spend_count net d ?owned u) ?owned))"
    using assms(5) by (auto simp: ADDRESS_BALANCE_QUERY_def Let_def)
  note parts = balance_query_parts[OF assms(5)]
  have "?owned \<noteq> []" using unspent(1,3) by (auto simp: sum_where_def)
  then show ?thesis
    using parts(1,2,3,6) totals unspent count unfolding same by (simp add: sum_where_def)
qed

lemma api_rich_list:
  "case RICH_LIST_QUERY ''testnet'' 50 api_db of Inr rows \<Rightarrow> map rl_address rows = [''tm1''] | Inl _ \<Rightarrow> False"
  by code_simp

theorem rich_list_agrees_witness:
  "\<exists>rows r b. RICH_LIST_QUERY ''testnet'' 50 api_db = Inr rows \<and> r \<in> set rows \<and> rl_address r = ''tm1'' \<and>
     ADDRESS_BALANCE_QUERY ''testnet'' ''tm1'' 1 100 api_db = Inr b \<and> rl_balance_zat r = ab_balance_zat b"
proof -
  obtain r where r: "RICH_LIST_QUERY ''testnet'' 50 api_db = Inr [r]" "rl_address r = ''tm1''"
    using api_rich_list by (auto split: sum.splits)
  obtain b where b: "ADDRESS_BALANCE_QUERY ''testnet'' ''tm1'' 1 100 api_db = Inr b"
    using api_balance_ok by (auto split: sum.splits)
  have "positions_stored api_db" by code_simp
  then show ?thesis
    using rich_list_agrees[OF api_db_chain _ r(1), of r 1 100 b] r b by auto
qed

section \<open>Merge mining\<close>

text \<open>The classification never reports agreeing sources when none is configured.\<close>

definition unconfigured_disagrees :: "db \<Rightarrow> bool" where
  "unconfigured_disagrees d \<longleftrightarrow>
     list_all (\<lambda>(_, a). lk_parent_lookup_state a = ''not_configured'' \<longrightarrow> \<not> lk_parent_sources_agree a) (db_links d)"

lemma length_filter_partition:
  assumes "\<And>x. x \<in> set xs \<Longrightarrow> \<not> (P x \<and> Q x)"
  shows "length (filter R xs) = length (filter (\<lambda>x. R x \<and> P x) xs) + length (filter (\<lambda>x. R x \<and> Q x) xs) +
    length (filter (\<lambda>x. R x \<and> \<not> (P x \<or> Q x)) xs)"
  using assms by (induction xs) auto

lemma merge_evidence_link:
  assumes "e \<in> set (merge_evidence_rows net d)" and "me_link e = Some a"
  shows "\<exists>k. (k, a) \<in> set (db_links d)"
proof -
  have "\<exists>k. me_link e = t_find (db_links d) k"
    using assms(1) by (fastforce simp: merge_evidence_rows_def List.map_filter_def Let_def simp del: split_paired_Ex)
  then show ?thesis using assms(2) t_find_in_set by metis
qed

lemma verdicts_exclusive:
  assumes "unconfigured_disagrees d" and "e \<in> set (merge_evidence_rows net d)"
  shows "\<not> (fully_verified e \<and> without_parent_observation e)"
proof (cases "me_link e")
  case (Some a)
  from merge_evidence_link[OF assms(2) Some] assms(1)
  have "lk_parent_lookup_state a = ''not_configured'' \<longrightarrow> \<not> lk_parent_sources_agree a"
    by (auto simp: unconfigured_disagrees_def list_all_iff)
  then show ?thesis using Some by (auto simp: fully_verified_def without_parent_observation_def link_flag_def link_state_def)
qed (simp add: fully_verified_def locally_proven_def)



section \<open>Addresses seen\<close>

lemma fold_min_list: "xs \<noteq> [] \<Longrightarrow> fold min xs (hd xs) \<in> set xs \<and> (\<forall>x \<in> set xs. fold min xs (hd xs) \<le> x)"
  for xs :: "int list"
proof -
  assume "xs \<noteq> []"
  have "fold min xs (hd xs) \<le> k \<longleftrightarrow> (\<exists>x \<in> set xs. x \<le> k)" for k
    using \<open>xs \<noteq> []\<close> fold_min_le[of xs "hd xs" k] by auto
  then show ?thesis by (metis order_antisym order_refl)
qed

lemma first_seen_facts:
  shows "map fst (first_seen es) = remdups (map fst es)"
    and "(a, h) \<in> set (first_seen es) \<Longrightarrow> (a, h) \<in> set es \<and> (\<forall>h'. (a, h') \<in> set es \<longrightarrow> h \<le> h')"
proof -
  show "map fst (first_seen es) = remdups (map fst es)" by (simp add: first_seen_def comp_def)
  assume "(a, h) \<in> set (first_seen es)"
  then have a: "a \<in> fst ` set es"
    and h: "h = fold min (map snd (filter (\<lambda>(a', _). a' = a) es)) (hd (map snd (filter (\<lambda>(a', _). a' = a) es)))"
    by (auto simp: first_seen_def)
  have ne: "x \<in> set xs \<Longrightarrow> xs \<noteq> []" for x and xs :: "int list" by auto
  have mem: "h' \<in> set (map snd (filter (\<lambda>(a', _). a' = a) es)) \<longleftrightarrow> (a, h') \<in> set es" for h' by force
  from a obtain h' where "(a, h') \<in> set es" by auto
  then have "h' \<in> set (map snd (filter (\<lambda>(a', _). a' = a) es))" unfolding mem .
  then have "map snd (filter (\<lambda>(a', _). a' = a) es) \<noteq> []" by (rule ne)
  from fold_min_list[OF this, folded h]
  show "(a, h) \<in> set es \<and> (\<forall>h'. (a, h') \<in> set es \<longrightarrow> h \<le> h')" using mem by simp
qed

lemma sum_counts:
  fixes hs :: "int list" and es :: "('a \<times> int) list"
  assumes "distinct hs" and "\<And>a h. (a, h) \<in> set es \<Longrightarrow> h \<in> set hs"
  shows "sum_list (map (\<lambda>h'. if h' \<le> h then int (length (filter (\<lambda>(_, k). k = h') es)) else 0) hs) =
     int (length (filter (\<lambda>(_, k). k \<le> h) es))"
  using assms(2)
proof (induction es)
  case Nil
  then show ?case by (simp add: if_distrib cong: if_cong)
next
  case (Cons e es)
  obtain a k where e: "e = (a, k)" by (cases e)
  then have k: "k \<in> set hs" using Cons.prems by auto
  have "sum_list (map (\<lambda>h'. if h' \<le> h then int (length (filter (\<lambda>(_, k). k = h') (e # es))) else 0) hs) =
      sum_list (map (\<lambda>h'. (if h' = k then (if k \<le> h then 1 else 0) else 0) +
        (if h' \<le> h then int (length (filter (\<lambda>(_, k). k = h') es)) else 0)) hs)"
    by (intro arg_cong[of _ _ sum_list] map_cong) (auto simp: e)
  also have "\<dots> = sum_list (map (\<lambda>h'. if h' = k then (if k \<le> h then 1 else 0) else 0) hs) + int (length (filter (\<lambda>(_, k). k \<le> h) es))"
    unfolding sum_list_addf using Cons.IH[OF Cons.prems[OF list.set_intros(2)]] by simp
  also have "sum_list (map (\<lambda>h'. if h' = k then (if k \<le> h then 1 else 0) else 0) hs) = (if k \<le> h then 1 else (0 :: int))"
    using assms(1) k by (simp add: sum_list_distinct_conv_sum_set)
  finally show ?case by (simp add: e)
qed

lemma canonical_headers_heights:
  assumes "db_wf d"
  shows "distinct (map fst (canonical_headers net d))"
    and "h \<in> set (map fst (canonical_headers net d)) \<longleftrightarrow>
      (\<exists>c. t_find (db_canonical d) (net, h) = Some c \<and> t_find (db_blocks d) (cr_block_hash c) \<noteq> None)"
proof -
  have wf: "t_wf (db_canonical d)" using assms by (simp add: db_wf_def)
  have "sorted_wrt (\<lambda>x y. fst y < fst x) (canonical_headers net d)"
    unfolding canonical_headers_def
    by (rule sorted_wrt_map_filter[where P = "\<lambda>x y. fst y < fst x"]) (use rows_of_increasing[OF wf] in \<open>auto simp: sorted_wrt_rev\<close>)
  then have "sorted_wrt (>) (map fst (canonical_headers net d))" by (simp add: sorted_wrt_map)
  then have "distinct (rev (map fst (canonical_headers net d)))"
    using strict_sorted_iff[of "rev (map fst (canonical_headers net d))"] by (simp add: sorted_wrt_rev)
  then show "distinct (map fst (canonical_headers net d))" by simp
  show "h \<in> set (map fst (canonical_headers net d)) \<longleftrightarrow>
      (\<exists>c. t_find (db_canonical d) (net, h) = Some c \<and> t_find (db_blocks d) (cr_block_hash c) \<noteq> None)"
    by (force simp: canonical_headers_def List.map_filter_def simp flip: rows_of_find[OF wf])
qed

lemma height_events_headers:
  assumes "db_wf d" and "(a, h) \<in> set (height_events net d)"
  shows "h \<in> set (map fst (canonical_headers net d))"
proof -
  from assms(2) obtain t q' i' where "(a, h, t, q', i') \<in> set (address_events net d)"
    by (auto simp: height_events_def)
  then consider (own) a' u where "(a', u) \<in> set (addressed_outputs net d)" "event_of a' (oo_event u) = (a, h, t, q', i')"
    | (spent) a' u e where "e \<in> set (spending_events net d (outpoint u))" "event_of a' e = (a, h, t, q', i')"
    unfolding address_events_def Let_def set_remdups set_append by (auto simp del: split_paired_Ex)
  then have "\<exists>e \<in> set (canonical_events net d). ak_height (ev_key e) = h"
  proof cases
    case own
    then have "oo_event u \<in> set (canonical_events net d)" by (auto simp: addressed_outputs_def List.map_filter_def)
    then show ?thesis using own(2) by (auto simp: event_of_def)
  next
    case spent
    then show ?thesis using spending_event[OF spent(1)] by (auto simp: event_of_def)
  qed
  then obtain e where e: "e \<in> set (canonical_events net d)" "ak_height (ev_key e) = h" by blast
  then obtain pl where pl: "pl \<in> set (canonical_places net d)" "place_event d pl = Some e"
    by (auto simp: canonical_events_def List.map_filter_def simp del: split_paired_Ex)
  obtain h' x w q i where "pl = (h', x, w, q, i)" by (cases pl)
  with pl e(2) place_event_key[of d h' x w q i e] have
    p: "(h, x, w, q, i) \<in> set (canonical_places net d)" "place_event d (h, x, w, q, i) = Some e" by simp_all
  then have "t_find (db_blocks d) x \<noteq> None" by (auto simp: place_event_def split: option.splits)
  then show ?thesis using p(1) unfolding canonical_places_mem[OF assms(1)] canonical_headers_heights(2)[OF assms(1)] by auto
qed

lemma seen_by_height:
  "length (filter (\<lambda>(_, k). k \<le> h) (first_seen es)) = card {a. \<exists>h'. h' \<le> h \<and> (a, h') \<in> set es}"
proof -
  let ?fs = "filter (\<lambda>(_, k). k \<le> h) (first_seen es)"
  have "distinct (map fst (first_seen es))" unfolding first_seen_facts(1) by simp
  then have "distinct (map fst ?fs)" by (rule distinct_map_filter)
  then have "length ?fs = card (set (map fst ?fs))" by (metis distinct_card length_map)
  also have "set (map fst ?fs) = {a. \<exists>h'. h' \<le> h \<and> (a, h') \<in> set es}"
  proof (intro set_eqI iffI)
    fix a assume "a \<in> set (map fst ?fs)"
    then show "a \<in> {a. \<exists>h'. h' \<le> h \<and> (a, h') \<in> set es}" using first_seen_facts(2) by fastforce
  next
    fix a assume "a \<in> {a. \<exists>h'. h' \<le> h \<and> (a, h') \<in> set es}"
    then obtain h' where h': "h' \<le> h" "(a, h') \<in> set es" by blast
    then have "a \<in> set (map fst (first_seen es))" unfolding first_seen_facts(1) by force
    then obtain k where k: "(a, k) \<in> set (first_seen es)" by auto
    then have "k \<le> h" using first_seen_facts(2)[OF k] h' by (meson order_trans)
    then show "a \<in> set (map fst ?fs)" using k by force
  qed
  finally show ?thesis .
qed

text \<open>C20. The address statistics count what they say.  On a well-formed database, each row of the
  statistics is a canonical block, its running total of new addresses is the number of addresses with
  an event at its height or below, and its active addresses are those with an event at its height.\<close>

theorem address_stats_count_seen:
  assumes "db_wf d" and "r \<in> set (ADDRESS_STATS_QUERY net before lim d)"
  shows "as_height_at r \<in> set (map fst (canonical_headers net d)) \<and>
     as_total_seen_addresses r = int (card {a. \<exists>h. h \<le> as_height_at r \<and> (a, h) \<in> set (height_events net d)}) \<and>
     as_active_addresses r = int (card {a. (a, as_height_at r) \<in> set (height_events net d)})"
proof -
  let ?es = "height_events net d" and ?hs = "map fst (canonical_headers net d)"
  let ?new = "\<lambda>h. int (length (filter (\<lambda>(_, h'). h' = h) (first_seen ?es)))"
  have "r \<in> set (stats_rows net d)"
    using assms(2) by (auto simp: ADDRESS_STATS_QUERY_def below_def dest!: in_set_takeD)
  then obtain h b where r: "(h, b) \<in> set (canonical_headers net d)" "as_height_at r = h"
    "as_active_addresses r = int (card (fst ` set (filter (\<lambda>(_, h'). h' = h) ?es)))"
    "as_total_seen_addresses r = sum_list (map (\<lambda>(h', _). if h' \<le> h then ?new h' else 0) (canonical_headers net d))"
    by (auto simp: stats_rows_def Let_def)
  have "fst ` set (filter (\<lambda>(_, h'). h' = h) ?es) = {a. (a, h) \<in> set ?es}" by force
  moreover have "as_total_seen_addresses r = int (length (filter (\<lambda>(_, k). k \<le> h) (first_seen ?es)))"
  proof -
    have "as_total_seen_addresses r = sum_list (map (\<lambda>h'. if h' \<le> h then ?new h' else 0) ?hs)"
      using r(4) by (simp add: comp_def case_prod_unfold)
    also have "\<dots> = int (length (filter (\<lambda>(_, k). k \<le> h) (first_seen ?es)))"
      by (rule sum_counts[OF canonical_headers_heights(1)[OF assms(1)]])
        (use first_seen_facts(2) height_events_headers[OF assms(1)] in blast)
    finally show ?thesis .
  qed
  ultimately show ?thesis using r by (force simp: seen_by_height)
qed

theorem address_stats_count_seen_witness:
  "\<exists>r \<in> set (ADDRESS_STATS_QUERY ''testnet'' None 2 api_db). as_total_seen_addresses r =
     int (card {a. \<exists>h. h \<le> as_height_at r \<and> (a, h) \<in> set (height_events ''testnet'' api_db)})"
proof -
  have "ADDRESS_STATS_QUERY ''testnet'' None 2 api_db \<noteq> []" by code_simp
  then obtain r where "r \<in> set (ADDRESS_STATS_QUERY ''testnet'' None 2 api_db)" by (metis list.set_sel(1))
  then show ?thesis using address_stats_count_seen[OF api_db_wf] by blast
qed

end
