(* ===== verification/Temporal.thy ===== *)
theory Temporal imports Main begin

text \<open>
  Behaviours of a transition system and progress under weak fairness: an action that stays enabled
  is taken.  The rule \<open>leads_to\<close> is the interface by which the run loop's liveness is proved; its
  assumptions are discharged for each action of the loop.
\<close>

definition behaviour :: "('s \<Rightarrow> 's \<Rightarrow> bool) \<Rightarrow> (nat \<Rightarrow> 's) \<Rightarrow> bool" where
  "behaviour step \<sigma> \<longleftrightarrow> (\<forall>i. step (\<sigma> i) (\<sigma> (Suc i)) \<or> \<sigma> (Suc i) = \<sigma> i)"

definition weakly_fair :: "('s \<Rightarrow> 's \<Rightarrow> bool) \<Rightarrow> (nat \<Rightarrow> 's) \<Rightarrow> bool" where
  "weakly_fair action \<sigma> \<longleftrightarrow>
     (\<forall>i. (\<forall>j \<ge> i. \<exists>t. action (\<sigma> j) t) \<longrightarrow> (\<exists>j \<ge> i. action (\<sigma> j) (\<sigma> (Suc j))))"

lemma behaviour_step: "behaviour step \<sigma> \<Longrightarrow> step (\<sigma> i) (\<sigma> (Suc i)) \<or> \<sigma> (Suc i) = \<sigma> i"
  by (simp add: behaviour_def)

locale progress =
  fixes step :: "'s \<Rightarrow> 's \<Rightarrow> bool"
    and action :: "'s \<Rightarrow> 's \<Rightarrow> bool"
    and waiting :: "'s \<Rightarrow> bool"
    and reached :: "'s \<Rightarrow> bool"
  assumes stays: "waiting s \<Longrightarrow> step s t \<Longrightarrow> waiting t \<or> reached t"
    and enabled: "waiting s \<Longrightarrow> \<exists>t. action s t"
    and effect: "waiting s \<Longrightarrow> action s t \<Longrightarrow> reached t"
begin

lemma leads_to:
  assumes "behaviour step \<sigma>" and "weakly_fair action \<sigma>" and "waiting (\<sigma> i)"
  shows "\<exists>j \<ge> i. reached (\<sigma> j)"
proof (rule ccontr)
  assume never: "\<not> (\<exists>j \<ge> i. reached (\<sigma> j))"
  have "waiting (\<sigma> j)" if "i \<le> j" for j
    using that
  proof (induction j rule: dec_induct)
    case (step j)
    then show ?case
      using behaviour_step[OF assms(1), of j] stays[of "\<sigma> j" "\<sigma> (Suc j)"] never by (metis le_SucI)
  qed (rule assms(3))
  then have always: "\<forall>j \<ge> i. waiting (\<sigma> j)" by blast
  then obtain j where "j \<ge> i" "action (\<sigma> j) (\<sigma> (Suc j))"
    using assms(2) enabled unfolding weakly_fair_def by meson
  with always effect have "reached (\<sigma> (Suc j))" by blast
  with never \<open>j \<ge> i\<close> show False by auto
qed

end

end
