(* ===== verification/Db_Typed.thy ===== *)
theory Db_Typed imports Proven_Chain Store_Props begin

text \<open>
  The type of a database: every stored row satisfies the \<open>CHECK\<close> constraints of its relation and
  every foreign key names a stored row.  The insertions of \<open>Db_Schema\<close> check the row they write;
  here every operation of \<open>src/db.rs\<close> that writes, with its updates and deletions, keeps the whole
  database well-typed.
\<close>

named_theorems schema_keeps "operations that keep the database well-typed"

section \<open>Well-typed databases\<close>

text \<open>A foreign key of the conflict columns holds for the row that is updated in place.\<close>

lemma insert_update_refs:
  assumes "insert_update check refs upd k r t = Inr t'" and "rows_ok c t" and "refs k r = Inr () \<Longrightarrow> is_ok (c k r)"
    and "\<And>r r'. c k r = c k r'"
  shows "rows_ok c t'"
proof (cases "t_find t k")
  case None
  then show ?thesis using assms(1-3) by (auto simp: insert_update_Inr rows_ok_put)
next
  case (Some old)
  then have "is_ok (c k (upd old r))" using rows_okD[OF assms(2) Some] assms(4)[of old "upd old r"] by simp
  then show ?thesis using Some assms(1,2) by (auto simp: insert_update_Inr rows_ok_put)
qed

definition network_known :: "db \<Rightarrow> string \<Rightarrow> unit result" where
  "network_known d n = guard (t_find (db_networks d) n \<noteq> None) foreign_key_violation"

definition instance_known :: "db \<Rightarrow> int \<Rightarrow> unit result" where
  "instance_known d i = guard (t_find (db_instances d) i \<noteq> None) foreign_key_violation"

text \<open>The constraints on single rows, and the foreign keys.\<close>

definition checks_ok :: "db \<Rightarrow> bool" where
  "checks_ok d \<longleftrightarrow>
     rows_ok check_network (db_networks d) \<and> rows_ok check_block (db_blocks d) \<and>
     rows_ok check_witness (db_witnesses d) \<and> rows_ok check_canonical (db_canonical d) \<and>
     rows_ok check_instance_row (db_instances d) \<and> rows_ok check_position (db_block_transactions d) \<and>
     rows_ok check_output (db_outputs d) \<and> rows_ok check_input (db_inputs d) \<and> rows_ok check_link (db_links d)"

text \<open>The rows of \<open>e\<close> name only keys of \<open>d\<close>.\<close>

definition keys_in :: "db \<Rightarrow> db \<Rightarrow> bool" where
  "keys_in d e \<longleftrightarrow>
     rows_ok (\<lambda>_ r. network_known d (br_network_id r)) (db_blocks e) \<and>
     rows_ok (witness_refs d) (db_witnesses e) \<and>
     rows_ok (\<lambda>k _. network_known d (fst k)) (db_canonical e) \<and>
     rows_ok (\<lambda>_ r. of_witness d (cr_block_hash r, cr_witness_hash r)) (db_canonical e) \<and>
     rows_ok (\<lambda>_ i. instance_known d i) (db_block_transactions e) \<and>
     rows_ok (\<lambda>k _. of_witness d (fst k)) (db_block_transactions e) \<and>
     rows_ok (of_instance d) (db_outputs e) \<and> rows_ok (of_instance d) (db_inputs e) \<and>
     rows_ok (\<lambda>k _. of_witness d (fst k)) (db_pools e) \<and> rows_ok (\<lambda>k _. of_witness d k) (db_links e) \<and>
     rows_ok (\<lambda>k _. of_witness d (fst k)) (db_observations e) \<and>
     rows_ok (\<lambda>k _. network_known d k) (db_chain_state e) \<and>
     rows_ok (\<lambda>_ r. network_known d (re_network_id r)) (db_reorgs e)"

definition schema_ok :: "db \<Rightarrow> bool" where
  "schema_ok d \<longleftrightarrow> checks_ok d \<and> keys_in d d"

lemma empty_db_schema: "schema_ok empty_db"
  by (simp add: schema_ok_def checks_ok_def keys_in_def empty_db_def rows_ok_def)

text \<open>Keys that are only added keep every foreign key.\<close>

definition keys_grow :: "db \<Rightarrow> db \<Rightarrow> bool" where
  "keys_grow d d' \<longleftrightarrow>
     dom (t_find (db_networks d)) \<subseteq> dom (t_find (db_networks d')) \<and>
     alist.extends (db_blocks d) (db_blocks d') \<and>
     dom (t_find (db_witnesses d)) \<subseteq> dom (t_find (db_witnesses d')) \<and>
     alist.extends (db_instances d) (db_instances d')"

lemma extends_known: "alist.extends t t' \<Longrightarrow> t_find t k \<noteq> None \<Longrightarrow> t_find t' k \<noteq> None"
  by (auto dest: alist.extendsD)

lemma extends_dom: "alist.extends t t' \<Longrightarrow> dom (t_find t) \<subseteq> dom (t_find t')"
  by (auto dest: alist.extendsD)

lemma known_mono:
  assumes "keys_grow d d'"
  shows "is_ok (network_known d n) \<Longrightarrow> is_ok (network_known d' n)"
    and "is_ok (of_witness d w) \<Longrightarrow> is_ok (of_witness d' w)"
    and "is_ok (instance_known d i) \<Longrightarrow> is_ok (instance_known d' i)"
    and "is_ok (of_instance d k r) \<Longrightarrow> is_ok (of_instance d' k r)"
    and "is_ok (witness_refs d w v) \<Longrightarrow> is_ok (witness_refs d' w v)"
  using assms unfolding keys_grow_def network_known_def of_witness_def instance_known_def of_instance_def
    witness_refs_def is_ok_iff guard_Inr by (blast dest: extends_known)+

lemma keys_in_mono: "keys_grow d d' \<Longrightarrow> keys_in d e \<Longrightarrow> keys_in d' e"
  unfolding keys_in_def by (elim conjE, intro conjI; erule rows_ok_mono; rule known_mono; assumption)

lemmas known_defs = network_known_def of_witness_def instance_known_def of_instance_def witness_refs_def

lemma schema_step:
  assumes "schema_ok d" and "keys_grow d d'" and "checks_ok d \<Longrightarrow> checks_ok d'" and "keys_in d' d \<Longrightarrow> keys_in d' d'"
  shows "schema_ok d'"
  using assms keys_in_mono by (simp add: schema_ok_def)

section \<open>Insertions\<close>

lemma put_network_schema [schema_keeps]:
  assumes "put_network k r d = Inr d'" and "schema_ok d"
  shows "schema_ok d'"
proof -
  from assms(1) obtain t where t: "insert_nothing check_network (\<lambda>_ _. Inr ()) k r (db_networks d) = Inr t"
    and d': "d' = d\<lparr>db_networks := t\<rparr>" by (auto simp: put_network_def)
  show ?thesis
    by (rule schema_step[OF assms(2)])
      (use extends_dom[OF insert_nothing_extends[OF t]] insert_nothing_check[OF t] in
        \<open>simp_all add: d' keys_grow_def alist.extends_refl checks_ok_def keys_in_def\<close>)
qed

lemma rename_network_schema:
  assumes "schema_ok d" and "t_find (db_networks d) k \<noteq> None" and "check_network k r = Inr ()"
  shows "schema_ok (d\<lparr>db_networks := t_put k r (db_networks d)\<rparr>)"
  using assms(2,3)
  by (intro schema_step[OF assms(1)])
    (auto simp: keys_grow_def alist.extends_refl checks_ok_def keys_in_def rows_ok_put)

lemma put_block_schema [schema_keeps]:
  assumes "put_block k r d = Inr d'" and "schema_ok d"
  shows "schema_ok d'"
proof -
  from assms(1) obtain t where t: "insert_nothing check_block (block_refs d) k r (db_blocks d) = Inr t"
    and d': "d' = d\<lparr>db_blocks := t\<rparr>" by (auto simp: put_block_def)
  have "keys_in d' d \<Longrightarrow> keys_in d' d'"
    using insert_nothing_refs[OF t, of "\<lambda>_ r. network_known d' (br_network_id r)"]
    by (simp add: keys_in_def d' network_known_def block_refs_def)
  then show ?thesis
    by (rule schema_step[OF assms(2), rotated 2])
      (use insert_nothing_extends[OF t] insert_nothing_check[OF t] in
        \<open>simp_all add: d' keys_grow_def alist.extends_refl checks_ok_def\<close>)
qed

lemma put_witness_schema [schema_keeps]:
  assumes "put_witness k r d = Inr d'" and "schema_ok d"
  shows "schema_ok d'"
proof -
  from assms(1) obtain t where
    t: "insert_update check_witness (witness_refs d) witness_update k r (db_witnesses d) = Inr t"
    and d': "d' = d\<lparr>db_witnesses := t\<rparr>" by (auto simp: put_witness_def)
  have "keys_in d' d \<Longrightarrow> keys_in d' d'"
    using insert_update_refs[OF t, of "witness_refs d'"] by (simp add: keys_in_def d' known_defs)
  moreover have "dom (t_find (db_witnesses d)) \<subseteq> dom (t_find t)"
    by (auto simp: insert_update_find[OF t])
  ultimately show ?thesis
    by (intro schema_step[OF assms(2)])
      (use insert_update_check[OF t] in \<open>simp_all add: d' keys_grow_def alist.extends_refl checks_ok_def\<close>)
qed

text \<open>The other insertions grow no table that a key refers to.\<close>

lemma schema_leaf:
  assumes "schema_ok d" and "db_networks d' = db_networks d" and "db_blocks d' = db_blocks d"
    and "db_witnesses d' = db_witnesses d" and "db_instances d' = db_instances d"
    and "checks_ok d \<Longrightarrow> checks_ok d'" and "keys_in d d \<Longrightarrow> keys_in d d'"
  shows "schema_ok d'"
proof -
  have "keys_in d d'" using assms(1,7) by (simp add: schema_ok_def)
  moreover have "keys_grow d d'" using assms(2-5) by (simp add: keys_grow_def alist.extends_refl)
  ultimately have "keys_in d' d'" using keys_in_mono by blast
  then show ?thesis using assms(1,6) by (simp add: schema_ok_def)
qed

lemma put_canonical_schema [schema_keeps]:
  assumes "put_canonical k r d = Inr d'" and "schema_ok d"
  shows "schema_ok d'"
proof -
  from assms(1) obtain t where t: "insert_nothing check_canonical (canonical_refs d) k r (db_canonical d) = Inr t"
    and d': "d' = d\<lparr>db_canonical := t\<rparr>" by (auto simp: put_canonical_def)
  show ?thesis
    by (rule schema_leaf[OF assms(2)])
      (use insert_nothing_check[OF t] insert_nothing_refs[OF t, of "\<lambda>k _. network_known d (fst k)"]
        insert_nothing_refs[OF t, of "\<lambda>_ r. of_witness d (cr_block_hash r, cr_witness_hash r)"] in
        \<open>simp_all add: d' checks_ok_def keys_in_def canonical_refs_def network_known_def of_witness_def\<close>)
qed

lemma put_position_schema [schema_keeps]:
  assumes "put_position k i d = Inr d'" and "schema_ok d"
  shows "schema_ok d'"
proof -
  from assms(1) obtain t where t: "insert_nothing check_position (position_refs d) k i (db_block_transactions d) = Inr t"
    and d': "d' = d\<lparr>db_block_transactions := t\<rparr>" by (auto simp: put_position_def)
  show ?thesis
    by (rule schema_leaf[OF assms(2)])
      (use insert_nothing_check[OF t] insert_nothing_refs[OF t, of "\<lambda>k _. of_witness d (fst k)"]
        insert_nothing_refs[OF t, of "\<lambda>_ i. instance_known d i"] in
        \<open>simp_all add: d' checks_ok_def keys_in_def position_refs_def instance_known_def of_witness_def\<close>)
qed

lemma put_input_schema [schema_keeps]:
  assumes "put_input k r d = Inr d'" and "schema_ok d"
  shows "schema_ok d'"
proof -
  from assms(1) obtain t where t: "insert_nothing check_input (of_instance d) k r (db_inputs d) = Inr t"
    and d': "d' = d\<lparr>db_inputs := t\<rparr>" by (auto simp: put_input_def)
  show ?thesis
    by (rule schema_leaf[OF assms(2)])
      (use insert_nothing_check[OF t] insert_nothing_refs[OF t, of "of_instance d"] in
        \<open>simp_all add: d' checks_ok_def keys_in_def\<close>)
qed

lemma put_output_schema [schema_keeps]:
  assumes "put_output k r d = Inr d'" and "schema_ok d"
  shows "schema_ok d'"
proof -
  from assms(1) obtain t where t: "insert_nothing check_output (of_instance d) k r (db_outputs d) = Inr t"
    and d': "d' = d\<lparr>db_outputs := t\<rparr>" by (auto simp: put_output_def)
  show ?thesis
    by (rule schema_leaf[OF assms(2)])
      (use insert_nothing_check[OF t] insert_nothing_refs[OF t, of "of_instance d"] in
        \<open>simp_all add: d' checks_ok_def keys_in_def\<close>)
qed

lemma put_pool_schema [schema_keeps]:
  assumes "put_pool k r d = Inr d'" and "schema_ok d"
  shows "schema_ok d'"
proof -
  from assms(1) obtain t where
    t: "insert_update check_pool (\<lambda>k _. of_witness d (fst k)) (\<lambda>old new. new) k r (db_pools d) = Inr t"
    and d': "d' = d\<lparr>db_pools := t\<rparr>" by (auto simp: put_pool_def)
  show ?thesis
    by (rule schema_leaf[OF assms(2)])
      (use insert_update_refs[OF t, of "\<lambda>k _. of_witness d (fst k)"] in \<open>simp_all add: d' checks_ok_def keys_in_def\<close>)
qed

lemma put_link_schema [schema_keeps]:
  assumes "put_link k r d = Inr d'" and "schema_ok d"
  shows "schema_ok d'"
proof -
  from assms(1) obtain t where
    t: "insert_update check_link (\<lambda>k _. of_witness d k) link_update k r (db_links d) = Inr t"
    and d': "d' = d\<lparr>db_links := t\<rparr>" by (auto simp: put_link_def)
  show ?thesis
    by (rule schema_leaf[OF assms(2)])
      (use insert_update_check[OF t] insert_update_refs[OF t, of "\<lambda>k _. of_witness d k"] in
        \<open>simp_all add: d' checks_ok_def keys_in_def\<close>)
qed

lemma put_observation_schema [schema_keeps]:
  assumes "put_observation k r d = Inr d'" and "schema_ok d"
  shows "schema_ok d'"
proof -
  from assms(1) obtain t where
    t: "insert_update check_observation (\<lambda>k _. of_witness d (fst k)) (\<lambda>old new. new) k r (db_observations d) = Inr t"
    and d': "d' = d\<lparr>db_observations := t\<rparr>" by (auto simp: put_observation_def)
  show ?thesis
    by (rule schema_leaf[OF assms(2)])
      (use insert_update_refs[OF t, of "\<lambda>k _. of_witness d (fst k)"] in \<open>simp_all add: d' checks_ok_def keys_in_def\<close>)
qed

section \<open>Storing a block\<close>

lemma insert_instance_schema [schema_keeps]:
  assumes "insert_instance row d = Inr (i, d')" and "schema_ok d"
  shows "schema_ok d'"
proof -
  have check: "check_instance_row (db_next_instance d) row = Inr ()"
    using assms(1) by (auto simp: insert_instance_def Let_def)
  from assms(1) show ?thesis
  proof (cases rule: insert_instance_cases)
    case old
    then show ?thesis
      by (intro schema_leaf[OF assms(2)]) (simp_all add: checks_ok_def keys_in_def)
  next
    case new
    then show ?thesis
      using check alist.extends_put_new[of "db_instances d" i row]
      by (intro schema_step[OF assms(2)])
        (simp_all add: keys_grow_def alist.extends_refl checks_ok_def keys_in_def rows_ok_put)
  qed
qed

lemma insert_transaction_schema [schema_keeps]:
  assumes "insert_transaction X t d = Inr (i, d')" and "schema_ok d"
  shows "schema_ok d'"
proof -
  from assms(1) obtain row d1 d2 where "insert_instance row d = Inr (i, d1)"
    and ins: "insert_inputs i (rt_vin t) d1 = Inr d2" and outs: "insert_outputs i (rt_vout t) d2 = Inr d'"
    by (auto simp: insert_transaction_def)
  then have "schema_ok d1" using insert_instance_schema assms(2) by blast
  then have "schema_ok d2"
    by (rule try_fold_rule[OF ins[unfolded insert_inputs_def]]) (auto dest: put_input_schema)
  then show ?thesis
    by (rule try_fold_rule[OF outs[unfolded insert_outputs_def]]) (auto dest: put_output_schema)
qed

lemma delete_observations_schema: "schema_ok d \<Longrightarrow> schema_ok (delete_observations w d)"
  by (erule schema_leaf) (simp_all add: delete_observations_def checks_ok_def keys_in_def rows_ok_remove)

lemma store_evidence_schema:
  assumes "store_evidence X b d = Inr d'" and "schema_ok d"
  shows "schema_ok d'"
proof (cases "ib_auxpow b")
  case None
  then show ?thesis using assms by (simp add: store_evidence_def)
next
  case (Some aux)
  with assms(1) obtain row d1 where d1: "put_link (witness_of X b) row d = Inr d1"
    and obs: "try_fold (store_observation X (witness_of X b)) (delete_observations (witness_of X b) d1)
        (va_parent_observations aux) = Inr d'" by (auto simp: store_evidence_def)
  have "schema_ok (delete_observations (witness_of X b) d1)"
    using d1 assms(2) put_link_schema delete_observations_schema by blast
  then show ?thesis
    by (rule try_fold_rule[OF obs]) (auto simp: store_observation_def dest: put_observation_schema)
qed

lemma insert_block_schema [schema_keeps]:
  assumes "insert_block X net b d = Inr d'" and "schema_ok d"
  shows "schema_ok d'"
proof -
  from assms(1) obtain d1 d2 d3 d4 where ds: "store_block X net b d = Inr d1" "store_witness X b d1 = Inr d2"
    "store_transactions X b d2 = Inr d3" "store_pools X b d3 = Inr d4" "store_evidence X b d4 = Inr d'"
    by (auto simp: insert_block_def)
  have "schema_ok d2"
    using ds(1,2) assms(2) by (auto simp: store_block_def store_witness_def intro: schema_keeps)
  then have "schema_ok d3"
    by (rule try_fold_rule[OF ds(3)[unfolded store_transactions_def]])
      (auto simp: store_position_def dest!: insert_transaction_schema put_position_schema)
  then have "schema_ok d4"
    by (rule try_fold_rule[OF ds(4)[unfolded store_pools_def]]) (auto dest: put_pool_schema)
  then show ?thesis by (rule store_evidence_schema[OF ds(5)])
qed

section \<open>The chain and the progress row\<close>

lemma update_chain_state_schema:
  assumes "schema_ok d"
  shows "schema_ok (update_chain_state net f d)"
proof (cases "t_find (db_chain_state d) net")
  case None
  then show ?thesis using assms by (simp add: update_chain_state_def)
next
  case (Some r)
  have "is_ok (network_known d net)"
    using assms rows_okD[OF _ Some, of "\<lambda>k _. network_known d k"] by (simp add: schema_ok_def keys_in_def is_ok_iff)
  then show ?thesis
    using Some by (intro schema_leaf[OF assms]) (simp_all add: update_chain_state_def checks_ok_def keys_in_def rows_ok_put)
qed

lemma selector_schema:
  "insert_canonical_selector X net now b d = Inr d' \<Longrightarrow> schema_ok d \<Longrightarrow> schema_ok d'"
  by (auto simp: insert_canonical_selector_def intro: put_canonical_schema)

lemma commit_block_schema:
  assumes "commit_block X net now b d = Inr (u, d')" and "schema_ok d"
  shows "schema_ok d'"
  using assms by (auto simp: commit_block_def select_canonical_def
      intro!: update_chain_state_schema elim!: selector_schema insert_block_schema)

lemma insert_reorg_event_schema:
  assumes "insert_reorg_event ev net now old ah ax d = Inr d'" and "schema_ok d"
  shows "schema_ok d'"
  using assms(1) by (intro schema_leaf[OF assms(2)])
    (auto simp: insert_reorg_event_def checks_ok_def keys_in_def network_known_def intro!: rows_ok_put)

lemma delete_above_schema: "schema_ok d \<Longrightarrow> schema_ok (delete_above net ah d)"
  by (erule schema_leaf) (simp_all add: delete_above_def checks_ok_def keys_in_def rows_ok_remove)

lemma complete_event_schema:
  assumes "schema_ok d" and "t_find (db_reorgs d) ev = Some e"
  shows "schema_ok (d\<lparr>db_reorgs := t_put ev (e\<lparr>re_completed_at := c\<rparr>) (db_reorgs d)\<rparr>)"
proof -
  have "is_ok (network_known d (re_network_id e))"
    using assms(1) rows_okD[OF _ assms(2), of "\<lambda>_ r. network_known d (re_network_id r)"]
    by (simp add: schema_ok_def keys_in_def is_ok_iff)
  then show ?thesis by (intro schema_leaf[OF assms(1)]) (simp_all add: checks_ok_def keys_in_def rows_ok_put)
qed

lemma publish_tip_schema:
  assumes "publish_tip X net now ev ah ax bs d = Inr d'" and "schema_ok d"
  shows "schema_ok d'"
proof (cases "t_find (db_reorgs d) ev")
  case None
  then show ?thesis using assms update_chain_state_schema by (auto simp: publish_tip_def Let_def)
next
  case (Some e)
  from assms(1) Some obtain f where d': "d' = (update_chain_state net f d)\<lparr>db_reorgs :=
      t_put ev (e\<lparr>re_completed_at := Some now\<rparr>) (db_reorgs (update_chain_state net f d))\<rparr>"
    by (auto simp: publish_tip_def Let_def)
  have "schema_ok (update_chain_state net f d)" using assms(2) by (rule update_chain_state_schema)
  then show ?thesis unfolding d' by (rule complete_event_schema) (simp add: Some)
qed

lemma replace_branch_schema:
  assumes "replace_canonical_branch X net now ev old anc bs d = Inr (u, d')" and "schema_ok d"
  shows "schema_ok d'"
  using assms(1)
proof (rule replace_parts)
  fix d1 ah d2 d3
  assume a: "try_fold (\<lambda>d b. insert_block X net b d) d bs = Inr d1"
    "insert_reorg_event ev net now old ah (map_option snd anc) d1 = Inr d2"
    "try_fold (\<lambda>d b. insert_canonical_selector X net now b d) (delete_above net ah d2) bs = Inr d3"
    "publish_tip X net now ev ah (map_option snd anc) bs d3 = Inr d'"
  have "schema_ok d1" by (rule try_fold_rule[OF a(1), of schema_ok, OF assms(2)]) (rule insert_block_schema)
  then have "schema_ok (delete_above net ah d2)"
    using insert_reorg_event_schema[OF a(2)] delete_above_schema by blast
  then have "schema_ok d3" by (rule try_fold_rule[OF a(3)]) (rule selector_schema)
  then show ?thesis by (rule publish_tip_schema[OF a(4)])
qed

lemma state_row_schema:
  assumes "schema_ok d" and "is_ok (network_known d k)"
  shows "schema_ok (d\<lparr>db_chain_state := alist.put_absent k r (db_chain_state d)\<rparr>)"
  using assms(2) by (intro schema_leaf[OF assms(1)]) (simp_all add: checks_ok_def keys_in_def rows_ok_put_absent)

lemma initialize_network_schema:
  assumes "initialize_network n now d = Inr (u, d')" and "schema_ok d"
  shows "schema_ok d'"
proof -
  from assms(1) obtain row d1 stored states where d1: "put_network (nc_id n) row d = Inr d1"
    and stored: "t_find (db_networks d1) (nc_id n) = Some stored"
    and states: "states = alist.put_absent (nc_id n) (starting_state now) (db_chain_state d1)"
    and d': "d' = d1\<lparr>db_networks := t_put (nc_id n) (stored\<lparr>nr_symbol := nc_symbol n\<rparr>) (db_networks d1),
        db_chain_state := states\<rparr>"
    by (auto simp: initialize_network_def Let_def insert_nothing_Inr)
  let ?d2 = "d1\<lparr>db_networks := t_put (nc_id n) (stored\<lparr>nr_symbol := nc_symbol n\<rparr>) (db_networks d1)\<rparr>"
  have ok: "schema_ok d1" using d1 assms(2) by (rule put_network_schema)
  then have "check_network (nc_id n) stored = Inr ()"
    using rows_okD[OF _ stored, of check_network] by (simp add: schema_ok_def checks_ok_def)
  then have "check_network (nc_id n) (stored\<lparr>nr_symbol := nc_symbol n\<rparr>) = Inr ()" by (simp add: check_network_def)
  then have "schema_ok ?d2" by (rule rename_network_schema[OF ok, rotated]) (simp add: stored)
  from state_row_schema[OF this, of "nc_id n" "starting_state now"] show ?thesis
    unfolding d' states by (simp add: network_known_def)
qed

section \<open>Every database that can be reached\<close>

text \<open>One successful write by any process that uses the module: starting up, committing, publishing a
  reorganization, refreshing evidence, or recording progress.\<close>

inductive db_write :: "db \<Rightarrow> db \<Rightarrow> bool" where
  initialized: "initialize_network n now d = Inr ((), d') \<Longrightarrow> db_write d d'"
| committed: "commit_block X net now b d = Inr ((), d') \<Longrightarrow> db_write d d'"
| reorganized: "replace_canonical_branch X net now ev old anc bs d = Inr ((), d') \<Longrightarrow> db_write d d'"
| refreshed: "refresh_block_evidence X net b d = Inr ((), d') \<Longrightarrow> db_write d d'"
| observed: "observe_node_tip net now h x d = Inr ((), d') \<Longrightarrow> db_write d d'"
| updated: "update_node_tip net now h x st er d = Inr ((), d') \<Longrightarrow> db_write d d'"
| marked: "mark_indexer_error net now msg d = Inr ((), d') \<Longrightarrow> db_write d d'"

lemma progress_schema:
  "schema_ok d \<Longrightarrow> observe_node_tip net now h x d = Inr (u, d') \<Longrightarrow> schema_ok d'"
  "schema_ok d \<Longrightarrow> update_node_tip net now h x st er d = Inr (u, d') \<Longrightarrow> schema_ok d'"
  "schema_ok d \<Longrightarrow> mark_indexer_error net now msg d = Inr (u, d') \<Longrightarrow> schema_ok d'"
  by (auto simp: observe_node_tip_def update_node_tip_def mark_indexer_error_def intro: update_chain_state_schema)

lemma db_write_schema: "db_write d d' \<Longrightarrow> schema_ok d \<Longrightarrow> schema_ok d'"
proof (induction rule: db_write.induct)
  case refreshed
  then show ?case by (auto simp: refresh_block_evidence_def intro: insert_block_schema)
qed (blast intro: initialize_network_schema commit_block_schema replace_branch_schema progress_schema)+

lemma reachable_schema: "db_write\<^sup>*\<^sup>* d d' \<Longrightarrow> schema_ok d \<Longrightarrow> schema_ok d'"
  by (induction rule: rtranclp_induct) (auto intro: db_write_schema)

text \<open>What the readers of a well-typed database rely on.\<close>

lemma schema_selection:
  assumes "schema_ok d" and "t_find (db_canonical d) (net, h) = Some c"
  shows "0 \<le> h \<and> t_find (db_networks d) net \<noteq> None \<and>
    t_find (db_witnesses d) (cr_block_hash c, cr_witness_hash c) \<noteq> None \<and> t_find (db_blocks d) (cr_block_hash c) \<noteq> None"
proof -
  have "check_canonical (net, h) c = Inr ()" "network_known d net = Inr ()"
    "of_witness d (cr_block_hash c, cr_witness_hash c) = Inr ()"
    using assms(1) rows_okD[OF _ assms(2)] by (fastforce simp: schema_ok_def checks_ok_def keys_in_def)+
  moreover from this obtain w where w: "t_find (db_witnesses d) (cr_block_hash c, cr_witness_hash c) = Some w"
    by (auto simp: of_witness_def)
  moreover have "witness_refs d (cr_block_hash c, cr_witness_hash c) w = Inr ()"
    using assms(1) rows_okD[OF _ w] by (fastforce simp: schema_ok_def keys_in_def)
  ultimately show ?thesis by (simp add: check_canonical_def network_known_def witness_refs_def)
qed

lemma schema_block: "schema_ok d \<Longrightarrow> t_find (db_blocks d) x = Some b \<Longrightarrow> hash_text x \<and> 0 \<le> br_height b"
  using rows_okD[of check_block "db_blocks d" x b] by (simp add: schema_ok_def checks_ok_def check_block_def)

lemma schema_position:
  assumes "schema_ok d" and "t_find (db_block_transactions d) (w, p) = Some i"
  shows "0 \<le> p \<and> t_find (db_witnesses d) w \<noteq> None \<and> (\<exists>t. t_find (db_instances d) i = Some t \<and> hash_text (tr_txid t))"
proof -
  have "check_position (w, p) i = Inr ()" "instance_known d i = Inr ()" "of_witness d w = Inr ()"
    using assms(1) rows_okD[OF _ assms(2)] by (fastforce simp: schema_ok_def checks_ok_def keys_in_def)+
  moreover from this obtain t where t: "t_find (db_instances d) i = Some t" by (auto simp: instance_known_def)
  moreover have "check_instance_row i t = Inr ()"
    using assms(1) rows_okD[OF _ t] by (simp add: schema_ok_def checks_ok_def)
  ultimately show ?thesis by (simp add: check_position_def of_witness_def check_instance_row_def)
qed

text \<open>C6. The database is always well-typed.  Whatever sequence of writes of \<open>src/db.rs\<close> runs on an
  empty schema, by whatever processes and in whatever order: every row satisfies the constraints of
  its relation, every selected height is non-negative and its network, block and exact witness are
  stored, every stored block is identified by a 32-byte hexadecimal hash, and every listed transaction
  position is non-negative with its witness and instance stored.\<close>

theorem reachable_well_typed:
  assumes "db_write\<^sup>*\<^sup>* empty_db d"
  shows "schema_ok d \<and>
     (\<forall>net h c. t_find (db_canonical d) (net, h) = Some c \<longrightarrow>
        0 \<le> h \<and> t_find (db_networks d) net \<noteq> None \<and>
        t_find (db_witnesses d) (cr_block_hash c, cr_witness_hash c) \<noteq> None \<and> t_find (db_blocks d) (cr_block_hash c) \<noteq> None) \<and>
     (\<forall>x b. t_find (db_blocks d) x = Some b \<longrightarrow> hash_text x \<and> 0 \<le> br_height b) \<and>
     (\<forall>w p i. t_find (db_block_transactions d) (w, p) = Some i \<longrightarrow>
        0 \<le> p \<and> t_find (db_witnesses d) w \<noteq> None \<and> (\<exists>t. t_find (db_instances d) i = Some t \<and> hash_text (tr_txid t)))"
  using schema_selection schema_block schema_position reachable_schema[OF assms empty_db_schema] by simp

theorem reachable_well_typed_witness:
  "\<exists>d c. db_write\<^sup>*\<^sup>* empty_db d \<and> schema_ok d \<and> t_find (db_canonical d) (''testnet'', 1) = Some c"
proof (rule example_steps)
  fix d0 d1 d2
  assume a: "initialize_network example_network 0 empty_db = Inr ((), d0)"
    "commit_block tiny_crates ''testnet'' 1 genesis_block d0 = Inr ((), d1)"
    "commit_block tiny_crates ''testnet'' 2 first_block d1 = Inr ((), d2)"
  have reach: "db_write\<^sup>*\<^sup>* empty_db d2"
    using a by (meson db_write.initialized db_write.committed rtranclp.rtrancl_into_rtrancl rtranclp.rtrancl_refl)
  have "chain_ok ''testnet'' d2 example_chain" using example_two[OF a] .
  then have "selected ''testnet'' d2 1 = chain_at example_chain 1" by (simp add: chain_ok_def)
  also have "\<dots> \<noteq> None" by (simp add: chain_at_def)
  finally obtain c where "t_find (db_canonical d2) (''testnet'', 1) = Some c" by (auto simp: selected_def)
  then show ?thesis using reachable_well_typed[OF reach] reach by blast
qed

end
