(* ===== verification/Indexer_Run.thy ===== *)
theory Indexer_Run imports Temporal Db_Typed Indexer_Props begin

text \<open>
  The polling loop (\<open>Indexer::run\<close> in \<open>src/indexer.rs\<close>) and the writer lease of
  \<open>src/db.rs\<close>: a step relation over the loop's state, with the monitor task, the loss of the
  lease between passes and in the middle of one, and failed passes.
\<close>

section \<open>The writer lease\<close>

text \<open>PostgreSQL's session-level advisory lock: the session that holds it, if any.\<close>

definition try_advisory_lock :: "nat \<Rightarrow> nat option \<Rightarrow> bool \<times> nat option" where
  "try_advisory_lock session owner =
     (case owner of None \<Rightarrow> (True, Some session) | Some s \<Rightarrow> (s = session, owner))"

definition acquire_writer_lock :: "nat \<Rightarrow> nat option \<Rightarrow> unit result \<times> nat option" where
  "acquire_writer_lock session owner =
     (let (acquired, owner') = try_advisory_lock session owner in
      (guard acquired (NotReady ''another explorer indexer already owns the writer lease''), owner'))"

text \<open>The query for the lock may fail with the connection.\<close>

definition writer_lock_is_held :: "nat \<Rightarrow> sqlx_error option \<Rightarrow> nat option \<Rightarrow> bool result" where
  "writer_lock_is_held session fault owner =
     (case fault of Some e \<Rightarrow> Inl (Database e) | None \<Rightarrow> Inr (owner = Some session))"

section \<open>The loop\<close>

definition lease_lost :: explorer_error where
  "lease_lost = NotReady ''PostgreSQL writer lease was lost; process restart is required''"

definition lease_lost_syncing :: explorer_error where
  "lease_lost_syncing =
     NotReady ''PostgreSQL writer lease was lost during synchronization; process restart is required''"

text \<open>\<open>rn_lost\<close> is the monitor's message on the one-shot channel; \<open>rn_ended\<close> is the error with
  which \<open>run\<close> returned.\<close>

record run_state =
  rn_world :: world
  rn_owner :: "nat option"
  rn_lost :: bool
  rn_ended :: "explorer_error option"

definition start_run :: "nat \<Rightarrow> nat option \<Rightarrow> world \<Rightarrow> run_state result" where
  "start_run session owner w =
     (let (acquired, owner') = acquire_writer_lock session owner in
      rbind acquired (\<lambda>_.
      Inr \<lparr>rn_world = w, rn_owner = owner', rn_lost = False, rn_ended = None\<rparr>))"

definition mark_failure :: "('net, 'r, 'p, 't, 'v) indexer \<Rightarrow> explorer_error \<Rightarrow> (world, unit) io" where
  "mark_failure I error = call_db I (\<lambda>now _. mark_indexer_error (ix_net I) now (display_error error))"

text \<open>A tick: one pass; its failure is recorded, and a failure to record it is only logged.\<close>

definition poll :: "('net, 'r, 'p, 't, 'v) indexer \<Rightarrow> world \<Rightarrow> world" where
  "poll I w =
     (case sync_once I w of
        (Inr _, w') \<Rightarrow> w'
      | (Inl error, w') \<Rightarrow> snd (mark_failure I error w'))"

text \<open>A pass that is dropped at an \<open>await\<close>: up to its \<open>k\<close>-th call it ran; what it waited for
  then either has not reached the database or was carried out with nobody left to hear of it.\<close>

definition interrupted :: "('net, 'r, 'p, 't, 'v) indexer \<Rightarrow> nat \<Rightarrow> db_fault \<Rightarrow> ('net, 'r, 'p, 't, 'v) indexer" where
  "interrupted I k fault = I\<lparr>ix_fault := (ix_fault I)(k := fault)\<rparr>"

text \<open>The steps: a tick; another session or nobody owns the lock, which ends with its connection and
  does not come back; the monitor's check after each second; and \<open>run\<close> returning, between passes or
  in one.  A pass that starts after the message is dropped at its first request.\<close>

inductive run_step ::
    "('net, 'r, 'p, 't, 'v) indexer \<Rightarrow> nat \<Rightarrow> run_state \<Rightarrow> run_state \<Rightarrow> bool" for I session where
  ticked: "rn_ended R = None \<Longrightarrow> \<not> rn_lost R \<Longrightarrow> run_step I session R (R\<lparr>rn_world := poll I (rn_world R)\<rparr>)"
| taken: "rn_ended R = None \<Longrightarrow> owner \<noteq> Some session \<Longrightarrow> run_step I session R (R\<lparr>rn_owner := owner\<rparr>)"
| checked: "rn_ended R = None \<Longrightarrow> writer_lock_is_held session fault (rn_owner R) \<noteq> Inr True \<Longrightarrow>
    run_step I session R (R\<lparr>rn_lost := True\<rparr>)"
| stopped: "rn_ended R = None \<Longrightarrow> rn_lost R \<Longrightarrow> run_step I session R (R\<lparr>rn_ended := Some lease_lost\<rparr>)"
| dropped: "rn_ended R = None \<Longrightarrow> rn_lost R \<Longrightarrow> fault \<noteq> NoFault \<Longrightarrow>
    run_step I session R (R\<lparr>rn_world := snd (sync_once (interrupted I k fault) (rn_world R)),
      rn_ended := Some lease_lost_syncing\<rparr>)"

inductive_cases run_stepE: "run_step I session R R'"

inductive_simps run_ended: "run_step I session (R\<lparr>rn_ended := Some e\<rparr>) R'"

section \<open>The chain under the loop\<close>

lemma chain_is_interrupted: "chain_is (interrupted I k f) cs w \<longleftrightarrow> chain_is I cs w"
  by (simp add: interrupted_def ix_net_def)

lemma synced_evolved: "synced I cs out w \<Longrightarrow> evolved I cs w"
  unfolding synced_def evolved_def by blast

lemma sync_once_evolves:
  assumes "chain_is I cs w"
  shows "evolved I cs (snd (sync_once I w))"
proof (cases "sync_once I w")
  case (Pair r w')
  then show ?thesis
    using tripleD_ok[OF sync_once_triple assms] tripleD_err[OF sync_once_triple assms] synced_evolved
    by (cases r) auto
qed

lemma mark_failure_chain:
  assumes "chain_is I cs w"
  shows "chain_is I cs (snd (mark_failure I e w))"
proof -
  have "triple (chain_is I cs) (mark_failure I e) (\<lambda>_. chain_is I cs) (chain_is I cs)"
    unfolding mark_failure_def
    by (rule call_db_keeps[where P = "\<lambda>d. indexed (ix_net I) d cs"]) (rule progress_ops_indexed(3))
  then show ?thesis using assms by (rule triple_final)
qed

lemma mark_failure_evolved: "evolved I cs w \<Longrightarrow> evolved I cs (snd (mark_failure I e w))"
  unfolding evolved_def using mark_failure_chain by blast

lemma poll_evolves:
  assumes "chain_is I cs w"
  shows "evolved I cs (poll I w)"
proof (cases "sync_once I w")
  case (Pair r w')
  have ev: "evolved I cs w'" using sync_once_evolves[OF assms] Pair by simp
  then show ?thesis by (cases r) (simp_all add: poll_def Pair mark_failure_evolved)
qed

lemma interrupted_evolves:
  assumes "chain_is I cs w"
  shows "evolved I cs (snd (sync_once (interrupted I k f) w))"
proof -
  have "evolved (interrupted I k f) cs (snd (sync_once (interrupted I k f) w))"
    by (rule sync_once_evolves) (simp add: assms chain_is_interrupted)
  then show ?thesis by (simp add: evolved_def chain_is_interrupted)
qed

lemma run_step_evolves:
  assumes "run_step I session R R'" and "evolved I cs (rn_world R)"
  shows "evolved I cs (rn_world R')"
proof -
  from assms(2) obtain cs' where cs': "chain_is I cs' (rn_world R)" "evolves cs cs'" by (auto simp: evolved_def)
  from assms(1) show ?thesis
  proof cases
    case ticked
    then show ?thesis using evolved_trans[OF cs'(2) poll_evolves[OF cs'(1)]] by simp
  next
    case dropped
    then show ?thesis using evolved_trans[OF cs'(2) interrupted_evolves[OF cs'(1)]] by simp
  qed (use assms(2) in simp_all)
qed

section \<open>The writes of the loop\<close>

text \<open>What a pass leaves in the database is the result of a sequence of writes of \<open>src/db.rs\<close>.\<close>

named_theorems writes "operations that write only through the database module"

definition writes_db :: "(world, 'a) io \<Rightarrow> bool" where
  "writes_db m \<longleftrightarrow> (\<forall>w. db_write\<^sup>*\<^sup>* (w_db w) (w_db (snd (m w))))"

lemma writes_keeps: "keeps_db m \<Longrightarrow> writes_db m"
  by (simp add: writes_db_def keeps_db_def)

lemma writes_bind [writes]:
  assumes "writes_db m" and "\<And>x. writes_db (k x)"
  shows "writes_db (io_bind m k)"
  unfolding writes_db_def
proof
  fix w
  obtain r u where m: "m w = (r, u)" by (cases "m w")
  have u: "db_write\<^sup>*\<^sup>* (w_db w) (w_db u)" using assms(1) m by (metis snd_conv writes_db_def)
  show "db_write\<^sup>*\<^sup>* (w_db w) (w_db (snd (io_bind m k w)))"
  proof (cases r)
    case (Inr x)
    have "db_write\<^sup>*\<^sup>* (w_db u) (w_db (snd (k x u)))" using assms(2) by (simp add: writes_db_def)
    with u show ?thesis by (simp add: io_bind_def m Inr)
  qed (simp add: io_bind_def m u)
qed

lemma writes_call:
  assumes "\<And>now u d x d'. body now u d = Inr (x, d') \<Longrightarrow> db_write d d'"
  shows "writes_db (call_db I body)"
  unfolding writes_db_def
proof
  fix w
  obtain r w' where run: "call_db I body w = (r, w')" by (cases "call_db I body w")
  then obtain now u where "db_run (ix_fault I (w_ticks w)) (body now u) (w_db w) = (r, w_db w')"
    by (rule call_db_cases)
  then show "db_write\<^sup>*\<^sup>* (w_db w) (w_db (snd (call_db I body w)))"
    unfolding run snd_conv by (cases rule: db_run_cases) (use assms in auto)
qed

lemma writes_case_option [writes]:
  "(v = None \<Longrightarrow> writes_db m) \<Longrightarrow> (\<And>x. v = Some x \<Longrightarrow> writes_db (k x)) \<Longrightarrow>
   writes_db (case v of None \<Rightarrow> m | Some x \<Rightarrow> k x)"
  by (cases v) simp_all

lemma writes_if [writes]: "(c \<Longrightarrow> writes_db m) \<Longrightarrow> (\<not> c \<Longrightarrow> writes_db k) \<Longrightarrow> writes_db (if c then m else k)"
  by simp

lemma writes_case_prod [writes]: "(\<And>x y. writes_db (f x y)) \<Longrightarrow> writes_db (case p of (x, y) \<Rightarrow> f x y)"
  by (cases p) simp

lemma writes_let [writes]: "(\<And>x. writes_db (f x)) \<Longrightarrow> writes_db (let x = v in f x)"
  by simp

lemma writes_case_prod2 [writes]:
  "(\<And>x y. writes_db (f x y z)) \<Longrightarrow> writes_db ((case p of (x, y) \<Rightarrow> f x y) z)"
  by (cases p) simp

lemma writes_fold [writes]: "(\<And>acc x. writes_db (f acc x)) \<Longrightarrow> writes_db (io_fold f acc xs)"
  by (induction xs arbitrary: acc) (simp_all add: writes writes_keeps keeps)

lemmas writes_read [writes] = keeps[THEN writes_keeps]

lemma writes_calls [writes]:
  "writes_db (call_db I (\<lambda>now _. commit_block X net now b))"
  "writes_db (call_db I (\<lambda>now uuid. replace_canonical_branch X net now uuid old anc bs))"
  "writes_db (call_db I (\<lambda>_ _. refresh_block_evidence X net b))"
  "writes_db (call_db I (\<lambda>now _. observe_node_tip net now h x))"
  "writes_db (call_db I (\<lambda>now _. update_node_tip net now h x st er))"
  "writes_db (call_db I (\<lambda>now _. mark_indexer_error net now msg))"
  by (rule writes_call, use db_write.intros in auto)+

lemma writes_sync_once [writes]: "writes_db (sync_once I)"
  unfolding sync_once_def extend_chain_def reorganize_def publish_branch_def refresh_evidence_def finish_pass_def
  by (intro writes)

lemma writes_mark: "writes_db (mark_failure I e)"
  unfolding mark_failure_def by (rule writes)

lemma poll_writes: "db_write\<^sup>*\<^sup>* (w_db w) (w_db (poll I w))"
proof (cases "sync_once I w")
  case (Pair r w')
  have one: "db_write\<^sup>*\<^sup>* (w_db w) (w_db w')" using writes_sync_once[of I] Pair by (metis snd_conv writes_db_def)
  have "db_write\<^sup>*\<^sup>* (w_db w') (w_db (snd (mark_failure I e w')))" for e
    using writes_mark[of I e] by (simp add: writes_db_def)
  with one show ?thesis by (cases r) (auto simp: poll_def Pair intro: rtranclp_trans)
qed

lemma run_step_writes:
  assumes "run_step I session R R'"
  shows "db_write\<^sup>*\<^sup>* (w_db (rn_world R)) (w_db (rn_world R'))"
  using assms
proof cases
  case ticked
  then show ?thesis using poll_writes by simp
next
  case (dropped fault k)
  then show ?thesis using writes_sync_once[of "interrupted I k fault"] by (simp add: writes_db_def)
qed simp_all

section \<open>Properties\<close>

text \<open>The only ways in which \<open>run\<close> returns.\<close>

definition ended_well :: "run_state \<Rightarrow> bool" where
  "ended_well R \<longleftrightarrow>
     rn_ended R = None \<or> rn_lost R \<and> (rn_ended R = Some lease_lost \<or> rn_ended R = Some lease_lost_syncing)"

lemma run_step_ended: "run_step I session R R' \<Longrightarrow> ended_well R'"
  by (erule run_stepE) (auto simp: ended_well_def)

lemma run_reaches:
  assumes "start_run session owner w = Inr R0" and "indexed (ix_net I) (w_db w) cs"
    and "(run_step I session)\<^sup>*\<^sup>* R0 R"
  shows "(\<exists>cs'. indexed (ix_net I) (w_db (rn_world R)) cs' \<and> evolves cs cs') \<and>
     db_write\<^sup>*\<^sup>* (w_db w) (w_db (rn_world R)) \<and> ended_well R \<and> (owner = None \<or> owner = Some session)"
proof -
  have start: "rn_world R0 = w" "ended_well R0" "owner = None \<or> owner = Some session"
    using assms(1) by (auto simp: start_run_def acquire_writer_lock_def try_advisory_lock_def Let_def
        ended_well_def split: option.splits if_splits)
  have "evolved I cs (rn_world R) \<and> db_write\<^sup>*\<^sup>* (w_db w) (w_db (rn_world R)) \<and> ended_well R"
    using assms(3)
  proof (induction rule: rtranclp_induct)
    case base
    show ?case using start assms(2) by (auto intro: evolvedI)
  next
    case (step R R')
    then show ?case
      using run_step_evolves run_step_ended run_step_writes rtranclp_trans by metis
  qed
  then show ?thesis using start(3) by (auto simp: evolved_def)
qed

text \<open>C5. The loop never breaks the chain.  From the moment \<open>run\<close> holds the writer lease on a
  database that represents a chain, through any sequence of passes that succeed, fail, or are cut off
  by the loss of the lease at any of their calls: the database represents a chain again, equal to the
  first one up to some block (genesis at least); everything in it was written by operations of the
  database module; and the loop has returned only after the lease was lost, with the error that says so.\<close>

theorem run_keeps_chain:
  assumes "start_run session owner w = Inr R0" and "indexed (ix_net I) (w_db w) cs"
    and "(run_step I session)\<^sup>*\<^sup>* R0 R"
  shows "(\<exists>cs'. indexed (ix_net I) (w_db (rn_world R)) cs' \<and> evolves cs cs') \<and>
     db_write\<^sup>*\<^sup>* (w_db w) (w_db (rn_world R)) \<and> ended_well R \<and> (owner = None \<or> owner = Some session)"
  using assms by (rule run_reaches)

theorem run_keeps_chain_witness:
  "\<exists>d0 R. (run_step (sync_indexer ''12'') 7)\<^sup>*\<^sup>*
      \<lparr>rn_world = at_world d0 0 0, rn_owner = Some 7, rn_lost = False, rn_ended = None\<rparr> R \<and>
     w_ticks (rn_world R) = 9 \<and> (\<exists>cs'. indexed ''testnet'' (w_db (rn_world R)) cs') \<and> ended_well R"
proof (rule sync_first_pass)
  fix d0 d4
  let ?I = "sync_indexer ''12''"
  let ?before = "\<lparr>rn_world = at_world d0 0 0, rn_owner = Some 7, rn_lost = False, rn_ended = None\<rparr>"
  let ?after = "?before\<lparr>rn_world := poll ?I (at_world d0 0 0)\<rparr>"
  assume d0: "initialize_network example_network 0 empty_db = Inr ((), d0)"
    and run: "sync_once ?I (at_world d0 0 0) = (Inr sync_first_outcome, at_world d4 12 9)"
  have "start_run 7 None (at_world d0 0 0) = Inr ?before"
    by (simp add: start_run_def acquire_writer_lock_def try_advisory_lock_def)
  moreover have "indexed (ix_net ?I) (w_db (at_world d0 0 0)) []"
    using example_fresh[OF d0] initialize_network_values[OF d0 empty_db_values]
    by (simp add: indexed_empty sync_fields)
  moreover have reach: "(run_step ?I 7)\<^sup>*\<^sup>* ?before ?after"
    using run_step.ticked[of ?before ?I 7] by (intro r_into_rtranclp) simp
  ultimately have "(\<exists>cs'. indexed (ix_net ?I) (w_db (rn_world ?after)) cs' \<and> evolves [] cs') \<and> ended_well ?after"
    using run_keeps_chain by blast
  moreover have "w_ticks (rn_world ?after) = 9" using run by (simp add: poll_def)
  ultimately show ?thesis using reach unfolding sync_fields by blast
qed

text \<open>C11. The loop reports what a pass did.  After a pass that succeeds the progress row says \<open>ready\<close>
  at the node's height without an error.  After a pass that fails the chain is still one that evolved
  from the old one, and, unless the database refuses even that, the progress row says \<open>error\<close>
  with the text of the failure, cut to 1000 characters.\<close>

theorem poll_reports:
  assumes "indexed (ix_net I) (w_db w) cs" and "sync_once I w = (r, w')"
  shows "case r of
      Inr out \<Rightarrow> reported_ready (ix_net I) (w_db (poll I w)) (so_node_height out)
    | Inl e \<Rightarrow> (\<exists>cs'. indexed (ix_net I) (w_db (poll I w)) cs' \<and> evolves cs cs') \<and>
        (ix_fault I (w_ticks w') = NoFault \<longrightarrow>
          (\<exists>s. t_find (db_chain_state (w_db (poll I w))) (ix_net I) = Some s \<and> st_status s = ''error'' \<and>
             st_last_error s = Some (take_chars 1000 (display_error e))))"
proof (cases r)
  case (Inr out)
  then have "poll I w = w'" using assms(2) by (simp add: poll_def)
  then show ?thesis
    using tripleD_ok[OF sync_once_triple assms(1)] assms(2) Inr by (auto simp: synced_def)
next
  case (Inl e)
  from poll_evolves[OF assms(1)] have ev: "evolved I cs (poll I w)" .
  from sync_once_evolves[OF assms(1)] assms(2) obtain cs' where "chain_is I cs' w'" by (auto simp: evolved_def)
  then obtain s where s: "t_find (db_chain_state (w_db w')) (ix_net I) = Some s"
    by (auto simp: indexed_def chain_ok_def tip_named_def)
  have "w_db (poll I w) = update_chain_state (ix_net I) (\<lambda>s. s\<lparr>st_status := ''error'',
      st_last_error := Some (take_chars 1000 (display_error e)), st_updated_at := ix_clock I (w_ticks w')\<rparr>) (w_db w')"
    if "ix_fault I (w_ticks w') = NoFault"
    using that assms(2) by (simp add: poll_def Inl mark_failure_def call_db_def db_run_def in_transaction_def mark_indexer_error_def)
  then show ?thesis
    using ev s by (auto simp: Inl evolved_def t_find_update_chain_state)
qed

theorem poll_reports_witness:
  "\<exists>d0. reported_ready ''testnet'' (w_db (poll (sync_indexer ''12'') (at_world d0 0 0))) 1"
proof (rule sync_first_pass)
  fix d0 d4
  let ?I = "sync_indexer ''12''"
  assume d0: "initialize_network example_network 0 empty_db = Inr ((), d0)"
    and run: "sync_once ?I (at_world d0 0 0) = (Inr sync_first_outcome, at_world d4 12 9)"
  have "indexed (ix_net ?I) (w_db (at_world d0 0 0)) []"
    using example_fresh[OF d0] initialize_network_values[OF d0 empty_db_values]
    by (simp add: indexed_empty sync_fields)
  from poll_reports[OF this run] have "reported_ready ''testnet'' (w_db (poll ?I (at_world d0 0 0))) 1"
    by (simp add: sync_fields sync_first_outcome_def)
  then show ?thesis by blast
qed

section \<open>A lost lease\<close>

text \<open>The two actions whose fairness matters: the monitor's check, and \<open>run\<close> returning.\<close>

definition monitor_check :: "nat \<Rightarrow> run_state \<Rightarrow> run_state \<Rightarrow> bool" where
  "monitor_check session R R' \<longleftrightarrow>
     rn_ended R = None \<and> \<not> rn_lost R \<and> writer_lock_is_held session None (rn_owner R) \<noteq> Inr True \<and>
     R' = R\<lparr>rn_lost := True\<rparr>"

definition run_returns :: "('net, 'r, 'p, 't, 'v) indexer \<Rightarrow> nat \<Rightarrow> run_state \<Rightarrow> run_state \<Rightarrow> bool" where
  "run_returns I session R R' \<longleftrightarrow> run_step I session R R' \<and> rn_ended R = None \<and> rn_ended R' \<noteq> None"

interpretation noticing: progress "run_step I session" "monitor_check session"
    "\<lambda>R. rn_ended R = None \<and> \<not> rn_lost R \<and> rn_owner R \<noteq> Some session" "\<lambda>R. rn_ended R = None \<and> rn_lost R"
  for I :: "('net, 'r, 'p, 't, 'v) indexer" and session
proof unfold_locales
  show "rn_ended s = None \<and> \<not> rn_lost s \<and> rn_owner s \<noteq> Some session \<Longrightarrow> run_step I session s t \<Longrightarrow>
      (rn_ended t = None \<and> \<not> rn_lost t \<and> rn_owner t \<noteq> Some session) \<or> rn_ended t = None \<and> rn_lost t" for s t
    by (erule run_stepE) auto
qed (auto simp: monitor_check_def writer_lock_is_held_def)

interpretation returning: progress "run_step I session" "run_returns I session"
    "\<lambda>R. rn_ended R = None \<and> rn_lost R" "\<lambda>R. rn_ended R \<noteq> None"
  for I :: "('net, 'r, 'p, 't, 'v) indexer" and session
proof unfold_locales
  show "rn_ended s = None \<and> rn_lost s \<Longrightarrow> run_step I session s t \<Longrightarrow>
      (rn_ended t = None \<and> rn_lost t) \<or> rn_ended t \<noteq> None" for s t
    by (erule run_stepE) auto
  show "rn_ended s = None \<and> rn_lost s \<Longrightarrow> \<exists>t. run_returns I session s t" for s
    using run_step.stopped[of s I session] unfolding run_returns_def by fastforce
qed (auto simp: run_returns_def)

lemma ended_final: "rn_ended R \<noteq> None \<Longrightarrow> \<not> run_step I session R R'"
  by (auto elim: run_stepE)

lemma run_ended_well:
  assumes "behaviour (run_step I session) \<sigma>" and "rn_ended (\<sigma> 0) = None"
  shows "ended_well (\<sigma> j)"
proof (induction j)
  case (Suc j)
  then show ?case using behaviour_step[OF assms(1), of j] by (auto dest: run_step_ended)
qed (simp add: ended_well_def assms(2))

lemma ended_stays:
  assumes "behaviour (run_step I session) \<sigma>" and "rn_ended (\<sigma> j) \<noteq> None" and "j \<le> k"
  shows "\<sigma> k = \<sigma> j"
  using assms(3)
proof (induction k rule: dec_induct)
  case (step k)
  then show ?case using behaviour_step[OF assms(1), of k] ended_final[of "\<sigma> k"] assms(2) by metis
qed simp

text \<open>A lost lease ends the loop.  In every behaviour of the loop in which the monitor keeps
  checking and a return that stays possible is taken, once the lock no longer belongs to the session
  the loop returns with the error that names the loss, and after that nothing is written any more.\<close>

theorem lost_lease_stops:
  assumes "behaviour (run_step I session) \<sigma>" and "weakly_fair (monitor_check session) \<sigma>"
    and "weakly_fair (run_returns I session) \<sigma>" and "rn_ended (\<sigma> 0) = None" and "rn_owner (\<sigma> i) \<noteq> Some session"
  shows "\<exists>j \<ge> i. (rn_ended (\<sigma> j) = Some lease_lost \<or> rn_ended (\<sigma> j) = Some lease_lost_syncing) \<and>
     (\<forall>k \<ge> j. \<sigma> k = \<sigma> j)"
proof -
  obtain j where j: "j \<ge> i" "rn_ended (\<sigma> j) \<noteq> None"
  proof (cases "rn_ended (\<sigma> i) = None")
    case True
    then obtain k where k: "k \<ge> i" "rn_ended (\<sigma> k) = None \<and> rn_lost (\<sigma> k)"
      using noticing.leads_to[OF assms(1,2), of i] assms(5) by blast
    from returning.leads_to[OF assms(1,3), of k] k that show thesis by (meson order_trans)
  qed (use that in blast)
  have "rn_ended (\<sigma> j) = Some lease_lost \<or> rn_ended (\<sigma> j) = Some lease_lost_syncing"
    using run_ended_well[OF assms(1,4), of j] j(2) unfolding ended_well_def by blast
  moreover have "\<sigma> k = \<sigma> j" if "k \<ge> j" for k
    using ended_stays[OF assms(1) j(2) that] .
  ultimately show ?thesis using j(1) by blast
qed

text \<open>A behaviour that loses the lease.\<close>

definition losing :: "run_state \<Rightarrow> nat \<Rightarrow> run_state" where
  "losing R i =
     (if i = 0 then R else if i = 1 then R\<lparr>rn_owner := None\<rparr>
      else if i = 2 then R\<lparr>rn_owner := None, rn_lost := True\<rparr>
      else R\<lparr>rn_owner := None, rn_lost := True, rn_ended := Some lease_lost\<rparr>)"

lemma losing_run:
  assumes "rn_ended R = None" and "\<not> rn_lost R"
  shows "behaviour (run_step I session) (losing R)" and "weakly_fair (monitor_check session) (losing R)"
    and "weakly_fair (run_returns I session) (losing R)"
proof -
  have ended: "\<exists>j \<ge> i. rn_ended (losing R j) \<noteq> None" for i
    by (rule exI[of _ "i + 3"]) (simp add: losing_def)
  show "weakly_fair (monitor_check session) (losing R)"
    using ended unfolding weakly_fair_def monitor_check_def by metis
  show "weakly_fair (run_returns I session) (losing R)"
    using ended unfolding weakly_fair_def run_returns_def by metis
  show "behaviour (run_step I session) (losing R)"
    unfolding behaviour_def
  proof
    fix i :: nat
    consider "i = 0" | "i = 1" | "i = 2" | "i > 2" by linarith
    then show "run_step I session (losing R i) (losing R (Suc i)) \<or> losing R (Suc i) = losing R i"
    proof cases
      case 1
      then show ?thesis using run_step.taken[OF assms(1), of None session I] by (simp add: losing_def)
    next
      case 2
      then show ?thesis
        using run_step.checked[of "R\<lparr>rn_owner := None\<rparr>" session None I] assms(1)
        by (simp add: losing_def writer_lock_is_held_def)
    next
      case 3
      then show ?thesis
        using run_step.stopped[of "R\<lparr>rn_owner := None, rn_lost := True\<rparr>" I session] assms(1) by (simp add: losing_def)
    qed (simp add: losing_def)
  qed
qed

theorem lost_lease_stops_witness:
  "\<exists>\<sigma> j. behaviour (run_step (sync_indexer ''12'') 7) \<sigma> \<and> rn_owner (\<sigma> 0) = Some 7 \<and>
     (rn_ended (\<sigma> j) = Some lease_lost \<or> rn_ended (\<sigma> j) = Some lease_lost_syncing)"
proof -
  let ?R = "\<lparr>rn_world = at_world empty_db 0 0, rn_owner = Some 7, rn_lost = False, rn_ended = None\<rparr>"
  have run: "behaviour (run_step (sync_indexer ''12'') 7) (losing ?R)" by (rule losing_run) simp_all
  have "rn_ended (losing ?R 0) = None" "rn_owner (losing ?R 1) \<noteq> Some 7" "rn_owner (losing ?R 0) = Some 7"
    by (simp_all add: losing_def)
  with run lost_lease_stops[OF run losing_run(2)[of ?R] losing_run(3)[of ?R], of 1] show ?thesis by auto
qed

end
