(* ===== verification/Startup.thy ===== *)
theory Startup imports Indexer_Run Api_Base Configuration begin

text \<open>
  The start of the process (\<open>src/main.rs\<close>): configuration, database, node clients, parent
  identity and verifier, up to the indexer and the API state that share them.  The connection to
  PostgreSQL, the migrations and the HTTP client builder may fail.  The listener and the shutdown
  signals are steps of the theory \<open>Process\<close>; logging is output and not modelled.
\<close>

section \<open>The host\<close>

text \<open>\<open>hs_client\<close> is the HTTP client for an endpoint with a timeout, \<open>None\<close> when it cannot be
  built.\<close>

record ('net, 'rules, 'proof, 'target, 'validated) host =
  hs_env :: environment
  hs_connect :: "sqlx_error option"
  hs_migration_fails :: bool
  hs_client :: "rpc_config \<Rightarrow> nat \<Rightarrow> node option"
  hs_crates :: crates
  hs_codec :: codec
  hs_consensus :: "('net, 'rules, 'proof, 'target, 'validated) consensus"
  hs_fault :: "nat \<Rightarrow> db_fault"
  hs_clock :: "nat \<Rightarrow> datetime"
  hs_uuid :: "nat \<Rightarrow> string"

definition connect :: "('net, 'r, 'p, 't, 'v) host \<Rightarrow> unit result" where
  "connect H = (case hs_connect H of None \<Rightarrow> Inr () | Some e \<Rightarrow> Inl (Database e))"

definition migrate :: "('net, 'r, 'p, 't, 'v) host \<Rightarrow> unit result" where
  "migrate H = guard (\<not> hs_migration_fails H) Migration"

text \<open>\<open>ZebraRpc::new\<close>.\<close>

definition new_rpc :: "('net, 'r, 'p, 't, 'v) host \<Rightarrow> rpc_config \<Rightarrow> nat \<Rightarrow> node result" where
  "new_rpc H c timeout =
     rbind (ok_or (hs_client H c timeout) RpcTransport) (\<lambda>N. Inr (N\<lparr>nd_config := c\<rparr>))"

text \<open>Every client counts its requests from one.\<close>

definition open_clients :: "nat \<Rightarrow> (world, unit) io" where
  "open_clients n w = (Inr (), w\<lparr>w_next_id := 1, w_parent_ids := replicate n 1\<rparr>)"

section \<open>The steps of \<open>main\<close>\<close>

definition bind_network :: "('net, 'r, 'p, 't, 'v) host \<Rightarrow> network_config \<Rightarrow> (world, unit) io" where
  "bind_network H n w =
     (case db_run (hs_fault H (w_ticks w)) (initialize_network n (hs_clock H (w_ticks w))) (w_db w) of
        (r, d) \<Rightarrow> (r, w\<lparr>w_db := d, w_ticks := Suc (w_ticks w)\<rparr>))"

definition check_parent :: "('net, 'r, 'p, 't, 'v) host \<Rightarrow> config \<Rightarrow> node list \<Rightarrow> nat \<Rightarrow> (world, unit) io" where
  "check_parent H c parents i =
     io_zoom (\<lambda>w. w_parent_ids w ! i) (\<lambda>k w. w\<lparr>w_parent_ids := (w_parent_ids w)[i := k]\<rparr>)
       (validate_chain_identity (parents ! i) (hs_codec H) (cf_parent_chain c) (cf_parent_genesis_hash c))"

definition check_parents :: "('net, 'r, 'p, 't, 'v) host \<Rightarrow> config \<Rightarrow> node list \<Rightarrow> (world, unit) io" where
  "check_parents H c parents = io_fold (\<lambda>_. check_parent H c parents) () [0 ..< length parents]"

definition new_indexer ::
    "('net, 'r, 'p, 't, 'v) host \<Rightarrow> config \<Rightarrow> node \<Rightarrow> 'net verifier \<Rightarrow> ('net, 'r, 'p, 't, 'v) indexer" where
  "new_indexer H c wcash auxpow =
     \<lparr>ix_wcash = wcash, ix_auxpow = auxpow, ix_network = cf_network c,
      ix_max_reorg_depth = cf_max_reorg_depth c, ix_evidence_refresh_depth = cf_evidence_refresh_depth c,
      ix_crates = hs_crates H, ix_codec = hs_codec H, ix_consensus = hs_consensus H,
      ix_fault = hs_fault H, ix_clock = hs_clock H, ix_uuid = hs_uuid H\<rparr>"

definition new_app_state :: "('net, 'r, 'p, 't, 'v) host \<Rightarrow> config \<Rightarrow> (world, app_state) io" where
  "new_app_state H c w =
     (Inr \<lparr>as_network = cf_network c, as_require_parent_quorum = cf_require_parent_quorum c,
           as_started_at = hs_clock H (w_ticks w)\<rparr>, w\<lparr>w_ticks := Suc (w_ticks w)\<rparr>)"

record ('net, 'rules, 'proof, 'target, 'validated) explorer =
  ex_config :: config
  ex_parents :: "node list"
  ex_indexer :: "('net, 'rules, 'proof, 'target, 'validated) indexer option"
  ex_api :: app_state

text \<open>Until the process serves; any failure ends it.\<close>

definition startup ::
    "('net, 'r, 'p, 't, 'v) host \<Rightarrow> (world, ('net, 'r, 'p, 't, 'v) explorer) io" where
  "startup H =
     io_bind (io_lift (from_env (hs_env H))) (\<lambda>c.
     io_bind (io_lift (connect H)) (\<lambda>_.
     io_bind (if cf_migrate c then io_lift (migrate H) else io_return ()) (\<lambda>_.
     io_bind (bind_network H (cf_network c)) (\<lambda>_.
     io_bind (io_lift (new_rpc H (cf_wcash_rpc c) (cf_rpc_timeout_ms c))) (\<lambda>wcash.
     io_bind (io_lift (collect_res (map (\<lambda>r. new_rpc H r (cf_rpc_timeout_ms c)) (cf_zcash_rpcs c)))) (\<lambda>parents.
     io_bind (open_clients (length parents)) (\<lambda>_.
     io_bind (if cf_run_indexer c then check_parents H c parents else io_return ()) (\<lambda>_.
     io_bind (io_lift (new_verifier (hs_consensus H) wcash parents (nc_id (cf_network c))
                (nc_genesis_hash (cf_network c)))) (\<lambda>auxpow.
     io_bind (new_app_state H c) (\<lambda>state.
     io_return \<lparr>ex_config = c, ex_parents = parents,
       ex_indexer = (if cf_run_indexer c then Some (new_indexer H c wcash auxpow) else None),
       ex_api = state\<rparr>))))))))))"

section \<open>An example\<close>

definition start_node :: node where
  "start_node = (sync_node ''1'')\<lparr>nd_cookie := (\<lambda>_. Inr ''user:pass'')\<rparr>"

definition start_host :: "(unit, unit, bytes, bytes, bytes) host" where
  "start_host =
     \<lparr>hs_env = example_environment, hs_connect = None, hs_migration_fails = False,
      hs_client = (\<lambda>_ _. Some start_node), hs_crates = sync_crates,
      hs_codec = sync_codec\<lparr>cd_string := (\<lambda>bs. sync_envelope (le_value (take 8 bs))
        (Some ''05a60a92d99d85997cce3b87616c089f6124d7342af37106edc76126334a2c38''))\<rparr>,
      hs_consensus = sync_consensus\<lparr>cs_testnet_params := (\<lambda>_. Some [])\<rparr>,
      hs_fault = (\<lambda>_. NoFault), hs_clock = int, hs_uuid = (\<lambda>_. ''e1'')\<rparr>"


section \<open>What a start guarantees\<close>

lemma keeps_startup [keeps]:
  "keeps_db (open_clients n)" "keeps_db (check_parent H c ps i)" "keeps_db (new_app_state H c)"
  by (auto simp: keeps_db_def open_clients_def check_parent_def new_app_state_def io_zoom_def split: prod.splits)

lemma keeps_check_parents [keeps]: "keeps_db (check_parents H c ps)"
  unfolding check_parents_def by (intro keeps)

lemma io_fold_steps:
  assumes "io_fold f acc xs s = (Inr r, t)" and "x \<in> set xs"
  shows "\<exists>a u a' v. f a x u = (Inr a', v)"
  using assms
proof (induction xs arbitrary: acc s)
  case (Cons y xs)
  then obtain a' v where "f acc y s = (Inr a', v)" "io_fold f a' xs v = (Inr r, t)" by (auto simp: io_bind_Inr)
  then show ?case using Cons by (cases "x = y") auto
qed simp

text \<open>A parent that proved its identity.\<close>

definition parent_checked :: "codec \<Rightarrow> config \<Rightarrow> node \<Rightarrow> bool" where
  "parent_checked C c p \<longleftrightarrow>
     (\<exists>i info j. fst (blockchain_info p C i) = Inr info \<and> bi_chain info = cf_parent_chain c \<and>
        fst (block_hash p C 0 j) = Inr (cf_parent_genesis_hash c))"

lemma check_parents_ok:
  assumes "check_parents H c ps w = (Inr u, w')" and "p \<in> set ps"
  shows "parent_checked (hs_codec H) c p"
proof -
  from assms(2) obtain k where k: "k < length ps" "ps ! k = p" by (auto simp: in_set_conv_nth)
  then have "k \<in> set [0 ..< length ps]" by simp
  from io_fold_steps[OF assms(1)[unfolded check_parents_def] this] obtain v v' where
    "check_parent H c ps k v = (Inr (), v')" by auto
  then obtain i j where
    "validate_chain_identity p (hs_codec H) (cf_parent_chain c) (cf_parent_genesis_hash c) i = (Inr (), j)"
    using k(2) by (auto simp: check_parent_def io_zoom_def split: prod.splits)
  then obtain info v j' where "blockchain_info p (hs_codec H) i = (Inr info, v)"
    "block_hash p (hs_codec H) 0 v = (Inr (cf_parent_genesis_hash c), j')" "bi_chain info = cf_parent_chain c"
    by (auto simp: validate_chain_identity_def io_bind_Inr)
  then show ?thesis unfolding parent_checked_def by (metis fst_conv)
qed

lemma startup_parts:
  assumes "startup H w = (Inr x, w')"
  obtains c wcash ps auxpow u v v' where "from_env (hs_env H) = Inr c" "bind_network H (cf_network c) w = (Inr (), u)"
    "collect_res (map (\<lambda>r. new_rpc H r (cf_rpc_timeout_ms c)) (cf_zcash_rpcs c)) = Inr ps"
    "(if cf_run_indexer c then check_parents H c ps else io_return ()) v = (Inr (), v')"
    "new_verifier (hs_consensus H) wcash ps (nc_id (cf_network c)) (nc_genesis_hash (cf_network c)) = Inr auxpow"
    "w_db w' = w_db u" "ex_config x = c" "ex_parents x = ps" "as_network (ex_api x) = cf_network c"
    "ex_indexer x = (if cf_run_indexer c then Some (new_indexer H c wcash auxpow) else None)"
proof -
  from assms obtain c u wcash ps v v' auxpow y where
    a: "from_env (hs_env H) = Inr c" "bind_network H (cf_network c) w = (Inr (), u)"
    "collect_res (map (\<lambda>r. new_rpc H r (cf_rpc_timeout_ms c)) (cf_zcash_rpcs c)) = Inr ps"
    "open_clients (length ps) u = (Inr (), v)"
    "(if cf_run_indexer c then check_parents H c ps else io_return ()) v = (Inr (), v')"
    "new_verifier (hs_consensus H) wcash ps (nc_id (cf_network c)) (nc_genesis_hash (cf_network c)) = Inr auxpow"
    "new_app_state H c v' = (Inr y, w')"
    "x = \<lparr>ex_config = c, ex_parents = ps,
       ex_indexer = (if cf_run_indexer c then Some (new_indexer H c wcash auxpow) else None), ex_api = y\<rparr>"
    unfolding startup_def by (auto simp: io_bind_Inr split: if_splits)
  have "w_db v = w_db u" using keeps_dbD[OF keeps_startup(1) a(4)] .
  moreover have "w_db v' = w_db v"
    using a(5) keeps_dbD[OF keeps_check_parents] by (auto split: if_splits)
  moreover have "w_db w' = w_db v'" "as_network y = cf_network c"
    using a(7) by (auto simp: new_app_state_def)
  ultimately show thesis using that[OF a(1-3,5,6)] a(8) by simp
qed

lemma new_rpc_config: "new_rpc H r t = Inr N \<Longrightarrow> nd_config N = r"
  by (auto simp: new_rpc_def)

lemma bind_network_ok:
  "bind_network H n w = (Inr (), u) \<Longrightarrow> \<exists>now. initialize_network n now (w_db w) = Inr ((), w_db u)"
  by (auto simp: bind_network_def split: prod.splits elim!: db_run_cases)

lemma from_env_quorum:
  "from_env E = Inr c \<Longrightarrow> cf_run_indexer c \<Longrightarrow> cf_require_parent_quorum c \<Longrightarrow> 2 \<le> length (cf_zcash_rpcs c)"
  by (auto simp: from_env_def Let_def validate_parent_configuration_def)

text \<open>C8. A process that starts is bound.  If the start succeeds, indexer and API serve the one network
  of the configuration; the database holds exactly that network's identity and every chain it
  represented before; the clients are those of the configured endpoints; and there is an indexer
  exactly when the configuration asks for one, only after every parent answered with the configured
  chain name and genesis hash, and with at least two of them where a quorum is required.\<close>

theorem startup_safe:
  assumes "startup H w = (Inr x, w')"
  shows "from_env (hs_env H) = Inr (ex_config x) \<and> as_network (ex_api x) = cf_network (ex_config x) \<and>
     map nd_config (ex_parents x) = cf_zcash_rpcs (ex_config x) \<and>
     (\<exists>stored. t_find (db_networks (w_db w')) (nc_id (as_network (ex_api x))) = Some stored \<and>
        nr_genesis_hash stored = nc_genesis_hash (as_network (ex_api x)) \<and>
        nr_decimals stored = int (nc_decimals (as_network (ex_api x)))) \<and>
     (\<forall>net cs. chain_ok net (w_db w) cs \<longrightarrow> chain_ok net (w_db w') cs) \<and>
     (case ex_indexer x of
        None \<Rightarrow> \<not> cf_run_indexer (ex_config x)
      | Some I \<Rightarrow> cf_run_indexer (ex_config x) \<and> ix_network I = as_network (ex_api x) \<and>
          av_parents (ix_auxpow I) = ex_parents x \<and> av_wcash (ix_auxpow I) = ix_wcash I \<and>
          (\<forall>p \<in> set (ex_parents x). parent_checked (hs_codec H) (ex_config x) p) \<and>
          (cf_require_parent_quorum (ex_config x) \<longrightarrow> 2 \<le> length (ex_parents x)))"
  using assms
proof (rule startup_parts)
  fix c wcash ps auxpow u v v'
  assume a: "from_env (hs_env H) = Inr c" "bind_network H (cf_network c) w = (Inr (), u)"
    "collect_res (map (\<lambda>r. new_rpc H r (cf_rpc_timeout_ms c)) (cf_zcash_rpcs c)) = Inr ps"
    "(if cf_run_indexer c then check_parents H c ps else io_return ()) v = (Inr (), v')"
    "new_verifier (hs_consensus H) wcash ps (nc_id (cf_network c)) (nc_genesis_hash (cf_network c)) = Inr auxpow"
    "w_db w' = w_db u" "ex_config x = c" "ex_parents x = ps" "as_network (ex_api x) = cf_network c"
    "ex_indexer x = (if cf_run_indexer c then Some (new_indexer H c wcash auxpow) else None)"
  have ps: "map (\<lambda>r. new_rpc H r (cf_rpc_timeout_ms c)) (cf_zcash_rpcs c) = map Inr ps"
    using a(3) by (simp add: collect_res_Inr)
  then have len: "length ps = length (cf_zcash_rpcs c)" by (metis length_map)
  have "map nd_config ps = cf_zcash_rpcs c"
  proof (rule nth_equalityI)
    fix i assume i: "i < length (map nd_config ps)"
    then have "new_rpc H (cf_zcash_rpcs c ! i) (cf_rpc_timeout_ms c) = Inr (ps ! i)"
      using arg_cong[OF ps, of "\<lambda>xs. xs ! i"] len by simp
    then show "map nd_config ps ! i = cf_zcash_rpcs c ! i" using i new_rpc_config by simp
  qed (simp add: len)
  moreover from bind_network_ok[OF a(2)] obtain now where
    init: "initialize_network (cf_network c) now (w_db w) = Inr ((), w_db u)" ..
  moreover have "\<exists>stored. t_find (db_networks (w_db u)) (nc_id (cf_network c)) = Some stored \<and>
      nr_genesis_hash stored = nc_genesis_hash (cf_network c) \<and> nr_decimals stored = int (nc_decimals (cf_network c))"
    by (rule initialize_network_parts[OF init]) (auto simp: network_identity_def network_values_def)
  moreover have "chain_ok net (w_db w) cs \<Longrightarrow> chain_ok net (w_db u) cs" for net cs
    using initialize_network_chain[OF init] by blast
  moreover have "av_parents auxpow = ps" "av_wcash auxpow = wcash" using a(5) by (auto simp: new_verifier_def)
  moreover have "cf_run_indexer c \<Longrightarrow> p \<in> set ps \<Longrightarrow> parent_checked (hs_codec H) c p" for p
    using a(4) check_parents_ok by simp
  moreover have "cf_run_indexer c \<Longrightarrow> cf_require_parent_quorum c \<Longrightarrow> 2 \<le> length ps"
    using from_env_quorum[OF a(1)] len by simp
  ultimately show ?thesis using a(1,6-10) by (auto simp: new_indexer_def)
qed

section \<open>The example starts\<close>

lemma start_config:
  "case from_env example_environment of
     Inl _ \<Rightarrow> False
   | Inr c \<Rightarrow> cf_run_indexer c \<and> cf_require_parent_quorum c \<and> nc_id (cf_network c) = ''testnet'' \<and> cf_parent_chain c = ''test'' \<and>
       cf_parent_genesis_hash c = ''05a60a92d99d85997cce3b87616c089f6124d7342af37106edc76126334a2c38'' \<and>
       is_ok (initialize_network (cf_network c) 0 empty_db)"
  by code_simp

lemma start_auth: "\<exists>a. with_auth (start_node\<lparr>nd_config := r\<rparr>) i = Inr a"
proof -
  have "split_once CHR '':'' (str_trim ''user:pass'') = Some (''user'', ''pass'')" by code_simp
  then show ?thesis by (cases "rc_auth r") (simp_all add: with_auth_def start_node_def)
qed

lemma start_exchange:
  assumes "sync_answer ''1'' m p = Some ns" and "length ns \<le> 4"
  shows "exchange (start_node\<lparr>nd_config := r\<rparr>) decode i m p =
     rbind (map_err (\<lambda>error. InvalidNodeResponse (''invalid JSON-RPC response: '' @ error))
       (decode (le_bytes 8 i @ map word_of_nat ns))) (open_envelope i)"
proof -
  obtain a where "with_auth (start_node\<lparr>nd_config := r\<rparr>) i = Inr a" using start_auth by blast
  then show ?thesis
    using assms by (simp add: exchange_def start_node_def sync_node_def read_body_def Let_def
        MAX_RPC_RESPONSE_BYTES_def guard_def)
qed

lemma start_check:
  "validate_chain_identity (start_node\<lparr>nd_config := r\<rparr>) (hs_codec start_host) ''test''
     ''05a60a92d99d85997cce3b87616c089f6124d7342af37106edc76126334a2c38'' i = (Inr (), i + 2)"
  by (simp add: validate_chain_identity_def io_bind_def blockchain_info_def block_hash_def call_def start_exchange
      start_host_def sync_codec_def sync_envelope_def sync_id json_u64_def guard_def)

lemma io_fold_total:
  assumes "\<And>x a s. x \<in> set xs \<Longrightarrow> \<exists>b t. f a x s = (Inr b, t)"
  shows "\<exists>r t. io_fold f acc xs s = (Inr r, t)"
  using assms
proof (induction xs arbitrary: acc s)
  case (Cons x xs)
  obtain b t where "f acc x s = (Inr b, t)" using Cons.prems[of x acc s] by auto
  moreover obtain r t' where "io_fold f b xs t = (Inr r, t')" using Cons by (meson list.set_intros(2))
  ultimately show ?case by (auto simp: io_bind_def)
qed simp

lemma check_parents_total:
  assumes "\<And>i u. i < length ps \<Longrightarrow> \<exists>v. check_parent H c ps i u = (Inr (), v)"
  shows "\<exists>v. check_parents H c ps w = (Inr (), v)"
  using io_fold_total[of "[0 ..< length ps]" "\<lambda>_. check_parent H c ps" "()" w] assms
  by (simp add: check_parents_def)

lemma start_host_starts:
  obtains x w' I where "startup start_host (at_world empty_db 0 0) = (Inr x, w')" "ex_indexer x = Some I"
    "cf_require_parent_quorum (ex_config x)"
proof -
  from start_config obtain c d where c: "from_env example_environment = Inr c" "cf_run_indexer c"
    "cf_require_parent_quorum c" "nc_id (cf_network c) = ''testnet''" "cf_parent_chain c = ''test''"
    "cf_parent_genesis_hash c = ''05a60a92d99d85997cce3b87616c089f6124d7342af37106edc76126334a2c38''"
    "initialize_network (cf_network c) 0 empty_db = Inr ((), d)"
    by (auto simp: is_ok_iff split: sum.splits)
  let ?new = "\<lambda>r. start_node\<lparr>nd_config := r\<rparr>"
  let ?ps = "map ?new (cf_zcash_rpcs c)"
  have rpcs: "new_rpc start_host r t = Inr (?new r)" for r t by (simp add: new_rpc_def start_host_def)
  have "\<exists>v. check_parent start_host c ?ps i u = (Inr (), v)" if "i < length ?ps" for i u
    using that by (simp add: check_parent_def io_zoom_def c start_check)
  then obtain v where parents: "check_parents start_host c ?ps
      \<lparr>w_db = d, w_next_id = 1, w_parent_ids = replicate (length (cf_zcash_rpcs c)) 1, w_ticks = 1\<rparr> = (Inr (), v)"
    using check_parents_total by blast
  have bound: "bind_network start_host (cf_network c) (at_world empty_db 0 0) = (Inr (), at_world d 0 1)"
    using c(7) by (simp add: bind_network_def start_host_def db_run_def in_transaction_def)
  have verifier: "new_verifier (hs_consensus start_host) w ps ''testnet'' g = Inr \<lparr>av_wcash = w, av_parents = ps, av_network = ()\<rparr>" for w ps g
    by (simp add: new_verifier_def consensus_network_def start_host_def sync_consensus_def)
  have "collect_res (map (\<lambda>r. new_rpc start_host r t) rs) = Inr (map ?new rs)" for t rs
    by (simp add: collect_res_Inr rpcs)
  moreover have "connect start_host = Inr ()" "migrate start_host = Inr ()" "hs_env start_host = example_environment"
    by (simp_all add: connect_def migrate_def start_host_def)
  ultimately show thesis
    using that parents c by (simp add: startup_def io_bind_def bound rpcs open_clients_def verifier new_app_state_def)
qed

theorem startup_safe_witness:
  "\<exists>x w I. startup start_host (at_world empty_db 0 0) = (Inr x, w) \<and> ex_indexer x = Some I \<and>
     ix_network I = as_network (ex_api x) \<and> 2 \<le> length (ex_parents x)"
proof (rule start_host_starts)
  fix x w' I
  assume s: "startup start_host (at_world empty_db 0 0) = (Inr x, w')" "ex_indexer x = Some I"
    "cf_require_parent_quorum (ex_config x)"
  from startup_safe[OF s(1)] show ?thesis using s by simp
qed

end
