(* ===== verification/Process.thy ===== *)
theory Process imports Startup begin

text \<open>
  The life of the process after its start (\<open>src/main.rs\<close>): the indexer task is spawned, the
  listener is bound, and the API server and the indexer race until one of them ends.  A step relation
  over both, with signals, panics and the cancellation of the task when \<open>main\<close> returns.
\<close>

section \<open>The two tasks\<close>

text \<open>What awaiting the spawned task yields: what \<open>run\<close> returned, or a \<open>JoinError\<close>.\<close>

datatype join_outcome = Joined "unit result" | Panicked string

datatype indexer_task = Spawned | Running | Finished join_outcome | Cancelled

datatype http_server = Unbound | Serving | Ended "string + unit"

datatype os_signal = SIGINT | SIGTERM | Other_signal

definition shutdown_signal :: "os_signal \<Rightarrow> bool" where
  "shutdown_signal s \<longleftrightarrow> s = SIGINT \<or> s = SIGTERM"

text \<open>The result of \<open>main\<close>: an \<open>anyhow\<close> error is its chain of messages, the outermost first.\<close>

type_synonym main_result = "string list + unit"

record process =
  ps_run :: run_state
  ps_task :: "indexer_task option"
  ps_server :: http_server
  ps_signalled :: bool
  ps_exit :: "main_result option"

definition launch ::
    "('net, 'r, 'p, 't, 'v) explorer \<Rightarrow> nat option \<Rightarrow> world \<Rightarrow> process" where
  "launch x owner w =
     \<lparr>ps_run = \<lparr>rn_world = w, rn_owner = owner, rn_lost = False, rn_ended = None\<rparr>,
      ps_task = map_option (\<lambda>_. Spawned) (ex_indexer x),
      ps_server = Unbound, ps_signalled = False, ps_exit = None\<rparr>"

text \<open>The branches of the \<open>select!\<close>.\<close>

definition after_server :: "string + unit \<Rightarrow> main_result" where
  "after_server r = map_err (\<lambda>e. [''HTTP server failed'', e]) r"

definition after_indexer :: "join_outcome \<Rightarrow> main_result" where
  "after_indexer out = Inl (case out of
       Panicked e \<Rightarrow> [''explorer indexer task panicked'', e]
     | Joined (Inl e) \<Rightarrow> [''explorer indexer stopped'', display_error e]
     | Joined (Inr _) \<Rightarrow> [''explorer indexer stopped unexpectedly''])"

definition bind_failure :: "('net, 'r, 'p, 't, 'v) explorer \<Rightarrow> string \<Rightarrow> main_result" where
  "bind_failure x e = Inl [''could not bind explorer API to '' @ cf_bind (ex_config x), e]"

text \<open>A future that returned has finished its task.\<close>

definition task_of :: "run_state \<Rightarrow> indexer_task" where
  "task_of R = (case rn_ended R of None \<Rightarrow> Running | Some e \<Rightarrow> Finished (Joined (Inl e)))"

text \<open>A task that stops in the middle of a pass, at its \<open>k\<close>-th call.\<close>

definition torn :: "('net, 'r, 'p, 't, 'v) indexer \<Rightarrow> nat \<Rightarrow> db_fault \<Rightarrow> run_state \<Rightarrow> run_state" where
  "torn I k fault R = R\<lparr>rn_world := snd (sync_once (interrupted I k fault) (rn_world R))\<rparr>"

inductive process_step ::
    "('net, 'r, 'p, 't, 'v) explorer \<Rightarrow> nat \<Rightarrow> process \<Rightarrow> process \<Rightarrow> bool" for x session where
  acquired: "ps_task p = Some Spawned \<Longrightarrow> start_run session (rn_owner (ps_run p)) (rn_world (ps_run p)) = Inr R \<Longrightarrow>
    process_step x session p (p\<lparr>ps_run := R, ps_task := Some Running\<rparr>)"
| refused: "ps_task p = Some Spawned \<Longrightarrow> start_run session (rn_owner (ps_run p)) (rn_world (ps_run p)) = Inl e \<Longrightarrow>
    process_step x session p (p\<lparr>ps_task := Some (Finished (Joined (Inl e)))\<rparr>)"
| unreachable: "ps_task p = Some Spawned \<Longrightarrow>
    process_step x session p (p\<lparr>ps_task := Some (Finished (Joined (Inl (Database e))))\<rparr>)"
| worked: "ps_task p = Some Running \<Longrightarrow> ex_indexer x = Some I \<Longrightarrow> run_step I session (ps_run p) R \<Longrightarrow>
    process_step x session p (p\<lparr>ps_run := R, ps_task := Some (task_of R)\<rparr>)"
| panicked: "ps_task p = Some Running \<Longrightarrow> ex_indexer x = Some I \<Longrightarrow>
    process_step x session p (p\<lparr>ps_run := torn I k fault (ps_run p), ps_task := Some (Finished (Panicked e))\<rparr>)"
| bound: "ps_exit p = None \<Longrightarrow> ps_server p = Unbound \<Longrightarrow>
    process_step x session p (p\<lparr>ps_server := Serving\<rparr>)"
| unbound: "ps_exit p = None \<Longrightarrow> ps_server p = Unbound \<Longrightarrow>
    process_step x session p (p\<lparr>ps_exit := Some (bind_failure x e)\<rparr>)"
| signalled: "ps_exit p = None \<Longrightarrow> ps_server p = Serving \<Longrightarrow> shutdown_signal s \<Longrightarrow>
    process_step x session p (p\<lparr>ps_signalled := True\<rparr>)"
| drained: "ps_exit p = None \<Longrightarrow> ps_server p = Serving \<Longrightarrow> ps_signalled p \<Longrightarrow>
    process_step x session p (p\<lparr>ps_server := Ended (Inr ())\<rparr>)"
| broken: "ps_exit p = None \<Longrightarrow> ps_server p = Serving \<Longrightarrow>
    process_step x session p (p\<lparr>ps_server := Ended (Inl e)\<rparr>)"
| server_first: "ps_exit p = None \<Longrightarrow> ps_server p = Ended r \<Longrightarrow>
    process_step x session p (p\<lparr>ps_exit := Some (after_server r)\<rparr>)"
| indexer_first: "ps_exit p = None \<Longrightarrow> ps_server p \<noteq> Unbound \<Longrightarrow> ps_task p = Some (Finished out) \<Longrightarrow>
    process_step x session p (p\<lparr>ps_exit := Some (after_indexer out)\<rparr>)"
| cancelled: "ps_exit p \<noteq> None \<Longrightarrow> ps_task p = Some Running \<Longrightarrow> ex_indexer x = Some I \<Longrightarrow>
    process_step x session p (p\<lparr>ps_run := torn I k fault (ps_run p), ps_task := Some Cancelled\<rparr>)"
| unstarted: "ps_exit p \<noteq> None \<Longrightarrow> ps_task p = Some Spawned \<Longrightarrow>
    process_step x session p (p\<lparr>ps_task := Some Cancelled\<rparr>)"

inductive_cases process_stepE: "process_step x session p p'"

section \<open>The database of a process\<close>

text \<open>Whatever a process does, its database is what writes of the database module made of the first
  one, and its chain evolved from the first one.\<close>

lemma start_run_world: "start_run session owner w = Inr R \<Longrightarrow> rn_world R = w \<and> rn_ended R = None"
  by (auto simp: start_run_def acquire_writer_lock_def Let_def split: prod.splits)

lemma torn_evolves: "evolved I cs (rn_world R) \<Longrightarrow> evolved I cs (rn_world (torn I k f R))"
  unfolding torn_def using evolved_trans[OF _ interrupted_evolves] by (auto simp: evolved_def[of I cs "rn_world R"])

lemma torn_writes: "db_write\<^sup>*\<^sup>* (w_db (rn_world R)) (w_db (rn_world (torn I k f R)))"
  using writes_sync_once[of "interrupted I k f"] by (simp add: torn_def writes_db_def)

lemma process_step_evolves:
  assumes "process_step x session p p'" and "ex_indexer x = Some I" and "evolved I cs (rn_world (ps_run p))"
  shows "evolved I cs (rn_world (ps_run p'))"
  using assms(1,3)
  by cases (use assms(2) start_run_world run_step_evolves torn_evolves in \<open>auto dest: start_run_world\<close>)

lemma process_step_writes:
  assumes "process_step x session p p'"
  shows "db_write\<^sup>*\<^sup>* (w_db (rn_world (ps_run p))) (w_db (rn_world (ps_run p')))"
  using assms
proof cases
  case worked
  then show ?thesis using run_step_writes by auto
qed (use torn_writes in \<open>auto dest: start_run_world\<close>)

lemma process_reaches:
  assumes "(process_step x session)\<^sup>*\<^sup>* (launch x owner w) p"
  shows "db_write\<^sup>*\<^sup>* (w_db w) (w_db (rn_world (ps_run p))) \<and>
     (case ex_indexer x of
        None \<Rightarrow> ps_task p = None \<and> ps_run p = ps_run (launch x owner w)
      | Some I \<Rightarrow> \<forall>cs. indexed (ix_net I) (w_db w) cs \<longrightarrow> evolved I cs (rn_world (ps_run p)))"
  using assms
proof (induction rule: rtranclp_induct)
  case base
  show ?case by (auto simp: launch_def intro: evolvedI split: option.split)
next
  case (step p p')
  then have "db_write\<^sup>*\<^sup>* (w_db w) (w_db (rn_world (ps_run p')))"
    using process_step_writes[OF step.hyps(2)] by auto
  moreover have "ps_task p' = None \<and> ps_run p' = ps_run p" if "ps_task p = None"
    using step.hyps(2) by (rule process_stepE) (use that in auto)
  ultimately show ?case
    using step.IH process_step_evolves[OF step.hyps(2)] by (auto split: option.splits)
qed

section \<open>How a process ends\<close>

text \<open>Every error that ends the indexer task.\<close>

definition indexer_error :: "explorer_error \<Rightarrow> bool" where
  "indexer_error e \<longleftrightarrow> e \<in> {lease_lost, lease_lost_syncing, NotReady ''another explorer indexer already owns the writer lease''} \<or>
     (\<exists>s. e = Database s)"

definition honest_exit :: "('net, 'r, 'p, 't, 'v) explorer \<Rightarrow> process \<Rightarrow> bool" where
  "honest_exit x p \<longleftrightarrow>
     (case ps_exit p of
        None \<Rightarrow> True
      | Some (Inr _) \<Rightarrow> ps_signalled p \<and> ps_server p = Ended (Inr ())
      | Some (Inl causes) \<Rightarrow>
          (\<exists>e. causes = [''could not bind explorer API to '' @ cf_bind (ex_config x), e] \<and> ps_server p = Unbound) \<or>
          (\<exists>e. causes = [''HTTP server failed'', e] \<and> ps_server p = Ended (Inl e)) \<or>
          (\<exists>e. causes = [''explorer indexer task panicked'', e] \<and> ps_task p = Some (Finished (Panicked e))) \<or>
          (\<exists>e. causes = [''explorer indexer stopped'', display_error e] \<and> indexer_error e \<and>
             ps_task p = Some (Finished (Joined (Inl e)))))"

definition task_ok :: "process \<Rightarrow> bool" where
  "task_ok p \<longleftrightarrow>
     (ps_task p = Some Running \<longrightarrow> rn_ended (ps_run p) = None) \<and>
     (\<forall>r. ps_task p = Some (Finished (Joined r)) \<longrightarrow> (\<exists>e. r = Inl e \<and> indexer_error e)) \<and>
     (ps_server p = Ended (Inr ()) \<longrightarrow> ps_signalled p)"

lemma refused_error: "start_run session owner w = Inl e \<Longrightarrow> indexer_error e"
  by (auto simp: start_run_def acquire_writer_lock_def Let_def guard_def indexer_error_def split: prod.splits if_splits)

lemma run_step_error: "run_step I session R R' \<Longrightarrow> rn_ended R' = Some e \<Longrightarrow> indexer_error e"
  using run_step_ended by (fastforce simp: ended_well_def indexer_error_def)

lemma process_step_task: "process_step x session p p' \<Longrightarrow> task_ok p \<Longrightarrow> task_ok p'"
  by (erule process_stepE)
    (auto simp: task_ok_def task_of_def indexer_error_def[of "Database _"] dest: start_run_world refused_error run_step_error
      split: option.splits)

lemma process_step_exit:
  assumes "process_step x session p p'" and "task_ok p" and "honest_exit x p"
  shows "honest_exit x p'"
  using assms
  by (cases rule: process_step.cases)
    (auto simp: honest_exit_def task_ok_def task_of_def after_server_def after_indexer_def bind_failure_def map_err_def
      split: option.splits sum.splits join_outcome.splits)

lemma launch_ok: "task_ok (launch x owner w)" "honest_exit x (launch x owner w)"
  by (simp_all add: launch_def task_ok_def honest_exit_def)

lemma exit_reached:
  assumes "(process_step x session)\<^sup>*\<^sup>* (launch x owner w) p"
  shows "task_ok p \<and> honest_exit x p"
  using assms
  by (induction rule: rtranclp_induct) (auto simp: launch_ok intro: process_step_task process_step_exit)

text \<open>C9. The result of \<open>main\<close> says why the process ended.  It is a success only after a signal, when
  the server has closed every connection; otherwise its chain of messages names the address that could
  not be bound, the failure of the server, the panic of the indexer, or the error with which the indexer
  stopped, which is the loss or refusal of the writer lease or a database error.  That the indexer stops
  without an error, the branch \<open>main\<close> also handles, does not happen.\<close>

theorem process_exits_honestly:
  assumes "(process_step x session)\<^sup>*\<^sup>* (launch x owner w) p"
  shows "case ps_exit p of
      None \<Rightarrow> True
    | Some (Inr _) \<Rightarrow> ps_signalled p \<and> ps_server p = Ended (Inr ())
    | Some (Inl causes) \<Rightarrow>
        (\<exists>e. causes = [''could not bind explorer API to '' @ cf_bind (ex_config x), e] \<and> ps_server p = Unbound) \<or>
        (\<exists>e. causes = [''HTTP server failed'', e] \<and> ps_server p = Ended (Inl e)) \<or>
        (\<exists>e. causes = [''explorer indexer task panicked'', e] \<and> ps_task p = Some (Finished (Panicked e))) \<or>
        (\<exists>e. causes = [''explorer indexer stopped'', display_error e] \<and> indexer_error e \<and>
           ps_task p = Some (Finished (Joined (Inl e))))"
  using exit_reached[OF assms] unfolding honest_exit_def by (rule conjunct2)

section \<open>A lost lease ends the process\<close>

text \<open>The actions that may not be put off for ever: the monitor's check, the return of \<open>run\<close>, the
  binding of the listener, and the \<open>select!\<close> of \<open>main\<close>.\<close>

definition check_lease :: "nat \<Rightarrow> process \<Rightarrow> process \<Rightarrow> bool" where
  "check_lease session p p' \<longleftrightarrow>
     ps_task p = Some Running \<and> (\<exists>R. monitor_check session (ps_run p) R \<and> p' = p\<lparr>ps_run := R, ps_task := Some (task_of R)\<rparr>)"

definition return_error :: "('net, 'r, 'p, 't, 'v) explorer \<Rightarrow> nat \<Rightarrow> process \<Rightarrow> process \<Rightarrow> bool" where
  "return_error x session p p' \<longleftrightarrow>
     process_step x session p p' \<and> ps_task p = Some Running \<and> (\<exists>out. ps_task p' = Some (Finished out)) \<and> ps_exit p' = ps_exit p"

definition bind_listener :: "('net, 'r, 'p, 't, 'v) explorer \<Rightarrow> nat \<Rightarrow> process \<Rightarrow> process \<Rightarrow> bool" where
  "bind_listener x session p p' \<longleftrightarrow>
     process_step x session p p' \<and> ps_server p = Unbound \<and> (ps_server p' \<noteq> Unbound \<or> ps_exit p' \<noteq> None)"

definition end_main :: "('net, 'r, 'p, 't, 'v) explorer \<Rightarrow> nat \<Rightarrow> process \<Rightarrow> process \<Rightarrow> bool" where
  "end_main x session p p' \<longleftrightarrow>
     process_step x session p p' \<and> ps_server p \<noteq> Unbound \<and> ps_exit p = None \<and> ps_exit p' \<noteq> None"

definition has_ended :: "process \<Rightarrow> bool" where
  "has_ended p \<longleftrightarrow> ps_exit p \<noteq> None"

definition lease_gone :: "nat \<Rightarrow> process \<Rightarrow> bool" where
  "lease_gone session p \<longleftrightarrow>
     ps_exit p = None \<and> ps_task p = Some Running \<and> rn_ended (ps_run p) = None \<and> rn_owner (ps_run p) \<noteq> Some session"

definition told :: "process \<Rightarrow> bool" where
  "told p \<longleftrightarrow> ps_exit p = None \<and> ps_task p = Some Running \<and> rn_ended (ps_run p) = None \<and> rn_lost (ps_run p)"

definition finished :: "process \<Rightarrow> bool" where
  "finished p \<longleftrightarrow> ps_exit p = None \<and> (\<exists>out. ps_task p = Some (Finished out))"

lemmas phases = has_ended_def lease_gone_def told_def finished_def task_of_def

interpretation lease_check: progress "process_step x session" "check_lease session"
    "\<lambda>p. ex_indexer x \<noteq> None \<and> lease_gone session p \<and> \<not> rn_lost (ps_run p)" "\<lambda>p. told p \<or> finished p \<or> has_ended p"
  for x :: "('net, 'r, 'p, 't, 'v) explorer" and session
proof unfold_locales
  fix s t
  assume w: "ex_indexer x \<noteq> None \<and> lease_gone session s \<and> \<not> rn_lost (ps_run s)"
  show "process_step x session s t \<Longrightarrow>
      (ex_indexer x \<noteq> None \<and> lease_gone session t \<and> \<not> rn_lost (ps_run t)) \<or> told t \<or> finished t \<or> has_ended t"
    by (erule process_stepE) (use w in \<open>auto simp: phases elim: run_stepE\<close>)
  show "check_lease session s t \<Longrightarrow> told t \<or> finished t \<or> has_ended t"
    using w by (auto simp: check_lease_def monitor_check_def phases)
  show "\<exists>t. check_lease session s t"
    using w by (auto simp: check_lease_def monitor_check_def phases writer_lock_is_held_def)
qed

interpretation return_told: progress "process_step x session" "return_error x session"
    "\<lambda>p. ex_indexer x \<noteq> None \<and> told p" "\<lambda>p. finished p \<or> has_ended p"
  for x :: "('net, 'r, 'p, 't, 'v) explorer" and session
proof unfold_locales
  fix s t
  assume w: "ex_indexer x \<noteq> None \<and> told s"
  then obtain I where I: "ex_indexer x = Some I" by blast
  show "process_step x session s t \<Longrightarrow> (ex_indexer x \<noteq> None \<and> told t) \<or> finished t \<or> has_ended t"
    by (erule process_stepE) (use w in \<open>auto simp: phases elim: run_stepE\<close>)
  show "return_error x session s t \<Longrightarrow> finished t \<or> has_ended t"
    using w by (auto simp: return_error_def phases)
  have "run_step I session (ps_run s) ((ps_run s)\<lparr>rn_ended := Some lease_lost\<rparr>)"
    using w by (intro run_step.stopped) (simp_all add: phases)
  from process_step.worked[OF _ I this] show "\<exists>t. return_error x session s t"
    using w by (fastforce simp: return_error_def phases)
qed

interpretation bind_first: progress "process_step x session" "bind_listener x session"
    "\<lambda>p. finished p \<and> ps_server p = Unbound" "\<lambda>p. finished p \<and> ps_server p \<noteq> Unbound \<or> has_ended p"
  for x :: "('net, 'r, 'p, 't, 'v) explorer" and session
proof unfold_locales
  fix s t
  assume w: "finished s \<and> ps_server s = Unbound"
  show step: "process_step x session s t \<Longrightarrow>
      finished t \<and> ps_server t = Unbound \<or> finished t \<and> ps_server t \<noteq> Unbound \<or> has_ended t"
    by (erule process_stepE) (use w in \<open>auto simp: phases\<close>)
  then show "bind_listener x session s t \<Longrightarrow> finished t \<and> ps_server t \<noteq> Unbound \<or> has_ended t"
    by (auto simp: bind_listener_def phases)
  show "\<exists>t. bind_listener x session s t"
    using process_step.bound[of s x session] w by (fastforce simp: bind_listener_def phases)
qed

interpretation race: progress "process_step x session" "end_main x session"
    "\<lambda>p. finished p \<and> ps_server p \<noteq> Unbound" has_ended
  for x :: "('net, 'r, 'p, 't, 'v) explorer" and session
proof unfold_locales
  fix s t
  assume w: "finished s \<and> ps_server s \<noteq> Unbound"
  show "process_step x session s t \<Longrightarrow> (finished t \<and> ps_server t \<noteq> Unbound) \<or> has_ended t"
    by (erule process_stepE) (use w in \<open>auto simp: phases\<close>)
  show "\<exists>t. end_main x session s t"
    using process_step.indexer_first[of s] w by (fastforce simp: end_main_def phases)
qed (auto simp: end_main_def phases)

lemma finished_ends:
  assumes "behaviour (process_step x session) \<sigma>" and "weakly_fair (bind_listener x session) \<sigma>"
    and "weakly_fair (end_main x session) \<sigma>" and "finished (\<sigma> i)"
  shows "\<exists>j \<ge> i. has_ended (\<sigma> j)"
proof -
  obtain k where k: "k \<ge> i" "finished (\<sigma> k) \<and> ps_server (\<sigma> k) \<noteq> Unbound \<or> has_ended (\<sigma> k)"
    using bind_first.leads_to[OF assms(1,2), of i] assms(4) by blast
  then show ?thesis
    using race.leads_to[OF assms(1,3), of k] by (meson order_trans)
qed

lemma lease_gone_ends:
  assumes "behaviour (process_step x session) \<sigma>" and "weakly_fair (check_lease session) \<sigma>"
    and "weakly_fair (return_error x session) \<sigma>" and "weakly_fair (bind_listener x session) \<sigma>"
    and "weakly_fair (end_main x session) \<sigma>" and "ex_indexer x = Some I" and "lease_gone session (\<sigma> i)"
  shows "\<exists>j \<ge> i. has_ended (\<sigma> j)"
proof -
  obtain k where k: "k \<ge> i" "told (\<sigma> k) \<or> finished (\<sigma> k) \<or> has_ended (\<sigma> k)"
  proof (cases "rn_lost (ps_run (\<sigma> i))")
    case True
    then show thesis using that[of i] assms(7) by (simp add: phases)
  next
    case False
    then show thesis using lease_check.leads_to[OF assms(1,2), of i] assms(6,7) that by auto
  qed
  obtain l where l: "l \<ge> k" "finished (\<sigma> l) \<or> has_ended (\<sigma> l)"
    using return_told.leads_to[OF assms(1,3), of k] assms(6) k(2) by auto
  then show ?thesis
    using finished_ends[OF assms(1,4,5), of l] k(1) by (meson order_trans)
qed

lemma behaviour_reaches: "behaviour step \<sigma> \<Longrightarrow> step\<^sup>*\<^sup>* (\<sigma> 0) (\<sigma> i)"
proof (induction i)
  case (Suc i)
  then show ?case using behaviour_step[OF Suc.prems, of i] by (auto intro: rtranclp.rtrancl_into_rtrancl)
qed simp

text \<open>C7. A lost lease ends the process.  In every life of a process that goes on checking its lease,
  returning, binding and selecting when it can, once the lock no longer belongs to its session the
  process ends: with an error, so that it is restarted, unless it was told to shut down.\<close>

theorem lost_lease_ends_process:
  assumes "behaviour (process_step x session) \<sigma>" and "\<sigma> 0 = launch x owner w"
    and "weakly_fair (check_lease session) \<sigma>" and "weakly_fair (return_error x session) \<sigma>"
    and "weakly_fair (bind_listener x session) \<sigma>" and "weakly_fair (end_main x session) \<sigma>"
    and "ex_indexer x = Some I" and "lease_gone session (\<sigma> i)"
  shows "\<exists>j \<ge> i. case ps_exit (\<sigma> j) of
      None \<Rightarrow> False
    | Some (Inr _) \<Rightarrow> ps_signalled (\<sigma> j)
    | Some (Inl causes) \<Rightarrow> causes \<noteq> []"
proof -
  obtain j where j: "j \<ge> i" "has_ended (\<sigma> j)"
    using lease_gone_ends[OF assms(1,3-8)] by blast
  have "honest_exit x (\<sigma> j)"
    using exit_reached[of x session owner w "\<sigma> j"] behaviour_reaches[OF assms(1), of j] assms(2) by simp
  then show ?thesis
    using j by (intro exI[of _ j]) (auto simp: has_ended_def honest_exit_def split: option.splits sum.splits)
qed

text \<open>A process that loses its lease and ends.\<close>

definition losing_process :: "('net, 'r, 'p, 't, 'v) explorer \<Rightarrow> nat \<Rightarrow> world \<Rightarrow> nat \<Rightarrow> process" where
  "losing_process x session w i =
     (let R = \<lparr>rn_world = w, rn_owner = Some session, rn_lost = False, rn_ended = None\<rparr>;
          S = losing R (i - 1) in
      if i = 0 then launch x None w
      else \<lparr>ps_run = S, ps_task = Some (task_of S), ps_server = (if i < 5 then Unbound else Serving), ps_signalled = False,
        ps_exit = (if i < 6 then None else Some (after_indexer (Joined (Inl lease_lost))))\<rparr>)"

lemma losing_process_steps:
  assumes "ex_indexer x = Some I"
  shows "behaviour (process_step x session) (losing_process x session w)"
  unfolding behaviour_def
proof
  fix i :: nat
  let ?R = "\<lparr>rn_world = w, rn_owner = Some session, rn_lost = False, rn_ended = None\<rparr>"
  let ?S = "losing ?R" and ?P = "losing_process x session w"
  have start: "start_run session None w = Inr ?R"
    by (simp add: start_run_def acquire_writer_lock_def try_advisory_lock_def)
  have run: "run_step I session (?S 0) (?S 1)" "run_step I session (?S 1) (?S 2)" "run_step I session (?S 2) (?S 3)"
    using run_step.taken[of "?S 0" None session I] run_step.checked[of "?S 1" session None I] run_step.stopped[of "?S 2" I session]
    by (simp_all add: losing_def writer_lock_is_held_def)
  note v = losing_process_def launch_def losing_def task_of_def Let_def
  consider "i = 0" | "i = 1" | "i = 2" | "i = 3" | "i = 4" | "i = 5" | "i \<ge> 6" by linarith
  then show "process_step x session (?P i) (?P (Suc i)) \<or> ?P (Suc i) = ?P i"
  proof cases
    case 1
    then show ?thesis using process_step.acquired[of "?P 0" session ?R x] start assms by (simp add: v)
  next
    case 2
    then show ?thesis using process_step.worked[of "?P 1" x I session "?S 1"] run(1) assms by (simp add: v)
  next
    case 3
    then show ?thesis using process_step.worked[of "?P 2" x I session "?S 2"] run(2) assms by (simp add: v)
  next
    case 4
    then show ?thesis using process_step.worked[of "?P 3" x I session "?S 3"] run(3) assms by (simp add: v)
  next
    case 5
    then show ?thesis using process_step.bound[of "?P 4" x session] by (simp add: v)
  next
    case 6
    then show ?thesis
      using process_step.indexer_first[of "?P 5" "Joined (Inl lease_lost)" x session] by (simp add: v)
  next
    case 7
    then obtain k where "i = k + 6" using le_Suc_ex by (metis add.commute)
    then show ?thesis by (simp add: v)
  qed
qed

lemma fair_if_disabled: "(\<And>j t. n \<le> j \<Longrightarrow> \<not> action (\<sigma> j) t) \<Longrightarrow> weakly_fair action \<sigma>"
  unfolding weakly_fair_def by (metis nle_le)

lemma losing_process_end:
  assumes "6 \<le> j"
  shows "ps_task (losing_process x session w j) = Some (Finished (Joined (Inl lease_lost)))"
    and "ps_server (losing_process x session w j) = Serving" and "ps_exit (losing_process x session w j) \<noteq> None"
proof -
  obtain k where "j = k + 6" using assms le_Suc_ex by (metis add.commute)
  then show "ps_task (losing_process x session w j) = Some (Finished (Joined (Inl lease_lost)))"
    "ps_server (losing_process x session w j) = Serving" "ps_exit (losing_process x session w j) \<noteq> None"
    by (simp_all add: losing_process_def losing_def task_of_def Let_def)
qed

lemma losing_process_fair:
  "weakly_fair (check_lease session) (losing_process x session w)" "weakly_fair (return_error x session) (losing_process x session w)"
  "weakly_fair (bind_listener x session) (losing_process x session w)" "weakly_fair (end_main x session) (losing_process x session w)"
  by (rule fair_if_disabled[where n = 6],
      simp add: check_lease_def return_error_def bind_listener_def end_main_def losing_process_end)+

theorem process_exits_honestly_witness:
  "\<exists>x p. (process_step x 7)\<^sup>*\<^sup>* (launch x None (at_world empty_db 0 0)) (p :: process) \<and> ex_indexer x = Some (sync_indexer ''12'') \<and>
     ps_exit p = Some (Inl [''explorer indexer stopped'', display_error lease_lost]) \<and> indexer_error lease_lost"
proof -
  obtain x :: "(unit, unit, bytes, bytes, bytes) explorer" where x: "ex_indexer x = Some (sync_indexer ''12'')"
    by (metis explorer.select_convs(3))
  let ?P = "losing_process x 7 (at_world empty_db 0 0)"
  have "?P 0 = launch x None (at_world empty_db 0 0)" by (simp add: losing_process_def Let_def)
  then have r: "(process_step x 7)\<^sup>*\<^sup>* (launch x None (at_world empty_db 0 0)) (?P 6)"
    using behaviour_reaches[OF losing_process_steps[OF x, of 7 "at_world empty_db 0 0"], of 6] by simp
  have e: "ps_exit (?P 6) = Some (Inl [''explorer indexer stopped'', display_error lease_lost])"
    by (simp add: losing_process_def after_indexer_def Let_def)
  from process_exits_honestly[OF r] have "\<exists>e. display_error e = display_error lease_lost \<and> indexer_error e"
    unfolding e by auto
  then show ?thesis using r e x by (auto simp: indexer_error_def)
qed

theorem lost_lease_ends_process_witness:
  "\<exists>x \<sigma> j. behaviour (process_step (x :: (unit, unit, bytes, bytes, bytes) explorer) 7) \<sigma> \<and>
     rn_owner (ps_run (\<sigma> 1)) = Some 7 \<and> ps_exit (\<sigma> j) \<noteq> None \<and> \<not> ps_signalled (\<sigma> j)"
proof -
  obtain x :: "(unit, unit, bytes, bytes, bytes) explorer" where x: "ex_indexer x = Some (sync_indexer ''12'')"
    by (metis explorer.select_convs(3))
  let ?P = "losing_process x 7 (at_world empty_db 0 0)"
  have run: "behaviour (process_step x 7) ?P" by (rule losing_process_steps[OF x])
  have "?P 0 = launch x None (at_world empty_db 0 0)" "lease_gone 7 (?P 2)"
    by (simp_all add: losing_process_def losing_def lease_gone_def task_of_def Let_def)
  from lost_lease_ends_process[OF run this(1) losing_process_fair x this(2)]
  obtain j where "ps_exit (?P j) \<noteq> None" by (auto split: option.splits)
  moreover have "\<not> ps_signalled (?P j)" by (simp add: losing_process_def launch_def Let_def)
  moreover have "rn_owner (ps_run (?P 1)) = Some 7" by (simp add: losing_process_def losing_def Let_def)
  ultimately show ?thesis using run by blast
qed

end
