(* ===== verification/Openapi_Schemas.thy ===== *)
theory Openapi_Schemas imports Models "HOL-Library.AList" begin

text \<open>
  The component schemas of the OpenAPI document (\<open>openapi_schemas\<close> of \<open>src/api.rs\<close>), one
  definition per schema, in the source's groups.  The object of a \<open>json!\<close> literal is the list of
  its members in the order they are written; \<open>serde_json\<close> keeps them sorted, so only the value
  found under a key means anything.
\<close>

definition CARGO_PKG_VERSION :: string where
  "CARGO_PKG_VERSION = ''0.1.0''"

section \<open>Building blocks\<close>

definition parameter_ref :: "string \<Rightarrow> json" where
  "parameter_ref name = JObject [(''$ref'', JString (''#/components/parameters/'' @ name))]"

definition response_ref :: "string \<Rightarrow> json" where
  "response_ref name = JObject [(''$ref'', JString (''#/components/responses/'' @ name))]"

definition schema_ref :: "string \<Rightarrow> json" where
  "schema_ref name = JObject [(''$ref'', JString (''#/components/schemas/'' @ name))]"

definition nullable :: "json \<Rightarrow> json" where
  "nullable schema = JObject [(''oneOf'', JArray [schema, JObject [(''type'', JString ''null'')]])]"

definition nullable_ref :: "string \<Rightarrow> json" where
  "nullable_ref name = nullable (schema_ref name)"

definition envelope_schema :: "json \<Rightarrow> json" where
  "envelope_schema data_schema =
     JObject
       [(''type'', JString ''object''),
        (''additionalProperties'', JBool False),
        (''required'', JArray [JString ''data'', JString ''meta'']),
        (''properties'',
         JObject
           [(''data'', data_schema),
            (''meta'', JObject [(''$ref'', JString ''#/components/schemas/Meta'')])])]"

definition envelope_ref :: "string \<Rightarrow> json" where
  "envelope_ref name = envelope_schema (schema_ref name)"

definition envelope_array_ref :: "string \<Rightarrow> json" where
  "envelope_array_ref name =
     envelope_schema (JObject [(''type'', JString ''array''), (''items'', schema_ref name)])"

section \<open>Schemas\<close>

definition transaction_summary_schema :: json where
  "transaction_summary_schema =
     JObject
       [(''type'', JString ''object''),
        (''required'', JArray (map JString [''txid'', ''instanceDigest'', ''instanceDigestKind'', ''authDigest'',
            ''version'', ''sizeBytes'', ''isCoinbase'', ''kind'', ''fee'', ''publicOutputValue'',
            ''valueBalance'', ''transparentInputCount'', ''transparentOutputCount'',
            ''saplingSpendCount'', ''saplingOutputCount'', ''orchardActionCount'',
            ''ironwoodActionCount'', ''blockHeight'', ''blockHash'', ''blockTime'', ''position''])),
        (''properties'', JObject
            [(''txid'', JObject [(''$ref'', JString ''#/components/schemas/Hash'')]),
             (''instanceDigest'', JObject [(''$ref'', JString ''#/components/schemas/Hash'')]),
             (''instanceDigestKind'', JObject
                 [(''type'', JString ''string''),
                  (''enum'', JArray [JString ''consensus-auth-digest'', JString ''explorer-raw-hash''])]),
             (''authDigest'', nullable_ref ''Hash''),
             (''version'', JObject [(''type'', JString ''integer''), (''format'', JString ''int64'')]),
             (''sizeBytes'', JObject [(''type'', JString ''integer''), (''format'', JString ''int64''), (''minimum'', JNumber (PosInt 0))]),
             (''isCoinbase'', JObject [(''type'', JString ''boolean'')]),
             (''kind'', JObject
                 [(''type'', JString ''string''),
                  (''enum'', JArray [JString ''coinbase'', JString ''transparent'', JString ''shielded'', JString ''mixed''])]),
             (''fee'', nullable_ref ''Amount''),
             (''publicOutputValue'', JObject [(''$ref'', JString ''#/components/schemas/Amount'')]),
             (''valueBalance'', nullable_ref ''Amount''),
             (''transparentInputCount'', JObject [(''type'', JString ''integer''), (''format'', JString ''int64''), (''minimum'', JNumber (PosInt 0))]),
             (''transparentOutputCount'', JObject [(''type'', JString ''integer''), (''format'', JString ''int64''), (''minimum'', JNumber (PosInt 0))]),
             (''saplingSpendCount'', JObject [(''type'', JString ''integer''), (''format'', JString ''int32''), (''minimum'', JNumber (PosInt 0))]),
             (''saplingOutputCount'', JObject [(''type'', JString ''integer''), (''format'', JString ''int32''), (''minimum'', JNumber (PosInt 0))]),
             (''orchardActionCount'', JObject [(''type'', JString ''integer''), (''format'', JString ''int32''), (''minimum'', JNumber (PosInt 0))]),
             (''ironwoodActionCount'', JObject [(''type'', JString ''integer''), (''format'', JString ''int32''), (''minimum'', JNumber (PosInt 0))]),
             (''blockHeight'', JObject [(''type'', JString ''integer''), (''format'', JString ''int64''), (''minimum'', JNumber (PosInt 0))]),
             (''blockHash'', JObject [(''$ref'', JString ''#/components/schemas/Hash'')]),
             (''blockTime'', JObject [(''$ref'', JString ''#/components/schemas/DateTime'')]),
             (''position'', JObject [(''type'', JString ''integer''), (''format'', JString ''int32''), (''minimum'', JNumber (PosInt 0))])])]"

definition Hash_schema :: json where
  "Hash_schema =
     JObject
       [(''type'', JString ''string''),
        (''minLength'', JNumber (PosInt 64)),
        (''maxLength'', JNumber (PosInt 64)),
        (''pattern'', JString ''^[0-9A-Fa-f]{64}$''),
        (''examples'', JArray [JString ''79cdcea38a54f99a59adddf124490a65de499e5677e693caa14dcf24b5f96007''])]"

definition DateTime_schema :: json where
  "DateTime_schema =
     JObject [(''type'', JString ''string''), (''format'', JString ''date-time'')]"

definition AtomicAmount_schema :: json where
  "AtomicAmount_schema =
     JObject
       [(''type'', JString ''string''),
        (''pattern'', JString ''^-?[0-9]+$''),
        (''description'', JString ''Exact signed amount in the chain's smallest atomic unit.'')]"

definition Amount_schema :: json where
  "Amount_schema =
     JObject
       [(''type'', JString ''object''),
        (''additionalProperties'', JBool False),
        (''required'', JArray [JString ''zatoshi'', JString ''decimal'', JString ''symbol'']),
        (''properties'', JObject
            [(''zatoshi'', JObject [(''$ref'', JString ''#/components/schemas/AtomicAmount'')]),
             (''decimal'', JObject [(''type'', JString ''string''), (''pattern'', JString (''^-?[0-9]+'' @ CHR 0x5C # ''.[0-9]{8}$''))]),
             (''symbol'', JObject [(''type'', JString ''string'')])])]"

definition Meta_schema :: json where
  "Meta_schema =
     JObject
       [(''type'', JString ''object''),
        (''additionalProperties'', JBool False),
        (''required'', JArray (map JString [''nextCursor'', ''indexedHeight'', ''nodeHeight'', ''freshnessSeconds'',
            ''network''])),
        (''properties'', JObject
            [(''nextCursor'', nullable (JObject [(''type'', JString ''string'')])),
             (''indexedHeight'', nullable (JObject [(''type'', JString ''integer''), (''format'', JString ''int64''), (''minimum'', JNumber (PosInt 0))])),
             (''nodeHeight'', nullable (JObject [(''type'', JString ''integer''), (''format'', JString ''int64''), (''minimum'', JNumber (PosInt 0))])),
             (''freshnessSeconds'', nullable (JObject [(''type'', JString ''integer''), (''format'', JString ''int64''), (''minimum'', JNumber (PosInt 0))])),
             (''network'', JObject [(''type'', JString ''string'')])])]"

definition LiveResponse_schema :: json where
  "LiveResponse_schema =
     JObject
       [(''type'', JString ''object''),
        (''additionalProperties'', JBool False),
        (''required'', JArray [JString ''status'', JString ''version'']),
        (''properties'', JObject
            [(''status'', JObject [(''type'', JString ''string''), (''const'', JString ''live'')]),
             (''version'', JObject [(''type'', JString ''string'')])])]"

definition ReadyResponse_schema :: json where
  "ReadyResponse_schema =
     JObject
       [(''type'', JString ''object''),
        (''additionalProperties'', JBool False),
        (''required'', JArray [JString ''status'', JString ''network'', JString ''indexedHeight'', JString ''nodeHeight'', JString ''updatedAt'']),
        (''properties'', JObject
            [(''status'', JObject [(''type'', JString ''string''), (''const'', JString ''ready'')]),
             (''network'', JObject [(''type'', JString ''string'')]),
             (''indexedHeight'', JObject [(''type'', JString ''integer''), (''format'', JString ''int64''), (''minimum'', JNumber (PosInt 0))]),
             (''nodeHeight'', JObject [(''type'', JString ''integer''), (''format'', JString ''int64''), (''minimum'', JNumber (PosInt 0))]),
             (''updatedAt'', JObject [(''$ref'', JString ''#/components/schemas/DateTime'')])])]"

definition ProblemDetails_schema :: json where
  "ProblemDetails_schema =
     JObject
       [(''type'', JString ''object''),
        (''additionalProperties'', JBool False),
        (''required'', JArray [JString ''type'', JString ''title'', JString ''status'', JString ''detail'', JString ''instance'']),
        (''properties'', JObject
            [(''type'', JObject [(''type'', JString ''string''), (''format'', JString ''uri'')]),
             (''title'', JObject [(''type'', JString ''string'')]),
             (''status'', JObject
                 [(''type'', JString ''integer''),
                  (''format'', JString ''int32''),
                  (''minimum'', JNumber (PosInt 400)),
                  (''maximum'', JNumber (PosInt 599))]),
             (''detail'', JObject [(''type'', JString ''string'')]),
             (''instance'', JObject [(''type'', JString ''string''), (''format'', JString ''uri'')])])]"

definition Status_schema :: json where
  "Status_schema =
     JObject
       [(''type'', JString ''object''),
        (''additionalProperties'', JBool False),
        (''required'', JArray (map JString [''service'', ''version'', ''network'', ''networkName'', ''symbol'',
            ''status'', ''indexedHeight'', ''indexedHash'', ''nodeHeight'', ''nodeHash'',
            ''lagBlocks'', ''updatedAt'', ''uptimeSeconds'', ''difficulty'',
            ''observedSpacingSeconds'', ''targetSpacingSeconds'', ''totalIssued'', ''maxSupply'',
            ''initialSubsidy'', ''halvingInterval'', ''nextHalvingHeight'', ''coinbaseMaturity'',
            ''latestBlockTime'', ''privacyNotice''])),
        (''properties'', JObject
            [(''service'', JObject [(''type'', JString ''string''), (''const'', JString ''wcashexplorer'')]),
             (''version'', JObject [(''type'', JString ''string'')]),
             (''network'', JObject [(''type'', JString ''string'')]),
             (''networkName'', JObject [(''type'', JString ''string'')]),
             (''symbol'', JObject [(''type'', JString ''string'')]),
             (''status'', JObject [(''type'', JString ''string'')]),
             (''indexedHeight'', nullable (JObject [(''type'', JString ''integer''), (''format'', JString ''int64''), (''minimum'', JNumber (PosInt 0))])),
             (''indexedHash'', nullable_ref ''Hash''),
             (''nodeHeight'', nullable (JObject [(''type'', JString ''integer''), (''format'', JString ''int64''), (''minimum'', JNumber (PosInt 0))])),
             (''nodeHash'', nullable_ref ''Hash''),
             (''lagBlocks'', nullable (JObject [(''type'', JString ''integer''), (''format'', JString ''int64''), (''minimum'', JNumber (PosInt 0))])),
             (''updatedAt'', JObject [(''$ref'', JString ''#/components/schemas/DateTime'')]),
             (''uptimeSeconds'', JObject [(''type'', JString ''integer''), (''format'', JString ''int64''), (''minimum'', JNumber (PosInt 0))]),
             (''difficulty'', nullable (JObject [(''type'', JString ''string'')])),
             (''observedSpacingSeconds'', nullable (JObject [(''type'', JString ''number''), (''format'', JString ''double''), (''minimum'', JNumber (PosInt 0))])),
             (''targetSpacingSeconds'', JObject [(''type'', JString ''integer''), (''format'', JString ''int32''), (''minimum'', JNumber (PosInt 1))]),
             (''totalIssued'', JObject [(''$ref'', JString ''#/components/schemas/Amount'')]),
             (''maxSupply'', JObject [(''$ref'', JString ''#/components/schemas/Amount'')]),
             (''initialSubsidy'', JObject [(''$ref'', JString ''#/components/schemas/Amount'')]),
             (''halvingInterval'', JObject [(''type'', JString ''integer''), (''format'', JString ''int64''), (''minimum'', JNumber (PosInt 1))]),
             (''nextHalvingHeight'', JObject [(''type'', JString ''integer''), (''format'', JString ''int64''), (''minimum'', JNumber (PosInt 1))]),
             (''coinbaseMaturity'', JObject [(''type'', JString ''integer''), (''format'', JString ''int32''), (''minimum'', JNumber (PosInt 0))]),
             (''latestBlockTime'', nullable_ref ''DateTime''),
             (''privacyNotice'', JObject [(''type'', JString ''string'')])])]"

definition MergeMiningSummary_schema :: json where
  "MergeMiningSummary_schema =
     JObject
       [(''type'', JString ''object''),
        (''additionalProperties'', JBool False),
        (''required'', JArray (map JString [''exactWitnessState'', ''localValidationState'', ''parentBlockHash'',
            ''parentLookupState'', ''parentSourcesAgree'', ''parentHeight'', ''parentConfirmations''])),
        (''properties'', JObject
            [(''exactWitnessState'', JObject [(''type'', JString ''string'')]),
             (''localValidationState'', JObject [(''type'', JString ''string'')]),
             (''parentBlockHash'', nullable_ref ''Hash''),
             (''parentLookupState'', JObject [(''type'', JString ''string'')]),
             (''parentSourcesAgree'', JObject [(''type'', JString ''boolean'')]),
             (''parentHeight'', nullable (JObject [(''type'', JString ''integer''), (''format'', JString ''int64''), (''minimum'', JNumber (PosInt 0))])),
             (''parentConfirmations'', nullable (JObject [(''type'', JString ''integer''), (''format'', JString ''int64''), (''minimum'', JNumber (PosInt 0))]))])]"

definition BlockSummary_schema :: json where
  "BlockSummary_schema =
     JObject
       [(''type'', JString ''object''),
        (''required'', JArray (map JString [''height'', ''hash'', ''witnessHash'', ''time'', ''sizeBytes'',
            ''transactionCount'', ''bits'', ''difficulty'', ''reward'', ''confirmations'',
            ''mergeMining''])),
        (''properties'', JObject
            [(''height'', JObject [(''type'', JString ''integer''), (''format'', JString ''int64''), (''minimum'', JNumber (PosInt 0))]),
             (''hash'', JObject [(''$ref'', JString ''#/components/schemas/Hash'')]),
             (''witnessHash'', JObject [(''$ref'', JString ''#/components/schemas/Hash'')]),
             (''time'', JObject [(''$ref'', JString ''#/components/schemas/DateTime'')]),
             (''sizeBytes'', JObject [(''type'', JString ''integer''), (''format'', JString ''int64''), (''minimum'', JNumber (PosInt 0))]),
             (''transactionCount'', JObject [(''type'', JString ''integer''), (''format'', JString ''int32''), (''minimum'', JNumber (PosInt 0))]),
             (''bits'', JObject [(''type'', JString ''string'')]),
             (''difficulty'', JObject [(''type'', JString ''string'')]),
             (''reward'', JObject [(''$ref'', JString ''#/components/schemas/Amount'')]),
             (''confirmations'', JObject [(''type'', JString ''integer''), (''format'', JString ''int64''), (''minimum'', JNumber (PosInt 0))]),
             (''mergeMining'', JObject [(''$ref'', JString ''#/components/schemas/MergeMiningSummary'')])])]"

definition ValuePool_schema :: json where
  "ValuePool_schema =
     JObject
       [(''type'', JString ''object''),
        (''additionalProperties'', JBool False),
        (''required'', JArray [JString ''id'', JString ''chainValue'', JString ''valueDelta'', JString ''reported'', JString ''monitored'']),
        (''properties'', JObject
            [(''id'', JObject [(''type'', JString ''string'')]),
             (''chainValue'', nullable_ref ''Amount''),
             (''valueDelta'', nullable_ref ''Amount''),
             (''reported'', JObject
                 [(''type'', JString ''boolean''),
                  (''description'', JString ''True when the node supplied an exact chain value, including zero.'')]),
             (''monitored'', nullable (JObject
                   [(''type'', JString ''boolean''),
                    (''description'', JString ''Raw legacy node flag; not a value-presence signal.'')]))])]"

definition NetworkHistoryPoint_schema :: json where
  "NetworkHistoryPoint_schema =
     JObject
       [(''type'', JString ''object''),
        (''additionalProperties'', JBool False),
        (''required'', JArray (map JString [''height'', ''hash'', ''time'', ''difficulty'', ''spacingSeconds'',
            ''sizeBytes'', ''transactionCount'', ''totalIssued''])),
        (''properties'', JObject
            [(''height'', JObject [(''type'', JString ''integer''), (''format'', JString ''int64''), (''minimum'', JNumber (PosInt 0))]),
             (''hash'', JObject [(''$ref'', JString ''#/components/schemas/Hash'')]),
             (''time'', JObject [(''$ref'', JString ''#/components/schemas/DateTime'')]),
             (''difficulty'', JObject [(''type'', JString ''string'')]),
             (''spacingSeconds'', nullable (JObject [(''type'', JString ''integer''), (''format'', JString ''int64'')])),
             (''sizeBytes'', JObject [(''type'', JString ''integer''), (''format'', JString ''int64''), (''minimum'', JNumber (PosInt 0))]),
             (''transactionCount'', JObject [(''type'', JString ''integer''), (''format'', JString ''int32''), (''minimum'', JNumber (PosInt 0))]),
             (''totalIssued'', nullable_ref ''Amount'')])]"

definition NetworkHistory_schema :: json where
  "NetworkHistory_schema =
     JObject
       [(''type'', JString ''object''),
        (''additionalProperties'', JBool False),
        (''required'', JArray [JString ''asOfHeight'', JString ''asOfHash'', JString ''targetSpacingSeconds'', JString ''points'']),
        (''properties'', JObject
            [(''asOfHeight'', nullable (JObject [(''type'', JString ''integer''), (''format'', JString ''int64''), (''minimum'', JNumber (PosInt 0))])),
             (''asOfHash'', nullable_ref ''Hash''),
             (''targetSpacingSeconds'', JObject [(''type'', JString ''integer''), (''format'', JString ''int32''), (''minimum'', JNumber (PosInt 1))]),
             (''points'', JObject
                 [(''type'', JString ''array''),
                  (''items'', JObject [(''$ref'', JString ''#/components/schemas/NetworkHistoryPoint'')])])])]"

definition PoolSnapshot_schema :: json where
  "PoolSnapshot_schema =
     JObject
       [(''type'', JString ''object''),
        (''additionalProperties'', JBool False),
        (''required'', JArray [JString ''id'', JString ''chainValue'', JString ''valueDelta'', JString ''reported'', JString ''monitored'']),
        (''properties'', JObject
            [(''id'', JObject [(''type'', JString ''string''), (''enum'', JArray [JString ''transparent'', JString ''ironwood''])]),
             (''chainValue'', nullable_ref ''Amount''),
             (''valueDelta'', nullable_ref ''Amount''),
             (''reported'', JObject
                 [(''type'', JString ''boolean''),
                  (''description'', JString ''True when the node supplied an exact chain value, including zero.'')]),
             (''monitored'', nullable (JObject
                   [(''type'', JString ''boolean''),
                    (''description'', JString ''Raw legacy node flag; not a value-presence signal.'')]))])]"

definition ValuePoolHistoryPoint_schema :: json where
  "ValuePoolHistoryPoint_schema =
     JObject
       [(''type'', JString ''object''),
        (''additionalProperties'', JBool False),
        (''required'', JArray (map JString [''height'', ''hash'', ''time'', ''totalIssued'', ''transparent'',
            ''ironwood''])),
        (''properties'', JObject
            [(''height'', JObject [(''type'', JString ''integer''), (''format'', JString ''int64''), (''minimum'', JNumber (PosInt 0))]),
             (''hash'', JObject [(''$ref'', JString ''#/components/schemas/Hash'')]),
             (''time'', JObject [(''$ref'', JString ''#/components/schemas/DateTime'')]),
             (''totalIssued'', nullable_ref ''Amount''),
             (''transparent'', JObject [(''$ref'', JString ''#/components/schemas/PoolSnapshot'')]),
             (''ironwood'', JObject [(''$ref'', JString ''#/components/schemas/PoolSnapshot'')])])]"

definition ValuePoolHistory_schema :: json where
  "ValuePoolHistory_schema =
     JObject
       [(''type'', JString ''object''),
        (''additionalProperties'', JBool False),
        (''required'', JArray (map JString [''asOfHeight'', ''asOfHash'', ''unexpectedPoolSamples'',
            ''scopeNotice'', ''points''])),
        (''properties'', JObject
            [(''asOfHeight'', nullable (JObject [(''type'', JString ''integer''), (''format'', JString ''int64''), (''minimum'', JNumber (PosInt 0))])),
             (''asOfHash'', nullable_ref ''Hash''),
             (''unexpectedPoolSamples'', JObject [(''type'', JString ''integer''), (''format'', JString ''int64''), (''minimum'', JNumber (PosInt 0))]),
             (''scopeNotice'', JObject [(''type'', JString ''string'')]),
             (''points'', JObject
                 [(''type'', JString ''array''),
                  (''items'', JObject [(''$ref'', JString ''#/components/schemas/ValuePoolHistoryPoint'')])])])]"

definition MergeMiningStats_schema :: json where
  "MergeMiningStats_schema =
     JObject
       [(''type'', JString ''object''),
        (''additionalProperties'', JBool False),
        (''required'', JArray (map JString [''asOfHeight'', ''asOfHash'', ''eligibleChildBlocks'', ''auxpowBlocks'',
            ''locallyVerifiedBlocks'', ''parentTargetVerifiedBlocks'', ''canonicalParentBlocks'',
            ''orphanedParentBlocks'', ''notFoundParentBlocks'', ''unavailableParentBlocks'',
            ''disagreementParentBlocks'', ''parentQuorumAgreementBlocks'', ''bestChainWitnessBlocks'',
            ''fullyVerifiedBlocks'', ''locallyVerifiedWithoutParentObservationBlocks'',
            ''anomalyBlocks'', ''observationSourceCount'', ''lastVerifiedAt'', ''scopeNotice''])),
        (''properties'', JObject
            [(''asOfHeight'', nullable (JObject [(''type'', JString ''integer''), (''format'', JString ''int64''), (''minimum'', JNumber (PosInt 0))])),
             (''asOfHash'', nullable_ref ''Hash''),
             (''eligibleChildBlocks'', JObject [(''type'', JString ''integer''), (''format'', JString ''int64''), (''minimum'', JNumber (PosInt 0))]),
             (''auxpowBlocks'', JObject [(''type'', JString ''integer''), (''format'', JString ''int64''), (''minimum'', JNumber (PosInt 0))]),
             (''locallyVerifiedBlocks'', JObject [(''type'', JString ''integer''), (''format'', JString ''int64''), (''minimum'', JNumber (PosInt 0))]),
             (''parentTargetVerifiedBlocks'', JObject [(''type'', JString ''integer''), (''format'', JString ''int64''), (''minimum'', JNumber (PosInt 0))]),
             (''canonicalParentBlocks'', JObject
                 [(''type'', JString ''integer''),
                  (''format'', JString ''int64''),
                  (''minimum'', JNumber (PosInt 0)),
                  (''description'', JString ''Blocks whose embedded parent was observed as canonical by at least one configured Zcash source.'')]),
             (''orphanedParentBlocks'', JObject [(''type'', JString ''integer''), (''format'', JString ''int64''), (''minimum'', JNumber (PosInt 0))]),
             (''notFoundParentBlocks'', JObject [(''type'', JString ''integer''), (''format'', JString ''int64''), (''minimum'', JNumber (PosInt 0))]),
             (''unavailableParentBlocks'', JObject [(''type'', JString ''integer''), (''format'', JString ''int64''), (''minimum'', JNumber (PosInt 0))]),
             (''disagreementParentBlocks'', JObject
                 [(''type'', JString ''integer''),
                  (''format'', JString ''int64''),
                  (''minimum'', JNumber (PosInt 0)),
                  (''description'', JString ''Blocks whose configured Zcash observations contain conflicting evidence or do not establish source agreement. Blocks with no configured observer are excluded.'')]),
             (''parentQuorumAgreementBlocks'', JObject [(''type'', JString ''integer''), (''format'', JString ''int64''), (''minimum'', JNumber (PosInt 0))]),
             (''bestChainWitnessBlocks'', JObject [(''type'', JString ''integer''), (''format'', JString ''int64''), (''minimum'', JNumber (PosInt 0))]),
             (''fullyVerifiedBlocks'', JObject
                 [(''type'', JString ''integer''),
                  (''format'', JString ''int64''),
                  (''minimum'', JNumber (PosInt 0)),
                  (''description'', JString ''Blocks with valid Wcash evidence plus agreeing canonical Zcash-parent observations.'')]),
             (''locallyVerifiedWithoutParentObservationBlocks'', JObject
                 [(''type'', JString ''integer''),
                  (''format'', JString ''int64''),
                  (''minimum'', JNumber (PosInt 0)),
                  (''description'', JString ''Blocks with valid Wcash AuxPoW and exact best-chain witness evidence when no Zcash observer is configured.'')]),
             (''anomalyBlocks'', JObject
                 [(''type'', JString ''integer''),
                  (''format'', JString ''int64''),
                  (''minimum'', JNumber (PosInt 0)),
                  (''description'', JString ''Eligible blocks missing valid Wcash evidence or complete configured-parent evidence. Locally valid blocks with parent observation not configured are excluded.'')]),
             (''observationSourceCount'', JObject [(''type'', JString ''integer''), (''format'', JString ''int64''), (''minimum'', JNumber (PosInt 0))]),
             (''lastVerifiedAt'', nullable_ref ''DateTime''),
             (''scopeNotice'', JObject [(''type'', JString ''string'')])])]"

definition RichListEntry_schema :: json where
  "RichListEntry_schema =
     JObject
       [(''type'', JString ''object''),
        (''additionalProperties'', JBool False),
        (''required'', JArray (map JString [''rank'', ''address'', ''balance'', ''totalReceived'', ''totalSent'',
            ''transparentPoolSharePercent'', ''utxoCount'', ''transactionCount'', ''firstSeenHeight'',
            ''lastSeenHeight'', ''lastSeenAt''])),
        (''properties'', JObject
            [(''rank'', JObject [(''type'', JString ''integer''), (''format'', JString ''int64''), (''minimum'', JNumber (PosInt 1))]),
             (''address'', JObject [(''type'', JString ''string'')]),
             (''balance'', JObject [(''$ref'', JString ''#/components/schemas/Amount'')]),
             (''totalReceived'', JObject [(''$ref'', JString ''#/components/schemas/Amount'')]),
             (''totalSent'', JObject [(''$ref'', JString ''#/components/schemas/Amount'')]),
             (''transparentPoolSharePercent'', nullable (JObject [(''type'', JString ''string''), (''pattern'', JString (''^[0-9]+'' @ CHR 0x5C # ''.[0-9]{8}$''))])),
             (''utxoCount'', JObject [(''type'', JString ''integer''), (''format'', JString ''int64''), (''minimum'', JNumber (PosInt 0))]),
             (''transactionCount'', JObject [(''type'', JString ''integer''), (''format'', JString ''int64''), (''minimum'', JNumber (PosInt 0))]),
             (''firstSeenHeight'', nullable (JObject [(''type'', JString ''integer''), (''format'', JString ''int64''), (''minimum'', JNumber (PosInt 0))])),
             (''lastSeenHeight'', nullable (JObject [(''type'', JString ''integer''), (''format'', JString ''int64''), (''minimum'', JNumber (PosInt 0))])),
             (''lastSeenAt'', nullable_ref ''DateTime'')])]"

definition RichList_schema :: json where
  "RichList_schema =
     JObject
       [(''type'', JString ''object''),
        (''additionalProperties'', JBool False),
        (''required'', JArray (map JString [''asOfHeight'', ''asOfHash'', ''transparentPool'',
            ''transparentPoolReported'', ''transparentPoolMonitored'', ''fundedAddressCount'',
            ''addressedBalance'', ''addresslessOrUndecodedBalance'', ''top1Balance'', ''top10Balance'',
            ''top100Balance'', ''addresses'', ''scopeNotice''])),
        (''properties'', JObject
            [(''asOfHeight'', nullable (JObject [(''type'', JString ''integer''), (''format'', JString ''int64''), (''minimum'', JNumber (PosInt 0))])),
             (''asOfHash'', nullable_ref ''Hash''),
             (''transparentPool'', nullable_ref ''Amount''),
             (''transparentPoolReported'', JObject [(''type'', JString ''boolean'')]),
             (''transparentPoolMonitored'', nullable (JObject
                   [(''type'', JString ''boolean''),
                    (''description'', JString ''Raw legacy node flag; not a value-presence signal.'')])),
             (''fundedAddressCount'', JObject [(''type'', JString ''integer''), (''format'', JString ''int64''), (''minimum'', JNumber (PosInt 0))]),
             (''addressedBalance'', JObject [(''$ref'', JString ''#/components/schemas/Amount'')]),
             (''addresslessOrUndecodedBalance'', nullable_ref ''Amount''),
             (''top1Balance'', JObject [(''$ref'', JString ''#/components/schemas/Amount'')]),
             (''top10Balance'', JObject [(''$ref'', JString ''#/components/schemas/Amount'')]),
             (''top100Balance'', JObject [(''$ref'', JString ''#/components/schemas/Amount'')]),
             (''addresses'', JObject
                 [(''type'', JString ''array''),
                  (''items'', JObject [(''$ref'', JString ''#/components/schemas/RichListEntry'')])]),
             (''scopeNotice'', JObject [(''type'', JString ''string'')])])]"

definition AddressStatsPoint_schema :: json where
  "AddressStatsPoint_schema =
     JObject
       [(''type'', JString ''object''),
        (''additionalProperties'', JBool False),
        (''required'', JArray (map JString [''height'', ''time'', ''activeAddresses'', ''newAddresses'',
            ''totalSeenAddresses''])),
        (''properties'', JObject
            [(''height'', JObject [(''type'', JString ''integer''), (''format'', JString ''int64''), (''minimum'', JNumber (PosInt 0))]),
             (''time'', JObject [(''$ref'', JString ''#/components/schemas/DateTime'')]),
             (''activeAddresses'', JObject [(''type'', JString ''integer''), (''format'', JString ''int64''), (''minimum'', JNumber (PosInt 0))]),
             (''newAddresses'', JObject [(''type'', JString ''integer''), (''format'', JString ''int64''), (''minimum'', JNumber (PosInt 0))]),
             (''totalSeenAddresses'', JObject [(''type'', JString ''integer''), (''format'', JString ''int64''), (''minimum'', JNumber (PosInt 0))])])]"

definition AddressStats_schema :: json where
  "AddressStats_schema =
     JObject
       [(''type'', JString ''object''),
        (''additionalProperties'', JBool False),
        (''required'', JArray (map JString [''asOfHeight'', ''asOfHash'', ''fundedAddressCount'',
            ''seenAddressCount'', ''addressedBalance'', ''transparentPool'',
            ''transparentPoolReported'', ''transparentPoolMonitored'',
            ''addresslessOrUndecodedBalance'', ''points'', ''scopeNotice''])),
        (''properties'', JObject
            [(''asOfHeight'', nullable (JObject [(''type'', JString ''integer''), (''format'', JString ''int64''), (''minimum'', JNumber (PosInt 0))])),
             (''asOfHash'', nullable_ref ''Hash''),
             (''fundedAddressCount'', JObject [(''type'', JString ''integer''), (''format'', JString ''int64''), (''minimum'', JNumber (PosInt 0))]),
             (''seenAddressCount'', JObject [(''type'', JString ''integer''), (''format'', JString ''int64''), (''minimum'', JNumber (PosInt 0))]),
             (''addressedBalance'', JObject [(''$ref'', JString ''#/components/schemas/Amount'')]),
             (''transparentPool'', nullable_ref ''Amount''),
             (''transparentPoolReported'', JObject [(''type'', JString ''boolean'')]),
             (''transparentPoolMonitored'', nullable (JObject
                   [(''type'', JString ''boolean''),
                    (''description'', JString ''Raw legacy node flag; not a value-presence signal.'')])),
             (''addresslessOrUndecodedBalance'', nullable_ref ''Amount''),
             (''points'', JObject
                 [(''type'', JString ''array''),
                  (''items'', JObject [(''$ref'', JString ''#/components/schemas/AddressStatsPoint'')])]),
             (''scopeNotice'', JObject [(''type'', JString ''string'')])])]"

definition TransparentInput_schema :: json where
  "TransparentInput_schema =
     JObject
       [(''type'', JString ''object''),
        (''additionalProperties'', JBool False),
        (''required'', JArray (map JString [''inputIndex'', ''previousTxid'', ''previousOutputIndex'',
            ''coinbaseData'', ''sequence''])),
        (''properties'', JObject
            [(''inputIndex'', JObject [(''type'', JString ''integer''), (''format'', JString ''int32''), (''minimum'', JNumber (PosInt 0))]),
             (''previousTxid'', nullable_ref ''Hash''),
             (''previousOutputIndex'', nullable (JObject [(''type'', JString ''integer''), (''format'', JString ''int32''), (''minimum'', JNumber (PosInt 0))])),
             (''coinbaseData'', nullable (JObject [(''type'', JString ''string'')])),
             (''sequence'', nullable (JObject [(''type'', JString ''integer''), (''format'', JString ''int64''), (''minimum'', JNumber (PosInt 0))]))])]"

definition TransparentOutput_schema :: json where
  "TransparentOutput_schema =
     JObject
       [(''type'', JString ''object''),
        (''additionalProperties'', JBool False),
        (''required'', JArray [JString ''index'', JString ''value'', JString ''address'', JString ''scriptType'', JString ''scriptHex'']),
        (''properties'', JObject
            [(''index'', JObject [(''type'', JString ''integer''), (''format'', JString ''int32''), (''minimum'', JNumber (PosInt 0))]),
             (''value'', JObject [(''$ref'', JString ''#/components/schemas/Amount'')]),
             (''address'', nullable (JObject [(''type'', JString ''string'')])),
             (''scriptType'', nullable (JObject [(''type'', JString ''string'')])),
             (''scriptHex'', nullable (JObject [(''type'', JString ''string''), (''pattern'', JString ''^(?:[0-9A-Fa-f]{2})*$'')]))])]"

definition ParentObservation_schema :: json where
  "ParentObservation_schema =
     JObject
       [(''type'', JString ''object''),
        (''additionalProperties'', JBool False),
        (''required'', JArray (map JString [''sourceName'', ''observationState'', ''parentHeight'',
            ''parentConfirmations'', ''parentTime'', ''parentBits'', ''parentDifficultyText'',
            ''embeddedHeaderMatches'', ''checkedAt''])),
        (''properties'', JObject
            [(''sourceName'', JObject [(''type'', JString ''string'')]),
             (''observationState'', JObject [(''type'', JString ''string'')]),
             (''parentHeight'', nullable (JObject [(''type'', JString ''integer''), (''format'', JString ''int64''), (''minimum'', JNumber (PosInt 0))])),
             (''parentConfirmations'', nullable (JObject [(''type'', JString ''integer''), (''format'', JString ''int64'')])),
             (''parentTime'', nullable_ref ''DateTime''),
             (''parentBits'', nullable (JObject [(''type'', JString ''string'')])),
             (''parentDifficultyText'', nullable (JObject [(''type'', JString ''string'')])),
             (''embeddedHeaderMatches'', nullable (JObject [(''type'', JString ''boolean'')])),
             (''checkedAt'', JObject [(''$ref'', JString ''#/components/schemas/DateTime'')])])]"

definition AuxPow_schema :: json where
  "AuxPow_schema =
     JObject
       [(''type'', JString ''object''),
        (''additionalProperties'', JBool False),
        (''required'', JArray (map JString [''proofVersion'', ''proofSize'', ''witnessHash'', ''exactWitnessState'',
            ''witnessConfirmations'', ''localValidationState'', ''verifierVersion'',
            ''parentBlockHash'', ''parentHeaderBits'', ''parentHashMeetsClaimedTarget'',
            ''parentCoinbaseTxid'', ''parentMerkleDepth'', ''parentCoinbaseIndex'',
            ''authDataMerkleDepth'', ''authDataCoinbaseIndex'', ''auxiliaryMerkleDepth'',
            ''auxiliaryIndex'', ''parentLookupState'', ''parentSourcesAgree'', ''verifiedAt'',
            ''parentBlockUrl'', ''parentCoinbaseTxUrl'', ''observations'', ''meaning''])),
        (''properties'', JObject
            [(''proofVersion'', JObject [(''type'', JString ''integer''), (''format'', JString ''int32''), (''minimum'', JNumber (PosInt 0))]),
             (''proofSize'', JObject [(''type'', JString ''integer''), (''format'', JString ''int64''), (''minimum'', JNumber (PosInt 0))]),
             (''witnessHash'', JObject [(''$ref'', JString ''#/components/schemas/Hash'')]),
             (''exactWitnessState'', JObject [(''type'', JString ''string'')]),
             (''witnessConfirmations'', nullable (JObject [(''type'', JString ''integer''), (''format'', JString ''int64''), (''minimum'', JNumber (PosInt 0))])),
             (''localValidationState'', JObject [(''type'', JString ''string'')]),
             (''verifierVersion'', nullable (JObject [(''type'', JString ''string'')])),
             (''parentBlockHash'', JObject [(''$ref'', JString ''#/components/schemas/Hash'')]),
             (''parentHeaderBits'', JObject [(''type'', JString ''string'')]),
             (''parentHashMeetsClaimedTarget'', JObject [(''type'', JString ''boolean'')]),
             (''parentCoinbaseTxid'', JObject [(''$ref'', JString ''#/components/schemas/Hash'')]),
             (''parentMerkleDepth'', JObject [(''type'', JString ''integer''), (''format'', JString ''int32''), (''minimum'', JNumber (PosInt 0))]),
             (''parentCoinbaseIndex'', JObject [(''type'', JString ''integer''), (''format'', JString ''int64''), (''minimum'', JNumber (PosInt 0))]),
             (''authDataMerkleDepth'', JObject [(''type'', JString ''integer''), (''format'', JString ''int32''), (''minimum'', JNumber (PosInt 0))]),
             (''authDataCoinbaseIndex'', JObject [(''type'', JString ''integer''), (''format'', JString ''int64''), (''minimum'', JNumber (PosInt 0))]),
             (''auxiliaryMerkleDepth'', JObject [(''type'', JString ''integer''), (''format'', JString ''int32''), (''minimum'', JNumber (PosInt 0))]),
             (''auxiliaryIndex'', JObject [(''type'', JString ''integer''), (''format'', JString ''int64''), (''minimum'', JNumber (PosInt 0))]),
             (''parentLookupState'', JObject [(''type'', JString ''string'')]),
             (''parentSourcesAgree'', JObject [(''type'', JString ''boolean'')]),
             (''verifiedAt'', JObject [(''$ref'', JString ''#/components/schemas/DateTime'')]),
             (''parentBlockUrl'', nullable (JObject [(''type'', JString ''string''), (''format'', JString ''uri'')])),
             (''parentCoinbaseTxUrl'', nullable (JObject [(''type'', JString ''string''), (''format'', JString ''uri'')])),
             (''observations'', JObject
                 [(''type'', JString ''array''),
                  (''items'', JObject [(''$ref'', JString ''#/components/schemas/ParentObservation'')])]),
             (''meaning'', JObject [(''type'', JString ''string'')])])]"

definition BlockDetail_schema :: json where
  "BlockDetail_schema =
     JObject
       [(''unevaluatedProperties'', JBool False),
        (''allOf'', JArray
            [JObject [(''$ref'', JString ''#/components/schemas/BlockSummary'')],
             JObject
               [(''type'', JString ''object''),
                (''required'', JArray (map JString [''previousBlockHash'', ''nextBlockHash'', ''merkleRoot'',
                    ''blockCommitments'', ''nonce'', ''valuePools'', ''transactions'', ''auxpow''])),
                (''properties'', JObject
                    [(''previousBlockHash'', nullable_ref ''Hash''),
                     (''nextBlockHash'', nullable_ref ''Hash''),
                     (''merkleRoot'', JObject [(''$ref'', JString ''#/components/schemas/Hash'')]),
                     (''blockCommitments'', nullable_ref ''Hash''),
                     (''nonce'', JObject [(''type'', JString ''string'')]),
                     (''valuePools'', JObject
                         [(''type'', JString ''array''),
                          (''items'', JObject [(''$ref'', JString ''#/components/schemas/ValuePool'')])]),
                     (''transactions'', JObject
                         [(''type'', JString ''array''),
                          (''items'', JObject [(''$ref'', JString ''#/components/schemas/TransactionSummary'')])]),
                     (''auxpow'', nullable_ref ''AuxPow'')])]])]"

definition RawBlock_schema :: json where
  "RawBlock_schema =
     JObject
       [(''type'', JString ''object''),
        (''additionalProperties'', JBool False),
        (''required'', JArray [JString ''blockHash'', JString ''witnessHash'', JString ''encoding'', JString ''data'']),
        (''properties'', JObject
            [(''blockHash'', JObject [(''$ref'', JString ''#/components/schemas/Hash'')]),
             (''witnessHash'', JObject [(''$ref'', JString ''#/components/schemas/Hash'')]),
             (''encoding'', JObject [(''type'', JString ''string''), (''const'', JString ''hex'')]),
             (''data'', JObject [(''type'', JString ''string''), (''pattern'', JString ''^(?:[0-9a-f]{2})*$'')])])]"

definition TransactionDetail_schema :: json where
  "TransactionDetail_schema =
     JObject
       [(''unevaluatedProperties'', JBool False),
        (''allOf'', JArray
            [JObject [(''$ref'', JString ''#/components/schemas/TransactionSummary'')],
             JObject
               [(''type'', JString ''object''),
                (''required'', JArray [JString ''inputs'', JString ''outputs'', JString ''rawRpc'', JString ''privacyNotice'']),
                (''properties'', JObject
                    [(''inputs'', JObject
                         [(''type'', JString ''array''),
                          (''items'', JObject [(''$ref'', JString ''#/components/schemas/TransparentInput'')])]),
                     (''outputs'', JObject
                         [(''type'', JString ''array''),
                          (''items'', JObject [(''$ref'', JString ''#/components/schemas/TransparentOutput'')])]),
                     (''rawRpc'', JObject
                         [(''description'', JString ''Original indexed node RPC object. Its forward-compatible fields are not constrained by this API schema.'')]),
                     (''privacyNotice'', JObject [(''type'', JString ''string'')])])]])]"

definition AddressActivity_schema :: json where
  "AddressActivity_schema =
     JObject
       [(''type'', JString ''object''),
        (''additionalProperties'', JBool False),
        (''required'', JArray (map JString [''txid'', ''instanceDigest'', ''authDigest'', ''blockHeight'',
            ''blockHash'', ''blockTime'', ''position'', ''isCoinbase'', ''direction'', ''received'',
            ''sent'', ''net'', ''balanceAfter''])),
        (''properties'', JObject
            [(''txid'', JObject [(''$ref'', JString ''#/components/schemas/Hash'')]),
             (''instanceDigest'', JObject [(''$ref'', JString ''#/components/schemas/Hash'')]),
             (''authDigest'', nullable_ref ''Hash''),
             (''blockHeight'', JObject [(''type'', JString ''integer''), (''format'', JString ''int64''), (''minimum'', JNumber (PosInt 0))]),
             (''blockHash'', JObject [(''$ref'', JString ''#/components/schemas/Hash'')]),
             (''blockTime'', JObject [(''$ref'', JString ''#/components/schemas/DateTime'')]),
             (''position'', JObject [(''type'', JString ''integer''), (''format'', JString ''int32''), (''minimum'', JNumber (PosInt 0))]),
             (''isCoinbase'', JObject [(''type'', JString ''boolean'')]),
             (''direction'', JObject
                 [(''type'', JString ''string''),
                  (''enum'', JArray [JString ''in'', JString ''out'', JString ''self'', JString ''neutral''])]),
             (''received'', JObject [(''$ref'', JString ''#/components/schemas/Amount'')]),
             (''sent'', JObject [(''$ref'', JString ''#/components/schemas/Amount'')]),
             (''net'', JObject [(''$ref'', JString ''#/components/schemas/Amount'')]),
             (''balanceAfter'', JObject [(''$ref'', JString ''#/components/schemas/Amount'')])])]"

definition Address_schema :: json where
  "Address_schema =
     JObject
       [(''type'', JString ''object''),
        (''additionalProperties'', JBool False),
        (''required'', JArray (map JString [''address'', ''addressType'', ''totalReceived'', ''totalSent'',
            ''unspent'', ''immatureCoinbase'', ''matureCoinbaseMustShield'', ''nonCoinbaseUnspent'',
            ''utxoCount'', ''minedOutputCount'', ''minedTransactionCount'', ''transactionCount'',
            ''firstSeenHeight'', ''lastSeenHeight'', ''firstSeenAt'', ''lastSeenAt'',
            ''coinbaseMaturity'', ''canonicalDoubleSpendAnomalies'', ''activity'', ''scopeNotice''])),
        (''properties'', JObject
            [(''address'', JObject [(''type'', JString ''string'')]),
             (''addressType'', JObject [(''type'', JString ''string''), (''const'', JString ''transparent'')]),
             (''totalReceived'', JObject [(''$ref'', JString ''#/components/schemas/Amount'')]),
             (''totalSent'', JObject [(''$ref'', JString ''#/components/schemas/Amount'')]),
             (''unspent'', JObject [(''$ref'', JString ''#/components/schemas/Amount'')]),
             (''immatureCoinbase'', JObject [(''$ref'', JString ''#/components/schemas/Amount'')]),
             (''matureCoinbaseMustShield'', JObject [(''$ref'', JString ''#/components/schemas/Amount'')]),
             (''nonCoinbaseUnspent'', JObject [(''$ref'', JString ''#/components/schemas/Amount'')]),
             (''utxoCount'', JObject [(''type'', JString ''integer''), (''format'', JString ''int64''), (''minimum'', JNumber (PosInt 0))]),
             (''minedOutputCount'', JObject [(''type'', JString ''integer''), (''format'', JString ''int64''), (''minimum'', JNumber (PosInt 0))]),
             (''minedTransactionCount'', JObject [(''type'', JString ''integer''), (''format'', JString ''int64''), (''minimum'', JNumber (PosInt 0))]),
             (''transactionCount'', JObject [(''type'', JString ''integer''), (''format'', JString ''int64''), (''minimum'', JNumber (PosInt 0))]),
             (''firstSeenHeight'', nullable (JObject [(''type'', JString ''integer''), (''format'', JString ''int64''), (''minimum'', JNumber (PosInt 0))])),
             (''lastSeenHeight'', nullable (JObject [(''type'', JString ''integer''), (''format'', JString ''int64''), (''minimum'', JNumber (PosInt 0))])),
             (''firstSeenAt'', nullable_ref ''DateTime''),
             (''lastSeenAt'', nullable_ref ''DateTime''),
             (''coinbaseMaturity'', JObject [(''type'', JString ''integer''), (''format'', JString ''int32''), (''minimum'', JNumber (PosInt 0))]),
             (''canonicalDoubleSpendAnomalies'', JObject [(''type'', JString ''integer''), (''format'', JString ''int64''), (''minimum'', JNumber (PosInt 0))]),
             (''activity'', JObject
                 [(''type'', JString ''array''),
                  (''items'', JObject [(''$ref'', JString ''#/components/schemas/AddressActivity'')])]),
             (''scopeNotice'', JObject [(''type'', JString ''string'')])])]"

definition Reorganization_schema :: json where
  "Reorganization_schema =
     JObject
       [(''type'', JString ''object''),
        (''additionalProperties'', JBool False),
        (''required'', JArray (map JString [''eventId'', ''oldTipHeight'', ''oldTipHash'', ''commonAncestorHeight'',
            ''commonAncestorHash'', ''detectedAt'', ''completedAt''])),
        (''properties'', JObject
            [(''eventId'', JObject [(''type'', JString ''string''), (''format'', JString ''uuid'')]),
             (''oldTipHeight'', JObject [(''type'', JString ''integer''), (''format'', JString ''int64''), (''minimum'', JNumber (PosInt 0))]),
             (''oldTipHash'', JObject [(''$ref'', JString ''#/components/schemas/Hash'')]),
             (''commonAncestorHeight'', nullable (JObject [(''type'', JString ''integer''), (''format'', JString ''int64''), (''minimum'', JNumber (PosInt 0))])),
             (''commonAncestorHash'', nullable_ref ''Hash''),
             (''detectedAt'', JObject [(''$ref'', JString ''#/components/schemas/DateTime'')]),
             (''completedAt'', nullable_ref ''DateTime'')])]"

definition SearchResult_schema :: json where
  "SearchResult_schema =
     JObject
       [(''type'', JString ''object''),
        (''additionalProperties'', JBool False),
        (''required'', JArray [JString ''kind'', JString ''id'', JString ''route'']),
        (''properties'', JObject
            [(''kind'', JObject
                 [(''type'', JString ''string''),
                  (''enum'', JArray [JString ''block'', JString ''transaction'', JString ''address''])]),
             (''id'', JObject [(''type'', JString ''string'')]),
             (''route'', JObject [(''type'', JString ''string''), (''pattern'', JString ''^/'')])])]"

definition OpenApiDocument_schema :: json where
  "OpenApiDocument_schema =
     JObject
       [(''type'', JString ''object''),
        (''required'', JArray [JString ''openapi'', JString ''info'', JString ''paths'']),
        (''properties'', JObject
            [(''openapi'', JObject [(''type'', JString ''string''), (''const'', JString ''3.1.0'')]),
             (''info'', JObject [(''type'', JString ''object'')]),
             (''paths'', JObject [(''type'', JString ''object'')])]),
        (''additionalProperties'', JBool True)]"

section \<open>The groups\<close>

definition core_schemas :: json where
  "core_schemas =
     JObject
       [(''Hash'', Hash_schema),
        (''DateTime'', DateTime_schema),
        (''AtomicAmount'', AtomicAmount_schema),
        (''Amount'', Amount_schema),
        (''Meta'', Meta_schema),
        (''LiveResponse'', LiveResponse_schema),
        (''ReadyResponse'', ReadyResponse_schema),
        (''ProblemDetails'', ProblemDetails_schema)]"

definition chain_schemas :: json where
  "chain_schemas =
     JObject
       [(''Status'', Status_schema),
        (''MergeMiningSummary'', MergeMiningSummary_schema),
        (''BlockSummary'', BlockSummary_schema),
        (''ValuePool'', ValuePool_schema)]"

definition history_schemas :: json where
  "history_schemas =
     JObject
       [(''NetworkHistoryPoint'', NetworkHistoryPoint_schema),
        (''NetworkHistory'', NetworkHistory_schema),
        (''PoolSnapshot'', PoolSnapshot_schema),
        (''ValuePoolHistoryPoint'', ValuePoolHistoryPoint_schema),
        (''ValuePoolHistory'', ValuePoolHistory_schema),
        (''MergeMiningStats'', MergeMiningStats_schema)]"

definition balance_schemas :: json where
  "balance_schemas =
     JObject
       [(''RichListEntry'', RichListEntry_schema),
        (''RichList'', RichList_schema),
        (''AddressStatsPoint'', AddressStatsPoint_schema),
        (''AddressStats'', AddressStats_schema)]"

definition transaction_schemas :: json where
  "transaction_schemas =
     JObject
       [(''TransactionSummary'', transaction_summary_schema),
        (''TransparentInput'', TransparentInput_schema),
        (''TransparentOutput'', TransparentOutput_schema),
        (''ParentObservation'', ParentObservation_schema),
        (''AuxPow'', AuxPow_schema)]"

definition detail_schemas :: json where
  "detail_schemas =
     JObject
       [(''BlockDetail'', BlockDetail_schema),
        (''RawBlock'', RawBlock_schema),
        (''TransactionDetail'', TransactionDetail_schema),
        (''AddressActivity'', AddressActivity_schema),
        (''Address'', Address_schema),
        (''Reorganization'', Reorganization_schema),
        (''SearchResult'', SearchResult_schema),
        (''StatusEnvelope'', envelope_ref ''Status''),
        (''BlockListEnvelope'', envelope_array_ref ''BlockSummary''),
        (''BlockDetailEnvelope'', envelope_ref ''BlockDetail''),
        (''RawBlockEnvelope'', envelope_ref ''RawBlock''),
        (''AuxPowEnvelope'', envelope_schema (nullable_ref ''AuxPow'')),
        (''TransactionListEnvelope'', envelope_array_ref ''TransactionSummary''),
        (''TransactionDetailEnvelope'', envelope_ref ''TransactionDetail''),
        (''AddressEnvelope'', envelope_ref ''Address''),
        (''NetworkHistoryEnvelope'', envelope_ref ''NetworkHistory''),
        (''ValuePoolHistoryEnvelope'', envelope_ref ''ValuePoolHistory''),
        (''MergeMiningStatsEnvelope'', envelope_ref ''MergeMiningStats''),
        (''RichListEnvelope'', envelope_ref ''RichList''),
        (''AddressStatsEnvelope'', envelope_ref ''AddressStats''),
        (''ReorgListEnvelope'', envelope_array_ref ''Reorganization''),
        (''SearchEnvelope'', envelope_ref ''SearchResult''),
        (''OpenApiDocument'', OpenApiDocument_schema)]"

text \<open>A group that is no object would reach \<open>unreachable!\<close>: \<open>None\<close>.\<close>

fun extend_schema_group :: "(string \<times> json) list \<Rightarrow> json \<Rightarrow> (string \<times> json) list option" where
  "extend_schema_group target (JObject members) =
     Some (fold (\<lambda>(name, schema). AList.update name schema) members target)"
| "extend_schema_group target _ = None"

definition openapi_schemas :: "json option" where
  "openapi_schemas =
     map_option JObject
       (fold (\<lambda>group schemas. Option.bind schemas (\<lambda>target. extend_schema_group target group))
          [core_schemas, chain_schemas, history_schemas,
           balance_schemas, transaction_schemas, detail_schemas]
          (Some []))"

end
