(* ===== verification/Openapi.thy ===== *)
theory Openapi imports Openapi_Schemas begin

text \<open>
  The OpenAPI document (\<open>openapi_document\<close> of \<open>src/api.rs\<close>): its paths, parameters and
  responses.
\<close>

section \<open>Responses and parameters\<close>

definition success_response :: "string \<Rightarrow> json \<Rightarrow> json" where
  "success_response description schema =
     JObject
       [(''description'', JString description),
        (''content'', JObject [(''application/json'', JObject [(''schema'', schema)])])]"

definition problem_schema_response :: "string \<Rightarrow> json" where
  "problem_schema_response description =
     JObject
       [(''description'', JString description),
        (''content'',
         JObject [(''application/problem+json'', JObject [(''schema'', schema_ref ''ProblemDetails'')])])]"

definition pagination_parameters :: "json list" where
  "pagination_parameters = [parameter_ref ''Cursor'', parameter_ref ''Limit'']"

definition analytics_history_parameters :: "json list" where
  "analytics_history_parameters = [parameter_ref ''HistoryBefore'', parameter_ref ''HistoryLimit'']"

definition status_operation :: "string \<Rightarrow> json" where
  "status_operation operation_id =
     JObject
       [(''tags'', JArray [JString ''Network'']),
        (''summary'', JString ''Get indexer and network status''),
        (''operationId'', JString operation_id),
        (''responses'', JObject
            [(''200'', success_response ''Current Wcash network, issuance, and indexer state.'' (schema_ref ''StatusEnvelope'')),
             (''500'', response_ref ''InternalError'')])]"

section \<open>Paths\<close>

definition health_paths :: "(string \<times> json) list" where
  "health_paths =
     [(''/health/live'', JObject
          [(''get'', JObject
               [(''tags'', JArray [JString ''Health'']),
                (''summary'', JString ''Process liveness''),
                (''operationId'', JString ''getLiveness''),
                (''responses'', JObject [(''200'', success_response ''The HTTP process is live.'' (schema_ref ''LiveResponse''))])])]),
      (''/health/ready'', JObject
          [(''get'', JObject
               [(''tags'', JArray [JString ''Health'']),
                (''summary'', JString ''Indexed-chain readiness''),
                (''description'', JString ''Ready only when the index heartbeat is fresh, lag is at most one block, node and index tips agree at equal heights, and the indexed tip exists in the canonical-chain table. With REQUIRE_PARENT_QUORUM enabled, a non-genesis tip also needs fresh, agreeing, canonical observations from at least two parent sources whose raw headers match the embedded AuxPoW header.''),
                (''operationId'', JString ''getReadiness''),
                (''responses'', JObject
                    [(''200'', success_response ''The explorer is ready to serve indexed data.'' (schema_ref ''ReadyResponse'')),
                     (''500'', response_ref ''InternalError''),
                     (''503'', response_ref ''NotReady'')])])])]"

definition status_paths :: "(string \<times> json) list" where
  "status_paths =
     [(''/api/v1/status'', JObject [(''get'', status_operation ''getStatus'')]),
      (''/api/v1/stats'', JObject [(''get'', status_operation ''getStats'')])]"

definition analytics_paths :: "(string \<times> json) list" where
  "analytics_paths =
     [(''/api/v1/network/history'', JObject
          [(''get'', JObject
               [(''tags'', JArray [JString ''Analytics'']),
                (''summary'', JString ''Get canonical network history''),
                (''description'', JString ''Returns oldest-to-newest canonical points. Difficulty is preserved as exact node text; the explorer does not invent a hashrate estimate from it.''),
                (''operationId'', JString ''getNetworkHistory''),
                (''parameters'', JArray analytics_history_parameters),
                (''responses'', JObject
                    [(''200'', success_response ''Canonical block history for charts.'' (schema_ref ''NetworkHistoryEnvelope'')),
                     (''400'', response_ref ''BadRequest''),
                     (''500'', response_ref ''InternalError'')])])]),
      (''/api/v1/value-pools/history'', JObject
          [(''get'', JObject
               [(''tags'', JArray [JString ''Analytics'']),
                (''summary'', JString ''Get Wcash value-pool history''),
                (''description'', JString ''Returns transparent and Ironwood aggregate pool telemetry. A non-null chain value is exact, including zero; the legacy monitored flag is preserved separately.''),
                (''operationId'', JString ''getValuePoolHistory''),
                (''parameters'', JArray analytics_history_parameters),
                (''responses'', JObject
                    [(''200'', success_response ''Canonical public value-pool history.'' (schema_ref ''ValuePoolHistoryEnvelope'')),
                     (''400'', response_ref ''BadRequest''),
                     (''500'', response_ref ''InternalError'')])])]),
      (''/api/v1/merge-mining/stats'', JObject
          [(''get'', JObject
               [(''tags'', JArray [JString ''Merge mining'']),
                (''summary'', JString ''Get network-wide AuxPoW evidence totals''),
                (''description'', JString ''Counts every canonical non-genesis Wcash block and keeps local proof validation distinct from parent-chain observations.''),
                (''operationId'', JString ''getMergeMiningStats''),
                (''responses'', JObject
                    [(''200'', success_response ''Canonical AuxPoW evidence totals.'' (schema_ref ''MergeMiningStatsEnvelope'')),
                     (''500'', response_ref ''InternalError'')])])])]"

definition block_paths :: "(string \<times> json) list" where
  "block_paths =
     [(''/api/v1/blocks'', JObject
          [(''get'', JObject
               [(''tags'', JArray [JString ''Blocks'']),
                (''summary'', JString ''List canonical blocks''),
                (''description'', JString ''Returns canonical blocks newest first. Pass nextCursor from the response meta object to continue.''),
                (''operationId'', JString ''listBlocks''),
                (''parameters'', JArray pagination_parameters),
                (''responses'', JObject
                    [(''200'', success_response ''A page of canonical blocks.'' (schema_ref ''BlockListEnvelope'')),
                     (''400'', response_ref ''BadRequest''),
                     (''500'', response_ref ''InternalError'')])])]),
      (''/api/v1/blocks/{id}'', JObject
          [(''get'', JObject
               [(''tags'', JArray [JString ''Blocks'']),
                (''summary'', JString ''Get a canonical block''),
                (''description'', JString ''The identifier can be a decimal block height or a 64-character hexadecimal block hash.''),
                (''operationId'', JString ''getBlock''),
                (''parameters'', JArray [parameter_ref ''BlockId'']),
                (''responses'', JObject
                    [(''200'', success_response ''The canonical block and its indexed transactions and proof evidence.'' (schema_ref ''BlockDetailEnvelope'')),
                     (''400'', response_ref ''BadRequest''),
                     (''404'', response_ref ''NotFound''),
                     (''500'', response_ref ''InternalError'')])])]),
      (''/api/v1/blocks/{id}/raw'', JObject
          [(''get'', JObject
               [(''tags'', JArray [JString ''Blocks'']),
                (''summary'', JString ''Get an exact raw block witness''),
                (''description'', JString ''Returns the exact indexed block serialization as lowercase hexadecimal. The witness hash identifies the full serialization, including AuxPoW witness data.''),
                (''operationId'', JString ''getRawBlock''),
                (''parameters'', JArray [parameter_ref ''BlockId'']),
                (''responses'', JObject
                    [(''200'', success_response ''The exact raw block witness.'' (schema_ref ''RawBlockEnvelope'')),
                     (''400'', response_ref ''BadRequest''),
                     (''404'', response_ref ''NotFound''),
                     (''500'', response_ref ''InternalError'')])])]),
      (''/api/v1/blocks/{id}/auxpow'', JObject
          [(''get'', JObject
               [(''tags'', JArray [JString ''Blocks'']),
                (''summary'', JString ''Get exact AuxPoW evidence''),
                (''description'', JString ''Separates local Wcash AuxPoW validation from observations of the committed parent block on configured Zcash nodes. Genesis has no AuxPoW and returns null data.''),
                (''operationId'', JString ''getBlockAuxPow''),
                (''parameters'', JArray [parameter_ref ''BlockId'']),
                (''responses'', JObject
                    [(''200'', success_response ''AuxPoW evidence, or null for a block without AuxPoW.'' (schema_ref ''AuxPowEnvelope'')),
                     (''400'', response_ref ''BadRequest''),
                     (''404'', response_ref ''NotFound''),
                     (''500'', response_ref ''InternalError'')])])])]"

definition transaction_paths :: "(string \<times> json) list" where
  "transaction_paths =
     [(''/api/v1/transactions'', JObject
          [(''get'', JObject
               [(''tags'', JArray [JString ''Transactions'']),
                (''summary'', JString ''List canonical transactions''),
                (''description'', JString ''Returns transaction instances newest first. Each instance has an internal digest; ZIP-244 authorization digests are null for transaction versions that do not define them.''),
                (''operationId'', JString ''listTransactions''),
                (''parameters'', JArray pagination_parameters),
                (''responses'', JObject
                    [(''200'', success_response ''A page of canonical transaction instances.'' (schema_ref ''TransactionListEnvelope'')),
                     (''400'', response_ref ''BadRequest''),
                     (''500'', response_ref ''InternalError'')])])]),
      (''/api/v1/transactions/{txid}'', JObject
          [(''get'', JObject
               [(''tags'', JArray [JString ''Transactions'']),
                (''summary'', JString ''Get a canonical transaction instance''),
                (''description'', JString ''When the same txid is present in more than one indexed block context, block selects the exact canonical instance.''),
                (''operationId'', JString ''getTransaction''),
                (''parameters'', JArray [parameter_ref ''TransactionId'', parameter_ref ''BlockContext'']),
                (''responses'', JObject
                    [(''200'', success_response ''The transaction instance and its public data.'' (schema_ref ''TransactionDetailEnvelope'')),
                     (''400'', response_ref ''BadRequest''),
                     (''404'', response_ref ''NotFound''),
                     (''500'', response_ref ''InternalError'')])])])]"

definition address_paths :: "(string \<times> json) list" where
  "address_paths =
     [(''/api/v1/addresses/{address}'', JObject
          [(''get'', JObject
               [(''tags'', JArray [JString ''Addresses'']),
                (''summary'', JString ''Get transparent-address activity''),
                (''description'', JString ''Covers transparent outputs only. Shielded balances and activity are not visible.''),
                (''operationId'', JString ''getTransparentAddress''),
                (''parameters'', JArray [parameter_ref ''Address'']),
                (''responses'', JObject
                    [(''200'', success_response ''Public transparent-address balances and bidirectional activity.'' (schema_ref ''AddressEnvelope'')),
                     (''400'', response_ref ''BadRequest''),
                     (''404'', response_ref ''NotFound''),
                     (''500'', response_ref ''InternalError'')])])]),
      (''/api/v1/addresses/stats'', JObject
          [(''get'', JObject
               [(''tags'', JArray [JString ''Analytics'', JString ''Addresses'']),
                (''summary'', JString ''Get transparent-address history''),
                (''description'', JString ''Counts decoded public transparent addresses only. Shielded holder counts are not observable.''),
                (''operationId'', JString ''getTransparentAddressStats''),
                (''parameters'', JArray analytics_history_parameters),
                (''responses'', JObject
                    [(''200'', success_response ''Canonical transparent-address history.'' (schema_ref ''AddressStatsEnvelope'')),
                     (''400'', response_ref ''BadRequest''),
                     (''500'', response_ref ''InternalError'')])])]),
      (''/api/v1/addresses/rich-list'', JObject
          [(''get'', JObject
               [(''tags'', JArray [JString ''Analytics'', JString ''Addresses'']),
                (''summary'', JString ''List funded transparent addresses''),
                (''description'', JString ''Ranks decoded transparent UTXO balances only. It is not a ranking of shielded holders or total Wcash ownership.''),
                (''operationId'', JString ''listTransparentBalances''),
                (''parameters'', JArray [parameter_ref ''RichListLimit'']),
                (''responses'', JObject
                    [(''200'', success_response ''Canonical transparent balance ranking.'' (schema_ref ''RichListEnvelope'')),
                     (''400'', response_ref ''BadRequest''),
                     (''500'', response_ref ''InternalError'')])])])]"

definition chain_paths :: "(string \<times> json) list" where
  "chain_paths =
     [(''/api/v1/reorgs'', JObject
          [(''get'', JObject
               [(''tags'', JArray [JString ''Chain'']),
                (''summary'', JString ''List detected chain reorganizations''),
                (''operationId'', JString ''listReorganizations''),
                (''responses'', JObject
                    [(''200'', success_response ''Up to 100 recent reorganization events.'' (schema_ref ''ReorgListEnvelope'')),
                     (''500'', response_ref ''InternalError'')])])]),
      (''/api/v1/search'', JObject
          [(''get'', JObject
               [(''tags'', JArray [JString ''Chain'']),
                (''summary'', JString ''Resolve an exact chain identifier''),
                (''description'', JString ''Resolves a decimal block height, block hash, transaction ID, or indexed transparent address to its explorer route.''),
                (''operationId'', JString ''searchChain''),
                (''parameters'', JArray [parameter_ref ''SearchQuery'']),
                (''responses'', JObject
                    [(''200'', success_response ''The resolved explorer route.'' (schema_ref ''SearchEnvelope'')),
                     (''400'', response_ref ''BadRequest''),
                     (''404'', response_ref ''NotFound''),
                     (''500'', response_ref ''InternalError'')])])]),
      (''/api/openapi.json'', JObject
          [(''get'', JObject
               [(''tags'', JArray [JString ''Documentation'']),
                (''summary'', JString ''Get this OpenAPI document''),
                (''operationId'', JString ''getOpenApiDocument''),
                (''responses'', JObject [(''200'', success_response ''The OpenAPI 3.1 document.'' (schema_ref ''OpenApiDocument''))])])])]"

section \<open>The document\<close>

definition parameter_components :: json where
  "parameter_components =
     JObject
       [(''BlockId'', JObject
            [(''name'', JString ''id''),
             (''in'', JString ''path''),
             (''required'', JBool True),
             (''description'', JString ''Decimal block height or 64-character hexadecimal block hash.''),
             (''schema'', JObject [(''type'', JString ''string''), (''minLength'', JNumber (PosInt 1)), (''maxLength'', JNumber (PosInt 64))]),
             (''examples'', JObject
                 [(''height'', JObject [(''value'', JString ''1'')]),
                  (''hash'', JObject [(''value'', JString ''79cdcea38a54f99a59adddf124490a65de499e5677e693caa14dcf24b5f96007'')])])]),
        (''TransactionId'', JObject
            [(''name'', JString ''txid''),
             (''in'', JString ''path''),
             (''required'', JBool True),
             (''description'', JString ''A 32-byte transaction ID encoded as 64 hexadecimal characters.''),
             (''schema'', JObject [(''$ref'', JString ''#/components/schemas/Hash'')])]),
        (''Address'', JObject
            [(''name'', JString ''address''),
             (''in'', JString ''path''),
             (''required'', JBool True),
             (''description'', JString ''A publicly indexed transparent Wcash address.''),
             (''schema'', JObject
                 [(''type'', JString ''string''),
                  (''minLength'', JNumber (PosInt 20)),
                  (''maxLength'', JNumber (PosInt 256)),
                  (''pattern'', JString ''^[A-Za-z0-9_-]+$'')])]),
        (''BlockContext'', JObject
            [(''name'', JString ''block''),
             (''in'', JString ''query''),
             (''required'', JBool False),
             (''description'', JString ''Containing block hash used to select an exact transaction instance.''),
             (''schema'', JObject [(''$ref'', JString ''#/components/schemas/Hash'')])]),
        (''SearchQuery'', JObject
            [(''name'', JString ''q''),
             (''in'', JString ''query''),
             (''required'', JBool True),
             (''description'', JString ''Exact height, hash, transaction ID, or transparent address.''),
             (''schema'', JObject [(''type'', JString ''string''), (''minLength'', JNumber (PosInt 1)), (''maxLength'', JNumber (PosInt 256))])]),
        (''Cursor'', JObject
            [(''name'', JString ''cursor''),
             (''in'', JString ''query''),
             (''required'', JBool False),
             (''description'', JString ''Opaque URL-safe cursor returned as meta.nextCursor by the preceding page.''),
             (''schema'', JObject [(''type'', JString ''string''), (''minLength'', JNumber (PosInt 1))])]),
        (''Limit'', JObject
            [(''name'', JString ''limit''),
             (''in'', JString ''query''),
             (''required'', JBool False),
             (''description'', JString ''Requested page size. The server defaults to 20 and clamps values to 1 through 100.''),
             (''schema'', JObject
                 [(''type'', JString ''integer''),
                  (''format'', JString ''int32''),
                  (''minimum'', JNumber (PosInt 1)),
                  (''maximum'', JNumber (PosInt 100)),
                  (''default'', JNumber (PosInt 20))])]),
        (''HistoryBefore'', JObject
            [(''name'', JString ''before''),
             (''in'', JString ''query''),
             (''required'', JBool False),
             (''description'', JString ''Return canonical history strictly before this block height.''),
             (''schema'', JObject [(''type'', JString ''integer''), (''format'', JString ''int64''), (''minimum'', JNumber (PosInt 0))])]),
        (''HistoryLimit'', JObject
            [(''name'', JString ''limit''),
             (''in'', JString ''query''),
             (''required'', JBool False),
             (''description'', JString ''Requested history points. The server defaults to 240 and clamps values to 2 through 2048.''),
             (''schema'', JObject
                 [(''type'', JString ''integer''),
                  (''format'', JString ''int32''),
                  (''minimum'', JNumber (PosInt 2)),
                  (''maximum'', JNumber (PosInt 2048)),
                  (''default'', JNumber (PosInt 240))])]),
        (''RichListLimit'', JObject
            [(''name'', JString ''limit''),
             (''in'', JString ''query''),
             (''required'', JBool False),
             (''description'', JString ''Number of funded transparent addresses. The server defaults to 50 and clamps values to 1 through 100.''),
             (''schema'', JObject
                 [(''type'', JString ''integer''),
                  (''format'', JString ''int32''),
                  (''minimum'', JNumber (PosInt 1)),
                  (''maximum'', JNumber (PosInt 100)),
                  (''default'', JNumber (PosInt 50))])])]"

definition response_components :: json where
  "response_components =
     JObject
       [(''BadRequest'', problem_schema_response ''The request parameters are invalid.''),
        (''NotFound'', problem_schema_response ''The requested explorer resource does not exist.''),
        (''NotReady'', problem_schema_response ''The explorer has not reached a safe serving state.''),
        (''InternalError'', problem_schema_response ''The explorer could not complete the request.'')]"

definition openapi_info :: json where
  "openapi_info =
     JObject
       [(''title'', JString ''WcashExplorer API''),
        (''version'', JString CARGO_PKG_VERSION),
        (''description'', JString ''Read-only indexed Wcash chain data. Amounts are returned both as exact atomic-unit strings and fixed-point decimal strings. Shielded senders, recipients, per-note amounts, and memos are not public chain data.''),
        (''license'', JObject [(''name'', JString ''MIT OR Apache-2.0''), (''identifier'', JString ''MIT OR Apache-2.0'')])]"

definition openapi_tags :: json where
  "openapi_tags =
     JArray
       [JObject [(''name'', JString ''Health''), (''description'', JString ''Process liveness and indexed-chain readiness'')],
        JObject [(''name'', JString ''Network''), (''description'', JString ''Wcash network and indexer state'')],
        JObject [(''name'', JString ''Blocks''), (''description'', JString ''Canonical Wcash blocks and exact AuxPoW evidence'')],
        JObject [(''name'', JString ''Transactions''), (''description'', JString ''Canonical transaction instances'')],
        JObject [(''name'', JString ''Addresses''), (''description'', JString ''Public transparent-address activity only'')],
        JObject
          [(''name'', JString ''Analytics''),
           (''description'', JString ''Reorg-safe canonical history and public value-pool analytics'')],
        JObject [(''name'', JString ''Merge mining''), (''description'', JString ''Network-wide Wcash and Zcash AuxPoW evidence'')],
        JObject [(''name'', JString ''Chain''), (''description'', JString ''Canonical-chain search and reorganization history'')],
        JObject [(''name'', JString ''Documentation''), (''description'', JString ''Machine-readable API description'')]]"

definition openapi_document :: "json option" where
  "openapi_document =
     map_option (\<lambda>schemas. JObject
        [(''openapi'', JString ''3.1.0''),
         (''jsonSchemaDialect'', JString ''https://json-schema.org/draft/2020-12/schema''),
         (''info'', openapi_info),
         (''servers'', JArray [JObject [(''url'', JString ''/''), (''description'', JString ''Current WcashExplorer origin'')]]),
         (''security'', JArray []),
         (''tags'', openapi_tags),
         (''paths'', JObject (health_paths @ status_paths @ analytics_paths @ block_paths @ transaction_paths
                   @ address_paths @ chain_paths)),
         (''components'', JObject
            [(''parameters'', parameter_components), (''responses'', response_components), (''schemas'', schemas)])])
       openapi_schemas"

end
