(* ===== verification/Json_Views.thy ===== *)
theory Json_Views imports Api_Search Api_Status Api_Address Analytics_Addresses Openapi begin

text \<open>
  The JSON texts of the API: the \<open>Serialize\<close> derivations of the views in \<open>src/models.rs\<close>,
  \<open>src/error.rs\<close>, \<open>src/api.rs\<close> and \<open>src/analytics.rs\<close>, with the member names
  \<open>rename_all = "camelCase"\<close> gives and \<open>flatten\<close> as concatenation.  The texts \<open>chrono\<close>
  and \<open>serde_json\<close> print for a date and a floating-point number are parameters.
\<close>

section \<open>Values\<close>

record renderers =
  rd_datetime :: "datetime \<Rightarrow> string"
  rd_f64 :: "int \<times> int \<Rightarrow> string"

definition j_nat :: "nat \<Rightarrow> json" where
  "j_nat n = JNumber (PosInt n)"

definition j_int :: "int \<Rightarrow> json" where
  "j_int i = JNumber (if i < 0 then NegInt i else PosInt (nat i))"

definition j_opt :: "('a \<Rightarrow> json) \<Rightarrow> 'a option \<Rightarrow> json" where
  "j_opt f x = (case x of None \<Rightarrow> JNull | Some v \<Rightarrow> f v)"

definition j_list :: "('a \<Rightarrow> json) \<Rightarrow> 'a list \<Rightarrow> json" where
  "j_list f xs = JArray (map f xs)"

definition j_time :: "renderers \<Rightarrow> datetime \<Rightarrow> json" where
  "j_time V t = JString (rd_datetime V t)"

section \<open>Envelope, amounts and problems\<close>

definition json_amount :: "amount_view \<Rightarrow> json" where
  "json_amount a = JObject
     [(''zatoshi'', JString (am_zatoshi a)),
      (''decimal'', JString (am_decimal a)),
      (''symbol'', JString (am_symbol a))]"

definition json_meta :: "page_meta \<Rightarrow> json" where
  "json_meta m = JObject
     [(''nextCursor'', j_opt JString (pm_next_cursor m)),
      (''indexedHeight'', j_opt j_nat (pm_indexed_height m)),
      (''nodeHeight'', j_opt j_nat (pm_node_height m)),
      (''freshnessSeconds'', j_opt j_int (pm_freshness_seconds m)),
      (''network'', JString (pm_network m))]"

definition json_envelope :: "('a \<Rightarrow> json) \<Rightarrow> 'a api_envelope \<Rightarrow> json" where
  "json_envelope f e = JObject [(''data'', f (ae_data e)), (''meta'', json_meta (ae_meta e))]"

definition json_problem :: "problem_response \<Rightarrow> json" where
  "json_problem p = JObject
     [(''type'', JString (pr_type p)),
      (''title'', JString (pr_title p)),
      (''status'', j_nat (pr_status p)),
      (''detail'', JString (pr_detail p)),
      (''instance'', JString (pr_instance p))]"

section \<open>Health and status\<close>

definition json_live :: json where
  "json_live = JObject [(''status'', JString ''live''), (''version'', JString CARGO_PKG_VERSION)]"

definition json_ready :: "renderers \<Rightarrow> ready_view \<Rightarrow> json" where
  "json_ready V r = JObject
     [(''status'', JString ''ready''),
      (''network'', JString (ry_network r)),
      (''indexedHeight'', j_opt j_int (ry_indexed_height r)),
      (''nodeHeight'', j_opt j_int (ry_node_height r)),
      (''updatedAt'', j_time V (ry_updated_at r))]"

definition json_status :: "renderers \<Rightarrow> status_view \<Rightarrow> json" where
  "json_status V s = JObject
     [(''service'', JString ''wcashexplorer''),
      (''version'', JString CARGO_PKG_VERSION),
      (''network'', JString (sv_network s)),
      (''networkName'', JString (sv_network_name s)),
      (''symbol'', JString (sv_symbol s)),
      (''status'', JString (sv_status s)),
      (''indexedHeight'', j_opt j_nat (sv_indexed_height s)),
      (''indexedHash'', j_opt JString (sv_indexed_hash s)),
      (''nodeHeight'', j_opt j_nat (sv_node_height s)),
      (''nodeHash'', j_opt JString (sv_node_hash s)),
      (''lagBlocks'', j_opt j_int (sv_lag_blocks s)),
      (''updatedAt'', j_time V (sv_updated_at s)),
      (''uptimeSeconds'', j_int (sv_uptime_seconds s)),
      (''difficulty'', j_opt JString (sv_difficulty s)),
      (''observedSpacingSeconds'', j_opt (\<lambda>x. JNumber (Float (rd_f64 V x))) (sv_observed_spacing s)),
      (''targetSpacingSeconds'', j_nat (sv_target_spacing_seconds s)),
      (''totalIssued'', json_amount (sv_total_issued s)),
      (''maxSupply'', json_amount (sv_max_supply s)),
      (''initialSubsidy'', json_amount (sv_initial_subsidy s)),
      (''halvingInterval'', j_nat (sv_halving_interval s)),
      (''nextHalvingHeight'', j_nat (sv_next_halving_height s)),
      (''coinbaseMaturity'', j_nat (sv_coinbase_maturity s)),
      (''latestBlockTime'', j_opt (j_time V) (sv_latest_block_time s)),
      (''privacyNotice'',
       JString ''Shielded senders, recipients, per-note amounts, and memos are not public chain data.'')]"

definition json_reorg :: "renderers \<Rightarrow> reorg_view \<Rightarrow> json" where
  "json_reorg V g = JObject
     [(''eventId'', JString (rg_event_id g)),
      (''oldTipHeight'', j_int (re_old_tip_height (rg_row g))),
      (''oldTipHash'', JString (re_old_tip_hash (rg_row g))),
      (''commonAncestorHeight'', j_opt j_int (re_common_ancestor_height (rg_row g))),
      (''commonAncestorHash'', j_opt JString (re_common_ancestor_hash (rg_row g))),
      (''detectedAt'', j_time V (re_detected_at (rg_row g))),
      (''completedAt'', j_opt (j_time V) (re_completed_at (rg_row g)))]"

definition json_search_result :: "search_result \<Rightarrow> json" where
  "json_search_result r = JObject
     [(''kind'', JString (sr_kind r)), (''id'', JString (sr_id r)), (''route'', JString (sr_route r))]"

section \<open>Transactions\<close>

definition tx_summary_members :: "renderers \<Rightarrow> tx_summary \<Rightarrow> (string \<times> json) list" where
  "tx_summary_members V t =
     [(''txid'', JString (ts_txid t)),
      (''instanceDigest'', JString (ts_instance_digest t)),
      (''instanceDigestKind'', JString (ts_instance_digest_kind t)),
      (''authDigest'', j_opt JString (ts_auth_digest t)),
      (''version'', j_int (ts_version t)),
      (''sizeBytes'', j_int (ts_size_bytes t)),
      (''isCoinbase'', JBool (ts_is_coinbase t)),
      (''kind'', JString (ts_kind t)),
      (''fee'', j_opt json_amount (ts_fee t)),
      (''publicOutputValue'', json_amount (ts_public_output_value t)),
      (''valueBalance'', j_opt json_amount (ts_value_balance t)),
      (''transparentInputCount'', j_int (ts_transparent_input_count t)),
      (''transparentOutputCount'', j_int (ts_transparent_output_count t)),
      (''saplingSpendCount'', j_int (ts_sapling_spend_count t)),
      (''saplingOutputCount'', j_int (ts_sapling_output_count t)),
      (''orchardActionCount'', j_int (ts_orchard_action_count t)),
      (''ironwoodActionCount'', j_int (ts_ironwood_action_count t)),
      (''blockHeight'', j_nat (ts_block_height t)),
      (''blockHash'', JString (ts_block_hash t)),
      (''blockTime'', j_time V (ts_block_time t)),
      (''position'', j_int (ts_position t))]"

definition json_tx_summary :: "renderers \<Rightarrow> tx_summary \<Rightarrow> json" where
  "json_tx_summary V t = JObject (tx_summary_members V t)"

definition json_input :: "input_view \<Rightarrow> json" where
  "json_input i = JObject
     [(''inputIndex'', j_int (iv_input_index i)),
      (''previousTxid'', j_opt JString (ir_previous_txid (iv_row i))),
      (''previousOutputIndex'', j_opt j_int (ir_previous_output_index (iv_row i))),
      (''coinbaseData'', j_opt JString (ir_coinbase_data (iv_row i))),
      (''sequence'', j_opt j_int (ir_sequence (iv_row i)))]"

definition json_output :: "output_view \<Rightarrow> json" where
  "json_output out = JObject
     [(''index'', j_int (ov_index out)),
      (''value'', json_amount (ov_value out)),
      (''address'', j_opt JString (ov_address out)),
      (''scriptType'', j_opt JString (ov_script_type out)),
      (''scriptHex'', j_opt JString (ov_script_hex out))]"

definition json_tx_detail :: "renderers \<Rightarrow> tx_detail \<Rightarrow> json" where
  "json_tx_detail V t = JObject (tx_summary_members V (td_summary t) @
     [(''inputs'', j_list json_input (td_inputs t)),
      (''outputs'', j_list json_output (td_outputs t)),
      (''rawRpc'', td_raw_rpc t),
      (''privacyNotice'',
       JString ''Shielded senders, recipients, note amounts, and memos are not visible on-chain.'')])"

section \<open>Blocks\<close>

definition json_merge_mining :: "merge_mining_summary \<Rightarrow> json" where
  "json_merge_mining m = JObject
     [(''exactWitnessState'', JString (mm_exact_witness_state m)),
      (''localValidationState'', JString (mm_local_validation_state m)),
      (''parentBlockHash'', j_opt JString (mm_parent_block_hash m)),
      (''parentLookupState'', JString (mm_parent_lookup_state m)),
      (''parentSourcesAgree'', JBool (mm_parent_sources_agree m)),
      (''parentHeight'', j_opt j_nat (mm_parent_height m)),
      (''parentConfirmations'', j_opt j_nat (mm_parent_confirmations m))]"

definition block_summary_members :: "renderers \<Rightarrow> block_summary \<Rightarrow> (string \<times> json) list" where
  "block_summary_members V b =
     [(''height'', j_nat (bs_height b)),
      (''hash'', JString (bs_hash b)),
      (''witnessHash'', JString (bs_witness_hash b)),
      (''time'', j_time V (bs_time b)),
      (''sizeBytes'', j_int (bs_size_bytes b)),
      (''transactionCount'', j_int (bs_transaction_count b)),
      (''bits'', JString (bs_bits b)),
      (''difficulty'', JString (bs_difficulty b)),
      (''reward'', json_amount (bs_reward b)),
      (''confirmations'', j_nat (bs_confirmations b)),
      (''mergeMining'', json_merge_mining (bs_merge_mining b))]"

definition json_block_summary :: "renderers \<Rightarrow> block_summary \<Rightarrow> json" where
  "json_block_summary V b = JObject (block_summary_members V b)"

definition json_value_pool :: "value_pool_view \<Rightarrow> json" where
  "json_value_pool p = JObject
     [(''id'', JString (vv_id p)),
      (''chainValue'', j_opt json_amount (vv_chain_value p)),
      (''valueDelta'', j_opt json_amount (vv_value_delta p)),
      (''reported'', JBool (vv_reported p)),
      (''monitored'', j_opt JBool (vv_monitored p))]"

definition json_observation :: "renderers \<Rightarrow> string \<times> observation_row \<Rightarrow> json" where
  "json_observation V s = (case s of (source_name, r) \<Rightarrow> JObject
     [(''sourceName'', JString source_name),
      (''observationState'', JString (ow_observation_state r)),
      (''parentHeight'', j_opt j_int (ow_parent_height r)),
      (''parentConfirmations'', j_opt j_int (ow_parent_confirmations r)),
      (''parentTime'', j_opt (j_time V) (ow_parent_time r)),
      (''parentBits'', j_opt JString (ow_parent_bits r)),
      (''parentDifficultyText'', j_opt JString (ow_parent_difficulty_text r)),
      (''embeddedHeaderMatches'', j_opt JBool (ow_embedded_header_matches r)),
      (''checkedAt'', j_time V (ow_checked_at r))])"

definition json_auxpow :: "renderers \<Rightarrow> auxpow_view \<Rightarrow> json" where
  "json_auxpow V x = (let r = xv_row x; l = xw_link r in JObject
     [(''proofVersion'', j_int (lk_proof_version l)),
      (''proofSize'', j_int (lk_proof_size l)),
      (''witnessHash'', JString (xv_witness_hash x)),
      (''exactWitnessState'', JString (xw_exact_witness_state r)),
      (''witnessConfirmations'', j_opt j_int (xw_witness_confirmations r)),
      (''localValidationState'', JString (xw_local_validation_state r)),
      (''verifierVersion'', j_opt JString (xw_verifier_version r)),
      (''parentBlockHash'', JString (lk_parent_block_hash l)),
      (''parentHeaderBits'', JString (lk_parent_header_bits l)),
      (''parentHashMeetsClaimedTarget'', JBool (lk_parent_hash_meets_claimed_target l)),
      (''parentCoinbaseTxid'', JString (lk_parent_coinbase_txid l)),
      (''parentMerkleDepth'', j_int (lk_parent_merkle_depth l)),
      (''parentCoinbaseIndex'', j_int (lk_parent_coinbase_index l)),
      (''authDataMerkleDepth'', j_int (lk_auth_data_merkle_depth l)),
      (''authDataCoinbaseIndex'', j_int (lk_auth_data_coinbase_index l)),
      (''auxiliaryMerkleDepth'', j_int (lk_auxiliary_merkle_depth l)),
      (''auxiliaryIndex'', j_int (lk_auxiliary_index l)),
      (''parentLookupState'', JString (lk_parent_lookup_state l)),
      (''parentSourcesAgree'', JBool (lk_parent_sources_agree l)),
      (''verifiedAt'', j_time V (lk_verified_at l)),
      (''parentBlockUrl'', j_opt JString (xv_parent_block_url x)),
      (''parentCoinbaseTxUrl'', j_opt JString (xv_parent_coinbase_tx_url x)),
      (''observations'', j_list (json_observation V) (xv_observations x)),
      (''meaning'',
       JString (''AuxPoW validity and exact Wcash best-chain acceptance are verified locally. '' @
         ''Zcash canonical-parent observation is an optional, separate status.''))])"

definition json_block_detail :: "renderers \<Rightarrow> block_detail \<Rightarrow> json" where
  "json_block_detail V b = JObject (block_summary_members V (dt_summary b) @
     [(''previousBlockHash'', j_opt JString (bd_previous_block_hash (dt_row b))),
      (''nextBlockHash'', j_opt JString (bd_next_block_hash (dt_row b))),
      (''merkleRoot'', JString (bd_merkle_root (dt_row b))),
      (''blockCommitments'', j_opt JString (bd_block_commitments (dt_row b))),
      (''nonce'', JString (bd_nonce (dt_row b))),
      (''valuePools'', j_list json_value_pool (dt_value_pools b)),
      (''transactions'', j_list (json_tx_summary V) (dt_transactions b)),
      (''auxpow'', j_opt (json_auxpow V) (dt_auxpow b))])"

definition json_raw_block :: "raw_block_view \<Rightarrow> json" where
  "json_raw_block r = JObject
     [(''blockHash'', JString (rv_block_hash r)),
      (''witnessHash'', JString (rv_witness_hash r)),
      (''encoding'', JString (rv_encoding r)),
      (''data'', JString (rv_data r))]"

section \<open>Addresses\<close>

definition json_activity :: "renderers \<Rightarrow> address_activity \<Rightarrow> json" where
  "json_activity V a = JObject
     [(''txid'', JString (aa_txid a)),
      (''instanceDigest'', JString (aa_instance_digest a)),
      (''authDigest'', j_opt JString (aa_auth_digest a)),
      (''blockHeight'', j_nat (aa_block_height a)),
      (''blockHash'', JString (aa_block_hash a)),
      (''blockTime'', j_time V (aa_block_time a)),
      (''position'', j_int (aa_position a)),
      (''isCoinbase'', JBool (aa_is_coinbase a)),
      (''direction'', JString (aa_direction a)),
      (''received'', json_amount (aa_received a)),
      (''sent'', json_amount (aa_sent a)),
      (''net'', json_amount (aa_net a)),
      (''balanceAfter'', json_amount (aa_balance_after a))]"

definition json_address :: "renderers \<Rightarrow> address_view \<Rightarrow> json" where
  "json_address V a = JObject
     [(''address'', JString (av_address a)),
      (''addressType'', JString (av_address_type a)),
      (''totalReceived'', json_amount (av_total_received a)),
      (''totalSent'', json_amount (av_total_sent a)),
      (''unspent'', json_amount (av_unspent a)),
      (''immatureCoinbase'', json_amount (av_immature_coinbase a)),
      (''matureCoinbaseMustShield'', json_amount (av_mature_coinbase_must_shield a)),
      (''nonCoinbaseUnspent'', json_amount (av_non_coinbase_unspent a)),
      (''utxoCount'', j_int (av_utxo_count a)),
      (''minedOutputCount'', j_int (av_mined_output_count a)),
      (''minedTransactionCount'', j_int (av_mined_transaction_count a)),
      (''transactionCount'', j_int (av_transaction_count a)),
      (''firstSeenHeight'', j_opt j_nat (av_first_seen_height a)),
      (''lastSeenHeight'', j_opt j_nat (av_last_seen_height a)),
      (''firstSeenAt'', j_opt (j_time V) (av_first_seen_at a)),
      (''lastSeenAt'', j_opt (j_time V) (av_last_seen_at a)),
      (''coinbaseMaturity'', j_nat (av_coinbase_maturity a)),
      (''canonicalDoubleSpendAnomalies'', j_int (av_canonical_double_spend_anomalies a)),
      (''activity'', j_list (json_activity V) (av_activity a)),
      (''scopeNotice'',
       JString ''This page shows transparent activity only; shielded balances are not visible.'')]"

section \<open>Analytics\<close>

definition json_network_point :: "renderers \<Rightarrow> network_history_point \<Rightarrow> json" where
  "json_network_point V p = JObject
     [(''height'', j_nat (np_height p)),
      (''hash'', JString (nh_hash (np_row p))),
      (''time'', j_time V (nh_block_time (np_row p))),
      (''difficulty'', JString (nh_difficulty_text (np_row p))),
      (''spacingSeconds'', j_opt j_int (nh_spacing_seconds (np_row p))),
      (''sizeBytes'', j_int (nh_size_bytes (np_row p))),
      (''transactionCount'', j_int (nh_transaction_count (np_row p))),
      (''totalIssued'', j_opt json_amount (np_total_issued p))]"

definition json_network_history :: "renderers \<Rightarrow> network_history_view \<Rightarrow> json" where
  "json_network_history V h = JObject
     [(''asOfHeight'', j_opt j_nat (nv_as_of_height h)),
      (''asOfHash'', j_opt JString (nv_as_of_hash h)),
      (''targetSpacingSeconds'', j_nat (nv_target_spacing_seconds h)),
      (''points'', j_list (json_network_point V) (nv_points h))]"

definition json_pool_snapshot :: "pool_snapshot_view \<Rightarrow> json" where
  "json_pool_snapshot p = JObject
     [(''id'', JString (ps_id p)),
      (''chainValue'', j_opt json_amount (ps_chain_value p)),
      (''valueDelta'', j_opt json_amount (ps_value_delta p)),
      (''reported'', JBool (ps_reported p)),
      (''monitored'', j_opt JBool (ps_monitored p))]"

definition json_pool_point :: "renderers \<Rightarrow> value_pool_history_point \<Rightarrow> json" where
  "json_pool_point V p = JObject
     [(''height'', j_nat (vp_height p)),
      (''hash'', JString (vp_hash p)),
      (''time'', j_time V (vp_time p)),
      (''totalIssued'', j_opt json_amount (vp_total_issued p)),
      (''transparent'', json_pool_snapshot (vp_transparent p)),
      (''ironwood'', json_pool_snapshot (vp_ironwood p))]"

definition json_pool_history :: "renderers \<Rightarrow> value_pool_history_view \<Rightarrow> json" where
  "json_pool_history V h = JObject
     [(''asOfHeight'', j_opt j_nat (vpv_as_of_height h)),
      (''asOfHash'', j_opt JString (vpv_as_of_hash h)),
      (''unexpectedPoolSamples'', j_int (vpv_unexpected_pool_samples h)),
      (''scopeNotice'',
       JString (''Wcash publishes the transparent pool and the current Ironwood shielded pool. '' @
         ''Individual shielded addresses and balances are not public chain data.'')),
      (''points'', j_list (json_pool_point V) (vpv_points h))]"

definition json_merge_mining_stats :: "renderers \<Rightarrow> merge_mining_stats_view \<Rightarrow> json" where
  "json_merge_mining_stats V m = (let r = mv_row m in JObject
     [(''asOfHeight'', j_opt j_nat (mv_as_of_height m)),
      (''asOfHash'', j_opt JString (mv_as_of_hash m)),
      (''eligibleChildBlocks'', j_int (ms_eligible_child_blocks r)),
      (''auxpowBlocks'', j_int (ms_auxpow_blocks r)),
      (''locallyVerifiedBlocks'', j_int (ms_locally_verified_blocks r)),
      (''parentTargetVerifiedBlocks'', j_int (ms_parent_target_verified_blocks r)),
      (''canonicalParentBlocks'', j_int (ms_canonical_parent_blocks r)),
      (''orphanedParentBlocks'', j_int (ms_orphaned_parent_blocks r)),
      (''notFoundParentBlocks'', j_int (ms_not_found_parent_blocks r)),
      (''unavailableParentBlocks'', j_int (ms_unavailable_parent_blocks r)),
      (''disagreementParentBlocks'', j_int (ms_disagreement_parent_blocks r)),
      (''parentQuorumAgreementBlocks'', j_int (ms_parent_quorum_agreement_blocks r)),
      (''bestChainWitnessBlocks'', j_int (ms_best_chain_witness_blocks r)),
      (''fullyVerifiedBlocks'', j_int (ms_fully_verified_blocks r)),
      (''locallyVerifiedWithoutParentObservationBlocks'',
       j_int (ms_locally_verified_without_parent_observation_blocks r)),
      (''anomalyBlocks'', j_int (ms_anomaly_blocks r)),
      (''observationSourceCount'', j_int (ms_observation_source_count r)),
      (''lastVerifiedAt'', j_opt (j_time V) (ms_last_verified_at r)),
      (''scopeNotice'',
       JString (''Counts cover every canonical non-genesis Wcash block. A locally verified Wcash AuxPoW '' @
         ''witness is not anomalous when Zcash parent observation is not configured; '' @
         ''canonical-parent evidence remains a separate, stronger status.''))])"

definition json_rich_entry :: "renderers \<Rightarrow> rich_list_entry \<Rightarrow> json" where
  "json_rich_entry V e = JObject
     [(''rank'', j_nat (rn_rank e)),
      (''address'', JString (rn_address e)),
      (''balance'', json_amount (rn_balance e)),
      (''totalReceived'', json_amount (rn_total_received e)),
      (''totalSent'', json_amount (rn_total_sent e)),
      (''transparentPoolSharePercent'', j_opt JString (rn_transparent_pool_share_percent e)),
      (''utxoCount'', j_int (rn_utxo_count e)),
      (''transactionCount'', j_int (rn_transaction_count e)),
      (''firstSeenHeight'', j_opt j_nat (rn_first_seen_height e)),
      (''lastSeenHeight'', j_opt j_nat (rn_last_seen_height e)),
      (''lastSeenAt'', j_opt (j_time V) (rn_last_seen_at e))]"

definition json_rich_list :: "renderers \<Rightarrow> rich_list_view \<Rightarrow> json" where
  "json_rich_list V r = JObject
     [(''asOfHeight'', j_opt j_nat (rw_as_of_height r)),
      (''asOfHash'', j_opt JString (rw_as_of_hash r)),
      (''transparentPool'', j_opt json_amount (rw_transparent_pool r)),
      (''transparentPoolReported'', JBool (rw_transparent_pool_reported r)),
      (''transparentPoolMonitored'', j_opt JBool (rw_transparent_pool_monitored r)),
      (''fundedAddressCount'', j_int (rw_funded_address_count r)),
      (''addressedBalance'', json_amount (rw_addressed_balance r)),
      (''addresslessOrUndecodedBalance'', j_opt json_amount (rw_addressless_or_undecoded_balance r)),
      (''top1Balance'', json_amount (rw_top_1_balance r)),
      (''top10Balance'', json_amount (rw_top_10_balance r)),
      (''top100Balance'', json_amount (rw_top_100_balance r)),
      (''addresses'', j_list (json_rich_entry V) (rw_addresses r)),
      (''scopeNotice'',
       JString (''Transparent balances only. This is not a ranking of shielded Wcash holders; '' @
         ''shielded identities and balances cannot be derived from public chain data.''))]"

definition json_stats_point :: "renderers \<Rightarrow> address_stats_point \<Rightarrow> json" where
  "json_stats_point V p = JObject
     [(''height'', j_nat (ap_height p)),
      (''time'', j_time V (as_block_time (ap_row p))),
      (''activeAddresses'', j_int (as_active_addresses (ap_row p))),
      (''newAddresses'', j_int (as_new_addresses (ap_row p))),
      (''totalSeenAddresses'', j_int (as_total_seen_addresses (ap_row p)))]"

definition json_address_stats :: "renderers \<Rightarrow> address_stats_view \<Rightarrow> json" where
  "json_address_stats V s = JObject
     [(''asOfHeight'', j_opt j_nat (sw_as_of_height s)),
      (''asOfHash'', j_opt JString (sw_as_of_hash s)),
      (''fundedAddressCount'', j_int (sw_funded_address_count s)),
      (''seenAddressCount'', j_int (sw_seen_address_count s)),
      (''addressedBalance'', json_amount (sw_addressed_balance s)),
      (''transparentPool'', j_opt json_amount (sw_transparent_pool s)),
      (''transparentPoolReported'', JBool (sw_transparent_pool_reported s)),
      (''transparentPoolMonitored'', j_opt JBool (sw_transparent_pool_monitored s)),
      (''addresslessOrUndecodedBalance'', j_opt json_amount (sw_addressless_or_undecoded_balance s)),
      (''points'', j_list (json_stats_point V) (sw_points s)),
      (''scopeNotice'',
       JString (''Counts cover decoded transparent Wcash addresses only. '' @
         ''The protocol does not reveal a count of shielded holders.''))]"

end
