(* ===== verification/Api_Router.thy ===== *)
theory Api_Router imports Json_Views begin

text \<open>
  The router of the public API (\<open>router\<close> of \<open>src/api.rs\<close>, \<open>routes\<close> of
  \<open>src/analytics.rs\<close>): the table of routes, the extraction of parameters, the handlers' answers
  as HTTP responses, and the layers that change a response.  Percent-decoding and the decoding of
  query strings (\<open>axum\<close>, \<open>serde_urlencoded\<close>) are parameters; the router matches a path
  segment by segment and prefers a static segment to a parameter, as \<open>axum\<close> documents.
\<close>

section \<open>Routes\<close>

datatype handler =
    H_live | H_ready | H_status | H_blocks | H_block | H_raw_block | H_block_auxpow
  | H_transactions | H_transaction | H_reorgs | H_search | H_openapi
  | H_network_history | H_value_pool_history | H_address | H_address_stats | H_rich_list
  | H_merge_mining_stats

definition api_routes :: "(string \<times> handler) list" where
  "api_routes =
     [(''/health/live'', H_live),
      (''/health/ready'', H_ready),
      (''/api/v1/status'', H_status),
      (''/api/v1/stats'', H_status),
      (''/api/v1/blocks'', H_blocks),
      (''/api/v1/blocks/{id}'', H_block),
      (''/api/v1/blocks/{id}/raw'', H_raw_block),
      (''/api/v1/blocks/{id}/auxpow'', H_block_auxpow),
      (''/api/v1/transactions'', H_transactions),
      (''/api/v1/transactions/{txid}'', H_transaction),
      (''/api/v1/reorgs'', H_reorgs),
      (''/api/v1/search'', H_search),
      (''/api/openapi.json'', H_openapi)]"

definition analytics_routes :: "(string \<times> handler) list" where
  "analytics_routes =
     [(''/api/v1/network/history'', H_network_history),
      (''/api/v1/value-pools/history'', H_value_pool_history),
      (''/api/v1/addresses/{address}'', H_address),
      (''/api/v1/addresses/stats'', H_address_stats),
      (''/api/v1/addresses/rich-list'', H_rich_list),
      (''/api/v1/merge-mining/stats'', H_merge_mining_stats)]"

fun split_path :: "string \<Rightarrow> string list" where
  "split_path [] = [[]]"
| "split_path (c # cs) =
     (if c = CHR ''/'' then [] # split_path cs
      else (case split_path cs of [] \<Rightarrow> [[c]] | s # ss \<Rightarrow> (c # s) # ss))"

datatype segment = Static string | Param string

definition segment_of :: "string \<Rightarrow> segment" where
  "segment_of s =
     (if s \<noteq> [] \<and> hd s = CHR ''{'' \<and> last s = CHR ''}'' then Param (butlast (tl s)) else Static s)"

definition compile_routes :: "(string \<times> 'h) list \<Rightarrow> (segment list \<times> 'h) list" where
  "compile_routes rs = map (\<lambda>(p, h). (map segment_of (split_path p), h)) rs"

text \<open>The routes that are left after the segment \<open>s\<close>: those that go on with \<open>s\<close> itself, and
  those that go on with a parameter.\<close>

definition after_static :: "string \<Rightarrow> (segment list \<times> 'h) list \<Rightarrow> (segment list \<times> 'h) list" where
  "after_static s rs =
     List.map_filter (\<lambda>(p, h). case p of Static t # ps \<Rightarrow> if t = s then Some (ps, h) else None | _ \<Rightarrow> None) rs"

definition after_param :: "(segment list \<times> 'h) list \<Rightarrow> (segment list \<times> 'h) list" where
  "after_param rs =
     List.map_filter (\<lambda>(p, h). case p of Param _ # ps \<Rightarrow> Some (ps, h) | _ \<Rightarrow> None) rs"

text \<open>The handler of a path with the values of its parameters, in their order.\<close>

fun find_route :: "(segment list \<times> 'h) list \<Rightarrow> string list \<Rightarrow> ('h \<times> string list) option" where
  "find_route rs [] = map_option (\<lambda>h. (h, [])) (map_of rs [])"
| "find_route rs (s # ss) =
     (case find_route (after_static s rs) ss of
        Some r \<Rightarrow> Some r
      | None \<Rightarrow> if s = [] then None
                else map_option (\<lambda>(h, vs). (h, s # vs)) (find_route (after_param rs) ss))"

section \<open>Requests and responses\<close>

record http_request =
  ht_method :: string
  ht_path :: string
  ht_query :: string
  ht_request_id :: "string option"

datatype body = Empty | Text string | Json json

record api_response =
  rp_status :: nat
  rp_headers :: "(string \<times> string) list"
  rp_body :: body

record extractors =
  ex_path :: "string \<Rightarrow> string option"
  ex_page :: "string \<Rightarrow> page_query option"
  ex_history :: "string \<Rightarrow> history_query option"
  ex_rich_list :: "string \<Rightarrow> nat option option"
  ex_transaction :: "string \<Rightarrow> string option option"
  ex_search :: "string \<Rightarrow> string option"

text \<open>What one request meets: the database and the clock, whether the timeout of the analytics
  routes fires, and the fresh UUIDs of its problem response and of its request identifier.\<close>

record environment =
  en_request :: request
  en_timed_out :: bool
  en_instance :: string
  en_fresh_id :: string

definition json_response :: "json \<Rightarrow> api_response" where
  "json_response j = \<lparr>rp_status = 200, rp_headers = [(''content-type'', ''application/json'')], rp_body = Json j\<rparr>"

definition problem_http :: "problem_response \<Rightarrow> api_response" where
  "problem_http p =
     \<lparr>rp_status = pr_status p,
      rp_headers = (''content-type'', ''application/problem+json'') #
        (case pr_retry_after p of None \<Rightarrow> [] | Some s \<Rightarrow> [(''retry-after'', s)]),
      rp_body = Json (json_problem p)\<rparr>"

definition rejection :: api_response where
  "rejection = \<lparr>rp_status = 400, rp_headers = [(''content-type'', ''text/plain; charset=utf-8'')],
     rp_body = Text ''the request could not be deserialized''\<rparr>"

text \<open>What \<open>CatchPanicLayer\<close> answers for a handler that panics.\<close>

definition panic_response :: api_response where
  "panic_response = \<lparr>rp_status = 500, rp_headers = [(''content-type'', ''text/plain; charset=utf-8'')],
     rp_body = Text ''Service panicked''\<rparr>"

definition respond :: "string \<Rightarrow> ('a \<Rightarrow> json) \<Rightarrow> 'a result \<Rightarrow> api_response" where
  "respond uuid render r =
     (case r of Inl e \<Rightarrow> problem_http (into_response uuid e) | Inr v \<Rightarrow> json_response (render v))"

definition extracted :: "'q option \<Rightarrow> ('q \<Rightarrow> api_response) \<Rightarrow> api_response" where
  "extracted q f = (case q of None \<Rightarrow> rejection | Some v \<Rightarrow> f v)"

section \<open>The handlers behind the routes\<close>

record ('net, 'addr) service =
  se_crates :: crates
  se_api :: "('net, 'addr) api_crates"
  se_extract :: extractors
  se_render :: renderers
  se_state :: app_state

definition first_param :: "('net, 'addr) service \<Rightarrow> string list \<Rightarrow> string option" where
  "first_param Z vs = (case vs of [v] \<Rightarrow> ex_path (se_extract Z) v | _ \<Rightarrow> None)"

fun handle :: "('net, 'addr) service \<Rightarrow> environment \<Rightarrow> handler \<Rightarrow> string list \<Rightarrow> string \<Rightarrow> api_response" where
  "handle Z N H_live vs q = json_response json_live"
| "handle Z N H_ready vs q =
     respond (en_instance N) (json_ready (se_render Z)) (ready (se_state Z) (en_request N))"
| "handle Z N H_status vs q =
     respond (en_instance N) (json_envelope (json_status (se_render Z))) (status (se_state Z) (en_request N))"
| "handle Z N H_blocks vs q =
     extracted (ex_page (se_extract Z) q) (\<lambda>query.
       respond (en_instance N) (json_envelope (j_list (json_block_summary (se_render Z))))
         (blocks (se_api Z) (se_state Z) (en_request N) query))"
| "handle Z N H_block vs q =
     extracted (first_param Z vs) (\<lambda>i.
       respond (en_instance N) (json_envelope (json_block_detail (se_render Z)))
         (block (se_state Z) (en_request N) i))"
| "handle Z N H_raw_block vs q =
     extracted (first_param Z vs) (\<lambda>i.
       respond (en_instance N) (json_envelope json_raw_block)
         (raw_block (se_crates Z) (se_state Z) (en_request N) i))"
| "handle Z N H_block_auxpow vs q =
     extracted (first_param Z vs) (\<lambda>i.
       respond (en_instance N) (json_envelope (j_opt (json_auxpow (se_render Z))))
         (block_auxpow (se_state Z) (en_request N) i))"
| "handle Z N H_transactions vs q =
     extracted (ex_page (se_extract Z) q) (\<lambda>query.
       respond (en_instance N) (json_envelope (j_list (json_tx_summary (se_render Z))))
         (transactions (se_api Z) (se_state Z) (en_request N) query))"
| "handle Z N H_transaction vs q =
     extracted (first_param Z vs) (\<lambda>txid.
     extracted (ex_transaction (se_extract Z) q) (\<lambda>b.
       respond (en_instance N) (json_envelope (json_tx_detail (se_render Z)))
         (transaction (se_state Z) (en_request N) txid b)))"
| "handle Z N H_reorgs vs q =
     respond (en_instance N) (json_envelope (j_list (json_reorg (se_render Z))))
       (reorgs (se_state Z) (en_request N))"
| "handle Z N H_search vs q =
     extracted (ex_search (se_extract Z) q) (\<lambda>text.
       respond (en_instance N) (json_envelope json_search_result)
         (search (se_api Z) (se_state Z) (en_request N) text))"
| "handle Z N H_openapi vs q =
     (case openapi_document of None \<Rightarrow> panic_response | Some doc \<Rightarrow> json_response doc)"
| "handle Z N H_network_history vs q =
     extracted (ex_history (se_extract Z) q) (\<lambda>query.
       respond (en_instance N) (json_envelope (json_network_history (se_render Z)))
         (network_history (se_state Z) (en_request N) query))"
| "handle Z N H_value_pool_history vs q =
     extracted (ex_history (se_extract Z) q) (\<lambda>query.
       respond (en_instance N) (json_envelope (json_pool_history (se_render Z)))
         (value_pool_history (se_state Z) (en_request N) query))"
| "handle Z N H_address vs q =
     extracted (first_param Z vs) (\<lambda>text.
       respond (en_instance N) (json_envelope (json_address (se_render Z)))
         (address (se_api Z) (se_state Z) (en_request N) text))"
| "handle Z N H_address_stats vs q =
     extracted (ex_history (se_extract Z) q) (\<lambda>query.
       respond (en_instance N) (json_envelope (json_address_stats (se_render Z)))
         (address_stats (se_state Z) (en_request N) query))"
| "handle Z N H_rich_list vs q =
     extracted (ex_rich_list (se_extract Z) q) (\<lambda>requested.
       respond (en_instance N) (json_envelope (json_rich_list (se_render Z)))
         (rich_list (se_state Z) (en_request N) requested))"
| "handle Z N H_merge_mining_stats vs q =
     respond (en_instance N) (json_envelope (json_merge_mining_stats (se_render Z)))
       (merge_mining_stats (se_state Z) (en_request N))"

section \<open>Layers\<close>

definition if_not_present :: "string \<Rightarrow> string \<Rightarrow> api_response \<Rightarrow> api_response" where
  "if_not_present name v r =
     (if name \<in> fst ` set (rp_headers r) then r else r\<lparr>rp_headers := rp_headers r @ [(name, v)]\<rparr>)"

definition insert_header :: "string \<Rightarrow> string \<Rightarrow> api_response \<Rightarrow> api_response" where
  "insert_header name v r =
     r\<lparr>rp_headers := filter (\<lambda>(k, _). k \<noteq> name) (rp_headers r) @ [(name, v)]\<rparr>"

definition analytics_capacity_error :: "string \<Rightarrow> api_response" where
  "analytics_capacity_error uuid =
     insert_header ''retry-after'' ''2''
       (problem_http (into_response uuid
          (NotReady ''analytics capacity is temporarily busy; retry the request'')))"

definition analytics_layers :: "environment \<Rightarrow> api_response \<Rightarrow> api_response" where
  "analytics_layers N r =
     (if en_timed_out N then analytics_capacity_error (en_instance N)
      else if_not_present ''cache-control'' ''public, max-age=5, stale-while-revalidate=15'' r)"

definition security_layers :: "api_response \<Rightarrow> api_response" where
  "security_layers r =
     if_not_present ''referrer-policy'' ''no-referrer''
    (if_not_present ''x-content-type-options'' ''nosniff''
    (if_not_present ''content-security-policy''
       (''default-src 'none'; frame-ancestors 'none'; base-uri 'none'; form-action 'none'' @ [CHR 0x27]) r))"

text \<open>\<open>get(handler)\<close>: it also answers \<open>HEAD\<close>, without the body.\<close>

definition method_get :: "string \<Rightarrow> api_response \<Rightarrow> api_response" where
  "method_get m r =
     (if m = ''GET'' then r
      else if m = ''HEAD'' then r\<lparr>rp_body := Empty\<rparr>
      else \<lparr>rp_status = 405, rp_headers = [(''allow'', ''GET,HEAD'')], rp_body = Empty\<rparr>)"

definition is_analytics :: "handler \<Rightarrow> bool" where
  "is_analytics h \<longleftrightarrow> h \<in> snd ` set analytics_routes"

definition dispatch :: "('net, 'addr) service \<Rightarrow> environment \<Rightarrow> http_request \<Rightarrow> api_response" where
  "dispatch Z N rq =
     (case find_route (compile_routes (api_routes @ analytics_routes)) (split_path (ht_path rq)) of
        None \<Rightarrow> \<lparr>rp_status = 404, rp_headers = [], rp_body = Empty\<rparr>
      | Some (h, vs) \<Rightarrow>
          let r = method_get (ht_method rq) (handle Z N h vs (ht_query rq)) in
          if is_analytics h then analytics_layers N r else r)"

definition router :: "('net, 'addr) service \<Rightarrow> environment \<Rightarrow> http_request \<Rightarrow> api_response" where
  "router Z N rq =
     insert_header ''x-request-id'' (case ht_request_id rq of Some i \<Rightarrow> i | None \<Rightarrow> en_fresh_id N)
       (security_layers (dispatch Z N rq))"

end
