(* ===== verification/Json_Schema.thy ===== *)
theory Json_Schema imports Api_Router begin

text \<open>
  What an OpenAPI document says: JSON pointers and the references of a document, and validity of a
  value under the part of JSON Schema 2020-12 the document of \<open>Openapi\<close> uses.  This is the
  specification the responses of the API are held against, not code of the repository.
\<close>

section \<open>Pointers and references\<close>

definition jget :: "string \<Rightarrow> json \<Rightarrow> json option" where
  "jget k v = (case v of JObject ms \<Rightarrow> map_of ms k | _ \<Rightarrow> None)"

fun pointer :: "json \<Rightarrow> string list \<Rightarrow> json option" where
  "pointer v [] = Some v"
| "pointer v (k # ks) = Option.bind (jget k v) (\<lambda>w. pointer w ks)"

definition local_reference :: "json \<Rightarrow> string \<Rightarrow> json option" where
  "local_reference root r =
     (case split_path r of s # ks \<Rightarrow> if s = ''#'' then pointer root ks else None | [] \<Rightarrow> None)"

fun references :: "json \<Rightarrow> string list" where
  "references (JArray vs) = concat (map references vs)"
| "references (JObject ms) =
     (case map_of ms ''$ref'' of Some (JString r) \<Rightarrow> [r] | _ \<Rightarrow> []) @
     concat (map (\<lambda>(k, v). references v) ms)"
| "references _ = []"

section \<open>Validity\<close>

definition has_type :: "string \<Rightarrow> json \<Rightarrow> bool" where
  "has_type t v \<longleftrightarrow>
     (case v of
        JNull \<Rightarrow> t = ''null''
      | JBool _ \<Rightarrow> t = ''boolean''
      | JNumber (Float _) \<Rightarrow> t = ''number''
      | JNumber _ \<Rightarrow> t = ''integer'' \<or> t = ''number''
      | JString _ \<Rightarrow> t = ''string''
      | JArray _ \<Rightarrow> t = ''array''
      | JObject _ \<Rightarrow> t = ''object'')"

text \<open>A floating-point text is at least zero unless it has a sign; other bounds are refused for it.\<close>

definition at_least :: "nat \<Rightarrow> json \<Rightarrow> bool" where
  "at_least m v \<longleftrightarrow>
     (case v of
        JNumber (PosInt n) \<Rightarrow> m \<le> n
      | JNumber (NegInt i) \<Rightarrow> int m \<le> i
      | JNumber (Float t) \<Rightarrow> m = 0 \<and> (t = [] \<or> hd t \<noteq> CHR ''-'')
      | _ \<Rightarrow> True)"

definition at_most :: "nat \<Rightarrow> json \<Rightarrow> bool" where
  "at_most m v \<longleftrightarrow>
     (case v of
        JNumber (PosInt n) \<Rightarrow> n \<le> m
      | JNumber (NegInt i) \<Rightarrow> i \<le> int m
      | JNumber (Float t) \<Rightarrow> False
      | _ \<Rightarrow> True)"

definition unsigned_digits :: "string \<Rightarrow> bool" where
  "unsigned_digits s \<longleftrightarrow> s \<noteq> [] \<and> list_all is_ascii_digit s"

text \<open>\<open>[0-9]+\.[0-9]{8}\<close>\<close>

definition eight_places :: "string \<Rightarrow> bool" where
  "eight_places s \<longleftrightarrow>
     9 < length s \<and> s ! (length s - 9) = CHR ''.'' \<and> unsigned_digits (take (length s - 9) s) \<and>
     list_all is_ascii_digit (drop (length s - 8) s)"

definition optional_minus :: "(string \<Rightarrow> bool) \<Rightarrow> string \<Rightarrow> bool" where
  "optional_minus P s \<longleftrightarrow> P s \<or> (case s of c # cs \<Rightarrow> c = CHR ''-'' \<and> P cs | [] \<Rightarrow> False)"

text \<open>The patterns of the document; a string matches no other.\<close>

definition matches_pattern :: "string \<Rightarrow> string \<Rightarrow> bool" where
  "matches_pattern p s \<longleftrightarrow>
     (if p = ''^[0-9A-Fa-f]{64}$''
        then length s = 64 \<and> list_all (\<lambda>c. c \<in> set ''0123456789ABCDEFabcdef'') s
      else if p = ''^-?[0-9]+$'' then optional_minus unsigned_digits s
      else if p = ''^-?[0-9]+'' @ CHR 0x5C # ''.[0-9]{8}$'' then optional_minus eight_places s
      else if p = ''^[0-9]+'' @ CHR 0x5C # ''.[0-9]{8}$'' then eight_places s
      else if p = ''^(?:[0-9a-f]{2})*$''
        then even (length s) \<and> list_all (\<lambda>c. c \<in> set ''0123456789abcdef'') s
      else if p = ''^(?:[0-9A-Fa-f]{2})*$''
        then even (length s) \<and> list_all (\<lambda>c. c \<in> set ''0123456789ABCDEFabcdef'') s
      else p = ''^/'' \<and> s \<noteq> [] \<and> hd s = CHR ''/'')"

definition keys_of :: "json \<Rightarrow> string list" where
  "keys_of v = (case v of JObject ms \<Rightarrow> map fst ms | _ \<Rightarrow> [])"

definition count_true :: "bool list \<Rightarrow> nat" where
  "count_true bs = length (filter id bs)"

text \<open>One keyword of a schema object whose members are \<open>ms\<close>; \<open>ok\<close> is validity one level further
  down, \<open>evaluated\<close> the properties a subschema evaluates.  Other keywords only annotate.\<close>

definition keyword ::
    "(json \<Rightarrow> json \<Rightarrow> bool) \<Rightarrow> (json \<Rightarrow> string list) \<Rightarrow> json \<Rightarrow> (string \<times> json) list \<Rightarrow> json \<Rightarrow> string \<times> json \<Rightarrow> bool"
  where
  "keyword ok evaluated root ms v m =
     (case m of
        (k, JString t) \<Rightarrow>
          if k = ''$ref'' then (case local_reference root t of Some s \<Rightarrow> ok s v | None \<Rightarrow> False)
          else if k = ''type'' then has_type t v
          else if k = ''const'' then v = JString t
          else if k = ''pattern'' then (case v of JString s \<Rightarrow> matches_pattern t s | _ \<Rightarrow> True)
          else True
      | (k, JNumber (PosInt n)) \<Rightarrow>
          if k = ''minLength'' then (case v of JString s \<Rightarrow> n \<le> length s | _ \<Rightarrow> True)
          else if k = ''maxLength'' then (case v of JString s \<Rightarrow> length s \<le> n | _ \<Rightarrow> True)
          else if k = ''minimum'' then at_least n v
          else if k = ''maximum'' then at_most n v
          else True
      | (k, JArray xs) \<Rightarrow>
          if k = ''enum'' then v \<in> set xs
          else if k = ''required''
            then (case v of JObject vs \<Rightarrow> list_all (\<lambda>x. x \<in> JString ` fst ` set vs) xs | _ \<Rightarrow> True)
          else if k = ''oneOf'' then count_true (map (\<lambda>s. ok s v) xs) = 1
          else if k = ''allOf'' then list_all (\<lambda>s. ok s v) xs
          else True
      | (k, JObject ps) \<Rightarrow>
          if k = ''properties''
            then (case v of JObject vs \<Rightarrow>
                    list_all (\<lambda>(p, w). case map_of ps p of None \<Rightarrow> True | Some s \<Rightarrow> ok s w) vs
                  | _ \<Rightarrow> True)
          else if k = ''items'' then (case v of JArray ws \<Rightarrow> list_all (ok (JObject ps)) ws | _ \<Rightarrow> True)
          else True
      | (k, JBool b) \<Rightarrow>
          if k = ''additionalProperties''
            then b \<or> (case map_of ms ''properties'' of
                Some ps \<Rightarrow> list_all (\<lambda>p. p \<in> set (keys_of ps)) (keys_of v) | None \<Rightarrow> keys_of v = [])
          else if k = ''unevaluatedProperties''
            then b \<or> list_all (\<lambda>p. p \<in> set (evaluated (JObject ms))) (keys_of v)
          else True
      | _ \<Rightarrow> True)"

primrec evaluated :: "nat \<Rightarrow> json \<Rightarrow> json \<Rightarrow> string list" where
  "evaluated 0 root s = []"
| "evaluated (Suc n) root s =
     (case jget ''properties'' s of Some ps \<Rightarrow> keys_of ps | None \<Rightarrow> []) @
     (case jget ''$ref'' s of
        Some (JString r) \<Rightarrow> (case local_reference root r of Some s' \<Rightarrow> evaluated n root s' | None \<Rightarrow> [])
      | _ \<Rightarrow> []) @
     (case jget ''allOf'' s of Some (JArray xs) \<Rightarrow> concat (map (evaluated n root) xs) | _ \<Rightarrow> [])"

text \<open>Schemas may refer to schemas, so the levels that may be opened are counted; running out of
  them refuses the value.\<close>

primrec valid :: "nat \<Rightarrow> json \<Rightarrow> json \<Rightarrow> json \<Rightarrow> bool" where
  "valid 0 root s v = False"
| "valid (Suc n) root s v =
     (case s of
        JObject ms \<Rightarrow> list_all (keyword (valid n root) (evaluated n root) root ms v) ms
      | JBool b \<Rightarrow> b
      | _ \<Rightarrow> False)"

definition schema_levels :: nat where
  "schema_levels = 16"

definition conforms :: "json \<Rightarrow> string \<Rightarrow> json \<Rightarrow> bool" where
  "conforms root name v = valid schema_levels root (schema_ref name) v"

end
