(* ===== verification/Openapi_Props.thy ===== *)
theory Openapi_Props imports Json_Schema begin

text \<open>
  The OpenAPI document is complete and closed: it documents exactly the routes of the router, every
  reference in it resolves, and the limits it states are the constants of the code.
\<close>

section \<open>What a document documents\<close>

definition resolves :: "json \<Rightarrow> json \<Rightarrow> bool" where
  "resolves root v \<longleftrightarrow> list_all (\<lambda>r. local_reference root r \<noteq> None) (references v)"

definition documented_paths :: "json \<Rightarrow> (string \<times> json) list" where
  "documented_paths root = (case jget ''paths'' root of Some (JObject ms) \<Rightarrow> ms | _ \<Rightarrow> [])"

definition text_at :: "string list \<Rightarrow> json \<Rightarrow> string option" where
  "text_at ks v = (case pointer v ks of Some (JString s) \<Rightarrow> Some s | _ \<Rightarrow> None)"

definition number_at :: "string list \<Rightarrow> json \<Rightarrow> nat option" where
  "number_at ks v = (case pointer v ks of Some (JNumber (PosInt n)) \<Rightarrow> Some n | _ \<Rightarrow> None)"

definition operation_parameters :: "json \<Rightarrow> json \<Rightarrow> json list" where
  "operation_parameters root item =
     (case pointer item [''get'', ''parameters''] of
        Some (JArray ps) \<Rightarrow> List.map_filter (\<lambda>p. case text_at [''$ref''] p of
            Some r \<Rightarrow> local_reference root r | None \<Rightarrow> Some p) ps
      | _ \<Rightarrow> [])"

definition path_parameters :: "json \<Rightarrow> json \<Rightarrow> string list" where
  "path_parameters root item =
     List.map_filter (text_at [''name''])
       (filter (\<lambda>p. text_at [''in''] p = Some ''path'') (operation_parameters root item))"

definition template_parameters :: "string \<Rightarrow> string list" where
  "template_parameters p =
     List.map_filter (\<lambda>s. case s of Param n \<Rightarrow> Some n | Static _ \<Rightarrow> None) (map segment_of (split_path p))"

definition documented_range :: "json \<Rightarrow> string \<Rightarrow> (nat option \<times> nat option \<times> nat option)" where
  "documented_range root name =
     (let at = (\<lambda>k. number_at [''components'', ''parameters'', name, ''schema'', k] root) in
      (at ''minimum'', at ''maximum'', at ''default''))"

definition documented_statuses :: "json \<Rightarrow> string \<Rightarrow> string list" where
  "documented_statuses root path =
     (case Option.bind (map_of (documented_paths root) path) (\<lambda>item. pointer item [''get'', ''responses'']) of
        Some (JObject ms) \<Rightarrow> map fst ms | _ \<Rightarrow> [])"

section \<open>The table of schemas\<close>

lemma jget_object [simp]: "jget k (JObject ms) = map_of ms k"
  by (simp add: jget_def)

definition members :: "json \<Rightarrow> (string \<times> json) list" where
  "members v = (case v of JObject ms \<Rightarrow> ms | _ \<Rightarrow> [])"

definition schema_table :: "(string \<times> json) list" where
  "schema_table = concat (map members
     [core_schemas, chain_schemas, history_schemas, balance_schemas, transaction_schemas, detail_schemas])"

lemmas groups = core_schemas_def chain_schemas_def history_schemas_def balance_schemas_def
  transaction_schemas_def detail_schemas_def

lemma update_fresh: "k \<notin> fst ` set t \<Longrightarrow> AList.update k v t = t @ [(k, v)]"
  by (induction t) auto

lemma fold_update:
  "distinct (map fst (t @ ms)) \<Longrightarrow> fold (\<lambda>(k, v). AList.update k v) ms t = t @ ms"
  by (induction ms arbitrary: t) (auto simp: update_fresh)

lemma schema_names: "distinct (map fst schema_table)"
  by (simp add: schema_table_def groups members_def)

lemma extend_schema_group_members:
  assumes "distinct (map fst (t @ members g))" and "g = JObject (members g)"
  shows "extend_schema_group t g = Some (t @ members g)"
  by (subst assms(2)) (simp only: extend_schema_group.simps fold_update[OF assms(1)])

lemma extend_schema_groups:
  "distinct (map fst (t @ concat (map members gs))) \<Longrightarrow> list_all (\<lambda>g. g = JObject (members g)) gs \<Longrightarrow>
   fold (\<lambda>group schemas. Option.bind schemas (\<lambda>target. extend_schema_group target group)) gs (Some t) =
   Some (t @ concat (map members gs))"
proof (induction gs arbitrary: t)
  case (Cons g gs)
  have "extend_schema_group t g = Some (t @ members g)"
    by (rule extend_schema_group_members) (use Cons.prems in auto)
  moreover have "distinct (map fst ((t @ members g) @ concat (map members gs)))" using Cons.prems by simp
  note Cons.IH[OF this]
  ultimately show ?case using Cons.prems by simp
qed simp

lemma openapi_schemas_table: "openapi_schemas = Some (JObject schema_table)"
  unfolding openapi_schemas_def
  by (subst extend_schema_groups)
    (use schema_names in \<open>simp_all add: schema_table_def members_def groups\<close>)

section \<open>The document and its references\<close>

definition path_table :: "(string \<times> json) list" where
  "path_table = health_paths @ status_paths @ analytics_paths @ block_paths @ transaction_paths @
     address_paths @ chain_paths"

definition the_document :: json where
  "the_document = the openapi_document"

lemma openapi_document_some: "openapi_document = Some the_document"
  by (simp add: the_document_def openapi_document_def openapi_schemas_table)

lemma document_parts:
  "jget ''paths'' the_document = Some (JObject path_table)"
  "jget ''components'' the_document = Some (JObject
     [(''parameters'', parameter_components), (''responses'', response_components),
      (''schemas'', JObject schema_table)])"
  by (simp_all add: the_document_def openapi_document_def openapi_schemas_table jget_def path_table_def)

lemma split_plain: "CHR ''/'' \<notin> set n \<Longrightarrow> split_path n = [n]"
  by (induction n) auto

lemma local_reference_component:
  assumes "CHR ''/'' \<notin> set n"
  shows "local_reference the_document (''#/components/schemas/'' @ n) = map_of schema_table n"
    and "local_reference the_document (''#/components/parameters/'' @ n) = jget n parameter_components"
    and "local_reference the_document (''#/components/responses/'' @ n) = jget n response_components"
  by (simp_all add: local_reference_def split_plain[OF assms] document_parts)

lemmas local_reference_literal [simp] = local_reference_component[simplified append.simps]

lemma table_lookup:
  assumes "distinct (map fst t)"
  shows "map (map_of t) (map fst t) = map Some (map snd t)"
proof (intro nth_equalityI)
  fix i assume "i < length (map (map_of t) (map fst t))"
  then have "(fst (t ! i), snd (t ! i)) \<in> set t" by simp
  then have "map_of t (fst (t ! i)) = Some (snd (t ! i))" using assms by (simp only: map_of_eq_Some_iff)
  then show "map (map_of t) (map fst t) ! i = map Some (map snd t) ! i"
    using \<open>i < length (map (map_of t) (map fst t))\<close> by simp
qed simp

lemma schema_table_columns:
  "map fst schema_table =
     [''Hash'', ''DateTime'', ''AtomicAmount'', ''Amount'', ''Meta'', ''LiveResponse'', ''ReadyResponse'',
      ''ProblemDetails'', ''Status'', ''MergeMiningSummary'', ''BlockSummary'', ''ValuePool'',
      ''NetworkHistoryPoint'', ''NetworkHistory'', ''PoolSnapshot'', ''ValuePoolHistoryPoint'',
      ''ValuePoolHistory'', ''MergeMiningStats'', ''RichListEntry'', ''RichList'', ''AddressStatsPoint'',
      ''AddressStats'', ''TransactionSummary'', ''TransparentInput'', ''TransparentOutput'',
      ''ParentObservation'', ''AuxPow'', ''BlockDetail'', ''RawBlock'', ''TransactionDetail'',
      ''AddressActivity'', ''Address'', ''Reorganization'', ''SearchResult'', ''StatusEnvelope'',
      ''BlockListEnvelope'', ''BlockDetailEnvelope'', ''RawBlockEnvelope'', ''AuxPowEnvelope'',
      ''TransactionListEnvelope'', ''TransactionDetailEnvelope'', ''AddressEnvelope'',
      ''NetworkHistoryEnvelope'', ''ValuePoolHistoryEnvelope'', ''MergeMiningStatsEnvelope'',
      ''RichListEnvelope'', ''AddressStatsEnvelope'', ''ReorgListEnvelope'', ''SearchEnvelope'',
      ''OpenApiDocument'']"
  "map snd schema_table =
     [Hash_schema, DateTime_schema, AtomicAmount_schema, Amount_schema, Meta_schema, LiveResponse_schema,
      ReadyResponse_schema, ProblemDetails_schema, Status_schema, MergeMiningSummary_schema,
      BlockSummary_schema, ValuePool_schema, NetworkHistoryPoint_schema, NetworkHistory_schema,
      PoolSnapshot_schema, ValuePoolHistoryPoint_schema, ValuePoolHistory_schema, MergeMiningStats_schema,
      RichListEntry_schema, RichList_schema, AddressStatsPoint_schema, AddressStats_schema,
      transaction_summary_schema, TransparentInput_schema, TransparentOutput_schema,
      ParentObservation_schema, AuxPow_schema, BlockDetail_schema, RawBlock_schema,
      TransactionDetail_schema, AddressActivity_schema, Address_schema, Reorganization_schema,
      SearchResult_schema, envelope_ref ''Status'', envelope_array_ref ''BlockSummary'',
      envelope_ref ''BlockDetail'', envelope_ref ''RawBlock'', envelope_schema (nullable_ref ''AuxPow''),
      envelope_array_ref ''TransactionSummary'', envelope_ref ''TransactionDetail'',
      envelope_ref ''Address'', envelope_ref ''NetworkHistory'', envelope_ref ''ValuePoolHistory'',
      envelope_ref ''MergeMiningStats'', envelope_ref ''RichList'', envelope_ref ''AddressStats'',
      envelope_array_ref ''Reorganization'', envelope_ref ''SearchResult'', OpenApiDocument_schema]"
  by (simp_all add: schema_table_def members_def groups)

lemma schema_lookup [simp]:
  "map_of schema_table ''Hash'' = Some Hash_schema \<and>
   map_of schema_table ''DateTime'' = Some DateTime_schema \<and>
   map_of schema_table ''AtomicAmount'' = Some AtomicAmount_schema \<and>
   map_of schema_table ''Amount'' = Some Amount_schema \<and>
   map_of schema_table ''Meta'' = Some Meta_schema \<and>
   map_of schema_table ''LiveResponse'' = Some LiveResponse_schema \<and>
   map_of schema_table ''ReadyResponse'' = Some ReadyResponse_schema \<and>
   map_of schema_table ''ProblemDetails'' = Some ProblemDetails_schema \<and>
   map_of schema_table ''Status'' = Some Status_schema \<and>
   map_of schema_table ''MergeMiningSummary'' = Some MergeMiningSummary_schema \<and>
   map_of schema_table ''BlockSummary'' = Some BlockSummary_schema \<and>
   map_of schema_table ''ValuePool'' = Some ValuePool_schema \<and>
   map_of schema_table ''NetworkHistoryPoint'' = Some NetworkHistoryPoint_schema \<and>
   map_of schema_table ''NetworkHistory'' = Some NetworkHistory_schema \<and>
   map_of schema_table ''PoolSnapshot'' = Some PoolSnapshot_schema \<and>
   map_of schema_table ''ValuePoolHistoryPoint'' = Some ValuePoolHistoryPoint_schema \<and>
   map_of schema_table ''ValuePoolHistory'' = Some ValuePoolHistory_schema \<and>
   map_of schema_table ''MergeMiningStats'' = Some MergeMiningStats_schema \<and>
   map_of schema_table ''RichListEntry'' = Some RichListEntry_schema \<and>
   map_of schema_table ''RichList'' = Some RichList_schema \<and>
   map_of schema_table ''AddressStatsPoint'' = Some AddressStatsPoint_schema \<and>
   map_of schema_table ''AddressStats'' = Some AddressStats_schema \<and>
   map_of schema_table ''TransactionSummary'' = Some transaction_summary_schema \<and>
   map_of schema_table ''TransparentInput'' = Some TransparentInput_schema \<and>
   map_of schema_table ''TransparentOutput'' = Some TransparentOutput_schema \<and>
   map_of schema_table ''ParentObservation'' = Some ParentObservation_schema \<and>
   map_of schema_table ''AuxPow'' = Some AuxPow_schema \<and>
   map_of schema_table ''BlockDetail'' = Some BlockDetail_schema \<and>
   map_of schema_table ''RawBlock'' = Some RawBlock_schema \<and>
   map_of schema_table ''TransactionDetail'' = Some TransactionDetail_schema \<and>
   map_of schema_table ''AddressActivity'' = Some AddressActivity_schema \<and>
   map_of schema_table ''Address'' = Some Address_schema \<and>
   map_of schema_table ''Reorganization'' = Some Reorganization_schema \<and>
   map_of schema_table ''SearchResult'' = Some SearchResult_schema \<and>
   map_of schema_table ''StatusEnvelope'' = Some (envelope_ref ''Status'') \<and>
   map_of schema_table ''BlockListEnvelope'' = Some (envelope_array_ref ''BlockSummary'') \<and>
   map_of schema_table ''BlockDetailEnvelope'' = Some (envelope_ref ''BlockDetail'') \<and>
   map_of schema_table ''RawBlockEnvelope'' = Some (envelope_ref ''RawBlock'') \<and>
   map_of schema_table ''AuxPowEnvelope'' = Some (envelope_schema (nullable_ref ''AuxPow'')) \<and>
   map_of schema_table ''TransactionListEnvelope'' = Some (envelope_array_ref ''TransactionSummary'') \<and>
   map_of schema_table ''TransactionDetailEnvelope'' = Some (envelope_ref ''TransactionDetail'') \<and>
   map_of schema_table ''AddressEnvelope'' = Some (envelope_ref ''Address'') \<and>
   map_of schema_table ''NetworkHistoryEnvelope'' = Some (envelope_ref ''NetworkHistory'') \<and>
   map_of schema_table ''ValuePoolHistoryEnvelope'' = Some (envelope_ref ''ValuePoolHistory'') \<and>
   map_of schema_table ''MergeMiningStatsEnvelope'' = Some (envelope_ref ''MergeMiningStats'') \<and>
   map_of schema_table ''RichListEnvelope'' = Some (envelope_ref ''RichList'') \<and>
   map_of schema_table ''AddressStatsEnvelope'' = Some (envelope_ref ''AddressStats'') \<and>
   map_of schema_table ''ReorgListEnvelope'' = Some (envelope_array_ref ''Reorganization'') \<and>
   map_of schema_table ''SearchEnvelope'' = Some (envelope_ref ''SearchResult'') \<and>
   map_of schema_table ''OpenApiDocument'' = Some OpenApiDocument_schema"
  using table_lookup[OF schema_names] unfolding schema_table_columns by (simp only: list.map list.inject)

text \<open>Every reference of a value resolves.  The rules below keep the texts of the document out of
  the way.\<close>

definition resolve_all :: "json \<Rightarrow> (string \<times> json) list \<Rightarrow> bool" where
  "resolve_all root ms \<longleftrightarrow> list_all (resolves root \<circ> snd) ms"

primrec ref_ok :: "json \<Rightarrow> (string \<times> json) list \<Rightarrow> bool" where
  "ref_ok root [] \<longleftrightarrow> True"
| "ref_ok root (m # ms) \<longleftrightarrow>
     (if fst m = ''$ref'' then (case snd m of JString r \<Rightarrow> local_reference root r \<noteq> None | _ \<Rightarrow> True)
      else ref_ok root ms)"

lemma ref_ok_map_of:
  "ref_ok root ms \<longleftrightarrow> (case map_of ms ''$ref'' of Some (JString r) \<Rightarrow> local_reference root r \<noteq> None | _ \<Rightarrow> True)"
  by (induction ms) (auto split: json.splits)

lemma resolves_simps [simp]:
  "resolves root JNull" "resolves root (JBool b)" "resolves root (JNumber n)" "resolves root (JString s)"
  "resolves root (JArray vs) \<longleftrightarrow> list_all (resolves root) vs"
  "resolves root (JObject ms) \<longleftrightarrow> resolve_all root ms \<and> ref_ok root ms"
  "resolve_all root []" "resolve_all root ((k, v) # ms) \<longleftrightarrow> resolves root v \<and> resolve_all root ms"
  "resolve_all root (xs @ ys) \<longleftrightarrow> resolve_all root xs \<and> resolve_all root ys"
  by (auto simp: resolves_def resolve_all_def ref_ok_map_of list_all_iff comp_def split: option.splits json.splits)

text \<open>Under these congruences the values are taken apart without being simplified first.\<close>

lemma frozen:
  "resolves root v = resolves root v" "resolve_all root ms = resolve_all root ms"
  "ref_ok root ms = ref_ok root ms" "list_all P xs = list_all P xs"
  by (rule refl)+

lemma resolves_nullable [simp]: "resolves root (nullable s) \<longleftrightarrow> resolves root s"
  by (simp add: nullable_def)

lemmas openapi_refs = nullable_ref_def schema_ref_def response_ref_def parameter_ref_def

lemma resolves_map_string [simp]: "list_all (resolves root) (map JString xs)"
  by (induction xs) simp_all

lemma core_schema_resolve: "resolves the_document core_schemas"
  unfolding core_schemas_def openapi_refs Hash_schema_def DateTime_schema_def AtomicAmount_schema_def
    Amount_schema_def Meta_schema_def LiveResponse_schema_def ReadyResponse_schema_def
    ProblemDetails_schema_def
  by (simp cong: frozen)

lemma chain_schema_resolve: "resolves the_document chain_schemas"
  unfolding chain_schemas_def openapi_refs Status_schema_def MergeMiningSummary_schema_def BlockSummary_schema_def
    ValuePool_schema_def
  by (simp cong: frozen)

lemma history_schema_resolve: "resolves the_document history_schemas"
  unfolding history_schemas_def openapi_refs NetworkHistoryPoint_schema_def NetworkHistory_schema_def
    PoolSnapshot_schema_def ValuePoolHistoryPoint_schema_def ValuePoolHistory_schema_def
    MergeMiningStats_schema_def
  by (simp cong: frozen)

lemma balance_schema_resolve: "resolves the_document balance_schemas"
  unfolding balance_schemas_def openapi_refs RichListEntry_schema_def RichList_schema_def
    AddressStatsPoint_schema_def AddressStats_schema_def
  by (simp cong: frozen)

lemma transaction_schema_resolve: "resolves the_document transaction_schemas"
  unfolding transaction_schemas_def openapi_refs transaction_summary_schema_def TransparentInput_schema_def
    TransparentOutput_schema_def ParentObservation_schema_def AuxPow_schema_def
  by (simp cong: frozen)

lemma detail_schema_resolve: "resolves the_document detail_schemas"
  unfolding detail_schemas_def openapi_refs envelope_ref_def envelope_array_ref_def envelope_schema_def
    BlockDetail_schema_def RawBlock_schema_def TransactionDetail_schema_def AddressActivity_schema_def
    Address_schema_def Reorganization_schema_def SearchResult_schema_def OpenApiDocument_schema_def
  by (simp cong: frozen)

lemma resolves_members: "resolves root v \<Longrightarrow> resolve_all root (members v)"
  by (cases v) (simp_all add: members_def)

lemma schema_table_resolves: "resolve_all the_document schema_table"
  using core_schema_resolve chain_schema_resolve history_schema_resolve balance_schema_resolve
    transaction_schema_resolve detail_schema_resolve
  by (simp add: schema_table_def resolves_members)

lemma component_names [simp]:
  "jget ''Cursor'' parameter_components \<noteq> None" "jget ''Limit'' parameter_components \<noteq> None"
  "jget ''BlockId'' parameter_components \<noteq> None" "jget ''TransactionId'' parameter_components \<noteq> None"
  "jget ''Address'' parameter_components \<noteq> None" "jget ''BlockContext'' parameter_components \<noteq> None"
  "jget ''SearchQuery'' parameter_components \<noteq> None" "jget ''HistoryBefore'' parameter_components \<noteq> None"
  "jget ''HistoryLimit'' parameter_components \<noteq> None" "jget ''RichListLimit'' parameter_components \<noteq> None"
  "jget ''BadRequest'' response_components \<noteq> None" "jget ''NotFound'' response_components \<noteq> None"
  "jget ''NotReady'' response_components \<noteq> None" "jget ''InternalError'' response_components \<noteq> None"
  by (simp_all add: parameter_components_def response_components_def)

lemmas operation_parts = success_response_def problem_schema_response_def pagination_parameters_def
  analytics_history_parameters_def status_operation_def

lemma health_resolve: "resolve_all the_document health_paths"
  unfolding health_paths_def operation_parts openapi_refs by (simp cong: frozen)

lemma status_resolve: "resolve_all the_document status_paths"
  unfolding status_paths_def operation_parts openapi_refs by (simp cong: frozen)

lemma analytics_resolve: "resolve_all the_document analytics_paths"
  unfolding analytics_paths_def operation_parts openapi_refs by (simp cong: frozen)

lemma block_resolve: "resolve_all the_document block_paths"
  unfolding block_paths_def operation_parts openapi_refs by (simp cong: frozen)

lemma transaction_resolve: "resolve_all the_document transaction_paths"
  unfolding transaction_paths_def operation_parts openapi_refs by (simp cong: frozen)

lemma address_resolve: "resolve_all the_document address_paths"
  unfolding address_paths_def operation_parts openapi_refs by (simp cong: frozen)

lemma chain_resolve: "resolve_all the_document chain_paths"
  unfolding chain_paths_def operation_parts openapi_refs by (simp cong: frozen)

lemma components_resolve:
  "resolves the_document parameter_components" "resolves the_document response_components"
  unfolding parameter_components_def response_components_def operation_parts openapi_refs
  by (simp_all cong: frozen)

lemma path_names:
  "map fst path_table =
     [''/health/live'', ''/health/ready'', ''/api/v1/status'', ''/api/v1/stats'', ''/api/v1/network/history'',
      ''/api/v1/value-pools/history'', ''/api/v1/merge-mining/stats'', ''/api/v1/blocks'', ''/api/v1/blocks/{id}'',
      ''/api/v1/blocks/{id}/raw'', ''/api/v1/blocks/{id}/auxpow'', ''/api/v1/transactions'',
      ''/api/v1/transactions/{txid}'', ''/api/v1/addresses/{address}'', ''/api/v1/addresses/stats'',
      ''/api/v1/addresses/rich-list'', ''/api/v1/reorgs'', ''/api/v1/search'', ''/api/openapi.json'']"
  unfolding path_table_def health_paths_def status_paths_def analytics_paths_def block_paths_def
    transaction_paths_def address_paths_def chain_paths_def
  by (simp only: list.map append.simps fst_conv)

lemma no_root_reference: "k \<notin> fst ` set ms \<Longrightarrow> k = ''$ref'' \<Longrightarrow> ref_ok root ms"
  by (induction ms) auto

lemma table_refs: "ref_ok root path_table" "ref_ok root schema_table"
  by (rule no_root_reference[OF _ refl],
      simp only: set_map[symmetric] path_names schema_table_columns, simp)+

lemma document_resolves: "resolves the_document the_document"
proof -
  have "resolves the_document (the openapi_document)"
    unfolding openapi_document_def openapi_schemas_table openapi_info_def openapi_tags_def path_table_def[symmetric]
    by (simp add: components_resolve schema_table_resolves table_refs, simp add: path_table_def health_resolve
        status_resolve analytics_resolve block_resolve transaction_resolve address_resolve chain_resolve)
  then show ?thesis by (simp add: the_document_def)
qed

section \<open>Parameters and limits\<close>

lemma template_parameters:
  "map template_parameters (map fst path_table) =
     [[], [], [], [], [], [], [], [], [''id''], [''id''], [''id''], [], [''txid''], [''address''], [], [], [], [], []]"
  unfolding path_names by (simp add: template_parameters_def segment_of_def List.map_filter_simps)

lemmas parameter_reading = path_parameters_def operation_parameters_def text_at_def List.map_filter_simps
  operation_parts openapi_refs

lemma path_parameters_by_group:
  "map (path_parameters the_document \<circ> snd) health_paths = [[], []]"
  "map (path_parameters the_document \<circ> snd) status_paths = [[], []]"
  "map (path_parameters the_document \<circ> snd) analytics_paths = [[], [], []]"
  "map (path_parameters the_document \<circ> snd) block_paths = [[], [''id''], [''id''], [''id'']]"
  "map (path_parameters the_document \<circ> snd) transaction_paths = [[], [''txid'']]"
  "map (path_parameters the_document \<circ> snd) address_paths = [[''address''], [], []]"
  "map (path_parameters the_document \<circ> snd) chain_paths = [[], [], []]"
  by (simp_all add: health_paths_def status_paths_def analytics_paths_def block_paths_def transaction_paths_def
      address_paths_def chain_paths_def parameter_reading parameter_components_def)

lemma path_parameters_exact:
  "list_all (\<lambda>(p, item). path_parameters the_document item = template_parameters p) path_table"
proof -
  have "map (path_parameters the_document \<circ> snd) path_table =
      [[], [], [], [], [], [], [], [], [''id''], [''id''], [''id''], [], [''txid''], [''address''], [], [], [], [], []]"
    unfolding path_table_def map_append path_parameters_by_group by (simp only: append.simps)
  then have "map (path_parameters the_document \<circ> snd) path_table = map (template_parameters \<circ> fst) path_table"
    using template_parameters by (simp only: map_map)
  then show ?thesis by (auto simp: list_all_iff)
qed

lemma documented_ranges:
  "documented_range the_document ''Limit'' = (Some 1, Some 100, Some 20)"
  "documented_range the_document ''HistoryLimit'' = (Some 2, Some 2048, Some 240)"
  "documented_range the_document ''RichListLimit'' = (Some 1, Some 100, Some 50)"
  by (simp_all add: documented_range_def number_at_def document_parts parameter_components_def)

section \<open>Claims\<close>

text \<open>C24. The OpenAPI document is complete and closed.  Building it never reaches its
  \<open>unreachable!\<close>; it documents every route the router serves and no other, each once; every
  reference in it resolves to a component; and the path parameters it documents for a path are
  exactly those of the path's template.\<close>

theorem openapi_document_complete:
  "\<exists>doc. openapi_document = Some doc \<and> resolves doc doc \<and>
     distinct (map fst (documented_paths doc)) \<and>
     set (map fst (documented_paths doc)) = set (map fst (api_routes @ analytics_routes)) \<and>
     list_all (\<lambda>(p, item). path_parameters doc item = template_parameters p) (documented_paths doc)"
proof (intro exI conjI)
  have paths: "documented_paths the_document = path_table" by (simp add: documented_paths_def document_parts)
  show "openapi_document = Some the_document" by (rule openapi_document_some)
  show "resolves the_document the_document" by (rule document_resolves)
  show "distinct (map fst (documented_paths the_document))" unfolding paths path_names by simp
  show "set (map fst (documented_paths the_document)) = set (map fst (api_routes @ analytics_routes))"
    unfolding paths path_names api_routes_def analytics_routes_def
    by (simp only: list.map append.simps fst_conv list.set) (rule set_eqI, auto simp only: insert_iff)
  show "list_all (\<lambda>(p, item). path_parameters the_document item = template_parameters p)
      (documented_paths the_document)" unfolding paths by (rule path_parameters_exact)
qed

lemma clamp_range:
  assumes "(lo :: nat) \<le> hi"
  shows "range (\<lambda>q. max lo (min hi (case q of None \<Rightarrow> df | Some n \<Rightarrow> n))) = {lo..hi}" (is "range ?f = _")
proof (intro equalityI subsetI)
  fix x assume "x \<in> {lo..hi}"
  then have "x = ?f (Some x)" by simp
  then show "x \<in> range ?f" by (rule range_eqI)
qed (use assms in auto)

text \<open>C25. The limits in the document are those of the code: the values a page size and a history
  length can take, for whatever the client asks, are exactly the documented interval, and each
  default is the documented default; for the rich list, the documented numbers are its constants.\<close>

theorem documented_limits:
  "(case documented_range the_document ''Limit'' of (lo, hi, df) \<Rightarrow>
      range bounded_limit = {the lo .. the hi} \<and> df = Some (bounded_limit None)) \<and>
   (case documented_range the_document ''HistoryLimit'' of (lo, hi, df) \<Rightarrow>
      range history_limit = {the lo .. the hi} \<and> df = Some (history_limit None)) \<and>
   documented_range the_document ''RichListLimit'' = (Some 1, Some MAX_RICH_LIST_LIMIT, Some DEFAULT_RICH_LIST_LIMIT)"
proof -
  have page: "bounded_limit = (\<lambda>q. max 1 (min 100 (case q of None \<Rightarrow> 20 | Some n \<Rightarrow> n)))"
    unfolding bounded_limit_def MAX_PAGE_SIZE_def DEFAULT_PAGE_SIZE_def by (rule refl)
  have history: "history_limit = (\<lambda>q. max 2 (min 2048 (case q of None \<Rightarrow> 240 | Some n \<Rightarrow> n)))"
    unfolding history_limit_def MAX_HISTORY_LIMIT_def DEFAULT_HISTORY_LIMIT_def by (rule refl)
  have "range bounded_limit = {1..100}" unfolding page by (rule clamp_range) simp
  moreover have "range history_limit = {2..2048}" unfolding history by (rule clamp_range) simp
  moreover have "bounded_limit None = 20" "history_limit None = 240" by (simp_all add: page history)
  ultimately show ?thesis
    by (simp add: documented_ranges MAX_RICH_LIST_LIMIT_def DEFAULT_RICH_LIST_LIMIT_def)
qed

end
