(* ===== verification/Conformance.thy ===== *)
theory Conformance imports Openapi_Props begin

text \<open>
  Checking the values of \<open>Json_Views\<close> against the schemas of \<open>Openapi_Schemas\<close>: the rules for
  each keyword, and for each schema a condition on the view under which its JSON is valid.
\<close>

section \<open>Validity, keyword by keyword\<close>

named_theorems validity "rules that check a value against a schema"

lemma valid_numeral [validity]:
  "valid (numeral k) root s v = valid (Suc (pred_numeral k)) root s v"
  "evaluated (numeral k) root s = evaluated (Suc (pred_numeral k)) root s"
  by (simp_all only: numeral_eq_Suc)

lemma valid_object [validity]:
  "valid (Suc n) root (JObject ms) v \<longleftrightarrow> list_all (keyword (valid n root) (evaluated n root) root ms v) ms"
  by simp

lemma keyword_rules [validity]:
  "keyword ok ev root ms v (''type'', JString t) \<longleftrightarrow> has_type t v"
  "keyword ok ev root ms v (''const'', JString t) \<longleftrightarrow> v = JString t"
  "keyword ok ev root ms v (''format'', JString t)"
  "keyword ok ev root ms v (''description'', JString t)"
  "keyword ok ev root ms v (''examples'', JArray xs)"
  "keyword ok ev root ms v (''minimum'', JNumber (PosInt m)) \<longleftrightarrow> at_least m v"
  "keyword ok ev root ms v (''maximum'', JNumber (PosInt m)) \<longleftrightarrow> at_most m v"
  "keyword ok ev root ms v (''enum'', JArray xs) \<longleftrightarrow> v \<in> set xs"
  "keyword ok ev root ms v (''oneOf'', JArray xs) \<longleftrightarrow> count_true (map (\<lambda>s. ok s v) xs) = 1"
  "keyword ok ev root ms v (''allOf'', JArray xs) \<longleftrightarrow> list_all (\<lambda>s. ok s v) xs"
  "keyword ok ev root ms (JString s) (''pattern'', JString t) \<longleftrightarrow> matches_pattern t s"
  "keyword ok ev root ms (JString s) (''minLength'', JNumber (PosInt m)) \<longleftrightarrow> m \<le> length s"
  "keyword ok ev root ms (JString s) (''maxLength'', JNumber (PosInt m)) \<longleftrightarrow> length s \<le> m"
  "keyword ok ev root ms v (''$ref'', JString t) \<longleftrightarrow>
     (case local_reference root t of Some s \<Rightarrow> ok s v | None \<Rightarrow> False)"
  "keyword ok ev root ms (JArray ws) (''items'', JObject ps) \<longleftrightarrow> list_all (ok (JObject ps)) ws"
  by (simp_all add: keyword_def)

lemma in_keys: "JString x \<in> JString ` A \<longleftrightarrow> x \<in> A"
  by auto

lemma object_keywords [validity]:
  "keyword ok ev root ms (JObject vs) (''required'', JArray xs) \<longleftrightarrow>
     list_all (\<lambda>x. x \<in> JString ` set (map fst vs)) xs"
  "keyword ok ev root ms (JObject vs) (''properties'', JObject ps) \<longleftrightarrow>
     list_all (\<lambda>(p, w). case map_of ps p of None \<Rightarrow> True | Some s \<Rightarrow> ok s w) vs"
  "keyword ok ev root ms (JObject vs) (''additionalProperties'', JBool False) \<longleftrightarrow>
     (case map_of ms ''properties'' of
        Some ps \<Rightarrow> list_all (\<lambda>p. p \<in> set (keys_of ps)) (map fst vs) | None \<Rightarrow> vs = [])"
  by (simp_all add: keyword_def keys_of_def split: option.split)

text \<open>An object whose members are those of its schema, in the same order.\<close>

lemma text_neq: "x \<noteq> y \<Longrightarrow> (x # xs = y # ys) = False" "(x # xs = x # ys) = (xs = ys)"
  by auto

text \<open>An object whose members are those of its schema, in the same order.\<close>

lemma aligned_properties:
  assumes "map fst ps = map fst vs" and "distinct (map fst vs)"
  shows "list_all (\<lambda>(p, w). case map_of ps p of None \<Rightarrow> True | Some s \<Rightarrow> ok s w) vs \<longleftrightarrow>
     list_all2 (\<lambda>(_, s) (_, w). ok s w) ps vs"
  using assms
proof (induction ps vs rule: list_induct2')
  case (4 a ps b vs)
  have "list_all (\<lambda>(p, w). case map_of (a # ps) p of None \<Rightarrow> True | Some s \<Rightarrow> ok s w) vs \<longleftrightarrow>
      list_all (\<lambda>(p, w). case map_of ps p of None \<Rightarrow> True | Some s \<Rightarrow> ok s w) vs"
    using 4(2,3) by (intro list_all_cong) (auto simp: image_iff)
  then show ?case using 4 by (cases a; cases b) simp
qed simp_all

lemma aligned_keywords:
  "xs = map JString (map fst vs) \<Longrightarrow> keyword ok ev root ms (JObject vs) (''required'', JArray xs) = True"
  "map_of ms ''properties'' = Some (JObject ps) \<Longrightarrow> map fst ps = map fst vs \<Longrightarrow>
   keyword ok ev root ms (JObject vs) (''additionalProperties'', JBool False) = True"
  "map fst ps = map fst vs \<Longrightarrow> distinct (map fst vs) \<Longrightarrow>
   keyword ok ev root ms (JObject vs) (''properties'', JObject ps) \<longleftrightarrow> list_all2 (\<lambda>(_, s) (_, w). ok s w) ps vs"
proof -
  show "xs = map JString (map fst vs) \<Longrightarrow> keyword ok ev root ms (JObject vs) (''required'', JArray xs) = True"
    by (auto simp: object_keywords list_all_iff)
  show "map_of ms ''properties'' = Some (JObject ps) \<Longrightarrow> map fst ps = map fst vs \<Longrightarrow>
      keyword ok ev root ms (JObject vs) (''additionalProperties'', JBool False) = True"
    by (auto simp: object_keywords list_all_iff keys_of_def)
  show "map fst ps = map fst vs \<Longrightarrow> distinct (map fst vs) \<Longrightarrow>
      keyword ok ev root ms (JObject vs) (''properties'', JObject ps) \<longleftrightarrow> list_all2 (\<lambda>(_, s) (_, w). ok s w) ps vs"
    by (simp add: object_keywords aligned_properties)
qed

lemmas members = text_neq aligned_keywords

lemma has_type_rules [validity]:
  "has_type ''null'' JNull" "has_type ''string'' (JString s)" "has_type ''boolean'' (JBool b)"
  "has_type ''array'' (JArray vs)" "has_type ''object'' (JObject ms)"
  "has_type ''integer'' (j_nat n)" "has_type ''integer'' (j_int i)" "has_type ''number'' (JNumber (Float t))"
  by (simp_all add: has_type_def j_nat_def j_int_def)

lemma at_least_rules [validity]:
  "at_least m (j_nat n) \<longleftrightarrow> m \<le> n" "at_least m (j_int i) \<longleftrightarrow> int m \<le> i"
  "at_most m (j_nat n) \<longleftrightarrow> n \<le> m"
  by (auto simp: at_least_def at_most_def j_nat_def j_int_def)

lemma json_kinds [simp]:
  "j_nat n \<noteq> JString t" "j_int i \<noteq> JString t" "json_amount a \<noteq> JString t"
  by (simp_all add: j_nat_def j_int_def json_amount_def)

text \<open>The schemas that nothing but a reference or an \<open>oneOf\<close> uses.\<close>

lemma valid_schema_ref [validity]:
  assumes "CHR ''/'' \<notin> set n"
  shows "valid (Suc k) the_document (schema_ref n) v \<longleftrightarrow>
     (case map_of schema_table n of Some s \<Rightarrow> valid k the_document s v | None \<Rightarrow> False)"
  unfolding schema_ref_def
  by (simp only: valid_object list.pred_inject simp_thms keyword_rules local_reference_component(1)[OF assms])

lemma valid_ref_literal [validity]:
  "CHR ''/'' \<notin> set n \<Longrightarrow> valid (Suc k) the_document (JObject [(''$ref'', JString (''#/components/schemas/'' @ n))]) v \<longleftrightarrow>
     (case map_of schema_table n of Some s \<Rightarrow> valid k the_document s v | None \<Rightarrow> False)"
  using valid_schema_ref by (simp add: schema_ref_def)

lemma valid_nullable [validity]:
  "valid (Suc (Suc k)) root (nullable s) JNull \<longleftrightarrow> \<not> valid (Suc k) root s JNull"
  "v \<noteq> JNull \<Longrightarrow> valid (Suc (Suc k)) root (nullable s) v \<longleftrightarrow> valid (Suc k) root s v"
  by (auto simp: nullable_def keyword_rules count_true_def has_type_def split: json.splits json_number.splits)

text \<open>What a hash, a date and an amount must be.\<close>

lemma Hash_schema_valid:
  "valid (Suc k) the_document Hash_schema (JString s) \<longleftrightarrow>
     length s = 64 \<and> list_all (\<lambda>c. c \<in> set ''0123456789ABCDEFabcdef'') s"
  by (auto simp: Hash_schema_def keyword_rules has_type_rules matches_pattern_def)

lemma DateTime_schema_valid [validity]: "valid (Suc k) the_document DateTime_schema (j_time V t)"
  by (simp add: DateTime_schema_def j_time_def keyword_rules has_type_rules)

lemma hex_letters: "set ''0123456789abcdef'' \<subseteq> set ''0123456789ABCDEFabcdef''"
  by simp

lemma hash_text_valid [validity, simp]: "hash_text s \<Longrightarrow> valid (Suc k) the_document Hash_schema (JString s)"
  using hex_letters unfolding Hash_schema_valid hash_text_def is_lower_hex_of_length_def
  by (simp add: list_all_iff is_lower_hexdigit_def del: set_simps) blast

lemma eight_places_join:
  assumes "whole \<noteq> []" "list_all is_ascii_digit whole" "list_all is_ascii_digit fraction" "length fraction = 8"
  shows "eight_places (whole @ CHR ''.'' # fraction)"
  using assms by (auto simp: eight_places_def unsigned_digits_def nth_append)

lemma show_int_pattern: "matches_pattern ''^-?[0-9]+$'' (show_int z)"
  using show_nat_digits by (auto simp: matches_pattern_def optional_minus_def unsigned_digits_def show_int_def)

lemma decimal_pattern:
  assumes "nc_decimals n = 8"
  shows "matches_pattern (''^-?[0-9]+'' @ CHR 0x5C # ''.[0-9]{8}$'') (am_decimal (amount z n))"
proof -
  let ?whole = "show_nat (nat \<bar>z\<bar> div 10 ^ 8)" and ?fraction = "pad_zeros 8 (show_nat (nat \<bar>z\<bar> mod 10 ^ 8))"
  have "eight_places (?whole @ CHR ''.'' # ?fraction)"
    using amount_digits(1,2)[where z = z and w = 8] by (intro eight_places_join) simp_all
  then show ?thesis
    using assms by (auto simp: matches_pattern_def optional_minus_def amount_def Let_def)
qed

lemma amount_valid [validity]:
  assumes "nc_decimals n = 8"
  shows "valid (Suc (Suc (Suc (Suc k)))) the_document Amount_schema (json_amount (amount z n))"
  using show_int_pattern[of z] decimal_pattern[OF assms, of z]
  by (simp add: Amount_schema_def AtomicAmount_schema_def json_amount_def validity members amount_def Let_def
      del: list.inject object_keywords)

lemma j_opt_simps [validity]: "j_opt f None = JNull" "j_opt f (Some x) = f x"
  by (simp_all add: j_opt_def)

lemma not_null [simp]:
  "j_nat n \<noteq> JNull" "j_int i \<noteq> JNull" "json_amount a \<noteq> JNull" "j_time V t \<noteq> JNull"
  by (simp_all add: j_nat_def j_int_def json_amount_def j_time_def)

text \<open>A schema of an object or of a text refuses \<open>null\<close>, so a nullable value is \<open>null\<close> or valid.\<close>

lemma refuses_null:
  assumes "map_of ms ''type'' = Some (JString t)" and "t \<noteq> ''null''"
  shows "\<not> valid k root (JObject ms) JNull"
proof
  assume "valid k root (JObject ms) JNull"
  then have "list_all (\<lambda>(a, b). a = ''type'' \<and> b = JString t \<longrightarrow> has_type t JNull) ms"
    by (cases k) (auto simp: list_all_iff keyword_rules)
  moreover have "(''type'', JString t) \<in> set ms" using assms(1) by (rule map_of_SomeD)
  ultimately show False using assms(2) by (auto simp: list_all_iff has_type_def)
qed

lemma nullable_opt [validity]:
  assumes "map_of ms ''type'' = Some (JString t)" and "t \<noteq> ''null''" and "\<And>x. f x \<noteq> JNull"
  shows "valid (Suc (Suc k)) root (nullable (JObject ms)) (j_opt f v) \<longleftrightarrow>
     (case v of None \<Rightarrow> True | Some x \<Rightarrow> valid (Suc k) root (JObject ms) (f x))"
  using refuses_null[OF assms(1,2)] assms(3) by (cases v) (simp_all add: validity del: valid.simps list.inject object_keywords)

lemma nullable_ref_opt [validity]:
  assumes "CHR ''/'' \<notin> set n" and "map_of schema_table n = Some s"
    and "\<not> valid k the_document s JNull" and "\<And>x. f x \<noteq> JNull"
  shows "valid (Suc (Suc k)) the_document (nullable_ref n) (j_opt f v) \<longleftrightarrow>
     (case v of None \<Rightarrow> True | Some x \<Rightarrow> valid k the_document s (f x))"
  using assms(3,4) valid_schema_ref[OF assms(1), of k] assms(2)
  by (cases v) (simp_all add: nullable_ref_def validity del: valid.simps list.inject object_keywords)

lemma named_schemas_refuse_null [simp]:
  "\<not> valid k root Hash_schema JNull" "\<not> valid k root Amount_schema JNull" "\<not> valid k root DateTime_schema JNull"
  by (simp_all add: Hash_schema_def Amount_schema_def DateTime_schema_def refuses_null)

text \<open>The integers of the document.\<close>

lemma integer_valid [validity]:
  "valid (Suc k) root (JObject [(''type'', JString ''integer''), (''format'', JString w)]) (j_int i)"
  "valid (Suc k) root (JObject [(''type'', JString ''integer''), (''format'', JString w),
     (''minimum'', JNumber (PosInt m))]) (j_nat n) \<longleftrightarrow> m \<le> n"
  "valid (Suc k) root (JObject [(''type'', JString ''integer''), (''format'', JString w),
     (''minimum'', JNumber (PosInt m))]) (j_int i) \<longleftrightarrow> int m \<le> i"
  by (auto simp: keyword_rules has_type_rules at_least_rules)

lemma plain_valid [validity]:
  "valid (Suc k) root (JObject [(''type'', JString ''string'')]) (JString s)"
  "valid (Suc k) root (JObject [(''type'', JString ''boolean'')]) (JBool b)"
  by (simp_all add: keyword_rules has_type_rules)

lemma number_valid [validity]:
  "valid (Suc k) root (JObject [(''type'', JString ''number''), (''format'', JString w),
     (''minimum'', JNumber (PosInt 0))]) (JNumber (Float t)) \<longleftrightarrow> t = [] \<or> hd t \<noteq> CHR ''-''"
  by (auto simp: keyword_rules has_type_rules at_least_def)

lemma opt_integer [validity]:
  "case u of None \<Rightarrow> True | Some x \<Rightarrow> valid (Suc k) root (JObject [(''type'', JString ''integer''),
     (''format'', JString w), (''minimum'', JNumber (PosInt 0))]) (j_nat x)"
  "(case v of None \<Rightarrow> True | Some i \<Rightarrow> valid (Suc k) root (JObject [(''type'', JString ''integer''),
     (''format'', JString w), (''minimum'', JNumber (PosInt 0))]) (j_int i)) \<longleftrightarrow>
   (case v of None \<Rightarrow> True | Some i \<Rightarrow> 0 \<le> i)"
  by (simp_all add: integer_valid del: valid.simps list.inject object_keywords split: option.split)

lemma opt_plain [validity]:
  "case s of None \<Rightarrow> True | Some x \<Rightarrow> valid (Suc k) root (JObject [(''type'', JString ''string'')]) (JString x)"
  "case b of None \<Rightarrow> True | Some x \<Rightarrow> valid (Suc k) root (JObject [(''type'', JString ''boolean'')]) (JBool x)"
  "case t of None \<Rightarrow> True | Some x \<Rightarrow> valid (Suc k) the_document DateTime_schema (j_time V x)"
  "(case f of None \<Rightarrow> True | Some x \<Rightarrow> valid (Suc k) root (JObject [(''type'', JString ''number''),
     (''format'', JString w), (''minimum'', JNumber (PosInt 0))]) (JNumber (Float (g x)))) \<longleftrightarrow>
   (case f of None \<Rightarrow> True | Some x \<Rightarrow> g x = [] \<or> hd (g x) \<noteq> CHR ''-'')"
  by (simp_all add: plain_valid DateTime_schema_valid number_valid del: valid.simps list.inject object_keywords split: option.split)

section \<open>The parts of an answer\<close>

lemma Meta_valid [validity]:
  assumes "pm_freshness_seconds m = Some s" and "0 \<le> s"
  shows "valid (Suc (Suc (Suc (Suc k)))) the_document Meta_schema (json_meta m)"
  using assms by (simp add: Meta_schema_def json_meta_def validity members split: option.split del: valid.simps list.inject object_keywords)

lemma opt_hash_valid [validity]:
  "(case v of None \<Rightarrow> True | Some s \<Rightarrow> hash_text s) \<Longrightarrow>
   case v of None \<Rightarrow> True | Some s \<Rightarrow> valid (Suc k) the_document Hash_schema (JString s)"
  by (cases v) (simp_all del: valid.simps list.inject object_keywords)

definition amount_of :: "network_config \<Rightarrow> amount_view \<Rightarrow> bool" where
  "amount_of n a \<longleftrightarrow> (\<exists>z. a = amount z n)"

lemma amount_of_amount [simp]: "amount_of n (amount z n)"
  by (auto simp: amount_of_def)

lemma amount_of_valid:
  assumes "nc_decimals n = 8"
  shows "amount_of n a \<Longrightarrow> valid (Suc (Suc (Suc (Suc k)))) the_document Amount_schema (json_amount a)"
    and "(case v of None \<Rightarrow> True | Some a \<Rightarrow> amount_of n a) \<Longrightarrow>
      case v of None \<Rightarrow> True | Some a \<Rightarrow> valid (Suc (Suc (Suc (Suc k)))) the_document Amount_schema (json_amount a)"
  using amount_valid[OF assms] by (auto simp: amount_of_def simp del: valid.simps list.inject object_keywords split: option.split)

lemma MergeMining_valid [validity]:
  assumes "opt_all hash_text (mm_parent_block_hash m)"
  shows "valid (Suc (Suc (Suc (Suc k)))) the_document MergeMiningSummary_schema (json_merge_mining m)"
  using assms by (simp add: MergeMiningSummary_schema_def json_merge_mining_def validity members opt_all_def
      del: valid.simps list.inject object_keywords)

definition block_conformable :: "network_config \<Rightarrow> block_summary \<Rightarrow> bool" where
  "block_conformable n b \<longleftrightarrow>
     hash_text (bs_hash b) \<and> hash_text (bs_witness_hash b) \<and> 0 \<le> bs_size_bytes b \<and> 0 \<le> bs_transaction_count b \<and>
     amount_of n (bs_reward b) \<and> opt_all hash_text (mm_parent_block_hash (bs_merge_mining b))"

lemma BlockSummary_valid [validity]:
  assumes "block_conformable n b" and "nc_decimals n = 8"
  shows "valid (Suc (Suc (Suc (Suc (Suc (Suc k)))))) the_document BlockSummary_schema (json_block_summary V b)"
  using assms(1)
  by (simp add: BlockSummary_schema_def json_block_summary_def block_summary_members_def validity members block_conformable_def
      amount_of_valid[OF assms(2)] del: valid.simps list.inject object_keywords)

definition tx_conformable :: "network_config \<Rightarrow> tx_summary \<Rightarrow> bool" where
  "tx_conformable n t \<longleftrightarrow>
     hash_text (ts_txid t) \<and> hash_text (ts_instance_digest t) \<and> opt_all hash_text (ts_auth_digest t) \<and>
     hash_text (ts_block_hash t) \<and>
     ts_instance_digest_kind t \<in> {''consensus-auth-digest'', ''explorer-raw-hash''} \<and>
     ts_kind t \<in> {''coinbase'', ''transparent'', ''shielded'', ''mixed''} \<and>
     amount_of n (ts_public_output_value t) \<and> opt_all (amount_of n) (ts_fee t) \<and>
     opt_all (amount_of n) (ts_value_balance t) \<and>
     list_all (\<lambda>i. 0 \<le> i) [ts_size_bytes t, ts_transparent_input_count t, ts_transparent_output_count t,
       ts_sapling_spend_count t, ts_sapling_output_count t, ts_orchard_action_count t, ts_ironwood_action_count t,
       ts_position t]"

lemma TransactionSummary_valid [validity]:
  assumes "tx_conformable n t" and "nc_decimals n = 8"
  shows "valid (Suc (Suc (Suc (Suc (Suc (Suc (Suc k))))))) the_document transaction_summary_schema (json_tx_summary V t)"
  using assms(1)
  by (simp add: transaction_summary_schema_def json_tx_summary_def tx_summary_members_def validity members tx_conformable_def opt_all_def
      amount_of_valid[OF assms(2)] del: valid.simps list.inject object_keywords)

text \<open>Every member of a status is documented as it is, but the lag: it is negative when the node has
  fallen behind the index, and the document gives it the minimum zero.\<close>

definition status_conformable :: "renderers \<Rightarrow> network_config \<Rightarrow> status_view \<Rightarrow> bool" where
  "status_conformable V n s \<longleftrightarrow>
     opt_all hash_text (sv_indexed_hash s) \<and> opt_all hash_text (sv_node_hash s) \<and>
     list_all (amount_of n) [sv_total_issued s, sv_max_supply s, sv_initial_subsidy s] \<and>
     0 \<le> sv_uptime_seconds s \<and> 0 < sv_target_spacing_seconds s \<and> 0 < sv_halving_interval s \<and>
     0 < sv_next_halving_height s \<and>
     opt_all (\<lambda>x. rd_f64 V x = [] \<or> hd (rd_f64 V x) \<noteq> CHR ''-'') (sv_observed_spacing s)"

lemma Status_valid:
  assumes "status_conformable V n s" and "nc_decimals n = 8"
  shows "valid (Suc (Suc (Suc (Suc (Suc (Suc k)))))) the_document Status_schema (json_status V s) \<longleftrightarrow>
     opt_all (\<lambda>l. 0 \<le> l) (sv_lag_blocks s)"
  using assms(1)
  by (simp add: Status_schema_def json_status_def validity members status_conformable_def Suc_le_eq
      amount_of_valid[OF assms(2)] opt_all_def del: valid.simps list.inject object_keywords)

end
