(* ===== verification/Conformance_Views.thy ===== *)
theory Conformance_Views imports Conformance Stored_Values begin

text \<open>
  The conditions on the other views of the API under which their JSON is valid for the schema the
  OpenAPI document gives them: readiness, reorganizations, raw blocks, block and transaction details,
  AuxPoW evidence, addresses and the analytics.
\<close>

section \<open>Health and reorganizations\<close>

lemma ReadyResponse_valid:
  assumes "ry_indexed_height r = Some i" and "0 \<le> i" and "ry_node_height r = Some j" and "0 \<le> j"
  shows "valid (Suc (Suc (Suc k))) the_document ReadyResponse_schema (json_ready V r)"
  using assms by (simp add: ReadyResponse_schema_def json_ready_def validity members del: valid.simps list.inject object_keywords)

definition reorg_conformable :: "reorg_view \<Rightarrow> bool" where
  "reorg_conformable g \<longleftrightarrow>
     0 \<le> re_old_tip_height (rg_row g) \<and> hash_text (re_old_tip_hash (rg_row g)) \<and>
     opt_all (\<lambda>h. 0 \<le> h) (re_common_ancestor_height (rg_row g)) \<and>
     opt_all hash_text (re_common_ancestor_hash (rg_row g))"

lemma Reorganization_valid:
  assumes "reorg_conformable g"
  shows "valid (Suc (Suc (Suc (Suc k)))) the_document Reorganization_schema (json_reorg V g)"
  using assms by (simp add: Reorganization_schema_def json_reorg_def validity members reorg_conformable_def opt_all_def
      del: valid.simps list.inject object_keywords)

section \<open>Blocks\<close>

text \<open>\<open>hex::encode\<close> gives pairs of lower-case digits; the document accepts either case for scripts.\<close>

definition hex_pairs :: "string \<Rightarrow> bool" where
  "hex_pairs s \<longleftrightarrow> even (length s) \<and> list_all (\<lambda>c. c \<in> set ''0123456789ABCDEFabcdef'') s"

definition lower_hex_pairs :: "string \<Rightarrow> bool" where
  "lower_hex_pairs s \<longleftrightarrow> even (length s) \<and> list_all (\<lambda>c. c \<in> set ''0123456789abcdef'') s"

lemma hex_pairs_pattern:
  "matches_pattern ''^(?:[0-9a-f]{2})*$'' s \<longleftrightarrow> lower_hex_pairs s"
  "matches_pattern ''^(?:[0-9A-Fa-f]{2})*$'' s \<longleftrightarrow> hex_pairs s"
  by (simp_all add: matches_pattern_def lower_hex_pairs_def hex_pairs_def)

lemma RawBlock_valid:
  assumes "hash_text (rv_block_hash r)" and "hash_text (rv_witness_hash r)" and "rv_encoding r = ''hex''"
    and "lower_hex_pairs (rv_data r)"
  shows "valid (Suc (Suc (Suc k))) the_document RawBlock_schema (json_raw_block r)"
  using assms by (simp add: RawBlock_schema_def json_raw_block_def validity members hex_pairs_pattern del: valid.simps list.inject object_keywords)

definition pool_conformable :: "network_config \<Rightarrow> value_pool_view \<Rightarrow> bool" where
  "pool_conformable n p \<longleftrightarrow> opt_all (amount_of n) (vv_chain_value p) \<and> opt_all (amount_of n) (vv_value_delta p)"

lemma opt_amount:
  "nc_decimals n = 8 \<Longrightarrow> opt_all (amount_of n) v \<Longrightarrow>
   case v of None \<Rightarrow> True | Some a \<Rightarrow> valid (Suc (Suc (Suc (Suc k)))) the_document Amount_schema (json_amount a)"
  unfolding opt_all_def by (rule amount_of_valid)

lemma flag_valid [validity]:
  "valid (Suc k) root (JObject [(''type'', JString ''boolean''), (''description'', JString t)]) (JBool b)"
  "case v of None \<Rightarrow> True | Some x \<Rightarrow>
     valid (Suc k) root (JObject [(''type'', JString ''boolean''), (''description'', JString t)]) (JBool x)"
  by (simp_all add: keyword_rules has_type_rules split: option.split)

lemma ValuePool_valid:
  assumes "pool_conformable n p" and "nc_decimals n = 8"
  shows "valid (Suc (Suc (Suc (Suc (Suc (Suc (Suc k))))))) the_document ValuePool_schema (json_value_pool p)"
  using assms(1) by (simp add: ValuePool_schema_def json_value_pool_def validity members pool_conformable_def
      opt_amount[OF assms(2)] del: valid.simps list.inject object_keywords)

lemma j_list_keywords [validity]:
  "has_type ''array'' (j_list f xs)"
  "keyword ok ev root ms (j_list f xs) (''items'', JObject ps) \<longleftrightarrow> list_all (\<lambda>x. ok (JObject ps) (f x)) xs"
  by (simp_all add: j_list_def keyword_rules has_type_rules list_all_iff)

definition observation_conformable :: "string \<times> observation_row \<Rightarrow> bool" where
  "observation_conformable s \<longleftrightarrow> opt_all (\<lambda>h. 0 \<le> h) (ow_parent_height (snd s))"

lemma opt_signed [validity]:
  "case v of None \<Rightarrow> True | Some i \<Rightarrow>
     valid (Suc k) root (JObject [(''type'', JString ''integer''), (''format'', JString w)]) (j_int i)"
  by (simp add: integer_valid del: valid.simps list.inject object_keywords split: option.split)

lemma ParentObservation_valid:
  assumes "observation_conformable s"
  shows "valid (Suc (Suc (Suc (Suc k)))) the_document ParentObservation_schema (json_observation V s)"
  using assms by (cases s) (simp add: ParentObservation_schema_def json_observation_def validity members
      observation_conformable_def opt_all_def del: valid.simps list.inject object_keywords)

definition auxpow_conformable :: "auxpow_view \<Rightarrow> bool" where
  "auxpow_conformable x \<longleftrightarrow>
     (let l = xw_link (xv_row x) in
      0 \<le> lk_proof_version l \<and> 0 \<le> lk_proof_size l \<and> hash_text (xv_witness_hash x) \<and>
      opt_all (\<lambda>c. 0 \<le> c) (xw_witness_confirmations (xv_row x)) \<and> hash_text (lk_parent_block_hash l) \<and>
      hash_text (lk_parent_coinbase_txid l) \<and> sane_link l \<and> list_all observation_conformable (xv_observations x))"

lemma opt_uri [validity]:
  "case v of None \<Rightarrow> True | Some s \<Rightarrow>
     valid (Suc k) root (JObject [(''type'', JString ''string''), (''format'', JString w)]) (JString s)"
  by (simp add: keyword_rules has_type_rules split: option.split)

lemma AuxPow_valid:
  assumes "auxpow_conformable x"
  shows "valid (Suc (Suc (Suc (Suc (Suc (Suc (Suc k))))))) the_document AuxPow_schema (json_auxpow V x)"
proof -
  have "list_all (\<lambda>s. valid (Suc (Suc (Suc (Suc k)))) the_document ParentObservation_schema (json_observation V s))
      (xv_observations x)"
    using assms ParentObservation_valid by (auto simp: auxpow_conformable_def Let_def list_all_iff)
  then show ?thesis
    using assms
    by (simp add: AuxPow_schema_def json_auxpow_def Let_def validity members auxpow_conformable_def sane_link_def opt_all_def
      del: valid.simps list.inject object_keywords)
qed

section \<open>Details\<close>

text \<open>A detail is a summary with further members: \<open>allOf\<close> of the two schemas, nothing else.\<close>

abbreviation open_object :: "json list \<Rightarrow> (string \<times> json) list \<Rightarrow> json" where
  "open_object xs ps \<equiv> JObject [(''type'', JString ''object''), (''required'', JArray xs), (''properties'', JObject ps)]"

lemma unknown_members:
  "fst ` set ps \<inter> fst ` set vs = {} \<Longrightarrow> list_all (\<lambda>(p, w). case map_of ps p of None \<Rightarrow> True | Some s \<Rightarrow> ok s w) vs"
  by (force simp: list_all_iff split: option.split dest: map_of_SomeD)

lemma valid_open_object:
  assumes "valid (Suc k) root (open_object xs ps) (JObject vs)" and "set vs \<subseteq> set ws"
    and "fst ` set ps = fst ` set vs" and "distinct (map fst ws)"
  shows "valid (Suc k) root (open_object xs ps) (JObject ws)"
proof -
  have "x \<in> JString ` fst ` set ws" if "x \<in> JString ` fst ` set vs" for x using that assms(2) by auto
  moreover have "case map_of ps p of None \<Rightarrow> True | Some s \<Rightarrow> valid k root s w" if "(p, w) \<in> set ws" for p w
  proof (cases "p \<in> fst ` set vs")
    case True
    then obtain w' where w': "(p, w') \<in> set vs" by auto
    with assms(2,4) that have "w' = w" by (metis map_of_is_SomeI option.inject subsetD)
    then show ?thesis using w' assms(1) by (auto simp: validity list_all_iff simp del: valid.simps)
  next
    case False
    then have "map_of ps p = None" using assms(3) by (simp add: map_of_eq_None_iff)
    then show ?thesis by simp
  qed
  ultimately show ?thesis using assms(1) by (auto simp: validity list_all_iff simp del: valid.simps)
qed

lemma evaluated_parts:
  "CHR ''/'' \<notin> set n \<Longrightarrow> map_of schema_table n = Some (open_object xs ps) \<Longrightarrow>
   set (evaluated (Suc (Suc (Suc k))) the_document (JObject
     [(''unevaluatedProperties'', JBool False),
      (''allOf'', JArray [JObject [(''$ref'', JString (''#/components/schemas/'' @ n))], open_object ys qs])])) =
   fst ` set ps \<union> fst ` set qs"
  by (simp add: keys_of_def local_reference_component)

lemma valid_combined:
  assumes "CHR ''/'' \<notin> set n" and "map_of schema_table n = Some (open_object xs ps)"
    and "valid (Suc (Suc k)) the_document (open_object xs ps) (JObject us)" and "fst ` set ps = fst ` set us"
    and "valid (Suc (Suc (Suc k))) the_document (open_object ys qs) (JObject ws)" and "fst ` set qs = fst ` set ws"
    and "distinct (map fst (us @ ws))"
  shows "valid (Suc (Suc (Suc (Suc k)))) the_document (JObject
     [(''unevaluatedProperties'', JBool False),
      (''allOf'', JArray [JObject [(''$ref'', JString (''#/components/schemas/'' @ n))], open_object ys qs])])
     (JObject (us @ ws))"
proof -
  have "valid (Suc (Suc k)) the_document (open_object xs ps) (JObject (us @ ws))"
    using valid_open_object[OF assms(3) _ assms(4,7)] by simp
  then have "valid (Suc (Suc (Suc k))) the_document (JObject [(''$ref'', JString (''#/components/schemas/'' @ n))]) (JObject (us @ ws))"
    using valid_ref_literal[OF assms(1), of "Suc (Suc k)"] assms(2) by (simp del: valid.simps)
  moreover have "valid (Suc (Suc (Suc k))) the_document (open_object ys qs) (JObject (us @ ws))"
    using valid_open_object[OF assms(5) _ assms(6,7)] by simp
  ultimately show ?thesis
    using evaluated_parts[OF assms(1,2), of k ys qs] assms(4,6)
    by (auto simp: valid_object keyword_def keys_of_def list_all_iff simp del: valid.simps evaluated.simps)
qed

definition input_conformable :: "input_view \<Rightarrow> bool" where
  "input_conformable i \<longleftrightarrow>
     0 \<le> iv_input_index i \<and> opt_all hash_text (ir_previous_txid (iv_row i)) \<and>
     opt_all (\<lambda>k. 0 \<le> k) (ir_previous_output_index (iv_row i)) \<and> opt_all (\<lambda>k. 0 \<le> k) (ir_sequence (iv_row i))"

lemma TransparentInput_valid:
  assumes "input_conformable i"
  shows "valid (Suc (Suc (Suc (Suc k)))) the_document TransparentInput_schema (json_input i)"
  using assms by (simp add: TransparentInput_schema_def json_input_def validity members input_conformable_def opt_all_def
      del: valid.simps list.inject object_keywords)

definition output_conformable :: "network_config \<Rightarrow> output_view \<Rightarrow> bool" where
  "output_conformable n out \<longleftrightarrow>
     0 \<le> ov_index out \<and> amount_of n (ov_value out) \<and> opt_all hex_pairs (ov_script_hex out)"

lemma opt_hex_pairs:
  "opt_all hex_pairs v \<Longrightarrow>
   case v of None \<Rightarrow> True | Some s \<Rightarrow>
     valid (Suc k) root (JObject [(''type'', JString ''string''), (''pattern'', JString ''^(?:[0-9A-Fa-f]{2})*$'')]) (JString s)"
  by (simp add: keyword_rules has_type_rules hex_pairs_pattern opt_all_def split: option.splits)

lemma TransparentOutput_valid:
  assumes "output_conformable n out" and "nc_decimals n = 8"
  shows "valid (Suc (Suc (Suc (Suc (Suc (Suc k)))))) the_document TransparentOutput_schema (json_output out)"
  using assms(1) by (simp add: TransparentOutput_schema_def json_output_def validity members output_conformable_def
      amount_of_valid[OF assms(2)] opt_hex_pairs del: valid.simps list.inject object_keywords)

definition tx_detail_conformable :: "network_config \<Rightarrow> tx_detail \<Rightarrow> bool" where
  "tx_detail_conformable n t \<longleftrightarrow>
     tx_conformable n (td_summary t) \<and> list_all input_conformable (td_inputs t) \<and>
     list_all (output_conformable n) (td_outputs t)"

lemma anything_valid [validity]: "valid (Suc k) root (JObject [(''description'', JString t)]) v"
  by (simp add: keyword_rules)

lemma TransactionDetail_valid:
  assumes "tx_detail_conformable n t" and "nc_decimals n = 8"
  shows "valid (Suc (Suc (Suc (Suc (Suc (Suc (Suc (Suc (Suc (Suc k)))))))))) the_document TransactionDetail_schema (json_tx_detail V t)"
proof -
  have summary: "tx_conformable n (td_summary t)" and
    ins: "list_all (\<lambda>x. valid (Suc (Suc (Suc (Suc (Suc (Suc k)))))) the_document TransparentInput_schema (json_input x)) (td_inputs t)" and
    outs: "list_all (\<lambda>x. valid (Suc (Suc (Suc (Suc (Suc (Suc k)))))) the_document TransparentOutput_schema (json_output x)) (td_outputs t)"
    using assms TransparentInput_valid TransparentOutput_valid by (auto simp: tx_detail_conformable_def list_all_iff)
  have "valid (Suc (Suc (Suc (Suc (Suc (Suc (Suc (Suc k)))))))) the_document transaction_summary_schema (JObject (tx_summary_members V (td_summary t)))"
    using TransactionSummary_valid[OF summary assms(2)] by (simp only: json_tx_summary_def)
  then show ?thesis
    unfolding TransactionDetail_schema_def json_tx_detail_def
    apply (intro valid_combined[of "''TransactionSummary''", unfolded append.simps])
         apply simp
        apply (simp add: transaction_summary_schema_def)
       apply (simp add: transaction_summary_schema_def del: valid.simps)
      apply (simp add: tx_summary_members_def)
     apply (use ins outs in \<open>simp add: validity members del: valid.simps list.inject object_keywords\<close>)
    apply simp
    apply (simp add: tx_summary_members_def text_neq del: list.inject)
    done
qed

definition block_detail_conformable :: "network_config \<Rightarrow> block_detail \<Rightarrow> bool" where
  "block_detail_conformable n b \<longleftrightarrow>
     block_conformable n (dt_summary b) \<and> opt_all hash_text (bd_previous_block_hash (dt_row b)) \<and>
     opt_all hash_text (bd_next_block_hash (dt_row b)) \<and> hash_text (bd_merkle_root (dt_row b)) \<and>
     opt_all hash_text (bd_block_commitments (dt_row b)) \<and> list_all (pool_conformable n) (dt_value_pools b) \<and>
     list_all (tx_conformable n) (dt_transactions b) \<and> opt_all auxpow_conformable (dt_auxpow b)"

lemma AuxPow_refuses_null [simp]: "\<not> valid k root AuxPow_schema JNull"
  by (simp add: AuxPow_schema_def refuses_null)

lemma auxpow_not_null [simp]: "json_auxpow V x \<noteq> JNull"
  by (simp add: json_auxpow_def Let_def)

lemma opt_auxpow:
  "opt_all auxpow_conformable v \<Longrightarrow>
   case v of None \<Rightarrow> True | Some x \<Rightarrow>
     valid (Suc (Suc (Suc (Suc (Suc (Suc (Suc k))))))) the_document AuxPow_schema (json_auxpow V x)"
  using AuxPow_valid by (simp add: opt_all_def del: valid.simps split: option.splits)

lemma BlockDetail_valid:
  assumes "block_detail_conformable n b" and "nc_decimals n = 8"
  shows "valid (Suc (Suc (Suc (Suc (Suc (Suc (Suc (Suc (Suc (Suc (Suc k))))))))))) the_document BlockDetail_schema (json_block_detail V b)"
proof -
  have pools: "list_all (\<lambda>x. valid (Suc (Suc (Suc (Suc (Suc (Suc (Suc k))))))) the_document ValuePool_schema (json_value_pool x)) (dt_value_pools b)"
    and txs: "list_all (\<lambda>x. valid (Suc (Suc (Suc (Suc (Suc (Suc (Suc k))))))) the_document transaction_summary_schema (json_tx_summary V x)) (dt_transactions b)"
    using assms ValuePool_valid TransactionSummary_valid by (auto simp: block_detail_conformable_def list_all_iff)
  have "valid (Suc (Suc (Suc (Suc (Suc (Suc (Suc (Suc (Suc k))))))))) the_document BlockSummary_schema (JObject (block_summary_members V (dt_summary b)))"
    using BlockSummary_valid[OF _ assms(2)] assms(1) by (simp only: json_block_summary_def block_detail_conformable_def)
  then show ?thesis
    unfolding BlockDetail_schema_def json_block_detail_def
    apply (intro valid_combined[of "''BlockSummary''", unfolded append.simps])
          apply simp
         apply (simp add: BlockSummary_schema_def)
        apply (simp add: BlockSummary_schema_def del: valid.simps)
       apply (simp add: block_summary_members_def)
      apply (use assms pools txs in \<open>simp add: validity members block_detail_conformable_def opt_all_def
        opt_auxpow[unfolded opt_all_def] del: valid.simps list.inject object_keywords\<close>)
     apply simp
    apply (simp add: block_summary_members_def text_neq del: list.inject)
    done
qed

section \<open>Addresses\<close>

definition activity_conformable :: "network_config \<Rightarrow> address_activity \<Rightarrow> bool" where
  "activity_conformable n a \<longleftrightarrow>
     hash_text (aa_txid a) \<and> hash_text (aa_instance_digest a) \<and> opt_all hash_text (aa_auth_digest a) \<and>
     hash_text (aa_block_hash a) \<and> 0 \<le> aa_position a \<and>
     aa_direction a \<in> {''in'', ''out'', ''self'', ''neutral''} \<and>
     list_all (amount_of n) [aa_received a, aa_sent a, aa_net a, aa_balance_after a]"

lemma AddressActivity_valid:
  assumes "activity_conformable n a" and "nc_decimals n = 8"
  shows "valid (Suc (Suc (Suc (Suc (Suc (Suc k)))))) the_document AddressActivity_schema (json_activity V a)"
  using assms(1) by (simp add: AddressActivity_schema_def json_activity_def validity members activity_conformable_def
      opt_all_def amount_of_valid[OF assms(2)] del: valid.simps list.inject object_keywords)

definition address_conformable :: "network_config \<Rightarrow> address_view \<Rightarrow> bool" where
  "address_conformable n a \<longleftrightarrow>
     av_address_type a = ''transparent'' \<and>
     list_all (amount_of n) [av_total_received a, av_total_sent a, av_unspent a, av_immature_coinbase a,
       av_mature_coinbase_must_shield a, av_non_coinbase_unspent a] \<and>
     list_all (\<lambda>i. 0 \<le> i) [av_utxo_count a, av_mined_output_count a, av_mined_transaction_count a,
       av_transaction_count a, av_canonical_double_spend_anomalies a] \<and>
     list_all (activity_conformable n) (av_activity a)"

lemma Address_valid:
  assumes "address_conformable n a" and "nc_decimals n = 8"
  shows "valid (Suc (Suc (Suc (Suc (Suc (Suc (Suc (Suc (Suc k))))))))) the_document Address_schema (json_address V a)"
proof -
  have "list_all (\<lambda>x. valid (Suc (Suc (Suc (Suc (Suc (Suc k)))))) the_document AddressActivity_schema (json_activity V x)) (av_activity a)"
    using assms AddressActivity_valid by (auto simp: address_conformable_def list_all_iff)
  then show ?thesis
    using assms(1) by (simp add: Address_schema_def json_address_def validity members address_conformable_def
        amount_of_valid[OF assms(2)] del: valid.simps list.inject object_keywords)
qed

section \<open>Analytics\<close>

definition network_point_conformable :: "network_config \<Rightarrow> network_history_point \<Rightarrow> bool" where
  "network_point_conformable n p \<longleftrightarrow>
     hash_text (nh_hash (np_row p)) \<and> 0 \<le> nh_size_bytes (np_row p) \<and> 0 \<le> nh_transaction_count (np_row p) \<and>
     opt_all (amount_of n) (np_total_issued p)"

lemma NetworkHistoryPoint_valid:
  assumes "network_point_conformable n p" and "nc_decimals n = 8"
  shows "valid (Suc (Suc (Suc (Suc (Suc (Suc (Suc k))))))) the_document NetworkHistoryPoint_schema (json_network_point V p)"
  using assms(1) by (simp add: NetworkHistoryPoint_schema_def json_network_point_def validity members
      network_point_conformable_def opt_amount[OF assms(2)] del: valid.simps list.inject object_keywords)

definition network_history_conformable :: "network_config \<Rightarrow> network_history_view \<Rightarrow> bool" where
  "network_history_conformable n h \<longleftrightarrow>
     opt_all hash_text (nv_as_of_hash h) \<and> 0 < nv_target_spacing_seconds h \<and>
     list_all (network_point_conformable n) (nv_points h)"

lemma NetworkHistory_valid:
  assumes "network_history_conformable n h" and "nc_decimals n = 8"
  shows "valid (Suc (Suc (Suc (Suc (Suc (Suc (Suc (Suc (Suc (Suc k)))))))))) the_document NetworkHistory_schema (json_network_history V h)"
proof -
  have "list_all (\<lambda>x. valid (Suc (Suc (Suc (Suc (Suc (Suc (Suc k))))))) the_document NetworkHistoryPoint_schema (json_network_point V x)) (nv_points h)"
    using assms NetworkHistoryPoint_valid by (auto simp: network_history_conformable_def list_all_iff)
  then show ?thesis
    using assms(1) by (simp add: NetworkHistory_schema_def json_network_history_def validity members
        network_history_conformable_def opt_all_def Suc_le_eq del: valid.simps list.inject object_keywords)
qed

definition pool_snapshot_conformable :: "network_config \<Rightarrow> pool_snapshot_view \<Rightarrow> bool" where
  "pool_snapshot_conformable n p \<longleftrightarrow>
     ps_id p \<in> {''transparent'', ''ironwood''} \<and> opt_all (amount_of n) (ps_chain_value p) \<and>
     opt_all (amount_of n) (ps_value_delta p)"

lemma PoolSnapshot_valid:
  assumes "pool_snapshot_conformable n p" and "nc_decimals n = 8"
  shows "valid (Suc (Suc (Suc (Suc (Suc (Suc (Suc k))))))) the_document PoolSnapshot_schema (json_pool_snapshot p)"
  using assms(1) by (simp add: PoolSnapshot_schema_def json_pool_snapshot_def validity members
      pool_snapshot_conformable_def opt_amount[OF assms(2)] del: valid.simps list.inject object_keywords)

definition pool_point_conformable :: "network_config \<Rightarrow> value_pool_history_point \<Rightarrow> bool" where
  "pool_point_conformable n p \<longleftrightarrow>
     hash_text (vp_hash p) \<and> opt_all (amount_of n) (vp_total_issued p) \<and>
     pool_snapshot_conformable n (vp_transparent p) \<and> pool_snapshot_conformable n (vp_ironwood p)"

lemma ValuePoolHistoryPoint_valid:
  assumes "pool_point_conformable n p" and "nc_decimals n = 8"
  shows "valid (Suc (Suc (Suc (Suc (Suc (Suc (Suc (Suc (Suc k))))))))) the_document ValuePoolHistoryPoint_schema (json_pool_point V p)"
  using assms(1) by (simp add: ValuePoolHistoryPoint_schema_def json_pool_point_def validity members
      pool_point_conformable_def PoolSnapshot_valid[OF _ assms(2)] opt_amount[OF assms(2)]
      del: valid.simps list.inject object_keywords)

definition pool_history_conformable :: "network_config \<Rightarrow> value_pool_history_view \<Rightarrow> bool" where
  "pool_history_conformable n h \<longleftrightarrow>
     opt_all hash_text (vpv_as_of_hash h) \<and> 0 \<le> vpv_unexpected_pool_samples h \<and>
     list_all (pool_point_conformable n) (vpv_points h)"

lemma ValuePoolHistory_valid:
  assumes "pool_history_conformable n h" and "nc_decimals n = 8"
  shows "valid (Suc (Suc (Suc (Suc (Suc (Suc (Suc (Suc (Suc (Suc (Suc (Suc k)))))))))))) the_document ValuePoolHistory_schema (json_pool_history V h)"
proof -
  have "list_all (\<lambda>x. valid (Suc (Suc (Suc (Suc (Suc (Suc (Suc (Suc (Suc k))))))))) the_document ValuePoolHistoryPoint_schema (json_pool_point V x)) (vpv_points h)"
    using assms ValuePoolHistoryPoint_valid by (auto simp: pool_history_conformable_def list_all_iff)
  then show ?thesis
    using assms(1) by (simp add: ValuePoolHistory_schema_def json_pool_history_def validity members
        pool_history_conformable_def opt_all_def del: valid.simps list.inject object_keywords)
qed

definition merge_mining_conformable :: "merge_mining_stats_view \<Rightarrow> bool" where
  "merge_mining_conformable m \<longleftrightarrow>
     opt_all hash_text (mv_as_of_hash m) \<and>
     list_all (\<lambda>i. 0 \<le> i) (map (\<lambda>f. f (mv_row m))
       [ms_eligible_child_blocks, ms_auxpow_blocks, ms_locally_verified_blocks, ms_parent_target_verified_blocks,
        ms_canonical_parent_blocks, ms_orphaned_parent_blocks, ms_not_found_parent_blocks,
        ms_unavailable_parent_blocks, ms_disagreement_parent_blocks, ms_parent_quorum_agreement_blocks,
        ms_best_chain_witness_blocks, ms_fully_verified_blocks,
        ms_locally_verified_without_parent_observation_blocks, ms_anomaly_blocks, ms_observation_source_count])"

lemma described_integer_valid [validity]:
  "valid (Suc k) root (JObject [(''type'', JString ''integer''), (''format'', JString w),
     (''minimum'', JNumber (PosInt m)), (''description'', JString t)]) (j_int i) \<longleftrightarrow> int m \<le> i"
  by (auto simp: keyword_rules has_type_rules at_least_rules)

lemma MergeMiningStats_valid:
  assumes "merge_mining_conformable m"
  shows "valid (Suc (Suc (Suc (Suc k)))) the_document MergeMiningStats_schema (json_merge_mining_stats V m)"
  using assms by (simp add: MergeMiningStats_schema_def json_merge_mining_stats_def Let_def validity members
      merge_mining_conformable_def opt_all_def del: valid.simps list.inject object_keywords)

definition rich_entry_conformable :: "network_config \<Rightarrow> rich_list_entry \<Rightarrow> bool" where
  "rich_entry_conformable n e \<longleftrightarrow>
     1 \<le> rn_rank e \<and> list_all (amount_of n) [rn_balance e, rn_total_received e, rn_total_sent e] \<and>
     opt_all eight_places (rn_transparent_pool_share_percent e) \<and> 0 \<le> rn_utxo_count e \<and> 0 \<le> rn_transaction_count e"

lemma percent_pattern: "matches_pattern (''^[0-9]+'' @ CHR 0x5C # ''.[0-9]{8}$'') s \<longleftrightarrow> eight_places s"
  by (simp add: matches_pattern_def)

lemma opt_percent:
  "opt_all eight_places v \<Longrightarrow>
   case v of None \<Rightarrow> True | Some s \<Rightarrow>
     valid (Suc k) root (JObject [(''type'', JString ''string''),
       (''pattern'', JString (''^[0-9]+'' @ CHR 0x5C # ''.[0-9]{8}$''))]) (JString s)"
  by (simp add: keyword_rules has_type_rules percent_pattern opt_all_def del: append_Cons append_Nil split: option.splits)

lemma RichListEntry_valid:
  assumes "rich_entry_conformable n e" and "nc_decimals n = 8"
  shows "valid (Suc (Suc (Suc (Suc (Suc (Suc k)))))) the_document RichListEntry_schema (json_rich_entry V e)"
  using assms(1) by (simp add: RichListEntry_schema_def json_rich_entry_def validity members rich_entry_conformable_def
      opt_percent[unfolded append.simps] amount_of_valid[OF assms(2)] del: valid.simps list.inject object_keywords)

definition rich_list_conformable :: "network_config \<Rightarrow> rich_list_view \<Rightarrow> bool" where
  "rich_list_conformable n r \<longleftrightarrow>
     opt_all hash_text (rw_as_of_hash r) \<and> 0 \<le> rw_funded_address_count r \<and>
     list_all (opt_all (amount_of n)) [rw_transparent_pool r, rw_addressless_or_undecoded_balance r] \<and>
     list_all (amount_of n) [rw_addressed_balance r, rw_top_1_balance r, rw_top_10_balance r, rw_top_100_balance r] \<and>
     list_all (rich_entry_conformable n) (rw_addresses r)"

lemma RichList_valid:
  assumes "rich_list_conformable n r" and "nc_decimals n = 8"
  shows "valid (Suc (Suc (Suc (Suc (Suc (Suc (Suc (Suc (Suc k))))))))) the_document RichList_schema (json_rich_list V r)"
proof -
  have "list_all (\<lambda>x. valid (Suc (Suc (Suc (Suc (Suc (Suc k)))))) the_document RichListEntry_schema (json_rich_entry V x)) (rw_addresses r)"
    using assms RichListEntry_valid by (auto simp: rich_list_conformable_def list_all_iff)
  then show ?thesis
    using assms(1) by (simp add: RichList_schema_def json_rich_list_def validity members rich_list_conformable_def
        opt_all_def amount_of_valid[OF assms(2)] del: valid.simps list.inject object_keywords)
qed

definition stats_point_conformable :: "address_stats_point \<Rightarrow> bool" where
  "stats_point_conformable p \<longleftrightarrow>
     0 \<le> as_active_addresses (ap_row p) \<and> 0 \<le> as_new_addresses (ap_row p) \<and> 0 \<le> as_total_seen_addresses (ap_row p)"

lemma AddressStatsPoint_valid:
  assumes "stats_point_conformable p"
  shows "valid (Suc (Suc (Suc k))) the_document AddressStatsPoint_schema (json_stats_point V p)"
  using assms by (simp add: AddressStatsPoint_schema_def json_stats_point_def validity members stats_point_conformable_def
      del: valid.simps list.inject object_keywords)

definition address_stats_conformable :: "network_config \<Rightarrow> address_stats_view \<Rightarrow> bool" where
  "address_stats_conformable n s \<longleftrightarrow>
     opt_all hash_text (sw_as_of_hash s) \<and> 0 \<le> sw_funded_address_count s \<and> 0 \<le> sw_seen_address_count s \<and>
     list_all (opt_all (amount_of n)) [sw_transparent_pool s, sw_addressless_or_undecoded_balance s] \<and>
     amount_of n (sw_addressed_balance s) \<and> list_all stats_point_conformable (sw_points s)"

lemma AddressStats_valid:
  assumes "address_stats_conformable n s" and "nc_decimals n = 8"
  shows "valid (Suc (Suc (Suc (Suc (Suc (Suc (Suc (Suc k)))))))) the_document AddressStats_schema (json_address_stats V s)"
proof -
  have "list_all (\<lambda>x. valid (Suc (Suc (Suc (Suc (Suc k))))) the_document AddressStatsPoint_schema (json_stats_point V x)) (sw_points s)"
    using assms AddressStatsPoint_valid by (auto simp: address_stats_conformable_def list_all_iff)
  then show ?thesis
    using assms(1) by (simp add: AddressStats_schema_def json_address_stats_def validity members address_stats_conformable_def
        opt_all_def amount_of_valid[OF assms(2)] del: valid.simps list.inject object_keywords)
qed

section \<open>The document itself\<close>

lemma OpenApiDocument_valid: "valid (Suc (Suc k)) root OpenApiDocument_schema the_document"
proof -
  have doc: "the_document = JObject
      ([(''openapi'', JString ''3.1.0''),
        (''jsonSchemaDialect'', JString ''https://json-schema.org/draft/2020-12/schema''),
        (''info'', openapi_info),
        (''servers'', JArray [JObject [(''url'', JString ''/''), (''description'', JString ''Current WcashExplorer origin'')]]),
        (''security'', JArray []), (''tags'', openapi_tags), (''paths'', JObject path_table),
        (''components'', JObject
           [(''parameters'', parameter_components), (''responses'', response_components),
            (''schemas'', JObject schema_table)])])"
    by (simp add: the_document_def openapi_document_def openapi_schemas_table path_table_def)
  have "has_type ''object'' openapi_info" by (simp add: openapi_info_def has_type_def)
  then show ?thesis
    unfolding doc OpenApiDocument_schema_def
    by (simp add: valid_object keyword_def has_type_def del: valid.simps)
qed

end
