(* ===== verification/Sound_Database.thy ===== *)
theory Sound_Database imports Db_Typed begin

text \<open>
  A sound database: well-typed, and representing a proven chain of its network in columns that hold
  what their names say.  The start of the program makes one of an empty schema.
\<close>

text \<open>What the processes may rely on between two lifetimes: the database is well-typed and represents a
  proven chain of the network.\<close>

definition sound_database :: "string \<Rightarrow> db \<Rightarrow> bool" where
  "sound_database net d \<longleftrightarrow> schema_ok d \<and> (\<exists>cs. indexed net d cs)"

lemma initialize_sound:
  assumes "initialize_network n now d = Inr (u, d')" and "d = empty_db \<or> sound_database (nc_id n) d"
  shows "sound_database (nc_id n) d'"
proof -
  have "\<exists>cs. indexed (nc_id n) d' cs"
  proof (cases "d = empty_db")
    case True
    then have "chain_ok (nc_id n) d' []"
      using initialize_network_fresh[OF assms(1)] empty_db_wf
      by (simp add: empty_db_def selected_def chain_at_def fun_eq_iff)
    then have "indexed (nc_id n) d' []"
      using initialize_network_values[OF assms(1)] True empty_db_values by (simp add: indexed_empty)
    then show ?thesis ..
  next
    case False
    then obtain cs where cs: "indexed (nc_id n) d cs" using assms(2) by (auto simp: sound_database_def)
    have "db_links d' = db_links d"
      by (rule initialize_network_parts[OF assms(1)]) simp
    then have "indexed (nc_id n) d' cs"
      using cs initialize_network_chain[OF assms(1)] initialize_network_values[OF assms(1)]
      by (simp add: indexed_def links_ok_def has_link_def)
    then show ?thesis ..
  qed
  moreover have "schema_ok d'"
    using assms(2) empty_db_schema initialize_network_schema[OF assms(1)] by (auto simp: sound_database_def)
  ultimately show ?thesis by (simp add: sound_database_def)
qed

lemma sound_parts:
  assumes "sound_database net d"
  shows "checks_ok d" and "keys_in d d" and "values_ok d" and "\<exists>cs. chain_ok net d cs"
  using assms by (auto simp: sound_database_def schema_ok_def indexed_def)

end
