(* ===== verification/Conformance_Data.thy ===== *)
theory Conformance_Data imports Conformance_Views Api_Pages Api_Tx_Pages Sound_Database begin

text \<open>
  What the handlers read from a sound database satisfies the conditions of \<open>Conformance_Views\<close>: the
  constraints of the migrations, the values the indexer stores and the represented chain give every
  hash, count, height and amount of an answer its documented form.
\<close>

section \<open>Rows and hashes\<close>

lemma in_table_ok: "rows_ok c t \<Longrightarrow> (k, r) \<in> set t \<Longrightarrow> c k r = Inr ()"
  by (auto simp: rows_ok_def list_all_iff is_ok_iff)

lemma canonical_hashes:
  assumes "sound_database net d" and "((net', h), c) \<in> set (db_canonical d)"
  shows "hash_text (cr_block_hash c)" and "hash_text (cr_witness_hash c)"
proof -
  have ok: "rows_ok (\<lambda>_ r. of_witness d (cr_block_hash r, cr_witness_hash r)) (db_canonical d)"
    "rows_ok (witness_refs d) (db_witnesses d)" "rows_ok check_witness (db_witnesses d)"
    using sound_parts[OF assms(1)] by (simp_all add: keys_in_def checks_ok_def)
  obtain w where w: "t_find (db_witnesses d) (cr_block_hash c, cr_witness_hash c) = Some w"
    using in_table_ok[OF ok(1) assms(2)] by (auto simp: of_witness_def guard_Inr)
  show "hash_text (cr_witness_hash c)" using rows_okD[OF ok(3) w] by (simp add: check_witness_def)
  obtain b where "t_find (db_blocks d) (cr_block_hash c) = Some b"
    using rows_okD[OF ok(2) w] by (auto simp: witness_refs_def guard_Inr)
  then show "hash_text (cr_block_hash c)"
    using sound_parts(3)[OF assms(1)] by (auto simp: values_ok_def dest: rows_satD)
qed

lemma state_sane:
  assumes "sound_database net d" and "t_find (db_chain_state d) net = Some s"
  shows "opt_all hash_text (st_indexed_hash s)" and "opt_all (\<lambda>h. 0 \<le> h) (st_indexed_height s)"
    and "opt_all (\<lambda>h. 0 \<le> h) (st_node_height s)"
proof -
  obtain cs where cs: "chain_ok net d cs" using sound_parts(4)[OF assms(1)] ..
  note vals = sound_parts(3)[OF assms(1)]
  have tip: "st_indexed_height s = (if cs = [] then None else Some (int (length cs) - 1))"
    "st_indexed_hash s = map_option fst (last_opt cs)"
    using cs assms(2) by (auto simp: chain_ok_def tip_named_def)
  show "opt_all (\<lambda>h. 0 \<le> h) (st_indexed_height s)" by (cases cs) (simp_all add: tip(1) opt_all_def)
  show "opt_all hash_text (st_indexed_hash s)"
    using chain_hash_text[OF cs vals, of "length cs - 1"]
    by (cases "cs = []") (simp_all add: tip(2) opt_all_def last_opt_def last_conv_nth)
  show "opt_all (\<lambda>h. 0 \<le> h) (st_node_height s)" using vals assms(2) by (auto simp: values_ok_def dest: rows_satD)
qed

lemma canonical_blocks_tables:
  assumes "(h, c, b, w) \<in> set (canonical_blocks net d)"
  shows "((net, h), c) \<in> set (db_canonical d)" "t_find (db_blocks d) (cr_block_hash c) = Some b"
    "t_find (db_witnesses d) (cr_block_hash c, cr_witness_hash c) = Some w"
  using assms
  by (force simp: canonical_blocks_def List.map_filter_def set_rows_of[symmetric] split: option.splits prod.splits)+

lemma block_columns_conformable:
  assumes "checks_ok d" and "(h, c, b, w) \<in> set (canonical_blocks net d)"
    and "block_columns net d (h, c, b, w) = Inr row" and "block_from_row n row = Inr v"
  shows "block_conformable n v"
proof -
  have ok: "rows_ok check_block (db_blocks d)" "rows_ok check_witness (db_witnesses d)" "rows_ok check_link (db_links d)"
    using assms(1) by (simp_all add: checks_ok_def)
  note t = canonical_blocks_tables[OF assms(2)]
  have "opt_all hash_text (map_option lk_parent_block_hash (t_find (db_links d) k))" for k
    using rows_okD[OF ok(3), of k] by (auto simp: opt_all_def check_link_def guard_Inr split: option.split)
  then show ?thesis
    using assms(3,4) rows_okD[OF ok(1) t(2)] rows_okD[OF ok(2) t(3)]
    by (auto simp: block_columns_def block_from_row_def block_conformable_def check_block_def check_witness_def
        guard_Inr Let_def rbind_Inr)
qed

lemma canonical_txs_tables:
  assumes "(height, hash, b, position, i, t) \<in> set (canonical_txs net d)"
  shows "t_find (db_blocks d) hash = Some b" "t_find (db_instances d) i = Some t"
    "\<exists>witness. (((hash, witness), position), i) \<in> set (db_block_transactions d)"
  using assms
  by (fastforce simp: canonical_txs_def block_joins_def List.map_filter_def set_rows_of split: option.splits prod.splits)+

lemma tx_columns_conformable:
  assumes "checks_ok d" and "t_find (db_blocks d) hash = Some b" and "t_find (db_instances d) i = Some t" and "0 \<le> position"
    and "tx_columns d (height, hash, b, position, i, t) = Inr row" and "tx_from_row n row = Inr v"
  shows "tx_conformable n v"
proof -
  have ok: "rows_ok check_block (db_blocks d)" "rows_ok check_instance_row (db_instances d)"
    using assms(1) by (simp_all add: checks_ok_def)
  have "tx_kind row \<in> {''coinbase'', ''transparent'', ''shielded'', ''mixed''}"
    by (simp add: tx_kind_def Let_def)
  moreover have "opt_all (amount_of n) (map_option (\<lambda>v. amount v n) z)" for z
    by (simp add: opt_all_def split: option.split)
  moreover have "hash_text hash" using rows_okD[OF ok(1) assms(2)] by (simp add: check_block_def)
  moreover have "hash_text (tr_txid t) \<and> hash_text (tr_instance_digest t) \<and> opt_all hash_text (tr_auth_digest t) \<and>
      0 < tr_size_bytes t \<and> 0 \<le> tr_sapling_spend_count t \<and> 0 \<le> tr_sapling_output_count t \<and>
      0 \<le> tr_orchard_action_count t \<and> 0 \<le> tr_ironwood_action_count t"
    using rows_okD[OF ok(2) assms(3)] by (simp add: check_instance_row_def)
  ultimately show ?thesis
    using assms(4-6) unfolding tx_columns_def prod.case tx_from_row_def rbind_Inr tx_conformable_def by clarsimp
qed

lemma canonical_tx_conformable:
  assumes "checks_ok d" and "(height, hash, b, position, i, t) \<in> set (canonical_txs net d)"
    and "tx_columns d (height, hash, b, position, i, t) = Inr row" and "tx_from_row n row = Inr v"
  shows "tx_conformable n v"
proof -
  note t = canonical_txs_tables[OF assms(2)]
  have "rows_ok check_position (db_block_transactions d)" using assms(1) by (simp add: checks_ok_def)
  then have "0 \<le> position" using t(3) in_table_ok by (fastforce simp: check_position_def)
  then show ?thesis by (rule tx_columns_conformable[OF assms(1) t(1,2) _ assms(3,4)])
qed

section \<open>The lists\<close>

lemma collected:
  assumes "collect_res (map f xs) = Inr ys" and "y \<in> set ys"
  shows "\<exists>x \<in> set xs. f x = Inr y"
proof -
  have "Inr y \<in> set (map f xs)" using assms by (simp add: collect_res_Inr)
  then show ?thesis by auto
qed

lemma collect_rows:
  assumes "collect_res (map f (take k (below g before xs))) = Inr rows" and "collect_res (map h (take l rows)) = Inr vs"
    and "v \<in> set vs"
  obtains x row where "x \<in> set xs" "f x = Inr row" "h row = Inr v"
proof -
  obtain row where row: "row \<in> set (take l rows)" "h row = Inr v" using collected[OF assms(2,3)] by blast
  obtain x where "x \<in> set (take k (below g before xs))" "f x = Inr row"
    using collected[OF assms(1) in_set_takeD[OF row(1)]] by blast
  moreover from this have "x \<in> set xs" by (auto simp: below_def dest: in_set_takeD)
  ultimately show thesis using that row(2) by blast
qed

lemma blocks_conformable:
  assumes "checks_ok (rq_db R 1)" and "blocks A S R q = Inr e" and "v \<in> set (ae_data e)"
  shows "block_conformable (as_network S) v"
proof -
  obtain before lim rows l where
    "collect_res (map (block_columns (nc_id (as_network S)) (rq_db R (Suc 0)))
       (take lim (below join_height before (canonical_blocks (nc_id (as_network S)) (rq_db R (Suc 0)))))) = Inr rows"
    "collect_res (map (block_from_row (as_network S)) (take l rows)) = Inr (ae_data e)"
    using assms(2)
    by (auto simp: blocks_def read_def BLOCK_SUMMARY_QUERY_def envelope_def Let_def split: option.splits)
  from collect_rows[OF this assms(3)] obtain x row where
    x: "x \<in> set (canonical_blocks (nc_id (as_network S)) (rq_db R (Suc 0)))"
    "block_columns (nc_id (as_network S)) (rq_db R (Suc 0)) x = Inr row" "block_from_row (as_network S) row = Inr v"
    by blast
  show ?thesis using block_columns_conformable[OF assms(1)[unfolded One_nat_def]] x by (cases x) blast
qed

lemma transactions_conformable:
  assumes "checks_ok (rq_db R 1)" and "transactions A S R q = Inr e" and "v \<in> set (ae_data e)"
  shows "tx_conformable (as_network S) v"
proof -
  obtain before lim rows l where
    "collect_res (map (tx_columns (rq_db R (Suc 0)))
       (take lim (below join_place before (canonical_txs (nc_id (as_network S)) (rq_db R (Suc 0)))))) = Inr rows"
    "collect_res (map (tx_from_row (as_network S)) (take l rows)) = Inr (ae_data e)"
    using assms(2)
    by (auto simp: transactions_def read_def TRANSACTION_SUMMARY_QUERY_def envelope_def Let_def split: option.splits)
  from collect_rows[OF this assms(3)] obtain x row where
    x: "x \<in> set (canonical_txs (nc_id (as_network S)) (rq_db R (Suc 0)))"
    "tx_columns (rq_db R (Suc 0)) x = Inr row" "tx_from_row (as_network S) row = Inr v"
    by blast
  show ?thesis using canonical_tx_conformable[OF assms(1)[unfolded One_nat_def]] x by (cases x) blast
qed


section \<open>Envelopes\<close>

definition fresh_envelope :: "'a api_envelope \<Rightarrow> bool" where
  "fresh_envelope e \<longleftrightarrow> (\<exists>t. pm_freshness_seconds (ae_meta e) = Some t \<and> 0 \<le> t)"

lemma envelope_fresh [simp]: "fresh_envelope (envelope S now data cur chain)"
  by (simp add: fresh_envelope_def envelope_def seconds_since_def)

lemma envelope_data [simp]: "ae_data (envelope S now data cur chain) = data"
  by (simp add: envelope_def)

lemma read_Inr: "read R k q = Inr v \<longleftrightarrow> rq_fault R k = None \<and> q (rq_db R k) = Inr v"
  by (simp add: read_def split: option.split)

lemma snap_Inr: "snap R k q = Inr v \<longleftrightarrow> rq_fault R k = None \<and> q (rq_db R 1) = Inr v"
  by (simp add: snap_def split: option.split)

section \<open>Health and reorganizations\<close>

lemma ready_heights:
  assumes "sound_database (nc_id (as_network S)) (rq_db R 0)" and "ready S R = Inr r"
  shows "\<exists>i j. ry_indexed_height r = Some i \<and> 0 \<le> i \<and> ry_node_height r = Some j \<and> 0 \<le> j"
proof -
  obtain s where s: "t_find (db_chain_state (rq_db R 0)) (nc_id (as_network S)) = Some s"
    "st_indexed_height s \<noteq> None" "st_node_height s \<noteq> None" "ry_indexed_height r = st_indexed_height s"
    "ry_node_height r = st_node_height s"
    using assms(2) by (auto simp: ready_def Let_def chain_state_def read_Inr load_chain_state_def split: if_splits)
  then show ?thesis using state_sane[OF assms(1) s(1)] by (auto simp: opt_all_def)
qed

lemma reorgs_conformable:
  assumes "sound_database (nc_id (as_network S)) (rq_db R 1)" and "reorgs S R = Inr e"
  shows "fresh_envelope e" and "g \<in> set (ae_data e) \<Longrightarrow> reorg_conformable g"
proof -
  have e: "fresh_envelope e" "ae_data e = reorg_views (nc_id (as_network S)) (rq_db R 1)"
    using assms(2) by (auto simp: reorgs_def read_Inr)
  then show "fresh_envelope e" by simp
  assume "g \<in> set (ae_data e)"
  then obtain i r where "(i, r) \<in> set (db_reorgs (rq_db R 1))" "rg_row g = r"
    by (auto simp: e(2) reorg_views_def dest!: in_set_takeD)
  then show "reorg_conformable g"
    using sound_parts(3)[OF assms(1)] by (fastforce simp: values_ok_def reorg_conformable_def sane_reorg_def dest: rows_sat_in)
qed

section \<open>Blocks\<close>

lemma find_in_set: "List.find P xs = Some x \<Longrightarrow> x \<in> set xs"
  by (auto simp: find_Some_iff)

lemma find_block_row:
  assumes "find_block S R k i = Inr row"
  obtains h c b w where "(h, c, b, w) \<in> set (canonical_blocks (nc_id (as_network S)) (rq_db R k))"
    and "block_columns (nc_id (as_network S)) (rq_db R k) (h, c, b, w) = Inr (bd_summary row)"
    and "bd_previous_block_hash row = br_previous_block_hash b" and "bd_merkle_root row = br_merkle_root b"
    and "bd_next_block_hash row = map_option cr_block_hash (t_find (db_canonical (rq_db R k)) (nc_id (as_network S), h + 1))"
    and "bd_block_commitments row = br_block_commitments b"
proof -
  obtain height hash where q: "BLOCK_DETAIL_QUERY (nc_id (as_network S)) height hash (rq_db R k) = Inr (Some row)"
    using assms by (auto simp: find_block_def Let_def read_Inr split: if_splits)
  then obtain h c b w where f: "List.find (\<lambda>(h, c, _, _). height = Some h \<or> hash = Some (cr_block_hash c))
      (canonical_blocks (nc_id (as_network S)) (rq_db R k)) = Some (h, c, b, w)"
    by (cases "List.find (\<lambda>(h, c, _, _). height = Some h \<or> hash = Some (cr_block_hash c))
      (canonical_blocks (nc_id (as_network S)) (rq_db R k))") (auto simp: BLOCK_DETAIL_QUERY_def)
  show thesis
    by (rule that[OF find_in_set[OF f]]) (use q in \<open>auto simp: BLOCK_DETAIL_QUERY_def f transpose_opt_Inr\<close>)
qed

lemma block_columns_hashes:
  "block_columns net d (h, c, b, w) = Inr row \<Longrightarrow> bw_hash row = cr_block_hash c \<and> bw_witness_hash row = cr_witness_hash c"
  by (auto simp: block_columns_def Let_def)

lemma found_hashes:
  assumes "sound_database (nc_id (as_network S)) (rq_db R k)" and "find_block S R k i = Inr row"
  shows "hash_text (bw_hash (bd_summary row))" and "hash_text (bw_witness_hash (bd_summary row))"
proof -
  obtain h c b w where x: "(h, c, b, w) \<in> set (canonical_blocks (nc_id (as_network S)) (rq_db R k))"
    and row: "block_columns (nc_id (as_network S)) (rq_db R k) (h, c, b, w) = Inr (bd_summary row)"
    using find_block_row[OF assms(2)] by metis
  show "hash_text (bw_hash (bd_summary row))" "hash_text (bw_witness_hash (bd_summary row))"
    using canonical_hashes[OF assms(1) canonical_blocks_tables(1)[OF x]] block_columns_hashes[OF row] by simp_all
qed

lemma raw_block_conformable:
  assumes "sound_database (nc_id (as_network S)) (rq_db R 1)" and "hex_crate_ok X" and "raw_block X S R i = Inr e"
  shows "fresh_envelope e" and "hash_text (rv_block_hash (ae_data e))" and "hash_text (rv_witness_hash (ae_data e))"
    and "rv_encoding (ae_data e) = ''hex''" and "lower_hex_pairs (rv_data (ae_data e))"
proof -
  have hex: "lower_hex_pairs (hex_encode X bs)" for bs
    using assms(2) unfolding hex_crate_ok_def is_lower_hex_of_length_def lower_hex_pairs_def is_lower_hexdigit_def
    by (simp add: list_all_iff del: set_simps)
  obtain row where "find_block S R 1 i = Inr row" "rv_block_hash (ae_data e) = bw_hash (bd_summary row)"
    "rv_witness_hash (ae_data e) = bw_witness_hash (bd_summary row)" "fresh_envelope e"
    "rv_encoding (ae_data e) = ''hex''" "rv_data (ae_data e) \<in> range (hex_encode X)"
    using assms(3) by (auto simp: raw_block_def)
  then show "fresh_envelope e" "hash_text (rv_block_hash (ae_data e))" "hash_text (rv_witness_hash (ae_data e))"
    "rv_encoding (ae_data e) = ''hex''" "lower_hex_pairs (rv_data (ae_data e))"
    using found_hashes[OF assms(1)] hex by auto
qed

lemma fold_max_ge: "x \<le> m \<or> x \<in> set xs \<Longrightarrow> x \<le> fold max xs (m :: int)"
proof (induction xs arbitrary: m)
  case (Cons y ys)
  have "x \<le> max y m \<or> x \<in> set ys" using Cons.prems by auto
  from Cons.IH[OF this] show ?case by simp
qed simp

lemma sql_max_ge:
  assumes "Some x \<in> set vs"
  obtains m where "sql_max vs = Some m" and "x \<le> m"
proof -
  have "x \<in> set (List.map_filter id vs)" using assms by (force simp: List.map_filter_def)
  then show thesis
    using that fold_max_ge by (cases "List.map_filter id vs") (auto simp: sql_max_def)
qed

lemma canonical_height_ge:
  assumes "(h, c) \<in> set (rows_of net (db_canonical d))"
  obtains tip where "canonical_height net d = Some tip" and "h \<le> tip"
  using sql_max_ge[of h "map (\<lambda>(h, _). Some h) (rows_of net (db_canonical d))"] assms
  unfolding canonical_height_def by (force simp: image_iff)

lemma AUXPOW_row:
  assumes "sound_database net d" and "AUXPOW_QUERY hash witness net d = Inr (Some row)"
  shows "sane_link (xw_link row)" and "0 \<le> lk_proof_version (xw_link row)" and "0 \<le> lk_proof_size (xw_link row)"
    and "hash_text (lk_parent_block_hash (xw_link row))" and "hash_text (lk_parent_coinbase_txid (xw_link row))"
    and "opt_all (\<lambda>k. 0 \<le> k) (xw_witness_confirmations row)"
proof -
  obtain a h c where a: "t_find (db_links d) (hash, witness) = Some a" "xw_link row = a"
    and h: "List.find (\<lambda>(_, c). cr_block_hash c = hash \<and> cr_witness_hash c = witness) (rows_of net (db_canonical d)) = Some (h, c)"
    and conf: "xw_witness_confirmations row = map_option (\<lambda>tip. tip - h + 1) (canonical_height net d)"
    using assms(2) by (auto simp: AUXPOW_QUERY_def bind_eq_Some_conv)
  have "check_link (hash, witness) a = Inr ()"
    using sound_parts(1)[OF assms(1)] a(1) by (auto simp: checks_ok_def dest: rows_okD)
  then show "0 \<le> lk_proof_version (xw_link row)" "0 \<le> lk_proof_size (xw_link row)"
    "hash_text (lk_parent_block_hash (xw_link row))" "hash_text (lk_parent_coinbase_txid (xw_link row))"
    by (simp_all add: a(2) check_link_def guard_Inr)
  show "sane_link (xw_link row)"
    using sound_parts(3)[OF assms(1)] a by (auto simp: values_ok_def dest: rows_satD)
  show "opt_all (\<lambda>k. 0 \<le> k) (xw_witness_confirmations row)"
    using canonical_height_ge[OF find_in_set[OF h]] by (force simp: conf opt_all_def)
qed

lemma load_auxpow_conformable:
  assumes "\<And>j. sound_database (nc_id (as_network S)) (rq_db R j)" and "hash_text witness"
    and "load_auxpow S R k hash witness = Inr v"
  shows "opt_all auxpow_conformable v"
proof (cases v)
  case (Some x)
  then obtain row where row: "AUXPOW_QUERY hash witness (nc_id (as_network S)) (rq_db R k) = Inr (Some row)" "xv_row x = row"
    "xv_witness_hash x = witness" "xv_observations x = observations_of hash witness (rq_db R (k + 1))"
    using assms(3) by (auto simp: load_auxpow_def read_Inr split: option.splits)
  have "observation_conformable ob" if "ob \<in> set (xv_observations x)" for ob
    using that sound_parts(3)[OF assms(1), of "k + 1"]
    by (fastforce simp: row(4) observations_of_def observation_conformable_def values_ok_def dest: rows_sat_in)
  then show ?thesis
    using AUXPOW_row[OF assms(1) row(1)] assms(2)
    by (simp add: Some opt_all_def auxpow_conformable_def row(2,3) Let_def list_all_iff)
qed (simp add: opt_all_def)

lemma block_auxpow_conformable:
  assumes "\<And>j. sound_database (nc_id (as_network S)) (rq_db R j)" and "block_auxpow S R i = Inr e"
  shows "fresh_envelope e" and "opt_all auxpow_conformable (ae_data e)"
proof -
  obtain row where "find_block S R 1 i = Inr row"
    "load_auxpow S R 2 (bw_hash (bd_summary row)) (bw_witness_hash (bd_summary row)) = Inr (ae_data e)"
    and e: "fresh_envelope e" using assms(2) by (auto simp: block_auxpow_def)
  then show "opt_all auxpow_conformable (ae_data e)"
    using load_auxpow_conformable[OF assms(1) found_hashes(2)[OF assms(1)]] by blast
  show "fresh_envelope e" by (rule e)
qed

section \<open>Details\<close>

lemma block_join_parts:
  assumes "checks_ok d" and "(h, x, b', p, i, t) \<in> set (block_joins d height hash witness b)"
  shows "h = height" and "x = hash" and "b' = b" and "t_find (db_instances d) i = Some t" and "0 \<le> p"
proof -
  have "h = height \<and> x = hash \<and> b' = b \<and> t_find (db_instances d) i = Some t \<and>
      (((hash, witness), p), i) \<in> set (db_block_transactions d)"
    using assms(2) by (auto simp: block_joins_def List.map_filter_def set_rows_of split: option.splits)
  moreover have "rows_ok check_position (db_block_transactions d)" using assms(1) by (simp add: checks_ok_def)
  ultimately show "h = height" "x = hash" "b' = b" "t_find (db_instances d) i = Some t" "0 \<le> p"
    by (auto simp: check_position_def guard_Inr dest: in_table_ok)
qed

lemma block_transactions_conformable:
  assumes "checks_ok (rq_db R k)" and "transaction_rows_for_block S R k hash witness = Inr txs" and "v \<in> set txs"
  shows "tx_conformable (as_network S) v"
proof (cases "t_find (db_blocks (rq_db R k)) hash")
  case None
  then show ?thesis
    using assms(2,3) by (simp add: transaction_rows_for_block_def read_Inr TRANSACTIONS_FOR_BLOCK_QUERY_def collect_res_Inr)
next
  case (Some b)
  then obtain rows where rows: "collect_res (map (tx_columns (rq_db R k)) (block_joins (rq_db R k) (br_height b) hash witness b)) = Inr rows"
    "collect_res (map (tx_from_row (as_network S)) rows) = Inr txs"
    using assms(2) by (auto simp: transaction_rows_for_block_def read_Inr TRANSACTIONS_FOR_BLOCK_QUERY_def)
  obtain row where row: "row \<in> set rows" "tx_from_row (as_network S) row = Inr v"
    using collected[OF rows(2) assms(3)] by blast
  obtain j where j: "j \<in> set (block_joins (rq_db R k) (br_height b) hash witness b)" "tx_columns (rq_db R k) j = Inr row"
    using collected[OF rows(1) row(1)] by blast
  obtain h x b' p i t where [simp]: "j = (h, x, b', p, i, t)" by (cases j)
  note parts = block_join_parts[OF assms(1) j(1)[simplified]]
  show ?thesis
    by (rule tx_columns_conformable[OF assms(1) _ parts(4,5) j(2)[simplified] row(2)]) (simp add: parts Some)
qed

lemma block_detail_conformable:
  assumes "\<And>j. sound_database (nc_id (as_network S)) (rq_db R j)" and "block S R i = Inr e"
  shows "fresh_envelope e" and "block_detail_conformable (as_network S) (ae_data e)"
proof -
  let ?n = "as_network S" and ?D = "ae_data e"
  obtain row where e: "fresh_envelope e" "dt_row ?D = row" "find_block S R 1 i = Inr row"
    "block_from_row ?n (bd_summary row) = Inr (dt_summary ?D)"
    "dt_value_pools ?D = value_pool_views ?n (bs_hash (dt_summary ?D)) (bs_witness_hash (dt_summary ?D)) (rq_db R 2)"
    "transaction_rows_for_block S R 3 (bs_hash (dt_summary ?D)) (bs_witness_hash (dt_summary ?D)) = Inr (dt_transactions ?D)"
    "load_auxpow S R 4 (bs_hash (dt_summary ?D)) (bs_witness_hash (dt_summary ?D)) = Inr (dt_auxpow ?D)"
    using assms(2) by (auto simp: block_def read_Inr)
  then show "fresh_envelope e" by simp
  obtain h c b w where x: "(h, c, b, w) \<in> set (canonical_blocks (nc_id ?n) (rq_db R 1))"
    and cols: "block_columns (nc_id ?n) (rq_db R 1) (h, c, b, w) = Inr (bd_summary row)"
    and row: "bd_previous_block_hash row = br_previous_block_hash b" "bd_merkle_root row = br_merkle_root b"
      "bd_next_block_hash row = map_option cr_block_hash (t_find (db_canonical (rq_db R 1)) (nc_id ?n, h + 1))"
      "bd_block_commitments row = br_block_commitments b"
    using find_block_row[OF e(3)] by metis
  note checks = sound_parts(1)[OF assms(1)]
  have summary: "block_conformable ?n (dt_summary ?D)"
    by (rule block_columns_conformable[OF checks x cols e(4)])
  have "rows_ok check_block (db_blocks (rq_db R 1))" using checks[of 1] by (simp add: checks_ok_def)
  from rows_okD[OF this canonical_blocks_tables(2)[OF x]] have "check_block (cr_block_hash c) b = Inr ()" .
  then have "opt_all hash_text (bd_previous_block_hash row)" "hash_text (bd_merkle_root row)"
    "opt_all hash_text (bd_block_commitments row)" by (simp_all add: row check_block_def guard_Inr)
  moreover have "opt_all hash_text (bd_next_block_hash row)"
    using canonical_hashes(1)[OF assms(1)] by (auto simp: row opt_all_def dest: t_find_in_set split: option.splits)
  moreover have "list_all (pool_conformable ?n) (dt_value_pools ?D)"
    by (auto simp: e(5) value_pool_views_def list_all_iff pool_conformable_def opt_all_def split: option.splits)
  moreover have "list_all (tx_conformable ?n) (dt_transactions ?D)"
    using block_transactions_conformable[OF checks e(6)] by (simp add: list_all_iff)
  moreover have "opt_all auxpow_conformable (dt_auxpow ?D)"
    using load_auxpow_conformable[OF assms(1) _ e(7)] summary by (simp add: block_conformable_def)
  ultimately show "block_detail_conformable ?n ?D" using summary by (simp add: block_detail_conformable_def e(2))
qed

text \<open>What the node reports of an output's script is stored as it is.\<close>

definition scripts_hex :: "db \<Rightarrow> bool" where
  "scripts_hex d \<longleftrightarrow> rows_sat (\<lambda>_ r. opt_all hex_pairs (or_script_hex r)) (db_outputs d)"

lemma tx_detail_conformable:
  assumes "\<And>j. sound_database (nc_id (as_network S)) (rq_db R j)" and "\<And>j. scripts_hex (rq_db R j)"
    and "transaction S R txid b = Inr e"
  shows "fresh_envelope e" and "tx_detail_conformable (as_network S) (ae_data e)"
proof -
  let ?n = "as_network S" and ?D = "ae_data e"
  obtain row where e: "fresh_envelope e" "TRANSACTION_DETAIL_QUERY (nc_id ?n) txid b (rq_db R 1) = Inr (Some row)"
    "tx_from_row ?n row = Inr (td_summary ?D)"
    "td_inputs ?D = input_views (tw_transaction_instance_id row) (rq_db R 2)"
    "td_outputs ?D = output_views ?n (tw_transaction_instance_id row) (rq_db R 3)"
    using assms(3) by (auto simp: transaction_def Let_def read_Inr)
  then show "fresh_envelope e" by simp
  obtain j where j: "j \<in> set (canonical_txs (nc_id ?n) (rq_db R 1))" "tx_columns (rq_db R 1) j = Inr row"
    using e(2) by (auto simp: TRANSACTION_DETAIL_QUERY_def transpose_opt_Inr dest!: find_in_set)
  obtain height hash b' p i t where "j = (height, hash, b', p, i, t)" by (cases j)
  then have "tx_conformable ?n (td_summary ?D)"
    using canonical_tx_conformable[OF sound_parts(1)[OF assms(1)] _ _ e(3)] j by blast
  moreover have "rows_ok check_input (db_inputs (rq_db R 2))" "rows_ok check_output (db_outputs (rq_db R 3))"
    using sound_parts(1)[OF assms(1)] by (simp_all add: checks_ok_def)
  then have "list_all input_conformable (td_inputs ?D)" "list_all (output_conformable ?n) (td_outputs ?D)"
    using assms(2)[of 3]
    by (auto simp: e(4,5) input_views_def output_views_def list_all_iff input_conformable_def output_conformable_def
        set_rows_of scripts_hex_def check_input_def check_output_def guard_Inr opt_all_def split: option.splits
        dest!: in_table_ok rows_sat_in)
  ultimately show "tx_detail_conformable ?n ?D" by (simp add: tx_detail_conformable_def)
qed

end
