(* ===== verification/Conformance_Analytics.thy ===== *)
theory Conformance_Analytics imports Conformance_Data Analytics_Props begin

text \<open>
  What the address view and the analytics read from a sound database satisfies the conditions of
  \<open>Conformance_Views\<close>.
\<close>

section \<open>Addresses\<close>

lemma text_amount_of:
  assumes "amount_from_zatoshi_text s n = Inr a" and "nc_decimals n = 8"
  shows "amount_of n a"
  using assms amount_text_value[of n s] by (auto simp: amount_of_def split: option.splits)

definition key_conformable :: "activity_key \<Rightarrow> bool" where
  "key_conformable k \<longleftrightarrow>
     hash_text (ak_txid k) \<and> hash_text (ak_instance_digest k) \<and> opt_all hash_text (ak_auth_digest k) \<and>
     hash_text (ak_block_hash k) \<and> 0 \<le> ak_position k"

lemma event_key_conformable:
  assumes "sound_database net d" and "e \<in> set (canonical_events net d)"
  shows "key_conformable (ev_key e)"
proof -
  obtain h hash witness p i where place: "(h, hash, witness, p, i) \<in> set (canonical_places net d)"
    and event: "place_event d (h, hash, witness, p, i) = Some e"
    using assms(2) by (force simp: canonical_events_def List.map_filter_def split: option.splits)
  then obtain b t where t: "t_find (db_blocks d) hash = Some b" "t_find (db_instances d) i = Some t"
    "ev_key e = \<lparr>ak_height = h, ak_block_hash = hash, ak_witness_hash = witness, ak_block_time = br_block_time b,
       ak_position = p, ak_txid = tr_txid t, ak_instance_digest = tr_instance_digest t, ak_auth_digest = tr_auth_digest t\<rparr>"
    by (auto simp: place_event_def split: option.splits)
  have ok: "rows_ok check_position (db_block_transactions d)" "rows_ok check_instance_row (db_instances d)"
    "rows_ok check_block (db_blocks d)"
    using sound_parts(1)[OF assms(1)] by (simp_all add: checks_ok_def)
  have "(((hash, witness), p), i) \<in> set (db_block_transactions d)"
    using place by (auto simp: canonical_places_def set_rows_of)
  then have "0 \<le> p" using in_table_ok[OF ok(1)] by (fastforce simp: check_position_def)
  then show ?thesis
    using rows_okD[OF ok(2) t(2)] rows_okD[OF ok(3) t(1)]
    by (simp add: key_conformable_def t(3) check_instance_row_def check_block_def guard_Inr)
qed

lemma activity_keys:
  assumes "sound_database net d" and "ADDRESS_ACTIVITY_QUERY net a d = Inr shown" and "r \<in> set shown"
  shows "key_conformable (aw_key r)"
proof -
  let ?owned = "owned_outputs net a d"
  obtain received spent rows where q: "group_sums (received_deltas ?owned) = Inr received"
    "group_sums (spent_deltas net d ?owned) = Inr spent" "activity_rows received spent = Inr rows" "shown = newest_first rows"
    using activity_query_parts[OF assms(2)] by metis
  have "r \<in> set rows" using assms(3) by (auto simp: q(4) newest_first_def dest: in_set_takeD)
  then have "aw_key r \<in> fst ` fst ` set received \<union> fst ` fst ` set spent"
    using activity_rows_Inr(3)[OF q(3)] by (fastforce simp: image_image image_Un)
  also have "\<dots> = fst ` fst ` set (received_deltas ?owned) \<union> fst ` fst ` set (spent_deltas net d ?owned)"
    using group_sums_Inr(1)[OF q(1)] group_sums_Inr(1)[OF q(2)] by simp
  also have "\<dots> \<subseteq> ev_key ` set (canonical_events net d)"
    unfolding deltas_keys by (auto simp: owned_outputs_def spending_events_def)
  finally show ?thesis using event_key_conformable[OF assms(1)] by auto
qed

lemma activity_conformable:
  "key_conformable (aw_key r) \<Longrightarrow> activity_conformable n (activity_view n r)"
  by (simp add: activity_conformable_def activity_view_def Let_def key_conformable_def direction_def split: bool.split)

lemma anomalies_nonneg: "0 \<le> anomalies counts"
  unfolding anomalies_def by (intro sum_list_nonneg) auto

lemma balance_counts:
  assumes "ADDRESS_BALANCE_QUERY net a tip maturity d = Inr b"
  shows "list_all (\<lambda>i. 0 \<le> i) [ab_utxo_count b, ab_mined_output_count b, ab_mined_transaction_count b,
    ab_transaction_count b, ab_canonical_double_spend_anomalies b]"
  using assms anomalies_nonneg by (auto simp: ADDRESS_BALANCE_QUERY_def Let_def bigint_Inr)

lemma address_view_conformable:
  assumes "address_view_of n a b acts = Inr v"
    and "list_all (\<lambda>i. 0 \<le> i) [ab_utxo_count b, ab_mined_output_count b, ab_mined_transaction_count b,
      ab_transaction_count b, ab_canonical_double_spend_anomalies b]"
    and "list_all (activity_conformable n) acts" and "nc_decimals n = 8"
  shows "address_conformable n v"
  using assms text_amount_of[OF _ assms(4)] by (auto simp: address_view_of_def address_conformable_def)

lemma address_conformable:
  assumes "sound_database (nc_id (as_network S)) (rq_db R 1)" and "nc_decimals (as_network S) = 8"
    and "address A S R text = Inr e"
  shows "fresh_envelope e" and "address_conformable (as_network S) (ae_data e)"
proof -
  let ?n = "as_network S" and ?D = "ae_data e"
  obtain a tip b rows where e: "fresh_envelope e"
    "ADDRESS_BALANCE_QUERY (nc_id ?n) a tip (int (nc_coinbase_maturity ?n)) (rq_db R 1) = Inr b"
    "ADDRESS_ACTIVITY_QUERY (nc_id ?n) a (rq_db R 1) = Inr rows"
    "address_view_of ?n a b (map (activity_view ?n) rows) = Inr ?D"
    using assms(3) by (auto simp: address_def Let_def snap_Inr)
  then show "fresh_envelope e" by simp
  have "list_all (activity_conformable ?n) (map (activity_view ?n) rows)"
    using activity_conformable activity_keys[OF assms(1) e(3)] by (auto simp: list_all_iff)
  then show "address_conformable ?n ?D" by (rule address_view_conformable[OF e(4) balance_counts[OF e(2)] _ assms(2)])
qed

section \<open>Histories\<close>

lemma snapshot_hash:
  assumes "sound_database net (rq_db R 1)" and "snapshot_chain_state R net = Inr chain"
  shows "opt_all hash_text (st_indexed_hash chain)"
  using state_sane(1)[OF assms(1)] assms(2) by (simp add: snapshot_chain_state_def snap_Inr load_chain_state_def)

lemma block_sane:
  assumes "checks_ok d" and "t_find (db_blocks d) x = Some b"
  shows "hash_text x" and "0 \<le> br_size_bytes b" and "0 \<le> br_transaction_count b"
proof -
  have "rows_ok check_block (db_blocks d)" using assms(1) by (simp add: checks_ok_def)
  from rows_okD[OF this assms(2)] show "hash_text x" "0 \<le> br_size_bytes b" "0 \<le> br_transaction_count b"
    by (simp_all add: check_block_def guard_Inr)
qed

lemma with_lag_mem:
  "r \<in> set (with_lag rows) \<Longrightarrow> \<exists>h x b. (h, x, b) \<in> set rows \<and> nh_hash r = x \<and> nh_size_bytes r = br_size_bytes b \<and>
     nh_transaction_count r = br_transaction_count b"
  by (fastforce simp: with_lag_def dest: set_zip_rightD)

lemma network_history_rows:
  assumes "checks_ok d" and "r \<in> set (NETWORK_HISTORY_QUERY net before lim d)"
  shows "hash_text (nh_hash r)" and "0 \<le> nh_size_bytes r" and "0 \<le> nh_transaction_count r"
proof -
  have "r \<in> set (with_lag (rev (List.map_filter (\<lambda>(height, c).
      map_option (\<lambda>b. (height, cr_block_hash c, b)) (t_find (db_blocks d) (cr_block_hash c))) (selectors net before (lim + 1) d))))"
    using assms(2) by (auto simp: NETWORK_HISTORY_QUERY_def Let_def dest: in_set_takeD)
  then obtain x b where "t_find (db_blocks d) x = Some b" "nh_hash r = x" "nh_size_bytes r = br_size_bytes b"
    "nh_transaction_count r = br_transaction_count b"
    by (auto simp: List.map_filter_def dest!: with_lag_mem split: option.splits)
  then show "hash_text (nh_hash r)" "0 \<le> nh_size_bytes r" "0 \<le> nh_transaction_count r"
    using block_sane[OF assms(1)] by auto
qed

lemma network_history_conformable:
  assumes "sound_database (nc_id (as_network S)) (rq_db R 1)" and "0 < nc_target_spacing_seconds (as_network S)"
    and "network_history S R q = Inr e"
  shows "fresh_envelope e" and "network_history_conformable (as_network S) (ae_data e)"
proof -
  let ?n = "as_network S" and ?D = "ae_data e"
  obtain before lim chain where e: "fresh_envelope e" "snapshot_chain_state R (nc_id ?n) = Inr chain"
    "collect_res (map (network_history_point_of ?n) (NETWORK_HISTORY_QUERY (nc_id ?n) before lim (rq_db R 1))) = Inr (nv_points ?D)"
    "nv_as_of_hash ?D = st_indexed_hash chain" "nv_target_spacing_seconds ?D = nc_target_spacing_seconds ?n"
    using assms(3) by (auto simp: network_history_def Let_def snap_Inr)
  then show "fresh_envelope e" by simp
  have "network_point_conformable ?n p" if p: "p \<in> set (nv_points ?D)" for p
  proof -
    obtain r where r: "r \<in> set (NETWORK_HISTORY_QUERY (nc_id ?n) before lim (rq_db R 1))" "network_history_point_of ?n r = Inr p"
      using collected[OF e(3) p] by blast
    show ?thesis
      using network_history_rows[OF sound_parts(1)[OF assms(1)] r(1)] r(2)
      by (auto simp: network_history_point_of_def network_point_conformable_def opt_all_def split: option.splits)
  qed
  then show "network_history_conformable ?n ?D"
    using snapshot_hash[OF assms(1) e(2)] assms(2) by (simp add: network_history_conformable_def e list_all_iff)
qed

lemma value_pool_hashes:
  assumes "checks_ok d" and "r \<in> set (VALUE_POOL_HISTORY_QUERY net before lim d)"
  shows "hash_text (vh_hash r)"
  using assms(2) block_sane(1)[OF assms(1)]
  by (auto simp: VALUE_POOL_HISTORY_QUERY_def List.map_filter_def Let_def split: option.splits)

lemma snapshot_conformable:
  "i \<in> {''transparent'', ''ironwood''} \<Longrightarrow> pool_snapshot_conformable (as_network S) (snapshot_of i p S)"
  by (auto simp: pool_snapshot_conformable_def snapshot_of_def pool_snapshot_def opt_all_def split: option.splits)

lemma pool_history_conformable:
  assumes "sound_database (nc_id (as_network S)) (rq_db R 1)" and "value_pool_history S R q = Inr e"
  shows "fresh_envelope e" and "pool_history_conformable (as_network S) (ae_data e)"
proof -
  let ?n = "as_network S" and ?D = "ae_data e"
  obtain before lim chain where e: "fresh_envelope e" "snapshot_chain_state R (nc_id ?n) = Inr chain"
    "collect_res (map (value_pool_point_of S) (VALUE_POOL_HISTORY_QUERY (nc_id ?n) before lim (rq_db R 1))) = Inr (vpv_points ?D)"
    "vpv_as_of_hash ?D = st_indexed_hash chain" "vpv_unexpected_pool_samples ?D = unexpected_pool_samples (nc_id ?n) (rq_db R 1)"
    using assms(2) by (auto simp: value_pool_history_def Let_def snap_Inr)
  then show "fresh_envelope e" by simp
  have "pool_point_conformable ?n p" if p: "p \<in> set (vpv_points ?D)" for p
  proof -
    obtain r where r: "r \<in> set (VALUE_POOL_HISTORY_QUERY (nc_id ?n) before lim (rq_db R 1))" "value_pool_point_of S r = Inr p"
      using collected[OF e(3) p] by blast
    show ?thesis
      using value_pool_hashes[OF sound_parts(1)[OF assms(1)] r(1)] r(2) snapshot_conformable
      by (auto simp: value_pool_point_of_def pool_point_conformable_def opt_all_def split: option.splits)
  qed
  then show "pool_history_conformable ?n ?D"
    using snapshot_hash[OF assms(1) e(2)]
    by (simp add: pool_history_conformable_def e list_all_iff unexpected_pool_samples_def)
qed

section \<open>Merge mining\<close>

lemma merge_mining_conformable:
  assumes "sound_database (nc_id (as_network S)) (rq_db R 1)" and "merge_mining_stats S R = Inr e"
  shows "fresh_envelope e" and "merge_mining_conformable (ae_data e)"
proof -
  obtain chain where e: "fresh_envelope e" "snapshot_chain_state R (nc_id (as_network S)) = Inr chain"
    "mv_row (ae_data e) = MERGE_MINING_STATS_QUERY (nc_id (as_network S)) (rq_db R 1)"
    "mv_as_of_hash (ae_data e) = st_indexed_hash chain"
    using assms(2) by (auto simp: merge_mining_stats_def Let_def snap_Inr)
  show "fresh_envelope e" by (rule e)
  show "merge_mining_conformable (ae_data e)"
    using snapshot_hash[OF assms(1) e(2)]
    by (simp add: merge_mining_conformable_def e(3,4) MERGE_MINING_STATS_QUERY_def Let_def)
qed

section \<open>The rich list\<close>

lemma trunc_nonneg:
  assumes "0 \<le> a" and "0 < b"
  shows "trunc_div a b = a div b" and "trunc_rem a b = a mod b"
proof -
  show "trunc_div a b = a div b" using assms by (auto simp: trunc_div_def sgn_if)
  then show "trunc_rem a b = a mod b" by (simp add: trunc_rem_def minus_mult_div_eq_mod)
qed

lemma percent_places:
  assumes "0 \<le> numerator" and "0 < denominator"
  shows "eight_places (exact_percent numerator denominator)"
proof -
  let ?scaled = "(numerator * 100 * 100000000) div denominator"
  have s: "0 \<le> ?scaled" using assms by (simp add: pos_imp_zdiv_nonneg_iff)
  have m: "\<not> x mod 100000000 < 0" for x :: int by (simp add: not_less)
  let ?fraction = "pad_zeros 8 (show_nat (nat (?scaled mod 100000000)))"
  have "trunc_div (numerator * 100 * 100000000) denominator = ?scaled" using assms by (intro trunc_nonneg) simp_all
  then have "exact_percent numerator denominator = show_nat (nat (?scaled div 100000000)) @ CHR ''.'' # ?fraction"
    using assms s by (simp add: exact_percent_def Let_def trunc_nonneg show_int_def pad_int_def m pos_imp_zdiv_neg_iff not_less)
  moreover have "nat (?scaled mod 100000000) < 10 ^ 8" by (simp add: nat_less_iff)
  then have "length ?fraction = 8" using length_show_nat[of 8 "nat (?scaled mod 100000000)"] by simp
  ultimately show ?thesis
    using eight_places_join[of "show_nat (nat (?scaled div 100000000))" ?fraction] show_nat_digits pad_zeros_digits by simp
qed

lemma rich_row_sane:
  assumes "RICH_LIST_QUERY net lim d = Inr rows" and "r \<in> set rows"
  shows "1 \<le> rl_rank r" and "0 < rl_balance_zat r" and "0 \<le> rl_utxo_count r" and "0 \<le> rl_transaction_count r"
    and "0 \<le> rl_funded_address_count r"
proof -
  obtain groups where g: "utxo_groups net d = Inr groups" "(rl_address r, rl_balance_zat r, rl_utxo_count r) \<in> set groups"
    using rich_rows[OF assms] by blast
  show "0 < rl_balance_zat r" "0 \<le> rl_utxo_count r" using utxo_groups_mem[OF g] by (auto simp: Let_def)
  from assms(1) obtain ranking addressed top1 top10 top100 where
    "rows = map (rich_row net d (int (length ranking), addressed, top1, top10, top100)) (take lim (enumerate 0 ranking))"
    by (fastforce simp: RICH_LIST_QUERY_def Let_def simp del: map_eq_conv split_paired_Ex)
  then obtain i a v k where "r = rich_row net d (int (length ranking), addressed, top1, top10, top100) (i, a, v, k)"
    using assms(2) by auto
  then show "1 \<le> rl_rank r" "0 \<le> rl_transaction_count r" "0 \<le> rl_funded_address_count r"
    by (simp_all add: rich_row_def Let_def)
qed

lemma rich_entry_from_row:
  assumes "RICH_LIST_QUERY net lim d = Inr rows" and "r \<in> set rows" and "rich_entry n pool r = Inr v" and "nc_decimals n = 8"
  shows "rich_entry_conformable n v"
  using rich_row_sane[OF assms(1,2)] assms(3) text_amount_of[OF _ assms(4)]
  by (auto simp: rich_entry_def rich_entry_conformable_def u64_try_from_def opt_all_def percent_places split: option.splits if_splits)

lemma rich_list_conformable:
  assumes "sound_database (nc_id (as_network S)) (rq_db R 1)" and "nc_decimals (as_network S) = 8"
    and "rich_list S R requested = Inr e"
  shows "fresh_envelope e" and "rich_list_conformable (as_network S) (ae_data e)"
proof -
  let ?n = "as_network S" and ?D = "ae_data e"
  obtain chain lim rows pool unassigned where e: "fresh_envelope e" "snapshot_chain_state R (nc_id ?n) = Inr chain"
    "RICH_LIST_QUERY (nc_id ?n) lim (rq_db R 1) = Inr rows"
    "collect_res (map (rich_entry ?n pool) rows) = Inr (rw_addresses ?D)" "rw_as_of_hash ?D = st_indexed_hash chain"
    "rw_transparent_pool ?D = map_option (\<lambda>v. amount v ?n) pool"
    "rw_addressless_or_undecoded_balance ?D = map_option (\<lambda>v. amount v ?n) unassigned"
    "rw_funded_address_count ?D = rt_funded_address_count (rich_list_totals_of rows)"
    "list_all (amount_of ?n) [rw_addressed_balance ?D, rw_top_1_balance ?D, rw_top_10_balance ?D, rw_top_100_balance ?D]"
    using assms(3) by (auto simp: rich_list_def Let_def snap_Inr)
  then show "fresh_envelope e" by simp
  have "rich_entry_conformable ?n v" if "v \<in> set (rw_addresses ?D)" for v
    using collected[OF e(4) that] rich_entry_from_row[OF e(3) _ _ assms(2)] by blast
  moreover have "0 \<le> rt_funded_address_count (rich_list_totals_of rows)"
    using rich_row_sane(5)[OF e(3)] by (cases rows) (simp_all add: rich_list_totals_of_def)
  moreover have "opt_all (amount_of ?n) (map_option (\<lambda>v. amount v ?n) z)" for z
    by (simp add: opt_all_def split: option.split)
  ultimately show "rich_list_conformable ?n ?D"
    using snapshot_hash[OF assms(1) e(2)] e(9) by (simp add: rich_list_conformable_def e(5-8) list_all_iff)
qed

section \<open>Address statistics\<close>

lemma stats_row_sane:
  assumes "r \<in> set (ADDRESS_STATS_QUERY net before lim d)"
  shows "0 \<le> as_active_addresses r" and "0 \<le> as_new_addresses r" and "0 \<le> as_total_seen_addresses r"
proof -
  have "r \<in> set (stats_rows net d)" using assms by (auto simp: ADDRESS_STATS_QUERY_def below_def dest!: in_set_takeD)
  then show "0 \<le> as_active_addresses r" "0 \<le> as_new_addresses r" "0 \<le> as_total_seen_addresses r"
    by (auto simp: stats_rows_def Let_def intro!: sum_list_nonneg)
qed

lemma address_stats_conformable:
  assumes "sound_database (nc_id (as_network S)) (rq_db R 1)" and "address_stats S R q = Inr e"
  shows "fresh_envelope e" and "address_stats_conformable (as_network S) (ae_data e)"
proof -
  let ?n = "as_network S" and ?D = "ae_data e"
  obtain chain before lim current pool unassigned where e: "fresh_envelope e" "snapshot_chain_state R (nc_id ?n) = Inr chain"
    "collect_res (map (\<lambda>row. rbind (as_height (as_height_at row)) (\<lambda>h. Inr \<lparr>ap_height = h, ap_row = row\<rparr>))
       (ADDRESS_STATS_QUERY (nc_id ?n) before lim (rq_db R 1))) = Inr (sw_points ?D)"
    "CURRENT_ADDRESS_STATS_QUERY (nc_id ?n) (rq_db R 1) = Inr current" "sw_as_of_hash ?D = st_indexed_hash chain"
    "sw_transparent_pool ?D = map_option (\<lambda>v. amount v ?n) pool"
    "sw_addressless_or_undecoded_balance ?D = map_option (\<lambda>v. amount v ?n) unassigned"
    "sw_funded_address_count ?D = ca_funded_address_count current" "sw_seen_address_count ?D = ca_seen_address_count current"
    "amount_of ?n (sw_addressed_balance ?D)"
    using assms(2) by (auto simp: address_stats_def Let_def snap_Inr)
  then show "fresh_envelope e" by simp
  have "stats_point_conformable p" if p: "p \<in> set (sw_points ?D)" for p
  proof -
    obtain r where "r \<in> set (ADDRESS_STATS_QUERY (nc_id ?n) before lim (rq_db R 1))" "ap_row p = r"
      using collected[OF e(3) p] by auto
    then show ?thesis using stats_row_sane by (simp add: stats_point_conformable_def)
  qed
  moreover have "0 \<le> ca_funded_address_count current" "0 \<le> ca_seen_address_count current"
    using e(4) by (auto simp: CURRENT_ADDRESS_STATS_QUERY_def Let_def)
  moreover have "opt_all (amount_of ?n) (map_option (\<lambda>v. amount v ?n) z)" for z
    by (simp add: opt_all_def split: option.split)
  ultimately show "address_stats_conformable ?n ?D"
    using snapshot_hash[OF assms(1) e(2)] e(10) by (simp add: address_stats_conformable_def e(5-9) list_all_iff)
qed

end
