(* ===== verification/Conformance_Props.thy ===== *)
theory Conformance_Props imports Conformance_Analytics begin

text \<open>
  The answers of the API conform to the schemas its OpenAPI document states for them, where they do.
\<close>

section \<open>Documented answers\<close>

text \<open>What the document says a successful \<open>GET\<close> of a path answers, and whether a value is that.\<close>

definition documented_answer :: "json \<Rightarrow> string \<Rightarrow> string option" where
  "documented_answer root path =
     Option.bind (map_of (documented_paths root) path)
       (text_at [''get'', ''responses'', ''200'', ''content'', ''application/json'', ''schema'', ''$ref''])"

definition is_documented_answer :: "json \<Rightarrow> string \<Rightarrow> json \<Rightarrow> bool" where
  "is_documented_answer root path v \<longleftrightarrow>
     (case documented_answer root path of
        Some r \<Rightarrow> valid schema_levels root (JObject [(''$ref'', JString r)]) v
      | None \<Rightarrow> False)"

text \<open>The answers the document states, path by path.\<close>

definition answer_schemas :: "(string \<times> string) list" where
  "answer_schemas =
     [(''/health/live'', ''LiveResponse''),
      (''/health/ready'', ''ReadyResponse''),
      (''/api/v1/status'', ''StatusEnvelope''),
      (''/api/v1/stats'', ''StatusEnvelope''),
      (''/api/v1/network/history'', ''NetworkHistoryEnvelope''),
      (''/api/v1/value-pools/history'', ''ValuePoolHistoryEnvelope''),
      (''/api/v1/merge-mining/stats'', ''MergeMiningStatsEnvelope''),
      (''/api/v1/blocks'', ''BlockListEnvelope''),
      (''/api/v1/blocks/{id}'', ''BlockDetailEnvelope''),
      (''/api/v1/blocks/{id}/raw'', ''RawBlockEnvelope''),
      (''/api/v1/blocks/{id}/auxpow'', ''AuxPowEnvelope''),
      (''/api/v1/transactions'', ''TransactionListEnvelope''),
      (''/api/v1/transactions/{txid}'', ''TransactionDetailEnvelope''),
      (''/api/v1/addresses/{address}'', ''AddressEnvelope''),
      (''/api/v1/addresses/stats'', ''AddressStatsEnvelope''),
      (''/api/v1/addresses/rich-list'', ''RichListEnvelope''),
      (''/api/v1/reorgs'', ''ReorgListEnvelope''),
      (''/api/v1/search'', ''SearchEnvelope''),
      (''/api/openapi.json'', ''OpenApiDocument'')]"

lemma answer_table:
  "map (\<lambda>(p, item). (p, text_at [''get'', ''responses'', ''200'', ''content'', ''application/json'', ''schema'', ''$ref''] item))
     path_table = map (\<lambda>(p, n). (p, Some (''#/components/schemas/'' @ n))) answer_schemas"
  by (simp add: answer_schemas_def path_table_def text_at_def health_paths_def status_paths_def block_paths_def
      transaction_paths_def chain_paths_def operation_parts openapi_refs analytics_paths_def address_paths_def)

lemma documented_answers:
  assumes "(p, n) \<in> set answer_schemas"
  shows "documented_answer the_document p = Some (''#/components/schemas/'' @ n)"
proof -
  let ?f = "text_at [''get'', ''responses'', ''200'', ''content'', ''application/json'', ''schema'', ''$ref'']"
  have "(p, Some (''#/components/schemas/'' @ n)) \<in> set (map (\<lambda>(p, item). (p, ?f item)) path_table)"
    unfolding answer_table using assms by force
  then obtain item where item: "(p, item) \<in> set path_table" "?f item = Some (''#/components/schemas/'' @ n)" by auto
  have "distinct (map fst path_table)" unfolding path_names by (simp add: text_neq del: list.inject)
  from map_of_is_SomeI[OF this item(1)] show ?thesis
    by (simp add: documented_answer_def documented_paths_def document_parts item(2))
qed

lemma problem_valid: "valid (Suc (Suc (Suc k))) the_document ProblemDetails_schema (json_problem (into_response u e))"
proof -
  have "400 \<le> pr_status (into_response u e)" "pr_status (into_response u e) \<le> 599"
    using problem_status_cases[of e] by (auto simp: into_response_def split: prod.splits)
  then show ?thesis
    by (simp add: ProblemDetails_schema_def json_problem_def validity members del: valid.simps list.inject object_keywords)
qed

lemma envelope_valid:
  assumes "pm_freshness_seconds (ae_meta e) = Some t" and "0 \<le> t"
  shows "valid (Suc (Suc (Suc (Suc (Suc (Suc (Suc k))))))) the_document (envelope_schema s) (json_envelope f e) \<longleftrightarrow>
     valid (Suc (Suc (Suc (Suc (Suc (Suc k)))))) the_document s (f (ae_data e))"
  using Meta_valid[OF assms]
  by (simp add: envelope_schema_def json_envelope_def validity members del: valid.simps list.inject object_keywords)

lemma list_valid:
  assumes "CHR ''/'' \<notin> set n" and "map_of schema_table n = Some s"
  shows "valid (Suc (Suc k)) the_document (JObject [(''type'', JString ''array''), (''items'', schema_ref n)]) (j_list f xs) \<longleftrightarrow>
     list_all (\<lambda>x. valid k the_document s (f x)) xs"
  using valid_schema_ref[OF assms(1), of k] assms(2)
  by (simp add: j_list_def validity list_all_iff schema_ref_def del: valid.simps)

lemma live_valid: "valid (Suc (Suc k)) the_document LiveResponse_schema json_live"
  by (simp add: LiveResponse_schema_def json_live_def validity members del: valid.simps list.inject object_keywords)

lemma search_valid:
  assumes "sr_kind r \<in> {''block'', ''transaction'', ''address''}" and "sr_route r \<noteq> []" and "hd (sr_route r) = CHR ''/''"
  shows "valid (Suc (Suc k)) the_document SearchResult_schema (json_search_result r)"
  using assms by (auto simp: SearchResult_schema_def json_search_result_def validity members matches_pattern_def simp del: valid.simps list.inject object_keywords)

section \<open>The router's responses\<close>

lemma headers_only [simp]:
  "rp_status (if_not_present a b r) = rp_status r" "rp_body (if_not_present a b r) = rp_body r"
  "rp_status (insert_header a b r) = rp_status r" "rp_body (insert_header a b r) = rp_body r"
  "rp_status (security_layers r) = rp_status r" "rp_body (security_layers r) = rp_body r"
  by (simp_all add: if_not_present_def insert_header_def security_layers_def)

definition documented_response :: "json \<Rightarrow> string \<Rightarrow> api_response \<Rightarrow> bool" where
  "documented_response root path r \<longleftrightarrow>
     (case rp_body r of
        Json v \<Rightarrow>
          if rp_status r = 200 then is_documented_answer root path v
          else valid schema_levels root ProblemDetails_schema v
      | _ \<Rightarrow> rp_status r = 400)"

lemma documented_respond:
  assumes "\<And>e. r = Inr e \<Longrightarrow> is_documented_answer the_document path (f e)"
  shows "documented_response the_document path (respond u f r)"
proof (cases r)
  case (Inl e)
  have "pr_status (into_response u e) \<noteq> 200"
    using problem_status_cases[of e] by (auto simp: into_response_def split: prod.splits)
  then show ?thesis
    using problem_valid[of 13 u e]
    by (simp add: Inl documented_response_def respond_def problem_http_def schema_levels_def eval_nat_numeral del: valid.simps)
next
  case (Inr e)
  then show ?thesis using assms by (simp add: documented_response_def respond_def json_response_def)
qed

lemma documented_extracted:
  assumes "\<And>v. q = Some v \<Longrightarrow> documented_response root path (f v)"
  shows "documented_response root path (extracted q f)"
  using assms by (cases q) (simp_all add: extracted_def documented_response_def rejection_def)

lemma documented_named:
  assumes "documented_answer the_document path = Some (''#/components/schemas/'' @ n)" and "CHR ''/'' \<notin> set n"
    and "map_of schema_table n = Some s" and "valid 15 the_document s v"
  shows "is_documented_answer the_document path v"
proof -
  have "valid (Suc 15) the_document (JObject [(''$ref'', JString (''#/components/schemas/'' @ n))]) v"
    using valid_schema_ref[OF assms(2), of 15 v] assms(3,4) by (simp add: schema_ref_def del: valid.simps)
  then show ?thesis using assms(1) by (simp add: is_documented_answer_def schema_levels_def del: valid.simps)
qed

lemma documented_envelope:
  assumes "(path, n) \<in> set answer_schemas" and "CHR ''/'' \<notin> set n" and "map_of schema_table n = Some (envelope_schema s)"
    and "fresh_envelope e" and "valid 14 the_document s (f (ae_data e))"
  shows "is_documented_answer the_document path (json_envelope f e)"
proof (rule documented_named[OF documented_answers[OF assms(1)] assms(2,3)])
  obtain t where "pm_freshness_seconds (ae_meta e) = Some t" "0 \<le> t" using assms(4) by (auto simp: fresh_envelope_def)
  from envelope_valid[OF this, of 8 s f] assms(5) show "valid 15 the_document (envelope_schema s) (json_envelope f e)"
    by (simp del: valid.simps)
qed

lemma documented_data:
  assumes "(path, n) \<in> set answer_schemas" and "CHR ''/'' \<notin> set n" and "map_of schema_table n = Some (envelope_ref m)"
    and "CHR ''/'' \<notin> set m" and "map_of schema_table m = Some s"
    and "fresh_envelope e" and "valid 13 the_document s (f (ae_data e))"
  shows "is_documented_answer the_document path (json_envelope f e)"
proof (rule documented_envelope[OF assms(1,2) _ assms(6)])
  show "map_of schema_table n = Some (envelope_schema (schema_ref m))" using assms(3) by (simp add: envelope_ref_def)
  show "valid 14 the_document (schema_ref m) (f (ae_data e))"
    using valid_schema_ref[OF assms(4), of 13] assms(5,7) by (simp del: valid.simps)
qed

lemma documented_list:
  assumes "(path, n) \<in> set answer_schemas" and "CHR ''/'' \<notin> set n" and "map_of schema_table n = Some (envelope_array_ref m)"
    and "CHR ''/'' \<notin> set m" and "map_of schema_table m = Some s"
    and "fresh_envelope e" and "\<And>x. x \<in> set (ae_data e) \<Longrightarrow> valid 12 the_document s (f x)"
  shows "is_documented_answer the_document path (json_envelope (j_list f) e)"
proof (rule documented_envelope[OF assms(1,2) _ assms(6)])
  show "map_of schema_table n = Some (envelope_schema (JObject [(''type'', JString ''array''), (''items'', schema_ref m)]))"
    using assms(3) by (simp add: envelope_array_ref_def)
  show "valid 14 the_document (JObject [(''type'', JString ''array''), (''items'', schema_ref m)]) (j_list f (ae_data e))"
    using list_valid[OF assms(4,5), of 12 f "ae_data e"] assms(7) by (simp add: list_all_iff del: valid.simps)
qed

section \<open>Every handler\<close>

lemmas find_schema = answer_schemas_def text_neq

lemma lists_documented:
  assumes "checks_ok (rq_db R 1)" and "nc_decimals (as_network S) = 8"
  shows "blocks A S R q = Inr e \<Longrightarrow>
      is_documented_answer the_document ''/api/v1/blocks'' (json_envelope (j_list (json_block_summary V)) e)"
    and "transactions A S R q = Inr f \<Longrightarrow>
      is_documented_answer the_document ''/api/v1/transactions'' (json_envelope (j_list (json_tx_summary V)) f)"
proof -
  assume e: "blocks A S R q = Inr e"
  then have "fresh_envelope e" by (auto simp: blocks_def Let_def)
  moreover have "valid 12 the_document BlockSummary_schema (json_block_summary V b)" if "b \<in> set (ae_data e)" for b
    using BlockSummary_valid[OF blocks_conformable[OF assms(1) e that] assms(2), of 6] by (simp del: valid.simps)
  ultimately show "is_documented_answer the_document ''/api/v1/blocks'' (json_envelope (j_list (json_block_summary V)) e)"
    by (intro documented_list[of _ "''BlockListEnvelope''" "''BlockSummary''"])
      (simp_all add: find_schema del: valid.simps list.inject)
next
  assume f: "transactions A S R q = Inr f"
  then have "fresh_envelope f" by (auto simp: transactions_def Let_def)
  moreover have "valid 12 the_document transaction_summary_schema (json_tx_summary V b)" if "b \<in> set (ae_data f)" for b
    using TransactionSummary_valid[OF transactions_conformable[OF assms(1) f that] assms(2), of 5] by (simp del: valid.simps)
  ultimately show "is_documented_answer the_document ''/api/v1/transactions'' (json_envelope (j_list (json_tx_summary V)) f)"
    by (intro documented_list[of _ "''TransactionListEnvelope''" "''TransactionSummary''"])
      (simp_all add: find_schema del: valid.simps list.inject)
qed

lemma search_documented:
  assumes "search A S R q = Inr e"
  shows "is_documented_answer the_document ''/api/v1/search'' (json_envelope json_search_result e)"
proof -
  have fresh: "fresh_envelope e" using assms by (auto simp: search_def Let_def)
  obtain needle where needle: "lookup A S R needle = Inr (Some (ae_data e))"
    using assms by (auto simp: search_def Let_def ok_or_def split: option.splits)
  have "sr_kind r \<in> {''block'', ''transaction'', ''address''} \<and> sr_route r \<noteq> [] \<and> hd (sr_route r) = CHR ''/''"
    if "lookup A S R needle = Inr (Some r)" for r
    using that by (auto simp: lookup_def new_search_result_def Let_def split: option.splits if_splits)
  from this[OF needle] have "valid 13 the_document SearchResult_schema (json_search_result (ae_data e))"
    using search_valid[of "ae_data e" 11] by (simp del: valid.simps)
  then show ?thesis
    by (intro documented_data[of _ "''SearchEnvelope''" "''SearchResult''"] fresh)
      (simp_all add: find_schema del: valid.simps list.inject)
qed

lemma ready_documented:
  assumes "sound_database (nc_id (as_network S)) (rq_db R 0)" and "ready S R = Inr r"
  shows "is_documented_answer the_document ''/health/ready'' (json_ready V r)"
proof -
  have "valid 15 the_document ReadyResponse_schema (json_ready V r)"
    using ready_heights[OF assms] ReadyResponse_valid[of r, where k = 12] by (auto simp del: valid.simps)
  then show ?thesis
    by (intro documented_named[OF documented_answers[of _ "''ReadyResponse''"]])
      (simp_all add: find_schema del: valid.simps list.inject)
qed

lemma reorgs_documented:
  assumes "sound_database (nc_id (as_network S)) (rq_db R 1)" and "reorgs S R = Inr e"
  shows "is_documented_answer the_document ''/api/v1/reorgs'' (json_envelope (j_list (json_reorg V)) e)"
proof (rule documented_list[of _ "''ReorgListEnvelope''" "''Reorganization''"])
  show "fresh_envelope e" by (rule reorgs_conformable[OF assms])
  show "valid 12 the_document Reorganization_schema (json_reorg V g)" if "g \<in> set (ae_data e)" for g
    using Reorganization_valid[OF reorgs_conformable(2)[OF assms that], of 8] by (simp del: valid.simps)
qed (simp_all add: find_schema del: valid.simps list.inject)

lemma raw_block_documented:
  assumes "sound_database (nc_id (as_network S)) (rq_db R 1)" and "hex_crate_ok X" and "raw_block X S R i = Inr e"
  shows "is_documented_answer the_document ''/api/v1/blocks/{id}/raw'' (json_envelope json_raw_block e)"
proof (rule documented_data[of _ "''RawBlockEnvelope''" "''RawBlock''"])
  note raw = raw_block_conformable[OF assms]
  show "fresh_envelope e" by (rule raw)
  show "valid 13 the_document RawBlock_schema (json_raw_block (ae_data e))"
    using RawBlock_valid[OF raw(2-5), of 10] by (simp del: valid.simps)
qed (simp_all add: find_schema del: valid.simps list.inject)

lemma block_documented:
  assumes "\<And>j. sound_database (nc_id (as_network S)) (rq_db R j)" and "nc_decimals (as_network S) = 8"
    and "block S R i = Inr e"
  shows "is_documented_answer the_document ''/api/v1/blocks/{id}'' (json_envelope (json_block_detail V) e)"
proof (rule documented_data[of _ "''BlockDetailEnvelope''" "''BlockDetail''"])
  show "fresh_envelope e" by (rule block_detail_conformable[OF assms(1,3)])
  show "valid 13 the_document BlockDetail_schema (json_block_detail V (ae_data e))"
    using BlockDetail_valid[OF block_detail_conformable(2)[OF assms(1,3)] assms(2), of 2] by (simp del: valid.simps)
qed (simp_all add: find_schema del: valid.simps list.inject)

lemma auxpow_documented:
  assumes "\<And>j. sound_database (nc_id (as_network S)) (rq_db R j)" and "block_auxpow S R i = Inr e"
  shows "is_documented_answer the_document ''/api/v1/blocks/{id}/auxpow'' (json_envelope (j_opt (json_auxpow V)) e)"
proof (rule documented_envelope[of _ "''AuxPowEnvelope''"])
  show "fresh_envelope e" by (rule block_auxpow_conformable[OF assms])
  show "valid 14 the_document (nullable_ref ''AuxPow'') (j_opt (json_auxpow V) (ae_data e))"
    using nullable_ref_opt[of "''AuxPow''" AuxPow_schema 12 "json_auxpow V" "ae_data e"]
      opt_auxpow[OF block_auxpow_conformable(2)[OF assms], where k = 5 and V = V]
    by (cases "ae_data e") (simp_all del: valid.simps)
qed (simp_all add: find_schema del: valid.simps list.inject)

lemma transaction_documented:
  assumes "\<And>j. sound_database (nc_id (as_network S)) (rq_db R j)" and "\<And>j. scripts_hex (rq_db R j)"
    and "nc_decimals (as_network S) = 8" and "transaction S R txid b = Inr e"
  shows "is_documented_answer the_document ''/api/v1/transactions/{txid}'' (json_envelope (json_tx_detail V) e)"
proof (rule documented_data[of _ "''TransactionDetailEnvelope''" "''TransactionDetail''"])
  show "fresh_envelope e" by (rule tx_detail_conformable[OF assms(1,2,4)])
  show "valid 13 the_document TransactionDetail_schema (json_tx_detail V (ae_data e))"
    using TransactionDetail_valid[OF tx_detail_conformable(2)[OF assms(1,2,4)] assms(3), of 3] by (simp del: valid.simps)
qed (simp_all add: find_schema del: valid.simps list.inject)

lemma address_documented:
  assumes "sound_database (nc_id (as_network S)) (rq_db R 1)" and "nc_decimals (as_network S) = 8"
    and "address A S R text = Inr e"
  shows "is_documented_answer the_document ''/api/v1/addresses/{address}'' (json_envelope (json_address V) e)"
proof (rule documented_data[of _ "''AddressEnvelope''" "''Address''"])
  show "fresh_envelope e" by (rule address_conformable[OF assms])
  show "valid 13 the_document Address_schema (json_address V (ae_data e))"
    using Address_valid[OF address_conformable(2)[OF assms] assms(2), of 4] by (simp del: valid.simps)
qed (simp_all add: find_schema del: valid.simps list.inject)

lemma histories_documented:
  assumes "sound_database (nc_id (as_network S)) (rq_db R 1)" and "nc_decimals (as_network S) = 8"
    and "0 < nc_target_spacing_seconds (as_network S)"
  shows "network_history S R q = Inr e \<Longrightarrow>
      is_documented_answer the_document ''/api/v1/network/history'' (json_envelope (json_network_history V) e)"
    and "value_pool_history S R q = Inr f \<Longrightarrow>
      is_documented_answer the_document ''/api/v1/value-pools/history'' (json_envelope (json_pool_history V) f)"
proof -
  assume e: "network_history S R q = Inr e"
  show "is_documented_answer the_document ''/api/v1/network/history'' (json_envelope (json_network_history V) e)"
  proof (rule documented_data[of _ "''NetworkHistoryEnvelope''" "''NetworkHistory''"])
    show "fresh_envelope e" by (rule network_history_conformable[OF assms(1,3) e])
    show "valid 13 the_document NetworkHistory_schema (json_network_history V (ae_data e))"
      using NetworkHistory_valid[OF network_history_conformable(2)[OF assms(1,3) e] assms(2), of 3] by (simp del: valid.simps)
  qed (simp_all add: find_schema del: valid.simps list.inject)
next
  assume f: "value_pool_history S R q = Inr f"
  show "is_documented_answer the_document ''/api/v1/value-pools/history'' (json_envelope (json_pool_history V) f)"
  proof (rule documented_data[of _ "''ValuePoolHistoryEnvelope''" "''ValuePoolHistory''"])
    show "fresh_envelope f" by (rule pool_history_conformable[OF assms(1) f])
    show "valid 13 the_document ValuePoolHistory_schema (json_pool_history V (ae_data f))"
      using ValuePoolHistory_valid[OF pool_history_conformable(2)[OF assms(1) f] assms(2), of 1]
      by (simp add: eval_nat_numeral del: valid.simps)
  qed (simp_all add: find_schema del: valid.simps list.inject)
qed

lemma statistics_documented:
  assumes "sound_database (nc_id (as_network S)) (rq_db R 1)" and "nc_decimals (as_network S) = 8"
  shows "merge_mining_stats S R = Inr e \<Longrightarrow>
      is_documented_answer the_document ''/api/v1/merge-mining/stats'' (json_envelope (json_merge_mining_stats V) e)"
    and "rich_list S R l = Inr f \<Longrightarrow>
      is_documented_answer the_document ''/api/v1/addresses/rich-list'' (json_envelope (json_rich_list V) f)"
    and "address_stats S R q = Inr g \<Longrightarrow>
      is_documented_answer the_document ''/api/v1/addresses/stats'' (json_envelope (json_address_stats V) g)"
proof -
  assume e: "merge_mining_stats S R = Inr e"
  show "is_documented_answer the_document ''/api/v1/merge-mining/stats'' (json_envelope (json_merge_mining_stats V) e)"
  proof (rule documented_data[of _ "''MergeMiningStatsEnvelope''" "''MergeMiningStats''"])
    show "fresh_envelope e" by (rule merge_mining_conformable[OF assms(1) e])
    show "valid 13 the_document MergeMiningStats_schema (json_merge_mining_stats V (ae_data e))"
      using MergeMiningStats_valid[OF merge_mining_conformable(2)[OF assms(1) e], of 9] by (simp del: valid.simps)
  qed (simp_all add: find_schema del: valid.simps list.inject)
next
  assume f: "rich_list S R l = Inr f"
  show "is_documented_answer the_document ''/api/v1/addresses/rich-list'' (json_envelope (json_rich_list V) f)"
  proof (rule documented_data[of _ "''RichListEnvelope''" "''RichList''"])
    show "fresh_envelope f" by (rule rich_list_conformable[OF assms f])
    show "valid 13 the_document RichList_schema (json_rich_list V (ae_data f))"
      using RichList_valid[OF rich_list_conformable(2)[OF assms f] assms(2), of 4] by (simp del: valid.simps)
  qed (simp_all add: find_schema del: valid.simps list.inject)
next
  assume g: "address_stats S R q = Inr g"
  show "is_documented_answer the_document ''/api/v1/addresses/stats'' (json_envelope (json_address_stats V) g)"
  proof (rule documented_data[of _ "''AddressStatsEnvelope''" "''AddressStats''"])
    show "fresh_envelope g" by (rule address_stats_conformable[OF assms(1) g])
    show "valid 13 the_document AddressStats_schema (json_address_stats V (ae_data g))"
      using AddressStats_valid[OF address_stats_conformable(2)[OF assms(1) g] assms(2), of 5] by (simp del: valid.simps)
  qed (simp_all add: find_schema del: valid.simps list.inject)
qed

section \<open>The router\<close>

definition documented_path :: "handler \<Rightarrow> string option" where
  "documented_path h = map_of (map (\<lambda>(p, h). (h, p)) (api_routes @ analytics_routes)) h"

lemma handler_paths:
  "documented_path H_live = Some ''/health/live''" "documented_path H_ready = Some ''/health/ready''"
  "documented_path H_status = Some ''/api/v1/status''" "documented_path H_blocks = Some ''/api/v1/blocks''"
  "documented_path H_block = Some ''/api/v1/blocks/{id}''" "documented_path H_raw_block = Some ''/api/v1/blocks/{id}/raw''"
  "documented_path H_block_auxpow = Some ''/api/v1/blocks/{id}/auxpow''"
  "documented_path H_transactions = Some ''/api/v1/transactions''"
  "documented_path H_transaction = Some ''/api/v1/transactions/{txid}''" "documented_path H_reorgs = Some ''/api/v1/reorgs''"
  "documented_path H_search = Some ''/api/v1/search''" "documented_path H_openapi = Some ''/api/openapi.json''"
  "documented_path H_network_history = Some ''/api/v1/network/history''"
  "documented_path H_value_pool_history = Some ''/api/v1/value-pools/history''"
  "documented_path H_address = Some ''/api/v1/addresses/{address}''"
  "documented_path H_address_stats = Some ''/api/v1/addresses/stats''"
  "documented_path H_rich_list = Some ''/api/v1/addresses/rich-list''"
  "documented_path H_merge_mining_stats = Some ''/api/v1/merge-mining/stats''"
  by (simp_all add: documented_path_def api_routes_def analytics_routes_def)

lemma handle_documented:
  assumes "\<And>k. sound_database (nc_id (as_network (se_state Z))) (rq_db (en_request N) k)"
    and "\<And>k. scripts_hex (rq_db (en_request N) k)" and "hex_crate_ok (se_crates Z)"
    and "nc_decimals (as_network (se_state Z)) = 8" and "0 < nc_target_spacing_seconds (as_network (se_state Z))"
    and "h \<noteq> H_status" and "documented_path h = Some path"
  shows "documented_response the_document path (handle Z N h vs q)"
proof -
  note checks = sound_parts(1)[OF assms(1)]
  have live: "is_documented_answer the_document ''/health/live'' json_live"
    by (rule documented_named[OF documented_answers[of _ "''LiveResponse''"]])
      (use live_valid[of 13] in \<open>simp_all add: find_schema del: valid.simps list.inject\<close>)
  have doc: "is_documented_answer the_document ''/api/openapi.json'' the_document"
    by (rule documented_named[OF documented_answers[of _ "''OpenApiDocument''"]])
      (use OpenApiDocument_valid[of 13] in \<open>simp_all add: find_schema del: valid.simps list.inject\<close>)
  show ?thesis
    using assms(6,7) checks
    by (cases h) (auto simp: handler_paths json_response_def documented_response_def[of _ _ "\<lparr>rp_status = _, rp_headers = _, rp_body = _\<rparr>"] live doc openapi_document_some
        intro!: documented_extracted documented_respond lists_documented search_documented ready_documented reorgs_documented
          raw_block_documented block_documented auxpow_documented transaction_documented address_documented histories_documented
          statistics_documented assms(1-5))
qed

lemma documented_same:
  "rp_status r' = rp_status r \<Longrightarrow> rp_body r' = rp_body r \<Longrightarrow>
   documented_response root path r' \<longleftrightarrow> documented_response root path r"
  unfolding documented_response_def by (simp only:)

lemma documented_layers:
  assumes "documented_response the_document path r"
  shows "documented_response the_document path (analytics_layers N r)"
proof (cases "en_timed_out N")
  case True
  let ?busy = "Inl (NotReady ''analytics capacity is temporarily busy; retry the request'')"
  have "documented_response the_document path (respond (en_instance N) (\<lambda>_. JNull) ?busy)"
    by (rule documented_respond) simp
  then show ?thesis
    using True by (simp add: analytics_layers_def analytics_capacity_error_def respond_def 
      documented_same[of "insert_header _ _ _"])
next
  case False
  then show ?thesis
    using assms documented_same[of "if_not_present ''cache-control'' ''public, max-age=5, stale-while-revalidate=15'' r" r]
    by (simp add: analytics_layers_def)
qed

text \<open>The responses are what the document says, for any sound database; the status is left out because
  its lag may be negative.\<close>

lemma router_conforms:
  assumes "\<And>k. sound_database (nc_id (as_network (se_state Z))) (rq_db (en_request N) k)"
    and "\<And>k. scripts_hex (rq_db (en_request N) k)" and "hex_crate_ok (se_crates Z)"
    and "nc_decimals (as_network (se_state Z)) = 8" and "0 < nc_target_spacing_seconds (as_network (se_state Z))"
    and "find_route (compile_routes (api_routes @ analytics_routes)) (split_path (ht_path rq)) = Some (h, vs)"
    and "ht_method rq = ''GET''" and "h \<noteq> H_status" and "documented_path h = Some path"
  shows "documented_response the_document path (router Z N rq)"
proof -
  have "documented_response the_document path (handle Z N h vs (ht_query rq))"
    by (rule handle_documented[OF assms(1-5,8,9)])
  then have "documented_response the_document path (dispatch Z N rq)"
    using assms(6,7) documented_layers by (simp add: dispatch_def method_get_def Let_def)
  then show ?thesis
    using documented_same[of "router Z N rq" "dispatch Z N rq"] by (simp add: router_def)
qed

text \<open>C26. The status conforms exactly when the lag is not negative.  For stored tips that are hashes, a
  network with eight decimals and a positive schedule, and a spacing printed without a sign, the answer
  of \<open>/api/v1/status\<close> satisfies its documented schema if and only if the node is not behind the
  index: the handler subtracts the heights as signed numbers, while the document promises a minimum of
  zero.\<close>

theorem status_conforms_iff:
  assumes "status S R = Inr e" and "nc_decimals (as_network S) = 8"
    and "opt_all hash_text (sv_indexed_hash (ae_data e))" and "opt_all hash_text (sv_node_hash (ae_data e))"
    and "0 < nc_target_spacing_seconds (as_network S)" and "0 < nc_halving_interval (as_network S)"
    and "0 < sv_next_halving_height (ae_data e)"
    and "opt_all (\<lambda>x. rd_f64 V x = [] \<or> hd (rd_f64 V x) \<noteq> CHR ''-'') (sv_observed_spacing (ae_data e))"
  shows "is_documented_answer the_document ''/api/v1/status'' (json_envelope (json_status V) e) \<longleftrightarrow>
    (case sv_lag_blocks (ae_data e) of None \<Rightarrow> True | Some l \<Rightarrow> 0 \<le> l)"
proof -
  obtain t where t: "pm_freshness_seconds (ae_meta e) = Some t" "0 \<le> t"
    using assms(1) by (auto simp: status_def Let_def envelope_def seconds_since_def)
  have "status_conformable V (as_network S) (ae_data e)"
    using assms by (auto simp: status_def Let_def envelope_def status_conformable_def seconds_since_def)
  then have v: "valid 13 the_document Status_schema (json_status V (ae_data e)) \<longleftrightarrow> opt_all (\<lambda>l. 0 \<le> l) (sv_lag_blocks (ae_data e))"
    using Status_valid[OF _ assms(2), where k = 7] by (simp del: valid.simps)
  have "valid (Suc 15) the_document (JObject [(''$ref'', JString (''#/components/schemas/'' @ ''StatusEnvelope''))]) (json_envelope (json_status V) e)
      \<longleftrightarrow> valid 13 the_document Status_schema (json_status V (ae_data e))"
    using envelope_valid[OF t, of 8 "schema_ref ''Status''" "json_status V"] valid_schema_ref[of "''Status''" 13 "json_status V (ae_data e)"]
    by (subst valid_ref_literal) (simp_all add: envelope_ref_def del: valid.simps)
  then show ?thesis
    using v documented_answers[of "''/api/v1/status''" "''StatusEnvelope''"]
    by (simp add: is_documented_answer_def schema_levels_def opt_all_def find_schema del: valid.simps list.inject)
qed

section \<open>Witnesses\<close>

definition plain_renderers :: renderers where
  "plain_renderers = \<lparr>rd_datetime = show_int, rd_f64 = (\<lambda>(p, q). show_int (p div q))\<rparr>"

definition lagging_db :: db where
  "lagging_db = update_chain_state ''testnet'' (\<lambda>s. s\<lparr>st_node_height := Some 0, st_node_hash := Some (id64 CHR ''1'')\<rparr>) api_db"

theorem status_conforms_iff_witness:
  "\<exists>e. status api_state (still lagging_db) = Inr e \<and> sv_lag_blocks (ae_data e) = Some (- 1) \<and>
     \<not> is_documented_answer the_document ''/api/v1/status'' (json_envelope (json_status plain_renderers) e)"
proof -
  have "case status api_state (still lagging_db) of Inl _ \<Rightarrow> False | Inr e \<Rightarrow>
      sv_lag_blocks (ae_data e) = Some (- 1) \<and> opt_all hash_text (sv_indexed_hash (ae_data e)) \<and>
      opt_all hash_text (sv_node_hash (ae_data e)) \<and> 0 < sv_next_halving_height (ae_data e) \<and>
      opt_all (\<lambda>x. rd_f64 plain_renderers x = [] \<or> hd (rd_f64 plain_renderers x) \<noteq> CHR ''-'') (sv_observed_spacing (ae_data e))"
    by code_simp
  then obtain e where e: "status api_state (still lagging_db) = Inr e" "sv_lag_blocks (ae_data e) = Some (- 1)"
    "opt_all hash_text (sv_indexed_hash (ae_data e))" "opt_all hash_text (sv_node_hash (ae_data e))"
    "0 < sv_next_halving_height (ae_data e)"
    "opt_all (\<lambda>x. rd_f64 plain_renderers x = [] \<or> hd (rd_f64 plain_renderers x) \<noteq> CHR ''-'') (sv_observed_spacing (ae_data e))"
    by (cases "status api_state (still lagging_db)") auto
  have "nc_decimals (as_network api_state) = 8" "0 < nc_target_spacing_seconds (as_network api_state)"
    "0 < nc_halving_interval (as_network api_state)"
    by (simp_all add: api_state_def api_network_def example_schedule_def)
  then show ?thesis using status_conforms_iff[OF e(1) _ e(3,4) _ _ e(5,6)] e(1,2) by (intro exI[of _ e]) simp
qed

text \<open>The example database with its network row.\<close>

definition documented_db :: db where
  "documented_db = api_db\<lparr>db_networks := [(''testnet'',
     \<lparr>nr_display_name = [], nr_symbol = [], nr_decimals = 8, nr_coinbase_maturity = 100,
      nr_target_spacing_seconds = 75, nr_max_supply_zat = 1, nr_initial_subsidy_zat = 1,
      nr_halving_interval = 1, nr_first_halving_height = 2, nr_genesis_hash = id64 CHR ''1'', nr_created_at = 0\<rparr>)]\<rparr>"

lemma chain_ok_frame:
  "db.truncate (d'\<lparr>db_networks := []\<rparr>) = db.truncate (d\<lparr>db_networks := []\<rparr>) \<Longrightarrow> chain_ok net d' cs = chain_ok net d cs"
  by (cases d; cases d') (simp add: db.truncate_def chain_ok_def db_wf_def block_linked_def tip_named_def selected_def fun_eq_iff)

lemma hash_id64: "hash_text (id64 c) \<longleftrightarrow> is_lower_hexdigit c"
proof -
  have "is_lower_hexdigit CHR ''0''" by (simp add: is_lower_hexdigit_def)
  then show ?thesis by (simp add: hash_text_def is_lower_hex_of_length_def id64_def list_all_iff)
qed

lemmas documented_simps = rows_sat_def rows_ok_def documented_db_def api_db_simps hash_id64 is_lower_hexdigit_def
  opt_all_def api_link_def api_observation_def api_witness_def api_instance_def api_input_def api_output_def

lemma documented_db_checks: "checks_ok documented_db"
  by (simp add: checks_ok_def documented_simps check_network_def check_block_def check_witness_def check_canonical_def
      check_instance_row_def check_position_def check_output_def check_input_def check_link_def is_lower_hex_of_length_def)

lemma documented_db_sound: "sound_database ''testnet'' documented_db"
proof -
  have "chain_ok ''testnet'' documented_db api_chain"
    using api_db_chain chain_ok_frame[of documented_db api_db] by (simp add: documented_db_def)
  moreover have "has_link documented_db (api_chain ! 1)" "length api_chain = 2"
    by (simp_all add: has_link_def documented_db_def api_db_simps)
  then have "links_ok documented_db api_chain" by (auto simp: links_ok_def less_2_cases_iff)
  moreover have "values_ok documented_db" by (simp add: values_ok_def documented_simps sane_link_def)
  moreover have "keys_in documented_db documented_db"
    by (simp add: keys_in_def documented_simps witness_refs_def of_witness_def of_instance_def network_known_def instance_known_def)
  ultimately show ?thesis using documented_db_checks by (auto simp: sound_database_def schema_ok_def indexed_def)
qed

lemma documented_scripts: "scripts_hex documented_db"
  by (simp add: scripts_hex_def documented_simps)

definition example_service :: "(unit, string) service" where
  "example_service =
     \<lparr>se_crates = example_crates, se_api = example_api,
      se_extract = \<lparr>ex_path = Some, ex_page = (\<lambda>_. Some \<lparr>pq_cursor = None, pq_limit = None\<rparr>),
        ex_history = (\<lambda>_. None), ex_rich_list = (\<lambda>_. None), ex_transaction = (\<lambda>_. Some None), ex_search = Some\<rparr>,
      se_render = plain_renderers, se_state = api_state\<rparr>"

definition steady_environment :: environment where
  "steady_environment =
     \<lparr>en_request = still documented_db, en_timed_out = False, en_instance = ''u'', en_fresh_id = ''v''\<rparr>"

definition get_path :: "string \<Rightarrow> http_request" where
  "get_path p = \<lparr>ht_method = ''GET'', ht_path = p, ht_query = [], ht_request_id = None\<rparr>"

lemma blocks_route:
  "find_route (compile_routes (api_routes @ analytics_routes)) (split_path ''/api/v1/blocks'') = Some (H_blocks, [])"
  by code_simp

lemma stats_route:
  "find_route (compile_routes (api_routes @ analytics_routes)) (split_path ''/api/v1/merge-mining/stats'') =
   Some (H_merge_mining_stats, [])"
  by code_simp

lemma router_conforms_example:
  "documented_response the_document ''/api/v1/merge-mining/stats''
     (router example_service steady_environment (get_path ''/api/v1/merge-mining/stats'')) \<and>
   rp_status (router example_service steady_environment (get_path ''/api/v1/merge-mining/stats'')) = 200"
proof
  let ?rq = "get_path ''/api/v1/merge-mining/stats''"
  show "documented_response the_document ''/api/v1/merge-mining/stats'' (router example_service steady_environment ?rq)"
  proof (rule router_conforms)
    show "find_route (compile_routes (api_routes @ analytics_routes)) (split_path (ht_path ?rq)) = Some (H_merge_mining_stats, [])"
      by (simp only: get_path_def http_request.simps stats_route)
    show "ht_method ?rq = ''GET''" by (simp add: get_path_def)
    show "documented_path H_merge_mining_stats = Some ''/api/v1/merge-mining/stats''" by (rule handler_paths)
    show "hex_crate_ok (se_crates example_service)" by (simp add: example_service_def example_hex_crate_ok)
    show "sound_database (nc_id (as_network (se_state example_service))) (rq_db (en_request steady_environment) k)"
      "scripts_hex (rq_db (en_request steady_environment) k)" for k
      by (simp_all add: example_service_def steady_environment_def still_def documented_db_sound documented_scripts)
  qed (simp_all add: example_service_def api_state_def api_network_def example_schedule_def)
  have "is_ok (merge_mining_stats api_state (still documented_db))"
    by (simp add: merge_mining_stats_def read_snapshot_def snapshot_chain_state_def snap_def read_def still_def
        load_chain_state_def documented_simps optional_height_def as_height_def u64_try_from_def Let_def)
  then obtain e where e: "merge_mining_stats api_state (still documented_db) = Inr e" by (auto simp: is_ok_iff)
  have "rp_status (router example_service steady_environment ?rq) =
      rp_status (handle example_service steady_environment H_merge_mining_stats [] [])"
    by (simp add: router_def dispatch_def get_path_def stats_route method_get_def analytics_layers_def Let_def
        steady_environment_def if_distrib[of rp_status] del: split_path.simps find_route.simps handle.simps)
  also have "\<dots> = 200"
    using e by (simp add: example_service_def steady_environment_def respond_def json_response_def)
  finally show "rp_status (router example_service steady_environment ?rq) = 200" .
qed

text \<open>A busy database is answered by 503, which the document does not list for the block list.\<close>

lemma busy_undocumented:
  "rp_status (router example_service
     (steady_environment\<lparr>en_request := (still documented_db)\<lparr>rq_fault := (\<lambda>_. Some PoolTimedOut)\<rparr>\<rparr>)
     (get_path ''/api/v1/blocks'')) = 503 \<and>
   ''503'' \<notin> set (documented_statuses the_document ''/api/v1/blocks'')"
proof
  have "\<not> is_analytics H_blocks" by (simp add: is_analytics_def analytics_routes_def)
  then show "rp_status (router example_service
     (steady_environment\<lparr>en_request := (still documented_db)\<lparr>rq_fault := (\<lambda>_. Some PoolTimedOut)\<rparr>\<rparr>)
     (get_path ''/api/v1/blocks'')) = 503"
    by (simp add: router_def dispatch_def get_path_def blocks_route example_service_def steady_environment_def
        method_get_def extracted_def blocks_def chain_state_def read_def rbind_def respond_def
        problem_http_def into_response_def is_retryable_database_error_def
        del: split_path.simps find_route.simps)
  show "''503'' \<notin> set (documented_statuses the_document ''/api/v1/blocks'')"
    by (simp add: documented_statuses_def documented_paths_def document_parts path_table_def health_paths_def
        status_paths_def analytics_paths_def block_paths_def openapi_refs)
qed

end
