(* ===== verification/Spec2Isabelle.thy ===== *)
theory Spec2Isabelle
  imports Store_Props Indexer_Props Api_Search Api_Tx_Pages Api_Health Api_Address_Props Analytics_Props Process
    Router_Props Conformance_Props
begin

text \<open>
  A verification development for WcashExplorer: a Rust service that indexes the Wcash chain from a
  private node into PostgreSQL, checks the merge-mining proof of every block, and serves the
  indexed chain over a read-only HTTP API.

  \<^bold>\<open>The parts and how they interact.\<close>  \<open>src/main.rs\<close> reads the environment
  (\<open>src/config.rs\<close>), binds the database to one network, makes an RPC client per node
  (\<open>src/rpc.rs\<close>), lets every parent node prove its chain, builds the AuxPoW verifier
  (\<open>src/auxpow.rs\<close>), and runs the indexer (\<open>src/indexer.rs\<close>) beside the API
  (\<open>src/api.rs\<close>, \<open>src/analytics.rs\<close>).  The indexer asks its node for the tip, finds the common
  ancestor when the stored chain has diverged, fetches and verifies the missing blocks, and commits
  them through \<open>src/db.rs\<close>: one block per transaction, or a whole replacement branch in one.
  The API only reads the database.

  \<^bold>\<open>Which theory models what.\<close>
  \<^item> \<open>Prelude\<close>, \<open>Text_Ops\<close>: Rust's results with \<open>?\<close> (\<open>rbind\<close>), partial integer
    conversions, byte strings, decimal and hexadecimal text.  \<open>Effects\<close>: asynchronous operations
    that keep their effects when they fail, transactions that do not, and Hoare triples for both.
    \<open>Tables\<close>: keyed tables (a locale, interpreted on association lists) and \<open>ON CONFLICT\<close>
    insertion.  \<open>Paging\<close>: keyset pagination (a locale).  \<open>Temporal\<close>: behaviours, weak fairness,
    and the rule \<open>leads_to\<close> (a locale).
  \<^item> \<open>Errors\<close> (\<open>src/error.rs\<close>), \<open>Models\<close> (\<open>src/models.rs\<close>), \<open>Configuration\<close>
    (\<open>src/config.rs\<close>), \<open>Node_Rpc\<close> (\<open>src/rpc.rs\<close>) and \<open>Auxpow\<close> (\<open>src/auxpow.rs\<close>): the
    sources' types as records and datatypes, their functions under their own names, and their
    properties at the end of the theory.
  \<^item> \<open>Db_Schema\<close> (the migrations), \<open>Db_Insert\<close> and \<open>Db_Chain\<close> (\<open>src/db.rs\<close>): one record per
    row, one table per relation, the constraints as the checks of the insertions, and each operation
    of \<open>Database\<close> as a transaction body.  \<open>Db_Facts\<close>: what storing a block changes.
    \<open>Db_Typed\<close>: every reachable database satisfies the schema.  \<open>Chain_Facts\<close>,
    \<open>Chain_Store\<close>, \<open>Proven_Chain\<close>, \<open>Store_Props\<close>: the canonical chain as an abstract list
    (\<open>chain_ok\<close>, \<open>indexed\<close>), the contract between database and indexer (the locale
    \<open>chain_store\<close>, interpreted twice on the model of \<open>src/db.rs\<close>), and the refinements.
    \<open>Stored_Values\<close>: what the stored columns hold (hashes, decimal texts, node names).
    \<open>Sound_Database\<close>: all of it as one invariant.
  \<^item> \<open>Indexer\<close> (\<open>src/indexer.rs\<close>): one synchronization pass over the world of database, request
    counters and clock.  \<open>Indexer_Facts\<close>, \<open>Indexer_Props\<close>: what a pass guarantees.
    \<open>Indexer_Run\<close>: the polling loop and the writer lease as a step relation.  \<open>Startup\<close>
    (\<open>src/main.rs\<close>): the start of a process.  \<open>Process\<close> (\<open>src/main.rs\<close>): the race of the API
    server and the indexer task, signals, panics and the end of \<open>main\<close>, as a step relation.
  \<^item> \<open>Amounts\<close>, \<open>Api_Base\<close>, \<open>Api_Transactions\<close>, \<open>Api_Blocks\<close>, \<open>Api_Search\<close>,
    \<open>Api_Status\<close>, \<open>Api_Address\<close> (\<open>src/api.rs\<close>) and \<open>Analytics\<close>, \<open>Analytics_Addresses\<close>
    (\<open>src/analytics.rs\<close>): every handler with its SQL queries as functions on the database, its
    views and its checks.  \<open>Api_Pages\<close>, \<open>Api_Tx_Pages\<close>, \<open>Api_Health\<close>,
    \<open>Api_Address_Props\<close>, \<open>Analytics_Props\<close>: what the answers say of the represented chain.
  \<^item> \<open>Json_Views\<close>: the JSON of every view (the \<open>Serialize\<close> derivations).  \<open>Api_Router\<close>
    (\<open>router\<close> of \<open>src/api.rs\<close>, \<open>routes\<close> of \<open>src/analytics.rs\<close>): the route tables, the dispatch
    and the layers that change a response.  \<open>Router_Props\<close>: what every response satisfies.
    \<open>Openapi_Schemas\<close>, \<open>Openapi\<close> (\<open>openapi_document\<close> of \<open>src/api.rs\<close>): the document, one definition
    per schema and per group of paths.  \<open>Json_Schema\<close>: what such a document means (references, and
    validity of a value under a schema), a specification and not code of the repository.
    \<open>Openapi_Props\<close>: the document is complete and closed.  \<open>Conformance\<close> (rules for validity),
    \<open>Conformance_Views\<close> (the JSON of each view), \<open>Conformance_Data\<close> and
    \<open>Conformance_Analytics\<close> (what each handler computes from a sound database),
    \<open>Conformance_Props\<close> (the router): the responses are what it says.
  \<^item> The root theory: the properties that span a whole process, from its start over its life to
    the responses it gives meanwhile.
  \<^item> \<open>Examples\<close>, \<open>Sync_Example\<close>, \<open>Api_Example\<close>: concrete blocks, nodes and databases for the
    witnesses.

  \<^bold>\<open>State and environment.\<close>  The state of the database is the record \<open>db\<close>; that of a pass is
  \<open>world\<close>.  What lies outside src/ is a parameter: the answers of the nodes (\<open>nd_http\<close>, a
  function of the request, so they may differ at every step), the JSON deserializers (\<open>codec\<close>),
  the pinned consensus crates (\<open>consensus\<close>), hashing, hexadecimal and JSON crates
  (\<open>crates\<close>), base64 and the address codec (\<open>api_crates\<close>), URL and socket address parsing,
  clock and UUIDs, the printing of dates and doubles (\<open>renderers\<close>) and the decoding of paths and
  queries (\<open>extractors\<close>).  PostgreSQL is modelled by its documented behaviour: a transaction is atomic,
  \<open>REPEATABLE READ\<close> sees one snapshot, and any call may be refused or lose its
  acknowledgement (\<open>db_fault\<close>).

  \<^bold>\<open>What the lemmas show.\<close>  Committing and reorganizing refine append and rewrite of an abstract
  chain; a pass, and the whole polling loop with failures and lost leases, never leaves a database
  that does not represent a chain whose blocks above genesis carry verified proofs; whatever
  sequence of writes runs, the database satisfies its schema; a lost lease ends the process under weak
  fairness, and the result of \<open>main\<close> says why it ended; the lists of the API enumerate the chain exactly once; lookups, search, readiness,
  balances and statistics say of the chain what they claim; every response carries its security
  headers; at every point of the life of a process the response of every route but the status
  satisfies the JSON schema the OpenAPI document gives it, or is a problem, and the status does
  exactly when the node is not behind the index; the byte-level decoders, formatters and cursors are
  exact.  What they rest on beyond src/ is named where it is used, for example that the hexadecimal crate
  prints what it documents (\<open>hex_crate_ok\<close>) and that the output scripts the node reported are
  hexadecimal (\<open>scripts_hex\<close>, which no check of the indexer ensures).

  \<^bold>\<open>Bounds and termination.\<close>  No model of code uses fuel: every loop of the sources is over a list
  or runs down a height (\<open>ancestor_loop\<close>), so every definition is total.  The checker of JSON schemas
  opens \<open>schema_levels\<close> = 16 levels; a value that would need more is refused, so the levels
  can only make a response fail its schema.  Heights and sizes that
  the code never lets wrap are \<open>nat\<close> with the code's partial conversions to \<open>BIGINT\<close>
  (\<open>to_i64\<close>, \<open>to_i32\<close>) and saturating additions written out; amounts are \<open>int\<close> with the
  \<open>BIGINT\<close> casts of the queries (\<open>bigint\<close>) as failing conversions; request counters and
  bytes are words.

  \<^bold>\<open>Not modelled.\<close>  The layers of the router that do not change an answer (compression, tracing,
  body and concurrency limits, the marking of sensitive request headers); whether the timeout of the
  analytics routes fires is a parameter.  The connection
  pool, the migrations as statements and the indexes of the schema have no effect on what the
  operations compute.  Logging, and the choice of its format in \<open>src/main.rs\<close>, is output.  Difficulty and confirmations as floating-point numbers stay texts.  The intervals of the
  timers are not modelled: a tick, a check of the lease and a loss of it may happen at any step.
  Two processes that write at once, in the second between the loss of a lease and its detection,
  are not interleaved statement by statement.  The web front end and deployment are not Rust.
\<close>

section \<open>The system\<close>

lemma lifetime_database:
  assumes "startup H w = (Inr x, w')" and "(process_step x session)\<^sup>*\<^sup>* (launch x owner w') p"
    and "w_db w = empty_db \<or> sound_database (nc_id (as_network (ex_api x))) (w_db w)"
  shows "sound_database (nc_id (as_network (ex_api x))) (w_db (rn_world (ps_run p)))"
  using assms(1)
proof (rule startup_parts)
  fix c wcash ps auxpow u v v'
  assume a: "bind_network H (cf_network c) w = (Inr (), u)" "w_db w' = w_db u" "as_network (ex_api x) = cf_network c"
    "ex_indexer x = (if cf_run_indexer c then Some (new_indexer H c wcash auxpow) else None)"
  from bind_network_ok[OF a(1)] obtain now where "initialize_network (cf_network c) now (w_db w) = Inr ((), w_db u)" ..
  from initialize_sound[OF this] have start: "sound_database (nc_id (as_network (ex_api x))) (w_db w')"
    using assms(3) a(2,3) by simp
  then obtain cs where cs: "schema_ok (w_db w')" "indexed (nc_id (as_network (ex_api x))) (w_db w') cs"
    by (auto simp: sound_database_def)
  show ?thesis
  proof (cases "ex_indexer x")
    case None
    then show ?thesis using process_reaches[OF assms(2)] start by (simp add: launch_def)
  next
    case (Some I)
    then have "ix_net I = nc_id (as_network (ex_api x))"
      using a(3,4) by (auto simp: new_indexer_def ix_net_def split: if_splits)
    then show ?thesis
      using process_reaches[OF assms(2)] Some cs reachable_schema by (auto simp: sound_database_def evolved_def)
  qed
qed

text \<open>C4. Every lifetime of the process hands on a sound database.  If a process starts on an empty schema,
  or on a database that an earlier lifetime left, then at every point of its life, through passes that
  succeed or fail, the refusal or loss of the lease, a listener that cannot be bound, signals, a failing
  server, a panic in the middle of a pass, and the cancellation of a pass when \<open>main\<close> returns, the
  database the API reads is well-typed and represents a proven chain of the configured network, the one
  the API reports; so the next lifetime may start on it.\<close>

theorem lifetime_sound:
  assumes "startup H w = (Inr x, w')" and "(process_step x session)\<^sup>*\<^sup>* (launch x owner w') p"
    and "w_db w = empty_db \<or> sound_database (nc_id (as_network (ex_api x))) (w_db w)"
  shows "sound_database (nc_id (as_network (ex_api x))) (w_db (rn_world (ps_run p)))"
  by (rule lifetime_database[OF assms])

theorem lifetime_sound_witness:
  "\<exists>x w I p. startup start_host (at_world empty_db 0 0) = (Inr x, w) \<and> ex_indexer x = Some I \<and>
     (process_step x 7)\<^sup>*\<^sup>* (launch x None w) p \<and> ps_exit p \<noteq> None \<and>
     sound_database (nc_id (as_network (ex_api x))) (w_db (rn_world (ps_run p)))"
proof (rule start_host_starts)
  fix x w' I
  assume s: "startup start_host (at_world empty_db 0 0) = (Inr x, w')" "ex_indexer x = Some I"
  let ?P = "losing_process x 7 w'"
  have "?P 0 = launch x None w'" by (simp add: losing_process_def Let_def)
  then have r: "(process_step x 7)\<^sup>*\<^sup>* (launch x None w') (?P 6)"
    using behaviour_reaches[OF losing_process_steps[OF s(2), of 7 w'], of 6] by simp
  from lifetime_sound[OF s(1) r] s r losing_process_end(3)[of 6 x 7 w'] show ?thesis by fastforce
qed

text \<open>A configuration that loads has the frozen schedule.\<close>

lemma startup_network:
  assumes "startup H w = (Inr x, w')"
  shows "nc_decimals (as_network (ex_api x)) = 8" and "nc_target_spacing_seconds (as_network (ex_api x)) = 75"
proof -
  from assms obtain c where "from_env (hs_env H) = Inr c" "as_network (ex_api x) = cf_network c"
    by (rule startup_parts)
  then have "validate_network (as_network (ex_api x)) = Inr ()" by (auto simp: from_env_def Let_def)
  then show "nc_decimals (as_network (ex_api x)) = 8" "nc_target_spacing_seconds (as_network (ex_api x)) = 75"
    by (simp_all add: validate_network_Inr)
qed


lemma startup_outputs:
  assumes "startup H w = (Inr x, w')"
  shows "db_outputs (w_db w') = db_outputs (w_db w)"
  using assms
proof (rule startup_parts)
  fix c u
  assume a: "bind_network H (cf_network c) w = (Inr (), u)" "w_db w' = w_db u"
  from bind_network_ok[OF a(1)] obtain now where "initialize_network (cf_network c) now (w_db w) = Inr ((), w_db u)" ..
  then show ?thesis by (rule initialize_network_parts) (simp add: a(2))
qed


end
